(* ===== verification/Go_Prelude.thy ===== *)
theory Go_Prelude
  imports Main "HOL-Library.AList"
begin

text \<open>
  Shared foundations of the development: the error values of the program, the
  outcome of a Go call (normal return, returned error, panic), the effectful
  computations over an abstract world, Go maps as association lists, and the
  generic lemmas the component theories use.
\<close>

section \<open>Collections of facts\<close>

named_theorems go_defs \<open>unfolding equations of the sequencing combinators\<close>
named_theorems go_frame \<open>operations that keep an observation of the world\<close>

section \<open>Errors\<close>

text \<open>
  The error values the program creates or inspects.
  \<open>AwsError code text\<close> is a value of the interface \<^verbatim>\<open>awserr.Error\<close>: the program reads its
  \<^verbatim>\<open>Code()\<close> and its \<^verbatim>\<open>Error()\<close> text only.
  \<open>ErrorString\<close> is what \<^verbatim>\<open>errors.New\<close> and \<^verbatim>\<open>fmt.Errorf\<close> build,
  \<open>WithMessage\<close> is \<^verbatim>\<open>errors.Wrap\<close> of \<^verbatim>\<open>github.com/pkg/errors\<close>,
  \<open>FailureResponse message statusCode loggerAction emptyResponse errorKey\<close> is the type of the
  same name of \<^verbatim>\<open>brokerapi\<close>, and the last two are the errors of \<^verbatim>\<open>encoding/json\<close>.
\<close>

datatype go_error =
    AwsError string string
  | ErrorString string
  | WithMessage go_error string
  | FailureResponse string nat string bool string
  | JsonSyntaxError "char option" string
  | JsonTypeError string string string

text \<open>\<^verbatim>\<open>quoteChar\<close> of \<^verbatim>\<open>encoding/json\<close>, used in the text of a syntax error.\<close>

definition hex_digit :: "nat \<Rightarrow> char" where
  "hex_digit n = ''0123456789abcdef'' ! (n mod 16)"

definition quoteChar :: "char \<Rightarrow> string" where
  "quoteChar c =
     (let n = of_char c :: nat; q = [CHR 0x27]; bs = [CHR 0x5C] in
      if n = 39 then q @ bs @ q @ q
      else if n = 34 then q @ [c] @ q
      else if n = 92 then q @ bs @ bs @ q
      else if n = 7 then q @ bs @ ''a'' @ q
      else if n = 8 then q @ bs @ ''b'' @ q
      else if n = 12 then q @ bs @ ''f'' @ q
      else if n = 10 then q @ bs @ ''n'' @ q
      else if n = 13 then q @ bs @ ''r'' @ q
      else if n = 9 then q @ bs @ ''t'' @ q
      else if n = 11 then q @ bs @ ''v'' @ q
      else if n < 32 \<or> n = 127 then q @ bs @ ''x'' @ [hex_digit (n div 16), hex_digit n] @ q
      else if n < 127 then q @ [c] @ q
      else if n \<le> 160 \<or> n = 173 then q @ bs @ ''u00'' @ [hex_digit (n div 16), hex_digit n] @ q
      else q @ [char_of (192 + n div 64 :: nat), char_of (128 + n mod 64 :: nat)] @ q)"

text \<open>The method \<^verbatim>\<open>Error()\<close>.\<close>

fun Error :: "go_error \<Rightarrow> string" where
  "Error (AwsError code text) = text"
| "Error (ErrorString s) = s"
| "Error (WithMessage e m) = m @ '': '' @ Error e"
| "Error (FailureResponse m _ _ _ _) = m"
| "Error (JsonSyntaxError None ctx) = ''unexpected end of JSON input''"
| "Error (JsonSyntaxError (Some c) ctx) = ''invalid character '' @ quoteChar c @ '' '' @ ctx"
| "Error (JsonTypeError v fld t) =
     ''json: cannot unmarshal '' @ v @ '' into Go '' @
     (if fld = [] then ''value'' else ''struct field '' @ fld) @ '' of type '' @ t"

text \<open>The type assertion \<^verbatim>\<open>err.(awserr.Error)\<close> followed by a comparison of \<^verbatim>\<open>Code()\<close>.\<close>

definition has_aws_code :: "string \<Rightarrow> go_error \<Rightarrow> bool" where
  "has_aws_code c e = (case e of AwsError code _ \<Rightarrow> code = c | _ \<Rightarrow> False)"

lemma has_aws_code_simps [simp]:
  "has_aws_code c (AwsError code t) \<longleftrightarrow> code = c"
  "\<not> has_aws_code c (ErrorString s)"
  "\<not> has_aws_code c (WithMessage e m)"
  by (simp_all add: has_aws_code_def)

section \<open>Outcomes and effectful computations\<close>

text \<open>
  A Go call that returns \<^verbatim>\<open>(T, error)\<close> ends in one of three ways: it returns a value with a
  nil error, it returns a non-nil error (the accompanying value is the zero value and no caller
  reads it), or it panics.
\<close>

datatype 'a outcome = Ok 'a | Err go_error | Panic string

text \<open>
  A computation reads and changes a world of an arbitrary type: the state of AWS, the
  source of randomness and the clock. Nothing is assumed of it in the definitions.
\<close>

type_synonym ('w, 'a) go = "'w \<Rightarrow> 'a outcome \<times> 'w"

definition ret :: "'a \<Rightarrow> ('w, 'a) go" where [go_defs]: "ret x w = (Ok x, w)"

definition fail :: "go_error \<Rightarrow> ('w, 'a) go" where [go_defs]: "fail e w = (Err e, w)"

definition panic :: "string \<Rightarrow> ('w, 'a) go" where [go_defs]: "panic s w = (Panic s, w)"

text \<open>
  \<open>handle m h k\<close> is \<^verbatim>\<open>x, err := m; if err != nil { h(err) } else { k(x) }\<close>, and
  \<open>andThen m k\<close> the common case in which the handler returns the error unchanged.
  A panic unwinds through both.
\<close>

definition handle ::
    "('w, 'a) go \<Rightarrow> (go_error \<Rightarrow> ('w, 'b) go) \<Rightarrow> ('a \<Rightarrow> ('w, 'b) go) \<Rightarrow> ('w, 'b) go" where
  [go_defs]: "handle m h k w =
     (case m w of (Ok x, w') \<Rightarrow> k x w' | (Err e, w') \<Rightarrow> h e w' | (Panic p, w') \<Rightarrow> (Panic p, w'))"

definition andThen :: "('w, 'a) go \<Rightarrow> ('a \<Rightarrow> ('w, 'b) go) \<Rightarrow> ('w, 'b) go" where
  [go_defs]: "andThen m k = handle m fail k"

text \<open>\<^verbatim>\<open>*p\<close> of a possibly nil pointer.\<close>

definition deref :: "'a option \<Rightarrow> ('w, 'a) go" where
  [go_defs]: "deref p = (case p of None \<Rightarrow> panic ''nil pointer dereference'' | Some x \<Rightarrow> ret x)"

text \<open>A step that may return an error or a value without touching the world.\<close>

definition lift :: "go_error + 'a \<Rightarrow> ('w, 'a) go" where
  [go_defs]: "lift r = (case r of Inl e \<Rightarrow> fail e | Inr x \<Rightarrow> ret x)"

lemma deref_simps [simp]: "deref None = panic ''nil pointer dereference''" "deref (Some x) = ret x"
  by (simp_all add: deref_def)

lemma lift_simps [simp]: "lift (Inl e) = fail e" "lift (Inr x) = ret x"
  by (simp_all add: lift_def)

lemma handle_ret [simp]: "handle (ret x) h k = k x"
  by (rule ext) (simp add: handle_def ret_def)

lemma handle_fail [simp]: "handle (fail e) h k = h e"
  by (rule ext) (simp add: handle_def fail_def)

lemma handle_panic [simp]: "handle (panic s) h k = panic s"
  by (rule ext) (simp add: handle_def panic_def)

lemma andThen_ret [simp]: "andThen (ret x) k = k x"
  by (simp add: andThen_def)

lemma andThen_fail [simp]: "andThen (fail e) k = fail e"
  by (simp add: andThen_def)

lemma andThen_panic [simp]: "andThen (panic s) k = panic s"
  by (simp add: andThen_def)

lemma handle_assoc: "handle (handle m h k) h' k' = handle m (\<lambda>e. handle (h e) h' k') (\<lambda>x. handle (k x) h' k')"
  by (rule ext) (auto simp: handle_def split: prod.splits outcome.splits)

lemma andThen_assoc: "andThen (andThen m k) k' = andThen m (\<lambda>x. andThen (k x) k')"
  by (simp add: andThen_def handle_assoc)

lemma andThen_handle: "andThen (handle m h k) k' = handle m (\<lambda>e. andThen (h e) k') (\<lambda>x. andThen (k x) k')"
  by (simp add: andThen_def handle_assoc)

lemma handle_andThen: "handle (andThen m k) h k' = handle m h (\<lambda>x. handle (k x) h k')"
  by (simp add: andThen_def handle_assoc)

lemma handle_if: "handle (if b then m else n) h k = (if b then handle m h k else handle n h k)"
  by simp

lemma andThen_if: "andThen (if b then m else n) k = (if b then andThen m k else andThen n k)"
  by simp

text \<open>Flattening of nested sequences into one call after the other.\<close>

lemmas seq_flatten = andThen_assoc andThen_handle handle_assoc handle_andThen handle_if andThen_if
  handle_ret handle_fail handle_panic andThen_ret andThen_fail andThen_panic

lemma handle_eqs:
  "m w = (Ok x, w') \<Longrightarrow> handle m h k w = k x w'"
  "m w = (Err e, w') \<Longrightarrow> handle m h k w = h e w'"
  "m w = (Panic p, w') \<Longrightarrow> handle m h k w = (Panic p, w')"
  by (simp_all add: handle_def)

lemma andThen_eqs:
  "m w = (Ok x, w') \<Longrightarrow> andThen m k w = k x w'"
  "m w = (Err e, w') \<Longrightarrow> andThen m k w = (Err e, w')"
  "m w = (Panic p, w') \<Longrightarrow> andThen m k w = (Panic p, w')"
  by (simp_all add: andThen_def handle_eqs fail_def)

lemma ret_eq [simp]: "ret x w = (Ok x, w)"
  by (simp add: ret_def)

lemma fail_eq [simp]: "fail e w = (Err e, w)"
  by (simp add: fail_def)

lemma panic_eq [simp]: "panic s w = (Panic s, w)"
  by (simp add: panic_def)

text \<open>A finished computation with its world left abstract is a partial application of \<open>Pair\<close>.\<close>

lemma handle_Pair [simp]:
  "handle (Pair (Ok x)) h k = k x" "handle (Pair (Err e)) h k = h e" "handle (Pair (Panic s)) h k = Pair (Panic s)"
  by (auto simp: handle_def fun_eq_iff)

lemma andThen_Pair [simp]:
  "andThen (Pair (Ok x)) k = k x" "andThen (Pair (Err e)) k = Pair (Err e)"
  "andThen (Pair (Panic s)) k = Pair (Panic s)"
  by (auto simp: andThen_def fun_eq_iff)

lemma andThen_OkE:
  assumes "andThen m k w = (Ok y, w'')"
  obtains x w' where "m w = (Ok x, w')" and "k x w' = (Ok y, w'')"
  using assms by (auto simp: andThen_def handle_def split: prod.splits outcome.splits)

lemma handle_OkE:
  assumes "handle m h k w = (Ok y, w'')"
  obtains x w' where "m w = (Ok x, w')" and "k x w' = (Ok y, w'')"
    | e w' where "m w = (Err e, w')" and "h e w' = (Ok y, w'')"
  using assms by (auto simp: handle_def split: prod.splits outcome.splits)

section \<open>Computations that keep an observation of the world\<close>

text \<open>
  \<open>keeps f m\<close>: running \<open>m\<close> never changes what \<open>f\<close> observes of the world. With \<open>f\<close> the state
  of a remote service, it says that \<open>m\<close> does not modify that service.
\<close>

definition keeps :: "('w \<Rightarrow> 'o) \<Rightarrow> ('w, 'a) go \<Rightarrow> bool" where
  "keeps f m \<longleftrightarrow> (\<forall>w. f (snd (m w)) = f w)"

lemma keeps_ret [go_frame]: "keeps f (ret x)"
  by (simp add: keeps_def)

lemma keeps_fail [go_frame]: "keeps f (fail e)"
  by (simp add: keeps_def)

lemma keeps_panic [go_frame]: "keeps f (panic s)"
  by (simp add: keeps_def)

lemma keeps_deref [go_frame]: "keeps f (deref p)"
  by (cases p) (simp_all add: keeps_def)

lemma keeps_lift [go_frame]: "keeps f (lift r)"
  by (cases r) (simp_all add: keeps_def)

lemma keeps_handle [go_frame]:
  assumes "keeps f m" and "\<And>e. keeps f (h e)" and "\<And>x. keeps f (k x)"
  shows "keeps f (handle m h k)"
proof -
  have "f (snd (handle m h k w)) = f w" for w
  proof -
    obtain r w' where m: "m w = (r, w')" by (cases "m w")
    with assms(1) have f: "f w' = f w" by (metis keeps_def snd_conv)
    show ?thesis
      using m f assms(2,3) by (cases r) (auto simp: handle_eqs keeps_def)
  qed
  then show ?thesis by (simp add: keeps_def)
qed

lemma keeps_andThen [go_frame]:
  "keeps f m \<Longrightarrow> (\<And>x. keeps f (k x)) \<Longrightarrow> keeps f (andThen m k)"
  by (auto simp: andThen_def intro!: keeps_handle keeps_fail)

lemma keeps_if [go_frame]: "keeps f m \<Longrightarrow> keeps f n \<Longrightarrow> keeps f (if b then m else n)"
  by simp

lemma keeps_case_option [go_frame]:
  "keeps f m \<Longrightarrow> (\<And>x. keeps f (k x)) \<Longrightarrow> keeps f (case p of None \<Rightarrow> m | Some x \<Rightarrow> k x)"
  by (cases p) simp_all

section \<open>Computations that never panic\<close>

definition no_panic :: "('w, 'a) go \<Rightarrow> bool" where
  "no_panic m \<longleftrightarrow> (\<forall>w s. fst (m w) \<noteq> Panic s)"

lemma no_panic_simps [simp]: "no_panic (ret x)" "no_panic (fail e)" "\<not> no_panic (panic s)"
  by (simp_all add: no_panic_def)

lemma no_panic_lift [simp]: "no_panic (lift r)"
  by (cases r) simp_all

lemma no_panic_handle:
  assumes "no_panic m" and "\<And>e. no_panic (h e)" and "\<And>x. no_panic (k x)"
  shows "no_panic (handle m h k)"
proof -
  have "fst (handle m h k w) \<noteq> Panic s" for w s
    using assms by (auto simp: no_panic_def handle_def split: prod.splits outcome.splits)
      (metis fst_conv)
  then show ?thesis by (simp add: no_panic_def)
qed

lemma no_panic_andThen:
  "no_panic m \<Longrightarrow> (\<And>x. no_panic (k x)) \<Longrightarrow> no_panic (andThen m k)"
  by (simp add: andThen_def no_panic_handle)

section \<open>Computations that never return an error\<close>

text \<open>
  A Go method that hands its error out beside other results is modelled with the error in the
  value; such a computation never ends in \<open>Err\<close>.
\<close>

definition no_error :: "('w, 'a) go \<Rightarrow> bool" where
  "no_error m \<longleftrightarrow> (\<forall>w e w'. m w \<noteq> (Err e, w'))"

named_theorems no_error_rules \<open>computations that never return an error\<close>

lemma no_error_ret [no_error_rules]: "no_error (ret x)"
  by (simp add: no_error_def)

lemma no_error_panic [no_error_rules]: "no_error (panic s)"
  by (simp add: no_error_def)

lemma no_error_deref [no_error_rules]: "no_error (deref p)"
  by (cases p) (simp_all add: no_error_def)

lemma no_error_handle [no_error_rules]:
  "(\<And>e. no_error (h e)) \<Longrightarrow> (\<And>x. no_error (k x)) \<Longrightarrow> no_error (handle m h k)"
  by (auto simp: no_error_def handle_def split: prod.splits outcome.splits)

lemma no_error_andThen [no_error_rules]:
  "no_error m \<Longrightarrow> (\<And>x. no_error (k x)) \<Longrightarrow> no_error (andThen m k)"
  by (auto simp: no_error_def andThen_def handle_def split: prod.splits outcome.splits)

lemma no_error_if [no_error_rules]: "no_error m \<Longrightarrow> no_error n \<Longrightarrow> no_error (if b then m else n)"
  by simp

lemma no_error_option [no_error_rules]:
  "no_error m \<Longrightarrow> (\<And>x. no_error (k x)) \<Longrightarrow> no_error (case v of None \<Rightarrow> m | Some x \<Rightarrow> k x)"
  by (cases v) simp_all

lemma no_error_list [no_error_rules]:
  "no_error m \<Longrightarrow> (\<And>x xs. no_error (k x xs)) \<Longrightarrow> no_error (case v of [] \<Rightarrow> m | x # xs \<Rightarrow> k x xs)"
  by (cases v) simp_all

lemma no_error_prod [no_error_rules]:
  "(\<And>x y. no_error (k x y)) \<Longrightarrow> no_error (case v of (x, y) \<Rightarrow> k x y)"
  by (cases v) simp

section \<open>Go maps\<close>

text \<open>
  A Go map is an association list with distinct keys (\<open>distinct (map fst m)\<close>); \<open>map_of\<close> looks a key up,
  \<open>AList.update\<close> stores one. The order of the list carries no meaning: the order in which
  \<^verbatim>\<open>range\<close> visits the keys is a parameter (\<open>map_order\<close> below) that may permute them.
\<close>

type_synonym 'v gomap = "(string \<times> 'v) list"

abbreviation wf_map :: "'v gomap \<Rightarrow> bool" where
  "wf_map m \<equiv> distinct (map fst m)"

text \<open>\<^verbatim>\<open>m[k]\<close> of a \<^verbatim>\<open>map[string]string\<close>: the empty string for a key that is absent.\<close>

definition mindex :: "string gomap \<Rightarrow> string \<Rightarrow> string" where
  "mindex m k = (case map_of m k of None \<Rightarrow> [] | Some v \<Rightarrow> v)"

text \<open>The entries of a map in the order in which \<^verbatim>\<open>range\<close> delivers them.\<close>

definition range_map :: "(string list \<Rightarrow> string list) \<Rightarrow> 'v gomap \<Rightarrow> 'v gomap" where
  "range_map order m =
     List.map_filter (\<lambda>k. map_option (Pair k) (map_of m k)) (order (map fst m))"

text \<open>
  What the language promises of the iteration order: every key is visited exactly once.
\<close>

definition visits_all :: "(string list \<Rightarrow> string list) \<Rightarrow> bool" where
  "visits_all order \<longleftrightarrow> (\<forall>ks. distinct ks \<longrightarrow> distinct (order ks) \<and> set (order ks) = set ks)"

lemma wf_map_update [simp]: "wf_map m \<Longrightarrow> wf_map (AList.update k v m)"
  by (rule distinct_update)

lemma map_of_AList_update [simp]: "map_of (AList.update k v m) = (map_of m)(k \<mapsto> v)"
  by (rule update_conv')

lemma map_filter_keys:
  "\<lbrakk>\<And>k. k \<in> set ks \<Longrightarrow> map_of m k \<noteq> None\<rbrakk> \<Longrightarrow>
   map fst (List.map_filter (\<lambda>k. map_option (Pair k) (map_of m k)) ks) = ks"
  by (induction ks) (fastforce split: option.splits)+

lemma range_map_keys:
  assumes "visits_all order" and "wf_map m"
  shows "map fst (range_map order m) = order (map fst m)"
proof -
  have "set (order (map fst m)) = fst ` set m"
    using assms by (simp add: visits_all_def)
  then have "\<And>k. k \<in> set (order (map fst m)) \<Longrightarrow> map_of m k \<noteq> None"
    by (simp add: map_of_eq_None_iff)
  then show ?thesis
    unfolding range_map_def by (rule map_filter_keys)
qed

lemma in_range_map_iff:
  "(k, v) \<in> set (range_map order m) \<longleftrightarrow> k \<in> set (order (map fst m)) \<and> map_of m k = Some v"
proof -
  have "(k, v) \<in> set (List.map_filter (\<lambda>k. map_option (Pair k) (map_of m k)) ks) \<longleftrightarrow>
      k \<in> set ks \<and> map_of m k = Some v" for ks
    by (induction ks) (auto split: option.splits)
  then show ?thesis by (simp add: range_map_def)
qed

lemma set_range_map:
  assumes "visits_all order" and "wf_map m"
  shows "set (range_map order m) = set m"
proof -
  have "set (order (map fst m)) = fst ` set m"
    using assms by (simp add: visits_all_def)
  then have "(k, v) \<in> set (range_map order m) \<longleftrightarrow> (k, v) \<in> set m" for k v
    using assms(2) by (auto simp: in_range_map_iff intro: rev_image_eqI dest: map_of_SomeD)
  then show ?thesis by auto
qed

lemma wf_range_map:
  "visits_all order \<Longrightarrow> wf_map m \<Longrightarrow> wf_map (range_map order m)"
  by (simp add: range_map_keys visits_all_def)

lemma map_of_range_map:
  assumes "visits_all order" and "wf_map m"
  shows "map_of (range_map order m) = map_of m"
proof (rule map_of_eqI)
  show keys: "set (map fst (range_map order m)) = set (map fst m)"
    using assms by (simp add: set_range_map)
  show "\<forall>k\<in>set (map fst (range_map order m)). map_of (range_map order m) k = map_of m k"
  proof
    fix k assume "k \<in> set (map fst (range_map order m))"
    then obtain v where v: "(k, v) \<in> set (range_map order m)" by auto
    with assms have "(k, v) \<in> set m" by (simp add: set_range_map)
    with v assms show "map_of (range_map order m) k = map_of m k"
      by (simp add: wf_range_map)
  qed
qed

lemma visits_all_id [simp]: "visits_all id"
  by (simp add: visits_all_def)

lemma visits_all_rotate [simp]: "visits_all (rotate n)"
  by (simp add: visits_all_def)

lemma map_of_foldl_update:
  "map_of (foldl (\<lambda>m (k, v). AList.update k v m) m kvs) = map_of (rev kvs @ m)"
  by (induction kvs arbitrary: m) auto

lemma wf_foldl_update: "wf_map m \<Longrightarrow> wf_map (foldl (\<lambda>m (k, v). AList.update k v m) m kvs)"
  by (induction kvs arbitrary: m) auto

lemma map_of_rev_distinct:
  assumes "wf_map m"
  shows "map_of (rev m) = map_of m"
proof (rule map_of_eqI)
  show "\<forall>k\<in>set (map fst (rev m)). map_of (rev m) k = map_of m k"
    using assms by (auto simp: rev_map [symmetric])
qed simp

section \<open>Encodings\<close>

text \<open>
  The contract of an encoder and its decoder: what is written for a valid value is read back, up to
  what the encoding does not keep (\<open>norm\<close>).
\<close>

locale codec =
  fixes valid :: "'a \<Rightarrow> bool"
    and enc :: "'a \<Rightarrow> string"
    and dec :: "string \<Rightarrow> go_error + 'b"
    and norm :: "'a \<Rightarrow> 'b"
  assumes decode_encode: "valid x \<Longrightarrow> dec (enc x) = Inr (norm x)"
begin

lemma encode_inject: "valid x \<Longrightarrow> valid y \<Longrightarrow> enc x = enc y \<Longrightarrow> norm x = norm y"
  by (metis decode_encode sum.inject(2))

lemma decode_value: "valid x \<Longrightarrow> dec (enc x) = Inr y \<longleftrightarrow> y = norm x"
  by (auto simp: decode_encode)

lemma decode_no_error: "valid x \<Longrightarrow> dec (enc x) \<noteq> Inl e"
  by (simp add: decode_encode)

end

end
