(* ===== verification/Go_Json.thy ===== *)
theory Go_Json
  imports Go_Strings
begin

text \<open>
  The parts of \<^verbatim>\<open>encoding/json\<close> and \<^verbatim>\<open>unicode/utf8\<close> that the program uses: the grammar with
  its syntax errors, string escapes in both directions, and decoding into maps and structs with
  their type errors. The theory shows that the parser always ends with a value or an error, and
  that a string written by \<^verbatim>\<open>json.Marshal\<close> is read back unchanged.
\<close>

section \<open>UTF-8\<close>

text \<open>
  The length of the valid encoding at the start of a string, 0 where there is none
  (\<^verbatim>\<open>utf8.DecodeRuneInString\<close>), is \<open>utf8_len\<close>.
\<close>

definition in_range :: "nat \<Rightarrow> nat \<Rightarrow> char \<Rightarrow> bool" where
  "in_range lo hi c \<longleftrightarrow> lo \<le> of_char c \<and> of_char c \<le> hi"

text \<open>
  What a first byte announces: the length of the encoding and the range of the second byte.
\<close>

definition utf8_first :: "char \<Rightarrow> nat \<times> nat \<times> nat" where
  "utf8_first c = (let n = of_char c :: nat in
     if n < 128 then (1, 0, 0)
     else if n < 194 then (0, 0, 0)
     else if n < 224 then (2, 128, 191)
     else if n = 224 then (3, 160, 191)
     else if n = 237 then (3, 128, 159)
     else if n < 240 then (3, 128, 191)
     else if n = 240 then (4, 144, 191)
     else if n < 244 then (4, 128, 191)
     else if n = 244 then (4, 128, 143)
     else (0, 0, 0))"

definition utf8_len :: "string \<Rightarrow> nat" where
  "utf8_len s = (case s of [] \<Rightarrow> 0 | c # t \<Rightarrow> (case utf8_first c of (n, lo, hi) \<Rightarrow>
     if n \<le> 1 then n
     else (case t of [] \<Rightarrow> 0 | d # u \<Rightarrow>
       if in_range lo hi d \<and> n - 2 \<le> length u \<and> list_all (in_range 128 191) (take (n - 2) u)
       then n else 0)))"

definition utf8_encode :: "nat \<Rightarrow> string" where
  "utf8_encode n = map char_of
     (if n < 128 then [n]
      else if n < 2048 then [192 + n div 64, 128 + n mod 64]
      else if n < 65536 then [224 + n div 4096, 128 + n div 64 mod 64, 128 + n mod 64]
      else [240 + n div 262144, 128 + n div 4096 mod 64, 128 + n div 64 mod 64, 128 + n mod 64])"

definition replacement :: string where
  "replacement = [CHR 0xEF, CHR 0xBF, CHR 0xBD]"

function valid_utf8 :: "string \<Rightarrow> bool" where
  "valid_utf8 s =
     (if s = [] then True else if utf8_len s = 0 then False else valid_utf8 (drop (utf8_len s) s))"
  by pat_completeness auto
termination by (relation "measure length") auto

declare valid_utf8.simps [simp del]

lemma utf8_len_le: "utf8_len s \<le> length s"
  by (auto simp: utf8_len_def split: list.splits prod.splits)

section \<open>Encoding strings\<close>

abbreviation bslash :: char where "bslash \<equiv> CHR 0x5C"
abbreviation dquote :: char where "dquote \<equiv> CHR 0x22"

definition u_escape :: "nat \<Rightarrow> string" where
  "u_escape n =
     [bslash, CHR ''u'', hex_digit (n div 4096), hex_digit (n div 256), hex_digit (n div 16), hex_digit n]"

text \<open>
  The body of a string literal: \<^verbatim>\<open>json.Marshal\<close> escapes HTML characters, and an encoder after
  \<^verbatim>\<open>SetEscapeHTML(false)\<close> does not.
\<close>

definition escape_ascii :: "bool \<Rightarrow> char \<Rightarrow> string" where
  "escape_ascii escapeHTML c =
     (let n = of_char c :: nat in
      if c = bslash \<or> c = dquote then [bslash, c]
      else if n = 8 then [bslash, CHR ''b'']
      else if n = 12 then [bslash, CHR ''f'']
      else if n = 10 then [bslash, CHR ''n'']
      else if n = 13 then [bslash, CHR ''r'']
      else if n = 9 then [bslash, CHR ''t'']
      else if n < 32 \<or> escapeHTML \<and> c \<in> set ''<>&'' then u_escape n
      else [c])"

function json_escape :: "bool \<Rightarrow> string \<Rightarrow> string" where
  "json_escape h s = (case s of [] \<Rightarrow> [] | c # t \<Rightarrow>
     if (of_char c :: nat) < 128 then escape_ascii h c @ json_escape h t
     else if utf8_len s = 0 then u_escape 65533 @ json_escape h t
     else if take 3 s = [CHR 0xE2, CHR 0x80, CHR 0xA8] then u_escape 8232 @ json_escape h (drop 3 s)
     else if take 3 s = [CHR 0xE2, CHR 0x80, CHR 0xA9] then u_escape 8233 @ json_escape h (drop 3 s)
     else take (utf8_len s) s @ json_escape h (drop (utf8_len s) s))"
  by pat_completeness auto
termination by (relation "measure (\<lambda>(_, s). length s)") auto

declare json_escape.simps [simp del]

definition json_string :: "bool \<Rightarrow> string \<Rightarrow> string" where
  "json_string h s = dquote # json_escape h s @ [dquote]"

section \<open>Values and the parser\<close>

datatype json =
    JNull
  | JBool bool
  | JNumber string
  | JString string
  | JArray "json list"
  | JObject "(string \<times> json) list"

definition is_ws :: "char \<Rightarrow> bool" where
  "is_ws c \<longleftrightarrow> of_char c \<in> {32, 9, 13, 10 :: nat}"

definition skip_ws :: "string \<Rightarrow> string" where
  "skip_ws = dropWhile is_ws"

definition syntax_error :: "string \<Rightarrow> string \<Rightarrow> go_error" where
  "syntax_error s ctx =
     (case s of [] \<Rightarrow> JsonSyntaxError None [] | c # _ \<Rightarrow> JsonSyntaxError (Some c) ctx)"

definition hex_value :: "char \<Rightarrow> nat option" where
  "hex_value c = (let n = of_char c in
     if 48 \<le> n \<and> n \<le> 57 then Some (n - 48)
     else if 97 \<le> n \<and> n \<le> 102 then Some (n - 87)
     else if 65 \<le> n \<and> n \<le> 70 then Some (n - 55)
     else None)"

fun hexes :: "nat \<Rightarrow> nat \<Rightarrow> string \<Rightarrow> go_error + nat \<times> string" where
  "hexes 0 acc s = Inr (acc, s)"
| "hexes (Suc k) acc [] = Inl (syntax_error [] [])"
| "hexes (Suc k) acc (c # s) =
     (case hex_value c of
        None \<Rightarrow> Inl (syntax_error (c # s) (''in '' @ [bslash] @ ''u hexadecimal character escape''))
      | Some v \<Rightarrow> hexes k (16 * acc + v) s)"

text \<open>\<^verbatim>\<open>getu4\<close>: four hexadecimal digits after a backslash and a \<^verbatim>\<open>u\<close>, if they are there.\<close>

definition getu4 :: "string \<Rightarrow> (nat \<times> string) option" where
  "getu4 s = (case s of b # u # r \<Rightarrow>
       if b = bslash \<and> u = CHR ''u'' then (case hexes 4 0 r of Inr x \<Rightarrow> Some x | Inl _ \<Rightarrow> None) else None
     | _ \<Rightarrow> None)"

definition unescape1 :: "char \<Rightarrow> char option" where
  "unescape1 e =
     (if e = dquote \<or> e = bslash \<or> e = CHR ''/'' then Some e
      else if e = CHR ''b'' then Some (CHR 0x08)
      else if e = CHR ''f'' then Some (CHR 0x0C)
      else if e = CHR ''n'' then Some (CHR 0x0A)
      else if e = CHR ''r'' then Some (CHR 0x0D)
      else if e = CHR ''t'' then Some (CHR 0x09)
      else None)"

definition is_surrogate :: "nat \<Rightarrow> bool" where
  "is_surrogate r \<longleftrightarrow> 55296 \<le> r \<and> r < 57344"

text \<open>The rune of a \<^verbatim>\<open>u\<close> escape and what follows it: a surrogate pair takes two escapes.\<close>

definition rune_of_u :: "nat \<Rightarrow> string \<Rightarrow> string \<times> string" where
  "rune_of_u r s =
     (if is_surrogate r then
        (case getu4 s of
           Some (r2, s') \<Rightarrow>
             if r < 56320 \<and> 56320 \<le> r2 \<and> r2 < 57344
             then (utf8_encode ((r - 55296) * 1024 + (r2 - 56320) + 65536), s')
             else (replacement, s)
         | None \<Rightarrow> (replacement, s))
      else (utf8_encode r, s))"

lemma hexes_length: "hexes k acc s = Inr (r, s') \<Longrightarrow> length s = k + length s'"
  by (induction k acc s rule: hexes.induct) (auto split: option.splits)

lemma getu4_length: "getu4 s = Some (r, s') \<Longrightarrow> length s' < length s"
  by (auto simp: getu4_def split: list.splits if_splits sum.splits dest: hexes_length)

lemma rune_of_u_length: "rune_of_u r s = (x, s') \<Longrightarrow> length s' \<le> length s"
  by (auto simp: rune_of_u_def split: if_splits option.splits dest: getu4_length)

definition prepend :: "string \<Rightarrow> go_error + string \<times> string \<Rightarrow> go_error + string \<times> string" where
  "prepend x res = (case res of Inl e \<Rightarrow> Inl e | Inr (y, r) \<Rightarrow> Inr (x @ y, r))"

text \<open>The rest of a string literal after its opening quote: its value and what follows it.\<close>

function parse_string :: "string \<Rightarrow> go_error + string \<times> string" where
  "parse_string s = (case s of
      [] \<Rightarrow> Inl (syntax_error [] [])
    | c # t \<Rightarrow>
      if c = dquote then Inr ([], t)
      else if c = bslash then
        (case t of
           [] \<Rightarrow> Inl (syntax_error [] [])
         | e # u \<Rightarrow>
           if e = CHR ''u'' then
             (case hexes 4 0 u of
                Inl err \<Rightarrow> Inl err
              | Inr (r, v) \<Rightarrow> prepend (fst (rune_of_u r v)) (parse_string (snd (rune_of_u r v))))
           else
             (case unescape1 e of
                None \<Rightarrow> Inl (syntax_error t ''in string escape code'')
              | Some x \<Rightarrow> prepend [x] (parse_string u)))
      else if (of_char c :: nat) < 32 then Inl (syntax_error s ''in string literal'')
      else if utf8_len s = 0 then prepend replacement (parse_string t)
      else prepend (take (utf8_len s) s) (parse_string (drop (utf8_len s) s)))"
  by pat_completeness auto
termination
proof (relation "measure length", goal_cases)
  case (2 s c t e u res r v)
  then have "length u = 4 + length v" by (auto dest: hexes_length)
  moreover have "length (snd (rune_of_u r v)) \<le> length v"
    by (rule rune_of_u_length [of r v "fst (rune_of_u r v)"]) simp
  ultimately show ?case using 2 by simp
qed auto

declare parse_string.simps [simp del]

fun parse_literal :: "string \<Rightarrow> string \<Rightarrow> string \<Rightarrow> go_error + string" where
  "parse_literal name [] s = Inr s"
| "parse_literal name (x # xs) s =
     (case s of
        c # r \<Rightarrow> if c = x then parse_literal name xs r
                 else Inl (syntax_error s (''in literal '' @ name @ '' (expecting '' @ quoteChar x @ '')''))
      | [] \<Rightarrow> Inl (syntax_error [] []))"

text \<open>The optional fraction and exponent of a number, and the number itself.\<close>

definition parse_exponent :: "string \<Rightarrow> go_error + string \<times> string" where
  "parse_exponent s = (case s of
      e # t \<Rightarrow>
        if e = CHR ''e'' \<or> e = CHR ''E'' then
          (let sg = (case t of c # _ \<Rightarrow> if c = CHR ''+'' \<or> c = CHR ''-'' then [c] else [] | [] \<Rightarrow> []);
               u = drop (length sg) t; ds = takeWhile is_digit u
           in if ds = [] then Inl (syntax_error u ''in exponent of numeric literal'')
              else Inr (e # sg @ ds, dropWhile is_digit u))
        else Inr ([], s)
    | [] \<Rightarrow> Inr ([], s))"

definition parse_fraction :: "string \<Rightarrow> go_error + string \<times> string" where
  "parse_fraction s = (case s of
      d # t \<Rightarrow>
        if d = CHR ''.'' then
          (let ds = takeWhile is_digit t
           in if ds = [] then Inl (syntax_error t ''after decimal point in numeric literal'')
              else prepend (d # ds) (parse_exponent (dropWhile is_digit t)))
        else parse_exponent s
    | [] \<Rightarrow> parse_exponent s)"

definition parse_number :: "string \<Rightarrow> go_error + string \<times> string" where
  "parse_number s =
     (let sg = (case s of c # _ \<Rightarrow> if c = CHR ''-'' then [c] else [] | [] \<Rightarrow> []);
          t = drop (length sg) s
      in (case t of
            [] \<Rightarrow> Inl (syntax_error [] [])
          | c # u \<Rightarrow>
            if c = CHR ''0'' then prepend (sg @ [c]) (parse_fraction u)
            else if is_digit c
              then prepend (sg @ takeWhile is_digit t) (parse_fraction (dropWhile is_digit t))
              else Inl (syntax_error t ''in numeric literal'')))"

definition maxNestingDepth :: nat where "maxNestingDepth = 10000"

definition map_value :: "('a \<Rightarrow> json) \<Rightarrow> go_error + 'a \<times> string \<Rightarrow> (go_error + json \<times> string) option" where
  "map_value f res = Some (case res of Inl e \<Rightarrow> Inl e | Inr (x, r) \<Rightarrow> Inr (f x, r))"

definition literal_value ::
    "json \<Rightarrow> go_error + string \<Rightarrow> (go_error + json \<times> string) option" where
  "literal_value v res = Some (case res of Inl e \<Rightarrow> Inl e | Inr r \<Rightarrow> Inr (v, r))"

text \<open>
  \<open>None\<close> is out of fuel; \<open>parse_value_total\<close> below shows that fuel beyond the length of the
  input is always enough.
\<close>

fun parse_value :: "nat \<Rightarrow> nat \<Rightarrow> string \<Rightarrow> (go_error + json \<times> string) option"
and parse_members :: "nat \<Rightarrow> nat \<Rightarrow> (string \<times> json) list \<Rightarrow> string \<Rightarrow> (go_error + json \<times> string) option"
and parse_elements :: "nat \<Rightarrow> nat \<Rightarrow> json list \<Rightarrow> string \<Rightarrow> (go_error + json \<times> string) option" where
  "parse_value 0 d s = None"
| "parse_value (Suc f) d s = (case skip_ws s of
      [] \<Rightarrow> Some (Inl (syntax_error [] []))
    | c # r \<Rightarrow>
      if c = CHR ''{'' then
        (if d \<ge> maxNestingDepth then Some (Inl (syntax_error (c # r) ''exceeded max depth''))
         else (case skip_ws r of
             c' # r' \<Rightarrow> if c' = CHR ''}'' then Some (Inr (JObject [], r')) else parse_members f (Suc d) [] r
           | [] \<Rightarrow> Some (Inl (syntax_error [] []))))
      else if c = CHR ''['' then
        (if d \<ge> maxNestingDepth then Some (Inl (syntax_error (c # r) ''exceeded max depth''))
         else (case skip_ws r of
             c' # r' \<Rightarrow> if c' = CHR '']'' then Some (Inr (JArray [], r')) else parse_elements f (Suc d) [] r
           | [] \<Rightarrow> Some (Inl (syntax_error [] []))))
      else if c = dquote then map_value JString (parse_string r)
      else if c = CHR ''t'' then literal_value (JBool True) (parse_literal ''true'' ''rue'' r)
      else if c = CHR ''f'' then literal_value (JBool False) (parse_literal ''false'' ''alse'' r)
      else if c = CHR ''n'' then literal_value JNull (parse_literal ''null'' ''ull'' r)
      else if c = CHR ''-'' \<or> is_digit c then map_value JNumber (parse_number (c # r))
      else Some (Inl (syntax_error (c # r) ''looking for beginning of value'')))"
| "parse_members 0 d acc s = None"
| "parse_members (Suc f) d acc s = (case skip_ws s of
      [] \<Rightarrow> Some (Inl (syntax_error [] []))
    | c # r \<Rightarrow>
      if c \<noteq> dquote then Some (Inl (syntax_error (c # r) ''looking for beginning of object key string''))
      else (case parse_string r of
          Inl e \<Rightarrow> Some (Inl e)
        | Inr (k, r1) \<Rightarrow> (case skip_ws r1 of
            [] \<Rightarrow> Some (Inl (syntax_error [] []))
          | c2 # r2 \<Rightarrow>
            if c2 \<noteq> CHR '':'' then Some (Inl (syntax_error (c2 # r2) ''after object key''))
            else (case parse_value f d r2 of
                None \<Rightarrow> None
              | Some (Inl e) \<Rightarrow> Some (Inl e)
              | Some (Inr (v, r3)) \<Rightarrow> (case skip_ws r3 of
                  [] \<Rightarrow> Some (Inl (syntax_error [] []))
                | c4 # r4 \<Rightarrow>
                  if c4 = CHR '','' then parse_members f d (acc @ [(k, v)]) r4
                  else if c4 = CHR ''}'' then Some (Inr (JObject (acc @ [(k, v)]), r4))
                  else Some (Inl (syntax_error (c4 # r4) ''after object key:value pair'')))))))"
| "parse_elements 0 d acc s = None"
| "parse_elements (Suc f) d acc s = (case parse_value f d s of
      None \<Rightarrow> None
    | Some (Inl e) \<Rightarrow> Some (Inl e)
    | Some (Inr (v, r)) \<Rightarrow> (case skip_ws r of
        [] \<Rightarrow> Some (Inl (syntax_error [] []))
      | c # r' \<Rightarrow>
        if c = CHR '','' then parse_elements f d (acc @ [v]) r'
        else if c = CHR '']'' then Some (Inr (JArray (acc @ [v]), r'))
        else Some (Inl (syntax_error (c # r') ''after array element''))))"

definition parse_json :: "string \<Rightarrow> go_error + json" where
  "parse_json s = (case parse_value (2 * length s + 2) 0 s of
      None \<Rightarrow> Inl (syntax_error [] []) \<comment> \<open>never reached: \<open>parse_value_total\<close>\<close>
    | Some (Inl e) \<Rightarrow> Inl e
    | Some (Inr (v, r)) \<Rightarrow>
        if skip_ws r = [] then Inr v
        else Inl (syntax_error (skip_ws r) ''after top-level value''))"

section \<open>Decoding\<close>

text \<open>
  The literal of a number is out of the range of \<^verbatim>\<open>float64\<close> when its absolute value rounds to
  infinity, that is from \<open>2^1024 - 2^970\<close> on.
\<close>

definition number_parts :: "string \<Rightarrow> nat \<times> int" where
  "number_parts s =
     (let m = takeWhile (\<lambda>c. c \<noteq> CHR ''e'' \<and> c \<noteq> CHR ''E'') s; x = drop (length m + 1) s;
          i = takeWhile (\<lambda>c. c \<noteq> CHR ''.'') m; f = drop (length i + 1) m;
          ex = int (nat_of_digits (filter is_digit x));
          ex' = (if x \<noteq> [] \<and> hd x = CHR ''-'' then - ex else ex)
      in (nat_of_digits (filter is_digit (i @ f)), ex' - int (length f)))"

definition number_overflows :: "string \<Rightarrow> bool" where
  "number_overflows s =
     (case number_parts s of (m, e) \<Rightarrow>
        let b = (2::nat) ^ 1024 - 2 ^ 970 in
        if e \<ge> 0 then b \<le> m * 10 ^ nat e else b * 10 ^ nat (- e) \<le> m)"

text \<open>The first error met when a value is stored into an \<^verbatim>\<open>interface{}\<close>.\<close>

fun any_error :: "json \<Rightarrow> go_error option"
and any_errors :: "json list \<Rightarrow> go_error option"
and any_member_errors :: "(string \<times> json) list \<Rightarrow> go_error option" where
  "any_error (JNumber n) =
     (if number_overflows n then Some (JsonTypeError (''number '' @ n) [] ''float64'') else None)"
| "any_error (JArray xs) = any_errors xs"
| "any_error (JObject kvs) = any_member_errors kvs"
| "any_error _ = None"
| "any_errors [] = None"
| "any_errors (x # xs) = (case any_error x of None \<Rightarrow> any_errors xs | Some e \<Rightarrow> Some e)"
| "any_member_errors [] = None"
| "any_member_errors ((k, x) # kvs) =
     (case any_error x of None \<Rightarrow> any_member_errors kvs | Some e \<Rightarrow> Some e)"

definition json_kind :: "json \<Rightarrow> string" where
  "json_kind v = (case v of JNull \<Rightarrow> ''null'' | JBool _ \<Rightarrow> ''bool'' | JNumber _ \<Rightarrow> ''number''
     | JString _ \<Rightarrow> ''string'' | JArray _ \<Rightarrow> ''array'' | JObject _ \<Rightarrow> ''object'')"

text \<open>\<^verbatim>\<open>json.Unmarshal\<close> into an empty \<^verbatim>\<open>map[string]interface{}\<close>.\<close>

definition unmarshal_map :: "string \<Rightarrow> go_error + json gomap" where
  "unmarshal_map data = (case parse_json data of
      Inl e \<Rightarrow> Inl e
    | Inr JNull \<Rightarrow> Inr []
    | Inr (JObject kvs) \<Rightarrow>
        (case any_member_errors kvs of
           Some e \<Rightarrow> Inl e
         | None \<Rightarrow> Inr (foldl (\<lambda>m (k, v). AList.update k v m) [] kvs))
    | Inr v \<Rightarrow> Inl (JsonTypeError (json_kind v) [] ''map[string]interface {}''))"

text \<open>
  Field names match exactly, or else up to case. U+212A and U+017F fold to \<^verbatim>\<open>k\<close> and \<^verbatim>\<open>s\<close>; no
  other character outside ASCII folds to an ASCII letter.
\<close>

fun fold_name :: "string \<Rightarrow> string" where
  "fold_name [] = []"
| "fold_name (a # s) =
     (case s of
        b # t \<Rightarrow>
          if a = CHR 0xC5 \<and> b = CHR 0xBF then CHR ''s'' # fold_name t
          else (case t of
             c # u \<Rightarrow> if a = CHR 0xE2 \<and> b = CHR 0x84 \<and> c = CHR 0xAA then CHR ''k'' # fold_name u
                      else char_lower a # fold_name s
           | [] \<Rightarrow> char_lower a # fold_name s)
      | [] \<Rightarrow> char_lower a # fold_name s)"

definition find_field :: "string list \<Rightarrow> string \<Rightarrow> string option" where
  "find_field names k =
     (if k \<in> set names then Some k else List.find (\<lambda>n. fold_name n = fold_name k) names)"

text \<open>
  Members are stored in order, later ones over earlier ones; the first type error is kept
  while decoding goes on, and is returned at the end.
\<close>

definition store_member ::
    "string list \<Rightarrow> (string \<Rightarrow> 'v \<Rightarrow> 'r \<Rightarrow> go_error + 'r) \<Rightarrow> 'r \<times> go_error option \<Rightarrow>
     string \<times> 'v \<Rightarrow> 'r \<times> go_error option" where
  "store_member names setf st kv = (case (st, kv) of ((r, err), (k, v)) \<Rightarrow>
     (case find_field names k of
        None \<Rightarrow> (r, err)
      | Some n \<Rightarrow> (case setf n v r of
          Inr r' \<Rightarrow> (r', err)
        | Inl e \<Rightarrow> (r, (case err of None \<Rightarrow> Some e | Some e0 \<Rightarrow> Some e0)))))"

definition unmarshal_struct ::
    "string \<Rightarrow> string list \<Rightarrow> (string \<Rightarrow> json \<Rightarrow> 'r \<Rightarrow> go_error + 'r) \<Rightarrow> 'r \<Rightarrow> string \<Rightarrow> go_error + 'r" where
  "unmarshal_struct tname names setf r data = (case parse_json data of
      Inl e \<Rightarrow> Inl e
    | Inr JNull \<Rightarrow> Inr r
    | Inr (JObject kvs) \<Rightarrow>
        (case foldl (store_member names setf) (r, None) kvs of
           (r', None) \<Rightarrow> Inr r'
         | (_, Some e) \<Rightarrow> Inl e)
    | Inr v \<Rightarrow> Inl (JsonTypeError (json_kind v) [] tname))"

text \<open>A value into a field of type \<^verbatim>\<open>string\<close>, \<^verbatim>\<open>*string\<close> and \<^verbatim>\<open>*bool\<close>.\<close>

definition decode_string :: "string \<Rightarrow> json \<Rightarrow> string \<Rightarrow> go_error + string" where
  "decode_string fld v old = (case v of JString s \<Rightarrow> Inr s | JNull \<Rightarrow> Inr old
     | _ \<Rightarrow> Inl (JsonTypeError (json_kind v) fld ''string''))"

definition decode_string_ptr :: "string \<Rightarrow> json \<Rightarrow> go_error + string option" where
  "decode_string_ptr fld v = (case v of JString s \<Rightarrow> Inr (Some s) | JNull \<Rightarrow> Inr None
     | _ \<Rightarrow> Inl (JsonTypeError (json_kind v) fld ''string''))"

definition decode_bool_ptr :: "string \<Rightarrow> json \<Rightarrow> go_error + bool option" where
  "decode_bool_ptr fld v = (case v of JBool b \<Rightarrow> Inr (Some b) | JNull \<Rightarrow> Inr None
     | _ \<Rightarrow> Inl (JsonTypeError (json_kind v) fld ''bool''))"

text \<open>\<^verbatim>\<open>json.Marshal\<close> of a struct whose fields are all strings.\<close>

definition json_member :: "bool \<Rightarrow> string \<times> string \<Rightarrow> string" where
  "json_member h kv = json_string h (fst kv) @ '':'' @ json_string h (snd kv)"

definition json_object_with :: "bool \<Rightarrow> (string \<times> string) list \<Rightarrow> string" where
  "json_object_with h kvs = ''{'' @ strings_Join (map (json_member h) kvs) '','' @ ''}''"

abbreviation json_object :: "(string \<times> string) list \<Rightarrow> string" where
  "json_object \<equiv> json_object_with True"

section \<open>Strings survive a round trip\<close>

lemma hex_value_hex_digit [simp]: "hex_value (hex_digit n) = Some (n mod 16)"
proof -
  have "k < 16 \<Longrightarrow> hex_value (''0123456789abcdef'' ! k) = Some k" for k :: nat
    by (auto simp: hex_value_def less_Suc_eq numeral_eq_Suc)
  then show ?thesis by (simp add: hex_digit_def)
qed

lemma hex4_value:
  fixes n :: nat
  assumes "n < 65536"
  shows "16 * (16 * (16 * (n div 4096 mod 16) + n div 256 mod 16) + n div 16 mod 16) + n mod 16 = n"
proof -
  have a: "n div 4096 < 16" using assms by simp
  have b: "n div 256 = 16 * (n div 4096) + n div 256 mod 16"
    using div_mult2_eq [of n 256 16] by simp
  have c: "n div 16 = 16 * (n div 256) + n div 16 mod 16"
    using div_mult2_eq [of n 16 16] by simp
  have d: "n = 16 * (n div 16) + n mod 16" by simp
  from a b c d show ?thesis by simp
qed

lemma hexes_u_escape:
  assumes "n < 65536"
  shows "hexes 4 0 (hex_digit (n div 4096) # hex_digit (n div 256) # hex_digit (n div 16) # hex_digit n # t)
    = Inr (n, t)"
proof -
  have "hexes (Suc (Suc (Suc (Suc 0)))) 0
      (hex_digit (n div 4096) # hex_digit (n div 256) # hex_digit (n div 16) # hex_digit n # t)
    = Inr (16 * (16 * (16 * (n div 4096 mod 16) + n div 256 mod 16) + n div 16 mod 16) + n mod 16, t)"
    by (simp only: hexes.simps hex_value_hex_digit option.case mult_0_right add_0)
  moreover have "(4::nat) = Suc (Suc (Suc (Suc 0)))" by simp
  ultimately show ?thesis using hex4_value [OF assms] by metis
qed

lemma utf8_len_ascii [simp]: "(of_char c :: nat) < 128 \<Longrightarrow> utf8_len (c # t) = 1"
  by (simp add: utf8_len_def utf8_first_def)

lemma utf8_len_take:
  assumes "0 < utf8_len s"
  shows "utf8_len (take (utf8_len s) s @ t) = utf8_len s"
proof (cases s)
  case (Cons c r)
  obtain n lo hi where f: "utf8_first c = (n, lo, hi)" by (cases "utf8_first c")
  show ?thesis
  proof (cases "n \<le> 1")
    case True
    with assms Cons f show ?thesis by (cases n) (simp_all add: utf8_len_def)
  next
    case False
    then obtain m where n: "n = Suc (Suc m)" by (metis One_nat_def le_SucI le_zero_eq nat.exhaust order_refl)
    with assms Cons f False obtain d u where "r = d # u" and "in_range lo hi d"
        and "m \<le> length u" and "list_all (in_range 128 191) (take m u)" and "utf8_len s = n"
      by (auto simp: utf8_len_def split: list.splits if_splits)
    with Cons f n show ?thesis by (simp add: utf8_len_def)
  qed
qed (use assms in \<open>simp add: utf8_len_def\<close>)

lemma utf8_len_line_separator:
  "take 3 s = [CHR 0xE2, CHR 0x80, x] \<Longrightarrow> in_range 128 191 x \<Longrightarrow> utf8_len s = 3"
  by (cases s; cases "tl s"; cases "tl (tl s)")
     (auto simp: utf8_len_def utf8_first_def in_range_def numeral_eq_Suc)
lemma parse_string_u_escape:
  assumes "n < 65536" and "\<not> is_surrogate n"
  shows "parse_string (u_escape n @ t) = prepend (utf8_encode n) (parse_string t)"
  using assms
  by (subst parse_string.simps) (simp add: u_escape_def hexes_u_escape rune_of_u_def)

lemma prepend_Nil [simp]: "prepend [] r = r"
  by (auto simp: prepend_def split: sum.splits)

lemma prepend_Inr [simp]: "prepend x (Inr (y, r)) = Inr (x @ y, r)"
  by (simp add: prepend_def)

lemma parse_string_escape1:
  "unescape1 e = Some x \<Longrightarrow> e \<noteq> CHR ''u'' \<Longrightarrow>
   parse_string (bslash # e # t) = prepend [x] (parse_string t)"
  by (subst parse_string.simps) simp

lemma of_char_control:
  "(of_char c :: nat) = 8 \<longleftrightarrow> c = CHR 0x08" "(of_char c :: nat) = 12 \<longleftrightarrow> c = CHR 0x0C"
  "(of_char c :: nat) = 10 \<longleftrightarrow> c = CHR 0x0A" "(of_char c :: nat) = 13 \<longleftrightarrow> c = CHR 0x0D"
  "(of_char c :: nat) = 9 \<longleftrightarrow> c = CHR 0x09"
  using of_char_eq_iff [where 'a = nat, of c "CHR 0x08"] of_char_eq_iff [where 'a = nat, of c "CHR 0x0C"]
    of_char_eq_iff [where 'a = nat, of c "CHR 0x0A"] of_char_eq_iff [where 'a = nat, of c "CHR 0x0D"]
    of_char_eq_iff [where 'a = nat, of c "CHR 0x09"]
  by simp_all

lemma parse_string_escape_ascii:
  assumes "(of_char c :: nat) < 128"
  shows "parse_string (escape_ascii h c @ t) = prepend [c] (parse_string t)"
proof -
  let ?n = "of_char c :: nat"
  have other: "escape_ascii h c = u_escape ?n \<or> escape_ascii h c = [c] \<and> \<not> ?n < 32"
    if "\<not> (c = bslash \<or> c = dquote)" "?n \<noteq> 8" "?n \<noteq> 12" "?n \<noteq> 10" "?n \<noteq> 13" "?n \<noteq> 9"
    using that by (simp add: escape_ascii_def Let_def)
  consider (bs) "c = bslash \<or> c = dquote" | (b) "?n = 8" | (f) "?n = 12" | (n) "?n = 10"
    | (r) "?n = 13" | (t) "?n = 9"
    | (u) "escape_ascii h c = u_escape ?n"
    | (raw) "escape_ascii h c = [c]" and "\<not> ?n < 32" and "c \<noteq> bslash" and "c \<noteq> dquote"
    using other by blast
  then show ?thesis
  proof cases
    case bs
    then show ?thesis
      by (auto simp: escape_ascii_def parse_string_escape1 unescape1_def)
  next
    case u
    have "parse_string (u_escape ?n @ t) = prepend (utf8_encode ?n) (parse_string t)"
      using assms by (intro parse_string_u_escape) (simp_all add: is_surrogate_def)
    with u assms show ?thesis by (simp add: utf8_encode_def)
  next
    case raw
    with assms show ?thesis
      by simp (subst parse_string.simps, simp)
  qed (simp add: of_char_control escape_ascii_def parse_string_escape1 unescape1_def)+
qed

lemma parse_string_utf8:
  assumes "0 < utf8_len s" and "s = c # r" and "\<not> (of_char c :: nat) < 128"
  shows "parse_string (take (utf8_len s) s @ t) = prepend (take (utf8_len s) s) (parse_string t)"
proof -
  let ?k = "utf8_len s" and ?x = "take (utf8_len s) s @ t"
  have hd: "take ?k s = c # take (?k - 1) r"
    using assms(1,2) by (cases ?k) auto
  have len: "length (take ?k s) = ?k"
    using utf8_len_le [of s] by simp
  have "c \<noteq> dquote" and "c \<noteq> bslash" using assms(3) by auto
  then have "parse_string ?x = prepend (take (utf8_len ?x) ?x) (parse_string (drop (utf8_len ?x) ?x))"
    using assms(1,3) hd utf8_len_take [OF assms(1), of t]
    by (subst parse_string.simps) auto
  with utf8_len_take [OF assms(1), of t] len show ?thesis by simp
qed

lemma valid_utf8_step:
  "valid_utf8 s \<Longrightarrow> s \<noteq> [] \<Longrightarrow> 0 < utf8_len s \<and> valid_utf8 (drop (utf8_len s) s)"
  by (subst (asm) valid_utf8.simps) (auto split: if_splits)

lemma utf8_encode_line_separator:
  "utf8_encode 8232 = [CHR 0xE2, CHR 0x80, CHR 0xA8]"
  "utf8_encode 8233 = [CHR 0xE2, CHR 0x80, CHR 0xA9]"
proof -
  have "char_of (226::nat) = CHR 0xE2" "char_of (128::nat) = CHR 0x80"
    "char_of (168::nat) = CHR 0xA8" "char_of (169::nat) = CHR 0xA9" by code_simp+
  then show "utf8_encode 8232 = [CHR 0xE2, CHR 0x80, CHR 0xA8]"
    "utf8_encode 8233 = [CHR 0xE2, CHR 0x80, CHR 0xA9]"
    by (simp_all add: utf8_encode_def)
qed

text \<open>How one valid encoding outside ASCII is written, and that it is read back.\<close>

definition escape_multi :: "string \<Rightarrow> string" where
  "escape_multi x =
     (if x = utf8_encode 8232 then u_escape 8232
      else if x = utf8_encode 8233 then u_escape 8233 else x)"

lemma json_escape_Nil [simp]: "json_escape h [] = []"
  by (subst json_escape.simps) simp

lemma json_escape_ascii [simp]:
  "(of_char c :: nat) < 128 \<Longrightarrow> json_escape h (c # s) = escape_ascii h c @ json_escape h s"
  by (subst json_escape.simps) simp

lemma json_escape_multi:
  assumes "s = c # r" and "\<not> (of_char c :: nat) < 128" and k: "0 < utf8_len s"
  shows "json_escape h s = escape_multi (take (utf8_len s) s) @ json_escape h (drop (utf8_len s) s)"
proof -
  let ?x = "take (utf8_len s) s"
  have len: "length ?x = utf8_len s" using utf8_len_le [of s] by simp
  have sep: "?x = utf8_encode n \<longleftrightarrow> take 3 s = utf8_encode n" if "n = 8232 \<or> n = 8233" for n
  proof
    assume x: "?x = utf8_encode n"
    with that have "length ?x = 3" by (auto simp: utf8_encode_line_separator)
    with len x show "take 3 s = utf8_encode n" by simp
  next
    assume t: "take 3 s = utf8_encode n"
    with that have "utf8_len s = 3"
      by (auto simp: utf8_encode_line_separator in_range_def intro: utf8_len_line_separator)
    with t show "?x = utf8_encode n" by simp
  qed
  have three: "take 3 s = utf8_encode n \<Longrightarrow> utf8_len s = 3" if "n = 8232 \<or> n = 8233" for n
    using that by (auto simp: utf8_encode_line_separator in_range_def intro: utf8_len_line_separator)
  show ?thesis
    using assms three [of 8232] three [of 8233] sep [of 8232] sep [of 8233] unfolding escape_multi_def
    by (subst json_escape.simps)
       (auto simp flip: utf8_encode_line_separator simp del: take_Cons_numeral drop_Cons_numeral)
qed

lemma parse_string_escape_multi:
  assumes "s = c # r" and "\<not> (of_char c :: nat) < 128" and "0 < utf8_len s"
  shows "parse_string (escape_multi (take (utf8_len s) s) @ t) = prepend (take (utf8_len s) s) (parse_string t)"
  using assms parse_string_utf8 [of s c r t]
  by (auto simp: escape_multi_def parse_string_u_escape is_surrogate_def)

lemma parse_json_escape:
  assumes "valid_utf8 s"
  shows "parse_string (json_escape h s @ dquote # t) = Inr (s, t)"
  using assms
proof (induction "length s" arbitrary: s rule: less_induct)
  case less
  show ?case
  proof (cases s)
    case Nil
    then show ?thesis by simp (subst parse_string.simps, simp)
  next
    case (Cons c r)
    let ?k = "utf8_len s"
    from less.prems Cons have k: "0 < ?k" and v: "valid_utf8 (drop ?k s)"
      by (auto dest: valid_utf8_step)
    with less.hyps [of "drop ?k s"] Cons
    have IH: "parse_string (json_escape h (drop ?k s) @ dquote # t) = Inr (drop ?k s, t)" by simp
    show ?thesis
    proof (cases "(of_char c :: nat) < 128")
      case True
      with IH Cons show ?thesis by (simp add: parse_string_escape_ascii)
    next
      case False
      have "parse_string (json_escape h s @ dquote # t) = prepend (take ?k s) (Inr (drop ?k s, t))"
        by (simp only: json_escape_multi [OF Cons False k] append_assoc
            parse_string_escape_multi [OF Cons False k] IH)
      then show ?thesis by simp
    qed
  qed
qed

section \<open>The parser always ends\<close>

lemma skip_ws_length: "length (skip_ws s) \<le> length s"
  by (simp add: skip_ws_def length_dropWhile_le)

lemma skip_ws_Cons: "skip_ws s = c # r \<Longrightarrow> length r < length s"
  using skip_ws_length [of s] by simp

lemma prepend_InrE:
  assumes "prepend x res = Inr (y, r)"
  obtains z where "res = Inr (z, r)" and "y = x @ z"
  using assms by (auto simp: prepend_def split: sum.splits prod.splits)

lemma parse_string_Nil: "parse_string [] = Inl (syntax_error [] [])"
  by (subst parse_string.simps) simp

lemma parse_string_dquote: "parse_string (dquote # t) = Inr ([], t)"
  by (subst parse_string.simps) simp

lemma parse_string_bslash_end: "parse_string [bslash] = Inl (syntax_error [] [])"
  by (subst parse_string.simps) simp

lemma parse_string_u:
  "parse_string (bslash # CHR ''u'' # u) =
     (case hexes 4 0 u of
        Inl err \<Rightarrow> Inl err
      | Inr (r, v) \<Rightarrow> prepend (fst (rune_of_u r v)) (parse_string (snd (rune_of_u r v))))"
  by (subst parse_string.simps) (simp split: sum.split)

lemma parse_string_esc:
  "e \<noteq> CHR ''u'' \<Longrightarrow> parse_string (bslash # e # u) =
     (case unescape1 e of
        None \<Rightarrow> Inl (syntax_error (e # u) ''in string escape code'')
      | Some x \<Rightarrow> prepend [x] (parse_string u))"
  by (subst parse_string.simps) (simp split: option.split)

lemma parse_string_plain:
  assumes "c \<noteq> dquote" and "c \<noteq> bslash"
  shows "parse_string (c # t) =
     (if (of_char c :: nat) < 32 then Inl (syntax_error (c # t) ''in string literal'')
      else if utf8_len (c # t) = 0 then prepend replacement (parse_string t)
      else prepend (take (utf8_len (c # t)) (c # t)) (parse_string (drop (utf8_len (c # t)) (c # t))))"
  using assms by (subst parse_string.simps) simp

lemmas parse_string_eqs =
  parse_string_Nil parse_string_dquote parse_string_bslash_end parse_string_u parse_string_esc
  parse_string_plain

lemma parse_string_length: "parse_string s = Inr (x, r) \<Longrightarrow> length r < length s"
proof (induction "length s" arbitrary: s x rule: less_induct)
  case less
  have rec: "length r < length s"
    if "prepend y (parse_string t) = Inr (x, r)" and "length t < length s" for y t
    using that less.hyps [of t] by (auto elim!: prepend_InrE)
  consider "s = []" | t where "s = dquote # t" | "s = [bslash]" | u where "s = bslash # CHR ''u'' # u"
    | e u where "s = bslash # e # u" "e \<noteq> CHR ''u''" | c t where "s = c # t" "c \<noteq> dquote" "c \<noteq> bslash"
    by (metis list.exhaust)
  then show ?case
  proof cases
    case 4
    with less.prems obtain n v where h: "hexes 4 0 u = Inr (n, v)"
        and p: "prepend (fst (rune_of_u n v)) (parse_string (snd (rune_of_u n v))) = Inr (x, r)"
      by (auto simp: parse_string_u split: sum.splits prod.splits)
    have "length (snd (rune_of_u n v)) \<le> length v"
      by (rule rune_of_u_length [of n v "fst (rune_of_u n v)"]) simp
    with hexes_length [OF h] 4 show ?thesis by (intro rec [OF p]) simp
  next
    case 5
    with less.prems obtain y where "prepend [y] (parse_string u) = Inr (x, r)"
      by (auto simp: parse_string_esc split: option.splits)
    from rec [OF this] 5 show ?thesis by simp
  next
    case 6
    with less.prems obtain y v where "prepend y (parse_string v) = Inr (x, r)" and "length v < length s"
      by (auto simp: parse_string_plain split: if_splits)
    then show ?thesis by (rule rec)
  qed (use less.prems in \<open>simp_all add: parse_string_eqs\<close>)
qed

lemma parse_literal_length: "parse_literal n xs s = Inr r \<Longrightarrow> length r \<le> length s"
  by (induction n xs s rule: parse_literal.induct) (auto split: list.splits if_splits)

lemma parse_exponent_length: "parse_exponent s = Inr (x, r) \<Longrightarrow> length r \<le> length s"
  using length_dropWhile_le [of is_digit]
  by (auto simp: parse_exponent_def Let_def split: list.splits if_splits intro: le_SucI le_trans)

lemma parse_fraction_length: "parse_fraction s = Inr (x, r) \<Longrightarrow> length r \<le> length s"
  by (auto simp: parse_fraction_def Let_def split: list.splits if_splits
      elim!: prepend_InrE dest!: parse_exponent_length intro: le_SucI le_trans length_dropWhile_le)

lemma parse_number_length: "parse_number s = Inr (x, r) \<Longrightarrow> length r < length s"
proof -
  assume eq: "parse_number s = Inr (x, r)"
  define sg where "sg = (case s of c # _ \<Rightarrow> if c = CHR ''-'' then [c] else [] | [] \<Rightarrow> [])"
  from eq obtain c u where t: "drop (length sg) s = c # u"
    by (auto simp: parse_number_def Let_def sg_def [symmetric] split: list.splits)
  have dw: "is_digit c \<Longrightarrow> length (dropWhile is_digit u) \<le> length u"
    by (simp add: length_dropWhile_le)
  from eq have "length r \<le> length u"
    using dw unfolding parse_number_def Let_def sg_def [symmetric] t
    by (auto split: if_splits elim!: prepend_InrE dest!: parse_fraction_length intro: le_trans)
  moreover have "length u < length s"
    using t by (metis diff_le_self length_Cons length_drop less_eq_Suc_le)
  ultimately show ?thesis by simp
qed

definition ends :: "string \<Rightarrow> (go_error + json \<times> string) option \<Rightarrow> bool" where
  "ends s res \<longleftrightarrow> (\<exists>x. res = Some x \<and> (\<forall>v r. x = Inr (v, r) \<longrightarrow> length r < length s))"

lemma ends_Some [simp]: "ends s (Some (Inl e))" "ends s (Some (Inr (v, r))) \<longleftrightarrow> length r < length s"
  by (simp_all add: ends_def)

lemma ends_map_value:
  "(\<And>x r. res = Inr (x, r) \<Longrightarrow> length r < length s) \<Longrightarrow> ends s (map_value f res)"
  by (auto simp: ends_def map_value_def split: sum.splits)

lemma ends_literal_value:
  "(\<And>r. res = Inr r \<Longrightarrow> length r < length s) \<Longrightarrow> ends s (literal_value v res)"
  by (auto simp: ends_def literal_value_def split: sum.splits)

lemma ends_mono: "ends t res \<Longrightarrow> length t \<le> length s \<Longrightarrow> ends s res"
  by (auto simp: ends_def)

lemma ends_if: "(b \<Longrightarrow> ends s x) \<Longrightarrow> (\<not> b \<Longrightarrow> ends s y) \<Longrightarrow> ends s (if b then x else y)"
  by simp

lemma ends_case_list:
  "(xs = [] \<Longrightarrow> ends s a) \<Longrightarrow> (\<And>c r. xs = c # r \<Longrightarrow> ends s (b c r)) \<Longrightarrow>
   ends s (case xs of [] \<Rightarrow> a | c # r \<Rightarrow> b c r)"
  by (cases xs) simp_all

lemma ends_case_result:
  "(\<And>e. x = Inl e \<Longrightarrow> ends s (a e)) \<Longrightarrow> (\<And>y r. x = Inr (y, r) \<Longrightarrow> ends s (b y r)) \<Longrightarrow>
   ends s (case x of Inl e \<Rightarrow> a e | Inr (y, r) \<Rightarrow> b y r)"
  by (cases x) auto

lemma ends_case_fuel:
  "ends t x \<Longrightarrow> (\<And>y r. length r < length t \<Longrightarrow> ends s (b y r)) \<Longrightarrow>
   ends s (case x of None \<Rightarrow> None | Some (Inl e) \<Rightarrow> Some (Inl e) | Some (Inr (y, r)) \<Rightarrow> b y r)"
  by (auto simp: ends_def split: sum.split)

lemma ends_Inr: "length r < length s \<Longrightarrow> ends s (Some (Inr (v, r)))"
  by simp

lemmas ends_intros = ends_if ends_case_list ends_case_result ends_Some(1) ends_Inr

lemma parse_value_ends:
  assumes m: "\<And>d acc s. 2 * length s < f \<Longrightarrow> ends s (parse_members f d acc s)"
    and e: "\<And>d acc s. 2 * length s + 1 < f \<Longrightarrow> ends s (parse_elements f d acc s)"
    and l: "2 * length s < Suc f"
  shows "ends s (parse_value (Suc f) d s)"
proof (cases "skip_ws s")
  case Nil
  then show ?thesis by simp
next
  case (Cons c r)
  note len = skip_ws_Cons [OF Cons]
  have mem: "ends s (parse_members f d' acc r)" for d' acc
    using m [of r d' acc] len l by (auto elim: ends_mono)
  have el: "ends s (parse_elements f d' acc r)" for d' acc
    using e [of r d' acc] len l by (auto elim: ends_mono)
  have str: "ends s (map_value g (parse_string r))" for g
    using len by (intro ends_map_value) (auto dest: parse_string_length)
  have num: "ends s (map_value g (parse_number (c # r)))" for g
    using len by (intro ends_map_value) (auto dest: parse_number_length)
  have lit: "ends s (literal_value v (parse_literal a b r))" for v a b
    using len by (intro ends_literal_value) (auto dest: parse_literal_length)
  show ?thesis
    unfolding parse_value.simps Cons list.case
    using len by (intro ends_intros mem el str num lit) (auto dest: skip_ws_Cons)
qed

lemma parse_members_ends:
  assumes v: "\<And>d s. 2 * length s < f \<Longrightarrow> ends s (parse_value f d s)"
    and m: "\<And>d acc s. 2 * length s < f \<Longrightarrow> ends s (parse_members f d acc s)"
    and l: "2 * length s < Suc f"
  shows "ends s (parse_members (Suc f) d acc s)"
proof -
  have val: "ends s (parse_members f d a r4)" "length r4 < length s"
    if "skip_ws s = c # r" "parse_string r = Inr (k, r1)" "skip_ws r1 = c2 # r2"
      "length r3 < length r2" "skip_ws r3 = c4 # r4" for a c r k r1 c2 r2 r3 c4 r4
  proof -
    have "length r4 < length r3" and "length r2 < length r1" and "length r1 < length r" and "length r < length s"
      using that by (auto dest: skip_ws_Cons parse_string_length)
    with that(4) m [of r4 d a] l show "ends s (parse_members f d a r4)" "length r4 < length s"
      by (auto elim!: ends_mono)
  qed
  have inner: "ends r2 (parse_value f d r2)"
    if "skip_ws s = c # r" "parse_string r = Inr (k, r1)" "skip_ws r1 = c2 # r2" for c r k r1 c2 r2
  proof -
    have "length r2 < length r1" and "length r1 < length r" and "length r < length s"
      using that by (auto dest: skip_ws_Cons parse_string_length)
    with l show ?thesis by (intro v) simp
  qed
  show ?thesis
    unfolding parse_members.simps
    by (intro ends_intros; rule ends_case_fuel, erule (2) inner; intro ends_intros; erule (4) val)
qed

lemma parse_elements_ends:
  assumes v: "\<And>d s. 2 * length s < f \<Longrightarrow> ends s (parse_value f d s)"
    and m: "\<And>d acc s. 2 * length s + 1 < f \<Longrightarrow> ends s (parse_elements f d acc s)"
    and l: "2 * length s + 1 < Suc f"
  shows "ends s (parse_elements (Suc f) d acc s)"
proof -
  have val: "ends s (parse_elements f d a r')" "length r' < length s"
    if "length r < length s" "skip_ws r = c # r'" for a c r r'
    using skip_ws_Cons [OF that(2)] that(1) m [of r' d a] l by (auto elim!: ends_mono)
  have "ends s (parse_value f d s)" using l by (intro v) simp
  then show ?thesis
    unfolding parse_elements.simps
    by (rule ends_case_fuel) (intro ends_intros; erule (1) val)
qed

lemma parser_ends:
  "(\<forall>d s. 2 * length s < f \<longrightarrow> ends s (parse_value f d s)) \<and>
   (\<forall>d acc s. 2 * length s < f \<longrightarrow> ends s (parse_members f d acc s)) \<and>
   (\<forall>d acc s. 2 * length s + 1 < f \<longrightarrow> ends s (parse_elements f d acc s))"
proof (induction f)
  case 0
  then show ?case by simp
next
  case (Suc f)
  then have v: "\<And>d s. 2 * length s < f \<Longrightarrow> ends s (parse_value f d s)"
    and m: "\<And>d acc s. 2 * length s < f \<Longrightarrow> ends s (parse_members f d acc s)"
    and e: "\<And>d acc s. 2 * length s + 1 < f \<Longrightarrow> ends s (parse_elements f d acc s)"
    by blast+
  show ?case
    using parse_value_ends [OF m e] parse_members_ends [OF v m] parse_elements_ends [OF v e] by blast
qed

lemma parse_value_total: "2 * length s < f \<Longrightarrow> \<exists>res. parse_value f d s = Some res"
  using parser_ends [of f] unfolding ends_def by blast

section \<open>Objects of strings survive a round trip\<close>

lemma skip_ws_simps [simp]: "skip_ws [] = []" "\<not> is_ws c \<Longrightarrow> skip_ws (c # s) = c # s"
  by (simp_all add: skip_ws_def)

lemma not_ws [simp]: "\<not> is_ws dquote" "\<not> is_ws CHR '':''" "\<not> is_ws CHR '',''" "\<not> is_ws CHR ''}''"
    "\<not> is_ws CHR ''{''"
  by (simp_all add: is_ws_def)

lemma parse_value_json_string:
  "valid_utf8 v \<Longrightarrow> parse_value (Suc f) d (json_string h v @ t) = Some (Inr (JString v, t))"
  by (simp add: json_string_def map_value_def parse_json_escape)

declare parse_value.simps [simp del] parse_members.simps [simp del] parse_elements.simps [simp del]

lemma parse_members_json_member:
  assumes "valid_utf8 k" and "valid_utf8 v" and "\<not> is_ws c"
  shows "parse_members (Suc (Suc f)) d acc (json_member h (k, v) @ c # t) =
    (if c = CHR '','' then parse_members (Suc f) d (acc @ [(k, JString v)]) t
     else if c = CHR ''}'' then Some (Inr (JObject (acc @ [(k, JString v)]), t))
     else Some (Inl (syntax_error (c # t) ''after object key:value pair'')))"
proof -
  have k: "parse_string (json_escape h k @ dquote # CHR '':'' # json_string h v @ c # t) =
      Inr (k, CHR '':'' # json_string h v @ c # t)"
    using assms(1) by (rule parse_json_escape)
  have s: "json_member h (k, v) @ c # t = dquote # json_escape h k @ dquote # CHR '':'' # json_string h v @ c # t"
    by (simp add: json_member_def json_string_def)
  show ?thesis
    unfolding s parse_members.simps(2) [of "Suc f"]
    using parse_value_json_string [OF assms(2), of f d h "c # t"] k assms(3) by simp
qed

lemma parse_members_strings:
  assumes "kvs \<noteq> []" and "\<forall>kv \<in> set kvs. valid_utf8 (fst kv) \<and> valid_utf8 (snd kv)"
    and "length kvs < f"
  shows "parse_members f d acc (strings_Join (map (json_member h) kvs) '','' @ CHR ''}'' # t) =
    Some (Inr (JObject (acc @ map (\<lambda>(k, v). (k, JString v)) kvs), t))"
  using assms
proof (induction kvs arbitrary: acc f)
  case (Cons kv kvs)
  obtain k v where kv: "kv = (k, v)" by (cases kv)
  obtain g where f: "f = Suc (Suc g)"
    using Cons.prems(3) by (cases f; cases "f - 1") auto
  have utf: "valid_utf8 k" "valid_utf8 v" using Cons.prems(2) kv by auto
  show ?case
  proof (cases "kvs = []")
    case True
    with parse_members_json_member [OF utf not_ws(4), of g d acc h t] f kv show ?thesis by simp
  next
    case False
    have "parse_members (Suc g) d (acc @ [(k, JString v)])
        (strings_Join (map (json_member h) kvs) '','' @ CHR ''}'' # t) =
        Some (Inr (JObject ((acc @ [(k, JString v)]) @ map (\<lambda>(k, v). (k, JString v)) kvs), t))"
      using Cons.prems False f by (intro Cons.IH) auto
    with parse_members_json_member [OF utf not_ws(3), of g d acc h
        "strings_Join (map (json_member h) kvs) '','' @ CHR ''}'' # t"] f kv False
    show ?thesis by (simp add: strings_Join_Cons)
  qed
qed simp

lemma strings_Join_length: "length ss \<le> Suc (length (strings_Join ss [c]))"
  by (induction ss "[c]" rule: strings_Join.induct) auto

lemma parse_json_object:
  assumes "\<forall>kv \<in> set kvs. valid_utf8 (fst kv) \<and> valid_utf8 (snd kv)" and "skip_ws t = []"
  shows "parse_json (json_object_with h kvs @ t) = Inr (JObject (map (\<lambda>(k, v). (k, JString v)) kvs))"
proof -
  let ?text = "json_object_with h kvs @ t"
  let ?body = "strings_Join (map (json_member h) kvs) '','' @ CHR ''}'' # t"
  have open_brace: "parse_value (Suc f) 0 (CHR ''{'' # ?body) = (case skip_ws ?body of
      c # r \<Rightarrow> if c = CHR ''}'' then Some (Inr (JObject [], r)) else parse_members f (Suc 0) [] ?body
    | [] \<Rightarrow> Some (Inl (syntax_error [] [])))" for f
    by (simp add: maxNestingDepth_def parse_value.simps(2))
  have "parse_value (Suc (2 * length ?text + 1)) 0 (CHR ''{'' # ?body) =
      Some (Inr (JObject (map (\<lambda>(k, v). (k, JString v)) kvs), t))"
  proof (cases "kvs = []")
    case True
    then show ?thesis unfolding open_brace by simp
  next
    case False
    obtain r where r: "?body = dquote # r"
      using False by (cases kvs; cases "tl kvs") (auto simp: json_member_def json_string_def)
    have fuel: "length kvs < 2 * length ?text + 1"
      using strings_Join_length [of "map (json_member h) kvs" "CHR '',''"] by (simp add: json_object_with_def)
    show ?thesis
      unfolding open_brace using parse_members_strings [OF False assms(1) fuel, of "Suc 0" "[]" h t] r by simp
  qed
  moreover have "?text = CHR ''{'' # ?body" by (simp add: json_object_with_def)
  moreover have "2 * length ?text + 2 = Suc (2 * length ?text + 1)" by simp
  ultimately have "parse_value (2 * length ?text + 2) 0 ?text =
      Some (Inr (JObject (map (\<lambda>(k, v). (k, JString v)) kvs), t))" by (simp only:)
  with assms(2) show ?thesis unfolding parse_json_def by simp
qed

lemma valid_utf8_ascii: "ascii s \<Longrightarrow> valid_utf8 s"
proof (induction s)
  case Nil
  show ?case by (subst valid_utf8.simps) simp
next
  case (Cons c s)
  then have "utf8_len (c # s) = 1" by (simp add: ascii_Cons utf8_len_def utf8_first_def)
  with Cons show ?case by (subst valid_utf8.simps) (simp add: ascii_Cons)
qed

definition json_strings :: "(string \<times> string) list \<Rightarrow> json" where
  "json_strings kvs = JObject (map (\<lambda>(k, v). (k, JString v)) kvs)"

definition utf8_members :: "(string \<times> string) list \<Rightarrow> bool" where
  "utf8_members kvs \<longleftrightarrow> list_all (\<lambda>(k, v). valid_utf8 k \<and> valid_utf8 v) kvs"

lemma parse_json_members:
  "utf8_members kvs \<Longrightarrow> skip_ws t = [] \<Longrightarrow> parse_json (json_object_with h kvs @ t) = Inr (json_strings kvs)"
  by (auto simp: utf8_members_def json_strings_def list_all_iff intro!: parse_json_object)

interpretation json_text: codec utf8_members "json_object_with h" parse_json json_strings for h
proof
  show "parse_json (json_object_with h kvs) = Inr (json_strings kvs)" if "utf8_members kvs" for kvs
    using parse_json_members [OF that, of "[]" h] by simp
qed

text \<open>\<^verbatim>\<open>Encode\<close> of a \<^verbatim>\<open>json.Encoder\<close> ends the text with a line feed, which a decoder skips.\<close>

definition json_line :: "bool \<Rightarrow> (string \<times> string) list \<Rightarrow> string" where
  "json_line h kvs = json_object_with h kvs @ [CHR 0x0A]"

interpretation json_stream: codec utf8_members "json_line h" parse_json json_strings for h
proof
  show "parse_json (json_line h kvs) = Inr (json_strings kvs)" if "utf8_members kvs" for kvs
    using parse_json_members [OF that, of "[CHR 0x0A]" h] by (simp add: json_line_def skip_ws_def is_ws_def)
qed

end
