(* ===== verification/Go_Http.thy ===== *)
theory Go_Http
  imports Go_Json "HOL-Library.Char_ord" "HOL-Library.List_Lexorder"
begin

text \<open>
  The parts of \<^verbatim>\<open>net/url\<close>, \<^verbatim>\<open>encoding/base64\<close> and \<^verbatim>\<open>net/http\<close> that the HTTP client of the tests and the HTTP
  side of the broker use: parsing of URLs, query strings, basic authentication, headers and requests. Query strings,
  escaped components and credentials are read back as they were written, stated as interpretations of \<^const>\<open>codec\<close>.
\<close>

section \<open>Strings\<close>

text \<open>\<^verbatim>\<open>strings.Cut\<close> at a character; what follows is empty when the character does not occur.\<close>

definition Cut :: "string \<Rightarrow> char \<Rightarrow> string \<times> string" where
  "Cut s c = (takeWhile (\<lambda>x. x \<noteq> c) s, drop 1 (dropWhile (\<lambda>x. x \<noteq> c) s))"

text \<open>The parts before and after the last occurrence of a character.\<close>

definition cut_last :: "string \<Rightarrow> char \<Rightarrow> (string \<times> string) option" where
  "cut_last s c =
     (if c \<in> set s
      then Some (rev (drop 1 (dropWhile (\<lambda>x. x \<noteq> c) (rev s))), rev (takeWhile (\<lambda>x. x \<noteq> c) (rev s)))
      else None)"

text \<open>The parts before and from the first occurrence of a string.\<close>

fun cut_string :: "string \<Rightarrow> string \<Rightarrow> (string \<times> string) option" where
  "cut_string sub [] = None"
| "cut_string sub (c # s) =
     (if take (length sub) (c # s) = sub then Some ([], c # s)
      else map_option (\<lambda>(a, b). (c # a, b)) (cut_string sub s))"

definition HasPrefix :: "string \<Rightarrow> string \<Rightarrow> bool" where
  "HasPrefix s p \<longleftrightarrow> take (length p) s = p"

text \<open>\<^verbatim>\<open>strconv.Quote\<close>; characters outside ASCII are taken as printable.\<close>

definition quote_ascii :: "char \<Rightarrow> string" where
  "quote_ascii c =
     (let n = of_char c :: nat in
      if c = bslash \<or> c = dquote then [bslash, c]
      else if 7 \<le> n \<and> n \<le> 13 then [bslash, ''abtnvfr'' ! (n - 7)]
      else if n < 32 \<or> n = 127 then [bslash, CHR ''x'', hex_digit (n div 16), hex_digit n]
      else [c])"

function quote_body :: "string \<Rightarrow> string" where
  "quote_body s = (case s of [] \<Rightarrow> [] | c # t \<Rightarrow>
     if (of_char c :: nat) < 128 then quote_ascii c @ quote_body t
     else if utf8_len s = 0
       then [bslash, CHR ''x'', hex_digit (of_char c div 16), hex_digit (of_char c)] @ quote_body t
     else take (utf8_len s) s @ quote_body (drop (utf8_len s) s))"
  by pat_completeness auto
termination by (relation "measure length") auto

declare quote_body.simps [simp del]

definition Quote :: "string \<Rightarrow> string" where
  "Quote s = dquote # quote_body s @ [dquote]"

section \<open>Escapes in URLs\<close>

definition EscapeError :: "string \<Rightarrow> go_error" where
  "EscapeError s = ErrorString (''invalid URL escape '' @ Quote s)"

definition InvalidHostError :: "string \<Rightarrow> go_error" where
  "InvalidHostError s = ErrorString (''invalid character '' @ Quote s @ '' in host name'')"

definition prepend_char :: "char \<Rightarrow> go_error + string \<Rightarrow> go_error + string" where
  "prepend_char c r = (case r of Inl e \<Rightarrow> Inl e | Inr s \<Rightarrow> Inr (c # s))"

text \<open>The value of an escape \<^verbatim>\<open>%ab\<close>, or the escape when the mode forbids it.\<close>

definition unescape_hex :: "url_mode \<Rightarrow> char \<Rightarrow> char \<Rightarrow> go_error + char" where
  "unescape_hex mode a b = (case (hex_value a, hex_value b) of
      (Some x, Some y) \<Rightarrow>
        let v = char_of (16 * x + y) in
        if mode = encodeHost \<and> x < 8 \<and> [a, b] \<noteq> ''25'' then Inl (EscapeError [CHR ''%'', a, b])
        else if mode = encodeZone \<and> [a, b] \<noteq> ''25'' \<and> v \<noteq> CHR '' '' \<and> shouldEscape encodeHost v
          then Inl (EscapeError [CHR ''%'', a, b])
        else Inr v
    | _ \<Rightarrow> Inl (EscapeError [CHR ''%'', a, b]))"

fun unescape :: "url_mode \<Rightarrow> string \<Rightarrow> go_error + string" where
  "unescape mode [] = Inr []"
| "unescape mode (c # s) =
     (if c = CHR ''%'' then
        (case s of
           a # b # r \<Rightarrow> (case unescape_hex mode a b of
               Inl e \<Rightarrow> Inl e
             | Inr v \<Rightarrow> prepend_char v (unescape mode r))
         | _ \<Rightarrow> Inl (EscapeError (c # s)))
      else if c = CHR ''+'' \<and> mode = encodeQueryComponent then prepend_char (CHR '' '') (unescape mode s)
      else if c \<noteq> CHR ''+'' \<and> (mode = encodeHost \<or> mode = encodeZone) \<and> (of_char c :: nat) < 128 \<and> shouldEscape mode c
        then Inl (InvalidHostError [c])
      else prepend_char c (unescape mode s))"

abbreviation QueryEscape :: "string \<Rightarrow> string" where
  "QueryEscape \<equiv> url_escape encodeQueryComponent"

abbreviation QueryUnescape :: "string \<Rightarrow> go_error + string" where
  "QueryUnescape \<equiv> unescape encodeQueryComponent"

section \<open>Query strings\<close>

text \<open>\<^verbatim>\<open>url.Values\<close>: a map from keys to lists of values.\<close>

type_synonym url_values = "string list gomap"

definition Values_Get :: "url_values \<Rightarrow> string \<Rightarrow> string" where
  "Values_Get m k = (case map_of m k of Some (v # _) \<Rightarrow> v | _ \<Rightarrow> [])"

definition Values_Add :: "url_values \<Rightarrow> string \<times> string \<Rightarrow> url_values" where
  "Values_Add m kv = (case kv of (k, v) \<Rightarrow>
     AList.update k ((case map_of m k of Some vs \<Rightarrow> vs | None \<Rightarrow> []) @ [v]) m)"

definition query_pair :: "string \<times> string \<Rightarrow> string" where
  "query_pair kv = QueryEscape (fst kv) @ ''='' @ QueryEscape (snd kv)"

text \<open>Keys in sorted order, the values of a key in theirs.\<close>

definition values_pairs :: "url_values \<Rightarrow> (string \<times> string) list" where
  "values_pairs m = concat (map (\<lambda>k. map (Pair k) (case map_of m k of Some vs \<Rightarrow> vs | None \<Rightarrow> [])) (sort (map fst m)))"

definition Values_Encode :: "url_values \<Rightarrow> string" where
  "Values_Encode m = strings_Join (map query_pair (values_pairs m)) ''&''"

fun split_on :: "char \<Rightarrow> string \<Rightarrow> string list" where
  "split_on c [] = [[]]"
| "split_on c (x # s) = (if x = c then [] # split_on c s
     else (case split_on c s of [] \<Rightarrow> [[x]] | p # ps \<Rightarrow> (x # p) # ps))"

text \<open>\<^verbatim>\<open>url.ParseQuery\<close> goes on after an error and returns what it could read.\<close>

definition query_piece :: "url_values \<times> go_error option \<Rightarrow> string \<Rightarrow> url_values \<times> go_error option" where
  "query_piece st piece = (case st of (m, err) \<Rightarrow>
     let keep = (\<lambda>e. (m, (case err of None \<Rightarrow> Some e | Some e0 \<Rightarrow> Some e0))) in
     if CHR '';'' \<in> set piece then (m, Some (ErrorString ''invalid semicolon separator in query''))
     else if piece = [] then (m, err)
     else (case Cut piece (CHR ''='') of (k, v) \<Rightarrow>
       (case QueryUnescape k of
          Inl e \<Rightarrow> keep e
        | Inr key \<Rightarrow> (case QueryUnescape v of
            Inl e \<Rightarrow> keep e
          | Inr val \<Rightarrow> (Values_Add m (key, val), err)))))"

definition ParseQuery :: "string \<Rightarrow> url_values \<times> go_error option" where
  "ParseQuery query = foldl query_piece ([], None) (split_on (CHR ''&'') query)"

section \<open>URLs\<close>

record URL =
  u_Scheme :: string
  u_Opaque :: string
  u_User :: "(string \<times> string option) option"
  u_Host :: string
  u_Path :: string
  u_RawPath :: string
  u_OmitHost :: bool
  u_ForceQuery :: bool
  u_RawQuery :: string
  u_Fragment :: string
  u_RawFragment :: string

definition emptyURL :: URL where
  "emptyURL = \<lparr>u_Scheme = [], u_Opaque = [], u_User = None, u_Host = [], u_Path = [], u_RawPath = [], u_OmitHost = False,
     u_ForceQuery = False, u_RawQuery = [], u_Fragment = [], u_RawFragment = []\<rparr>"

definition getScheme :: "string \<Rightarrow> go_error + string \<times> string" where
  "getScheme rawURL =
     (let p = takeWhile (\<lambda>c. is_alnum c \<or> c \<in> set ''+-.'') rawURL in
      case drop (length p) rawURL of
        [] \<Rightarrow> Inr ([], rawURL)
      | c # rest \<Rightarrow>
          if c = CHR '':'' \<and> p = [] then Inl (ErrorString ''missing protocol scheme'')
          else if c = CHR '':'' \<and> is_alpha (hd p) then Inr (p, rest)
          else Inr ([], rawURL))"

definition validOptionalPort :: "string \<Rightarrow> bool" where
  "validOptionalPort port = (case port of [] \<Rightarrow> True | c # ds \<Rightarrow> c = CHR '':'' \<and> list_all is_digit ds)"

definition validUserinfo :: "string \<Rightarrow> bool" where
  "validUserinfo s = list_all (\<lambda>c. is_alnum c \<or> c \<in> set ([CHR 0x27] @ ''-._:~!$&()*+,;=%@'')) s"

definition invalid_port :: "string \<Rightarrow> go_error" where
  "invalid_port colonPort = ErrorString (''invalid port '' @ Quote colonPort @ '' after host'')"

definition sum_bind :: "go_error + 'a \<Rightarrow> ('a \<Rightarrow> go_error + 'b) \<Rightarrow> go_error + 'b" where
  "sum_bind r f = (case r of Inl e \<Rightarrow> Inl e | Inr x \<Rightarrow> f x)"

definition parseHost :: "string \<Rightarrow> go_error + string" where
  "parseHost host =
     (if HasPrefix host ''['' then
        (case cut_last host (CHR '']'') of
           None \<Rightarrow> Inl (ErrorString (''missing '' @ [CHR 0x27] @ '']'' @ [CHR 0x27] @ '' in host''))
         | Some (inner, colonPort) \<Rightarrow>
             if \<not> validOptionalPort colonPort then Inl (invalid_port colonPort)
             else (case cut_string ''%25'' inner of
                None \<Rightarrow> unescape encodeHost host
              | Some (addr, zone) \<Rightarrow>
                  sum_bind (unescape encodeHost addr) (\<lambda>host1.
                  sum_bind (unescape encodeZone zone) (\<lambda>host2.
                  sum_bind (unescape encodeHost (CHR '']'' # colonPort)) (\<lambda>host3.
                  Inr (host1 @ host2 @ host3))))))
      else (case cut_last host (CHR '':'') of
         None \<Rightarrow> unescape encodeHost host
       | Some (_, port) \<Rightarrow>
           if \<not> validOptionalPort (CHR '':'' # port) then Inl (invalid_port (CHR '':'' # port))
           else unescape encodeHost host))"

definition parseAuthority :: "string \<Rightarrow> go_error + (string \<times> string option) option \<times> string" where
  "parseAuthority authority = (case cut_last authority (CHR ''@'') of
      None \<Rightarrow> sum_bind (parseHost authority) (\<lambda>host. Inr (None, host))
    | Some (userinfo, h) \<Rightarrow>
        sum_bind (parseHost h) (\<lambda>host.
        if \<not> validUserinfo userinfo then Inl (ErrorString ''net/url: invalid userinfo'')
        else if CHR '':'' \<notin> set userinfo then
          sum_bind (unescape encodeUserPassword userinfo) (\<lambda>u. Inr (Some (u, None), host))
        else (case Cut userinfo (CHR '':'') of (username, password) \<Rightarrow>
          sum_bind (unescape encodeUserPassword username) (\<lambda>u.
          sum_bind (unescape encodeUserPassword password) (\<lambda>p.
          Inr (Some (u, Some p), host))))))"

definition setPath :: "string \<Rightarrow> URL \<Rightarrow> go_error + URL" where
  "setPath p u = sum_bind (unescape encodePath p) (\<lambda>path.
     Inr (u\<lparr>u_Path := path, u_RawPath := (if p = url_escape encodePath path then [] else p)\<rparr>))"

definition setFragment :: "string \<Rightarrow> URL \<Rightarrow> go_error + URL" where
  "setFragment f u = sum_bind (unescape encodeFragment f) (\<lambda>frag.
     Inr (u\<lparr>u_Fragment := frag, u_RawFragment := (if f = url_escape encodeFragment frag then [] else f)\<rparr>))"

text \<open>The authority and the path, for a rest that begins with a slash or has no scheme.\<close>

definition parse_hierarchical :: "URL \<Rightarrow> string \<Rightarrow> go_error + URL" where
  "parse_hierarchical u rest =
     (if (u_Scheme u \<noteq> [] \<or> \<not> HasPrefix rest ''///'') \<and> HasPrefix rest ''//'' then
        (let authority = takeWhile (\<lambda>c. c \<noteq> CHR ''/'') (drop 2 rest) in
         sum_bind (parseAuthority authority) (\<lambda>(user, host).
         setPath (drop (length authority) (drop 2 rest)) (u\<lparr>u_User := user, u_Host := host\<rparr>)))
      else setPath rest (u\<lparr>u_OmitHost := (u_Scheme u \<noteq> [] \<and> HasPrefix rest ''/'')\<rparr>))"

text \<open>\<^verbatim>\<open>parse(rawURL, false)\<close>.\<close>

definition parse_url :: "string \<Rightarrow> go_error + URL" where
  "parse_url rawURL =
     (if \<exists>c \<in> set rawURL. (of_char c :: nat) < 32 \<or> c = CHR 0x7F
        then Inl (ErrorString ''net/url: invalid control character in URL'')
      else if rawURL = ''*'' then Inr (emptyURL\<lparr>u_Path := ''*''\<rparr>)
      else sum_bind (getScheme rawURL) (\<lambda>(scheme, s).
        let u0 = emptyURL\<lparr>u_Scheme := ToLower scheme\<rparr>;
            force = s \<noteq> [] \<and> last s = CHR ''?'' \<and> length (filter (\<lambda>c. c = CHR ''?'') s) = 1;
            rest = (if force then butlast s else fst (Cut s (CHR ''?'')));
            u = (if force then u0\<lparr>u_ForceQuery := True\<rparr> else u0\<lparr>u_RawQuery := snd (Cut s (CHR ''?''))\<rparr>)
        in
        if \<not> HasPrefix rest ''/'' \<and> u_Scheme u \<noteq> [] then Inr (u\<lparr>u_Opaque := rest\<rparr>)
        else if \<not> HasPrefix rest ''/'' \<and> CHR '':'' \<in> set (fst (Cut rest (CHR ''/'')))
          then Inl (ErrorString ''first path segment in URL cannot contain colon'')
        else parse_hierarchical u rest))"

definition parse_failed :: "string \<Rightarrow> go_error \<Rightarrow> go_error" where
  "parse_failed rawURL e = ErrorString (''parse '' @ Quote rawURL @ '': '' @ Error e)"

definition url_Parse :: "string \<Rightarrow> go_error + URL" where
  "url_Parse rawURL = (case Cut rawURL (CHR ''#'') of (s, frag) \<Rightarrow>
     (case parse_url s of
        Inl e \<Rightarrow> Inl (parse_failed s e)
      | Inr u \<Rightarrow> if frag = [] then Inr u
          else (case setFragment frag u of
             Inl e \<Rightarrow> Inl (parse_failed rawURL e)
           | Inr u' \<Rightarrow> Inr u')))"

definition URL_Query :: "URL \<Rightarrow> url_values" where
  "URL_Query u = fst (ParseQuery (u_RawQuery u))"

section \<open>Base 64\<close>

definition b64_alphabet :: string where
  "b64_alphabet = ''ABCDEFGHIJKLMNOPQRSTUVWXYZabcdefghijklmnopqrstuvwxyz0123456789+/''"

definition b64_char :: "nat \<Rightarrow> char" where
  "b64_char n = b64_alphabet ! (n mod 64)"

definition b64_value :: "char \<Rightarrow> nat option" where
  "b64_value c = (let i = length (takeWhile (\<lambda>x. x \<noteq> c) b64_alphabet) in if i < 64 then Some i else None)"

fun b64_encode :: "string \<Rightarrow> string" where
  "b64_encode [] = []"
| "b64_encode [a] = (let n = 16 * of_char a in [b64_char (n div 64), b64_char n, CHR ''='', CHR ''=''])"
| "b64_encode [a, b] = (let n = 4 * (256 * of_char a + of_char b) in
     [b64_char (n div 4096), b64_char (n div 64), b64_char n, CHR ''=''])"
| "b64_encode (a # b # c # s) = (let n = 65536 * of_char a + 256 * of_char b + of_char c in
     [b64_char (n div 262144), b64_char (n div 4096), b64_char (n div 64), b64_char n] @ b64_encode s)"

fun b64_quanta :: "string \<Rightarrow> string option" where
  "b64_quanta [] = Some []"
| "b64_quanta (a # b # c # d # s) = (case (b64_value a, b64_value b) of
      (Some x, Some y) \<Rightarrow>
        if c = CHR ''='' then (if d = CHR ''='' \<and> s = [] then Some [char_of ((64 * x + y) div 16)] else None)
        else (case b64_value c of
            None \<Rightarrow> None
          | Some z \<Rightarrow>
              let n = 64 * (64 * x + y) + z in
              if d = CHR ''='' then (if s = [] then Some [char_of (n div 1024), char_of (n div 4)] else None)
              else (case b64_value d of
                  None \<Rightarrow> None
                | Some v \<Rightarrow> map_option (append [char_of ((64 * n + v) div 65536), char_of ((64 * n + v) div 256),
                      char_of (64 * n + v)]) (b64_quanta s)))
    | _ \<Rightarrow> None)"
| "b64_quanta s = None"

text \<open>\<^verbatim>\<open>base64.StdEncoding.DecodeString\<close> skips line ends.\<close>

definition b64_decode :: "string \<Rightarrow> string option" where
  "b64_decode s = b64_quanta (filter (\<lambda>c. c \<noteq> CHR 0x0D \<and> c \<noteq> CHR 0x0A) s)"

section \<open>Headers and requests\<close>

definition is_token_char :: "char \<Rightarrow> bool" where
  "is_token_char c \<longleftrightarrow> is_alnum c \<or> c \<in> set ([CHR 0x27, CHR 0x60] @ ''!#$%&*+-.^_|~'')"

fun canonical :: "bool \<Rightarrow> string \<Rightarrow> string" where
  "canonical up [] = []"
| "canonical up (c # s) = (if up then char_upper c else char_lower c) # canonical (c = CHR ''-'') s"

definition CanonicalHeaderKey :: "string \<Rightarrow> string" where
  "CanonicalHeaderKey s = (if list_all is_token_char s then canonical True s else s)"

definition Header_Set :: "string \<Rightarrow> string \<Rightarrow> string gomap \<Rightarrow> string gomap" where
  "Header_Set k v h = AList.update (CanonicalHeaderKey k) v h"

definition Header_Get :: "string gomap \<Rightarrow> string \<Rightarrow> string" where
  "Header_Get h k = mindex h (CanonicalHeaderKey k)"

record Request =
  rq_Method :: string
  rq_URL :: URL
  rq_Header :: "string gomap"
  rq_Body :: "string option"

text \<open>The body is what reading it to its end gives.\<close>

record Response =
  rs_StatusCode :: nat
  rs_Body :: "go_error + string"

definition removeEmptyPort :: "string \<Rightarrow> string" where
  "removeEmptyPort host = (case cut_last host (CHR '':'') of
      None \<Rightarrow> host
    | Some (h, port) \<Rightarrow> if CHR '']'' \<in> set port then host else if port = [] then h else host)"

definition NewRequest :: "string \<Rightarrow> string \<Rightarrow> string option \<Rightarrow> go_error + Request" where
  "NewRequest method url body =
     (let method' = (if method = [] then ''GET'' else method) in
      if \<not> list_all is_token_char method'
        then Inl (ErrorString (''net/http: invalid method '' @ Quote method'))
      else sum_bind (url_Parse url) (\<lambda>u.
        Inr \<lparr>rq_Method = method', rq_URL = u\<lparr>u_Host := removeEmptyPort (u_Host u)\<rparr>, rq_Header = [], rq_Body = body\<rparr>))"

definition SetBasicAuth :: "string \<Rightarrow> string \<Rightarrow> Request \<Rightarrow> Request" where
  "SetBasicAuth username password r =
     r\<lparr>rq_Header := Header_Set ''Authorization'' (''Basic '' @ b64_encode (username @ '':'' @ password)) (rq_Header r)\<rparr>"

definition BasicAuth :: "Request \<Rightarrow> (string \<times> string) option" where
  "BasicAuth r =
     (let auth = Header_Get (rq_Header r) ''Authorization'' in
      if map char_lower (take 6 auth) \<noteq> ''basic '' then None
      else (case b64_decode (drop 6 auth) of
         None \<Rightarrow> None
       | Some cs \<Rightarrow> if CHR '':'' \<in> set cs then Some (Cut cs (CHR '':'')) else None))"

text \<open>
  \<^verbatim>\<open>req.FormValue\<close> of a request whose body is not a form, such as every request without a \<^verbatim>\<open>Content-Type\<close>.
\<close>

definition FormValue :: "Request \<Rightarrow> string \<Rightarrow> string" where
  "FormValue r k = Values_Get (URL_Query (rq_URL r)) k"

section \<open>Escaped components are read back\<close>

lemma hex_value_hex_upper [simp]: "hex_value (hex_upper n) = Some (n mod 16)"
proof -
  have "k < 16 \<Longrightarrow> hex_value (''0123456789ABCDEF'' ! k) = Some k" for k :: nat
    by (auto simp: hex_value_def less_Suc_eq numeral_eq_Suc)
  then show ?thesis by (simp add: hex_upper_def)
qed

lemma url_escape_Nil [simp]: "url_escape mode [] = []"
  by (simp add: url_escape_def)

lemma url_escape_Cons:
  "url_escape mode (c # s) = (if \<not> shouldEscape mode c then [c]
     else if c = CHR '' '' \<and> mode = encodeQueryComponent then ''+''
     else [CHR ''%'', hex_upper (of_char c div 16), hex_upper (of_char c)]) @ url_escape mode s"
  by (simp add: url_escape_def)

lemma unescape_hex_upper:
  assumes "mode \<noteq> encodeHost" and "mode \<noteq> encodeZone"
  shows "unescape_hex mode (hex_upper (of_char c div 16)) (hex_upper (of_char c)) = Inr c"
proof -
  have "(of_char c :: nat) div 16 < 16" using nat_of_char_less_256 [of c] by (simp add: less_mult_imp_div_less)
  with assms show ?thesis by (simp add: unescape_hex_def)
qed

text \<open>The modes in which every character may be escaped.\<close>

lemma unescape_url_escape:
  assumes "mode \<in> {encodePath, encodeUserPassword, encodeQueryComponent, encodeFragment}"
  shows "unescape mode (url_escape mode s) = Inr s"
proof (induction s)
  case (Cons c s)
  have *: "shouldEscape mode (CHR ''%'')" "mode = encodeQueryComponent \<Longrightarrow> shouldEscape mode (CHR ''+'')"
    "mode \<noteq> encodeHost" "mode \<noteq> encodeZone"
    using assms by (auto simp: shouldEscape_def is_alnum_def is_alpha_def is_upper_def is_lower_def is_digit_def)
  consider (raw) "\<not> shouldEscape mode c" "c \<noteq> CHR ''%''" "\<not> (c = CHR ''+'' \<and> mode = encodeQueryComponent)"
    | (space) "shouldEscape mode c" "c = CHR '' ''" "mode = encodeQueryComponent"
    | (hex) "shouldEscape mode c" "\<not> (c = CHR '' '' \<and> mode = encodeQueryComponent)"
    using * by blast
  then show ?case
  proof cases
    case raw
    with * Cons.IH show ?thesis by (auto simp: url_escape_Cons prepend_char_def)
  next
    case space
    with Cons.IH show ?thesis by (simp add: url_escape_Cons prepend_char_def)
  next
    case hex
    with Cons.IH have "unescape mode (url_escape mode (c # s)) =
        (case unescape_hex mode (hex_upper (of_char c div 16)) (hex_upper (of_char c)) of
           Inl e \<Rightarrow> Inl e | Inr v \<Rightarrow> prepend_char v (Inr s))"
      by (auto simp: url_escape_Cons split: sum.split)
    then show ?thesis by (simp only: unescape_hex_upper [OF *(3,4)] sum.case prepend_char_def)
  qed
qed simp

interpretation url_component: codec "\<lambda>_. True" "url_escape encodeQueryComponent" "unescape encodeQueryComponent" id
  by unfold_locales (simp add: unescape_url_escape)

lemma set_QueryEscape: "set (QueryEscape s) \<subseteq> {c. is_alnum c \<or> c \<in> set ''-_.~%+''}"
proof (induction s)
  case (Cons c s)
  have "is_alnum (hex_upper n)" for n
  proof -
    have "k < 16 \<Longrightarrow> is_alnum (''0123456789ABCDEF'' ! k)" for k :: nat
      by (auto simp: is_alnum_def is_alpha_def is_upper_def is_lower_def is_digit_def less_Suc_eq numeral_eq_Suc)
    then show ?thesis by (simp add: hex_upper_def)
  qed
  with Cons show ?case by (auto simp: url_escape_Cons shouldEscape_def split: if_splits)
qed simp

lemma QueryEscape_separators:
  "CHR ''&'' \<notin> set (QueryEscape s)" "CHR '';'' \<notin> set (QueryEscape s)" "CHR ''='' \<notin> set (QueryEscape s)"
  using set_QueryEscape [of s] by (auto simp: is_alnum_def is_alpha_def is_upper_def is_lower_def is_digit_def)

section \<open>Query strings are read back\<close>

lemma Cut_append: "c \<notin> set a \<Longrightarrow> Cut (a @ c # b) c = (a, b)"
  by (induction a) (auto simp: Cut_def)

lemma split_on_none: "c \<notin> set p \<Longrightarrow> split_on c p = [p]"
  by (induction p) auto

lemma split_on_append: "c \<notin> set p \<Longrightarrow> split_on c (p @ c # s) = p # split_on c s"
  by (induction p) auto

lemma split_on_Join:
  "ps \<noteq> [] \<Longrightarrow> \<forall>p \<in> set ps. c \<notin> set p \<Longrightarrow> split_on c (strings_Join ps [c]) = ps"
proof (induction ps)
  case (Cons p ps)
  then show ?case by (cases "ps = []") (simp_all add: split_on_none split_on_append strings_Join_Cons)
qed simp

lemma query_piece_pair: "query_piece (m, None) (query_pair kv) = (Values_Add m kv, None)"
proof -
  have cut: "Cut (query_pair kv) (CHR ''='') = (QueryEscape (fst kv), QueryEscape (snd kv))"
    unfolding query_pair_def by (simp add: Cut_append QueryEscape_separators)
  have "CHR '';'' \<notin> set (query_pair kv)" "query_pair kv \<noteq> []"
    by (auto simp: query_pair_def QueryEscape_separators)
  then show ?thesis unfolding query_piece_def prod.case cut by (simp add: unescape_url_escape)
qed

lemma ParseQuery_pairs: "ParseQuery (strings_Join (map query_pair ps) ''&'') = (foldl Values_Add [] ps, None)"
proof -
  have fold: "foldl query_piece (m, None) (map query_pair ps) = (foldl Values_Add m ps, None)" for m
    by (induction ps arbitrary: m) (simp_all add: query_piece_pair)
  show ?thesis
  proof (cases "ps = []")
    case True
    then show ?thesis by (simp add: ParseQuery_def query_piece_def)
  next
    case False
    have "split_on (CHR ''&'') (strings_Join (map query_pair ps) ''&'') = map query_pair ps"
      using False by (intro split_on_Join) (auto simp: query_pair_def QueryEscape_separators)
    with fold show ?thesis by (simp add: ParseQuery_def)
  qed
qed

definition read_query :: "string \<Rightarrow> go_error + url_values" where
  "read_query s = (case ParseQuery s of (m, None) \<Rightarrow> Inr m | (_, Some e) \<Rightarrow> Inl e)"

interpretation query_text: codec "\<lambda>_. True" Values_Encode read_query "\<lambda>m. foldl Values_Add [] (values_pairs m)"
  by unfold_locales (simp add: Values_Encode_def read_query_def ParseQuery_pairs)

lemma map_of_Values_Add:
  "map_of (Values_Add m (k, v)) k' =
     (if k' = k then Some ((case map_of m k of Some vs \<Rightarrow> vs | None \<Rightarrow> []) @ [v]) else map_of m k')"
  by (simp add: Values_Add_def update_conv')

lemma map_of_foldl_Values_Add:
  "map_of (foldl Values_Add m ps) k =
     (let vs = map snd (filter (\<lambda>p. fst p = k) ps) in
      if vs = [] then map_of m k else Some ((case map_of m k of Some us \<Rightarrow> us | None \<Rightarrow> []) @ vs))"
proof (induction ps arbitrary: m)
  case (Cons p ps)
  obtain k0 v0 where p: "p = (k0, v0)" by (cases p)
  show ?case unfolding foldl_Cons Cons.IH p by (auto simp: map_of_Values_Add Let_def)
qed simp

lemma filter_concat_keys:
  assumes "distinct ks"
  shows "filter (\<lambda>p. fst p = k) (concat (map (\<lambda>k. map (Pair k) (f k)) ks)) =
    (if k \<in> set ks then map (Pair k) (f k) else [])"
  using assms by (induction ks) (auto simp: filter_empty_conv)

text \<open>The first value of every key survives.\<close>

lemma Values_Get_query:
  assumes "wf_map m"
  shows "Values_Get (fst (ParseQuery (Values_Encode m))) k = Values_Get m k"
proof -
  let ?vs = "case map_of m k of Some vs \<Rightarrow> vs | None \<Rightarrow> []"
  have "filter (\<lambda>p. fst p = k) (values_pairs m) = (if k \<in> set (map fst m) then map (Pair k) ?vs else [])"
    using assms unfolding values_pairs_def by (subst filter_concat_keys) auto
  moreover have "k \<notin> set (map fst m) \<longleftrightarrow> map_of m k = None" by (simp add: map_of_eq_None_iff)
  ultimately have "map snd (filter (\<lambda>p. fst p = k) (values_pairs m)) = ?vs"
    by (auto simp: comp_def)
  then show ?thesis
    by (simp add: Values_Get_def Values_Encode_def ParseQuery_pairs map_of_foldl_Values_Add Let_def split: option.split list.split)
qed

lemma wf_Values_Add: "wf_map m \<Longrightarrow> wf_map (Values_Add m kv)"
  by (cases kv) (simp add: Values_Add_def distinct_update)

lemma wf_foldl_Values_Add: "wf_map m \<Longrightarrow> wf_map (foldl Values_Add m ps)"
  by (induction ps arbitrary: m) (simp_all add: wf_Values_Add)

section \<open>Credentials are read back\<close>

lemma length_takeWhile_nth: "distinct xs \<Longrightarrow> k < length xs \<Longrightarrow> length (takeWhile (\<lambda>x. x \<noteq> xs ! k) xs) = k"
proof (induction xs arbitrary: k)
  case (Cons x xs)
  then show ?case by (cases k) auto
qed simp

lemma b64_alphabet_facts: "distinct b64_alphabet" "length b64_alphabet = 64"
    "CHR ''='' \<notin> set b64_alphabet" "CHR 0x0D \<notin> set b64_alphabet" "CHR 0x0A \<notin> set b64_alphabet"
  by code_simp+

lemma b64_value_char [simp]: "b64_value (b64_char n) = Some (n mod 64)"
  by (simp add: b64_value_def b64_char_def length_takeWhile_nth b64_alphabet_facts)

lemma b64_char_neq [simp]: "b64_char n \<noteq> CHR ''=''" "b64_char n \<noteq> CHR 0x0D" "b64_char n \<noteq> CHR 0x0A"
proof -
  have "b64_char n \<in> set b64_alphabet" by (simp add: b64_char_def b64_alphabet_facts)
  with b64_alphabet_facts show "b64_char n \<noteq> CHR ''=''" "b64_char n \<noteq> CHR 0x0D" "b64_char n \<noteq> CHR 0x0A" by metis+
qed

lemma no_line_ends: "filter (\<lambda>c. c \<noteq> CHR 0x0D \<and> c \<noteq> CHR 0x0A) (b64_encode s) = b64_encode s"
  by (induction s rule: b64_encode.induct) (simp_all add: Let_def)

text \<open>The three or four digits of a number in base 64.\<close>

lemma base64_digits:
  fixes n :: nat
  shows "n < 4096 \<Longrightarrow> 64 * (n div 64 mod 64) + n mod 64 = n"
    and "n < 262144 \<Longrightarrow> 64 * (64 * (n div 4096 mod 64) + n div 64 mod 64) + n mod 64 = n"
    and "n < 16777216 \<Longrightarrow>
      64 * (64 * (64 * (n div 262144 mod 64) + n div 4096 mod 64) + n div 64 mod 64) + n mod 64 = n"
proof -
  have a: "n div 64 = 64 * (n div 4096) + n div 64 mod 64" using div_mult2_eq [of n 64 64] by simp
  have b: "n div 4096 = 64 * (n div 262144) + n div 4096 mod 64" using div_mult2_eq [of n 4096 64] by simp
  have c: "n = 64 * (n div 64) + n mod 64" by simp
  show "n < 4096 \<Longrightarrow> 64 * (n div 64 mod 64) + n mod 64 = n" using c by simp
  show "n < 262144 \<Longrightarrow> 64 * (64 * (n div 4096 mod 64) + n div 64 mod 64) + n mod 64 = n"
    using a c by simp
  show "n < 16777216 \<Longrightarrow>
      64 * (64 * (64 * (n div 262144 mod 64) + n div 4096 mod 64) + n div 64 mod 64) + n mod 64 = n"
    using a b c by simp
qed

lemma b64_quanta_digits:
  fixes n :: nat
  shows "n < 4096 \<Longrightarrow> b64_quanta [b64_char (n div 64), b64_char n, CHR ''='', CHR ''=''] = Some [char_of (n div 16)]"
    and "n < 262144 \<Longrightarrow> b64_quanta [b64_char (n div 4096), b64_char (n div 64), b64_char n, CHR ''=''] =
      Some [char_of (n div 1024), char_of (n div 4)]"
    and "n < 16777216 \<Longrightarrow>
      b64_quanta (b64_char (n div 262144) # b64_char (n div 4096) # b64_char (n div 64) # b64_char n # s) =
      map_option (append [char_of (n div 65536), char_of (n div 256), char_of n]) (b64_quanta s)"
  using base64_digits [of n] by (simp_all add: Let_def)

lemma char_le: "(of_char c :: nat) \<le> 255"
  using nat_of_char_less_256 [of c] by linarith

lemma char_of_low: "char_of (256 * m + of_char c :: nat) = c"
proof -
  have "(256 * m + of_char c) mod 256 = (of_char c :: nat)" by simp
  then show ?thesis by (metis char_of_mod_256 char_of_char)
qed

lemma three_bytes:
  fixes a b c :: nat
  assumes "b < 256" and "c < 256"
  shows "(65536 * a + 256 * b + c) div 256 = 256 * a + b" and "(65536 * a + 256 * b + c) div 65536 = a"
proof -
  have "65536 * a + 256 * b + c = c + 256 * (256 * a + b)" by simp
  moreover have "(c + 256 * (256 * a + b)) div 256 = 256 * a + b + c div 256" by (rule div_mult_self2) simp
  ultimately show q: "(65536 * a + 256 * b + c) div 256 = 256 * a + b" using assms(2) by simp
  have "(65536 * a + 256 * b + c) div (256 * 256) = (65536 * a + 256 * b + c) div 256 div 256" by (rule div_mult2_eq)
  also have "\<dots> = a" using assms(1) unfolding q by simp
  finally show "(65536 * a + 256 * b + c) div 65536 = a" by simp
qed

lemma b64_quanta_encode: "b64_quanta (b64_encode s) = Some s"
proof (induction s rule: b64_encode.induct)
  case (2 a)
  let ?n = "16 * of_char a :: nat"
  have "?n < 4096" using nat_of_char_less_256 [of a] by simp
  from b64_quanta_digits(1) [OF this] show ?case by (simp only: b64_encode.simps Let_def) simp
next
  case (3 a b)
  let ?n = "4 * (256 * of_char a + of_char b) :: nat"
  have "?n < 262144" using char_le [of a] char_le [of b] by simp
  moreover have "char_of (?n div 1024) = a" "char_of (?n div 4) = b"
    using nat_of_char_less_256 [of b] by (simp_all add: char_of_low)
  ultimately show ?case using b64_quanta_digits(2) [of ?n] by (simp only: b64_encode.simps Let_def)
next
  case (4 a b c s)
  let ?n = "65536 * of_char a + 256 * of_char b + of_char c :: nat"
  have "?n < 16777216"
    using char_le [of a] char_le [of b] char_le [of c] by linarith
  moreover have "char_of (?n div 65536) = a" "char_of (?n div 256) = b" "char_of ?n = c"
    using three_bytes [OF nat_of_char_less_256 [of b] nat_of_char_less_256 [of c], of "of_char a"]
      char_of_low [of "256 * of_char a + of_char b" c]
    by (simp_all add: char_of_low)
  ultimately show ?case
    using 4 b64_quanta_digits(3) [of ?n "b64_encode s"] by (simp only: b64_encode.simps Let_def append_Cons append_Nil) simp
qed simp

lemma b64_decode_encode: "b64_decode (b64_encode s) = Some s"
  by (simp add: b64_decode_def no_line_ends b64_quanta_encode)

lemma Header_Get_Set: "Header_Get (Header_Set k v h) k' =
    (if CanonicalHeaderKey k' = CanonicalHeaderKey k then v else Header_Get h k')"
  by (simp add: Header_Get_def Header_Set_def mindex_def update_conv')

lemma BasicAuth_Set: "CHR '':'' \<notin> set username \<Longrightarrow> BasicAuth (SetBasicAuth username password r) = Some (username, password)"
proof -
  assume u: "CHR '':'' \<notin> set username"
  have "map char_lower ''Basic '' = ''basic ''" by code_simp
  then have "map char_lower (take 6 (''Basic '' @ s)) = ''basic ''" "drop 6 (''Basic '' @ s) = s" for s by simp_all
  with u show ?thesis
    unfolding BasicAuth_def SetBasicAuth_def append.simps(1)
    by (simp add: Header_Get_Set b64_decode_encode Cut_append del: drop_Cons_numeral take_Cons_numeral)
qed

section \<open>Plain URLs\<close>

text \<open>Characters that stand for themselves in a path.\<close>

definition plain_char :: "char \<Rightarrow> bool" where
  "plain_char c \<longleftrightarrow> is_alnum c \<or> c \<in> set ''-._~/''"

abbreviation plain :: "string \<Rightarrow> bool" where
  "plain s \<equiv> list_all plain_char s"

lemma plain_char_facts:
  assumes "plain_char c"
  shows "c \<noteq> CHR ''#''" "c \<noteq> CHR ''?''" "c \<noteq> CHR ''%''" "\<not> (of_char c :: nat) < 32" "c \<noteq> CHR 0x7F"
    "\<not> shouldEscape encodePath c"
  using assms
  by (auto simp: plain_char_def shouldEscape_def is_alnum_def is_alpha_def is_upper_def is_lower_def is_digit_def)

lemma unescape_plain: "plain s \<Longrightarrow> unescape encodePath s = Inr s"
  by (induction s) (auto dest: plain_char_facts simp: prepend_char_def)

lemma setPath_plain: "plain p \<Longrightarrow> setPath p u = Inr (u\<lparr>u_Path := p, u_RawPath := []\<rparr>)"
proof -
  assume "plain p"
  moreover from this have "url_escape encodePath p = p"
    by (intro url_escape_id) (auto simp: list_all_iff dest: plain_char_facts)
  ultimately show ?thesis by (simp add: setPath_def sum_bind_def unescape_plain)
qed

text \<open>An address: a lower-case scheme and an authority, without path, query or fragment.\<close>

definition base_url :: "string \<Rightarrow> string \<Rightarrow> (string \<times> string option) option \<Rightarrow> string \<Rightarrow> bool" where
  "base_url scheme authority user host \<longleftrightarrow>
     scheme \<noteq> [] \<and> list_all is_lower scheme \<and>
     list_all (\<lambda>c. c \<notin> set ''/?#'' \<and> \<not> (of_char c :: nat) < 32 \<and> c \<noteq> CHR 0x7F) authority \<and>
     parseAuthority authority = Inr (user, host)"

definition base_URL :: "string \<Rightarrow> (string \<times> string option) option \<Rightarrow> string \<Rightarrow> string \<Rightarrow> URL" where
  "base_URL scheme user host path = emptyURL\<lparr>u_Scheme := scheme, u_User := user, u_Host := host, u_Path := path\<rparr>"

lemma getScheme_base:
  assumes "scheme \<noteq> []" and "list_all is_lower scheme"
  shows "getScheme (scheme @ CHR '':'' # s) = Inr (scheme, s)"
proof -
  have "takeWhile (\<lambda>c. is_alnum c \<or> c \<in> set ''+-.'') (scheme @ CHR '':'' # s) = scheme"
    using assms(2)
    by (subst takeWhile_append2)
       (auto simp: list_all_iff is_alnum_def is_alpha_def is_upper_def is_lower_def is_digit_def)
  with assms show ?thesis
    by (cases scheme) (simp_all add: getScheme_def is_alpha_def)
qed

lemma ToLower_lower: "list_all is_lower s \<Longrightarrow> ToLower s = s"
proof -
  have "is_lower c \<Longrightarrow> char_lower c = c" for c by (auto simp: char_lower_def is_lower_def is_upper_def)
  then show "list_all is_lower s \<Longrightarrow> ToLower s = s" by (induction s) (simp_all add: ToLower_def)
qed

definition url_char :: "char \<Rightarrow> bool" where
  "url_char c \<longleftrightarrow> c \<noteq> CHR ''#'' \<and> c \<noteq> CHR ''?'' \<and> \<not> (of_char c :: nat) < 32 \<and> c \<noteq> CHR 0x7F"

lemma url_char_base:
  assumes "base_url scheme authority user host" and "plain path"
  shows "list_all url_char (scheme @ ''://'' @ authority @ path)"
proof -
  have "is_lower c \<Longrightarrow> url_char c" for c by (auto simp: url_char_def is_lower_def)
  then have "list_all url_char scheme" using assms(1) by (auto simp: base_url_def list_all_iff)
  moreover have "list_all url_char authority" using assms(1) by (auto simp: base_url_def url_char_def list_all_iff)
  moreover have "list_all url_char path" using assms(2) by (auto simp: url_char_def list_all_iff dest: plain_char_facts)
  moreover have "list_all url_char ''://''" by (simp add: url_char_def)
  ultimately show ?thesis by (simp only: list_all_append)
qed

lemma Cut_none: "c \<notin> set s \<Longrightarrow> Cut s c = (s, [])"
  by (induction s) (auto simp: Cut_def)

lemma parse_url_base:
  assumes base: "base_url scheme authority user host" and path: "plain (CHR ''/'' # path)"
  shows "parse_url (scheme @ ''://'' @ authority @ CHR ''/'' # path) = Inr (base_URL scheme user host (CHR ''/'' # path))"
proof -
  let ?s = "CHR ''/'' # CHR ''/'' # authority @ CHR ''/'' # path" and ?raw = "scheme @ ''://'' @ authority @ CHR ''/'' # path"
  have all: "list_all url_char ?raw" using url_char_base [OF base path] by simp
  then have ctl: "\<not> (\<exists>c \<in> set ?raw. (of_char c :: nat) < 32 \<or> c = CHR 0x7F)"
    unfolding list_all_iff url_char_def by blast
  have raw: "?raw = scheme @ CHR '':'' # ?s" by simp
  have noq: "CHR ''?'' \<notin> set ?s" using all unfolding raw list_all_append by (auto simp: list_all_iff url_char_def)
  then have last: "last ?s \<noteq> CHR ''?''" by (metis last_in_set list.discI)
  have auth: "takeWhile (\<lambda>c. c \<noteq> CHR ''/'') (authority @ CHR ''/'' # path) = authority"
    using base by (subst takeWhile_append2) (auto simp: base_url_def list_all_iff)
  have h: "parse_hierarchical (emptyURL\<lparr>u_Scheme := scheme, u_RawQuery := []\<rparr>) ?s =
      Inr (base_URL scheme user host (CHR ''/'' # path))"
    using base unfolding parse_hierarchical_def
    by (simp add: HasPrefix_def base_url_def auth sum_bind_def setPath_plain [OF path] base_URL_def emptyURL_def)
  have "scheme \<noteq> []" and low: "list_all is_lower scheme" using base by (simp_all add: base_url_def)
  then have "?raw \<noteq> ''*''" by (cases scheme) (auto simp: is_lower_def)
  with ctl h last show ?thesis
    unfolding parse_url_def raw
    by (simp add: getScheme_base [OF \<open>scheme \<noteq> []\<close> low] Cut_none [OF noq] ToLower_lower [OF low] sum_bind_def Let_def HasPrefix_def)
qed

lemma url_Parse_base:
  assumes base: "base_url scheme authority user host" and path: "plain (CHR ''/'' # path)"
  shows "url_Parse (scheme @ ''://'' @ authority @ CHR ''/'' # path) = Inr (base_URL scheme user host (CHR ''/'' # path))"
proof -
  have "CHR ''#'' \<notin> set (scheme @ ''://'' @ authority @ CHR ''/'' # path)"
    using url_char_base [OF base path] unfolding list_all_iff url_char_def by blast
  from Cut_none [OF this] show ?thesis by (simp add: url_Parse_def parse_url_base [OF base path] del: append_Cons)
qed

end
