(* ===== verification/Go_Time.thy ===== *)
theory Go_Time
  imports Go_Strings
begin

text \<open>
  The part of Go's package \<^verbatim>\<open>time\<close> that the program uses: instants, the proleptic Gregorian
  calendar, \<^verbatim>\<open>Time.Format(time.RFC3339)\<close> and \<^verbatim>\<open>time.Parse(time.RFC3339, s)\<close>. The theory shows
  that an instant written with \<^verbatim>\<open>Format\<close> is read back to the second.
\<close>

section \<open>Instants and the calendar\<close>

text \<open>An instant is its number of nanoseconds since 1970-01-01T00:00:00Z.\<close>

type_synonym time = int

abbreviation Second :: int where "Second \<equiv> 1000000000"
abbreviation Minute :: int where "Minute \<equiv> 60 * Second"

definition isLeap :: "int \<Rightarrow> bool" where
  "isLeap y \<longleftrightarrow> y mod 4 = 0 \<and> (y mod 100 \<noteq> 0 \<or> y mod 400 = 0)"

text \<open>Days from 0001-01-01 to the first day of a year.\<close>

definition days_before_year :: "int \<Rightarrow> int" where
  "days_before_year y = 365 * (y - 1) + (y - 1) div 4 - (y - 1) div 100 + (y - 1) div 400"

definition unix_epoch_days :: int where
  "unix_epoch_days = 719162"

definition daysBefore :: "int list" where
  "daysBefore = [0, 31, 59, 90, 120, 151, 181, 212, 243, 273, 304, 334, 365]"

text \<open>\<^verbatim>\<open>absDate\<close>: the year and the day of the year of a day, by cycles of 400, 100, 4 and 1 years.\<close>

definition year_yday :: "int \<Rightarrow> int \<times> int" where
  "year_yday d =
     (let n400 = d div 146097; d1 = d mod 146097;
          q100 = d1 div 36524; n100 = q100 - q100 div 4; d2 = d1 - 36524 * n100;
          n4 = d2 div 1461; d3 = d2 - 1461 * n4;
          q1 = d3 div 365; n1 = q1 - q1 div 4
      in (400 * n400 + 100 * n100 + 4 * n4 + n1 + 1, d3 - 365 * n1))"

text \<open>The month (from 1) and the day of the month of a day of the year.\<close>

definition month_day :: "bool \<Rightarrow> int \<Rightarrow> int \<times> int" where
  "month_day leap yday =
     (if leap \<and> yday = 59 then (2, 29)
      else
        let day = (if leap \<and> yday > 59 then yday - 1 else yday);
            m = day div 31; e = daysBefore ! nat (m + 1)
        in if day \<ge> e then (m + 2, day - e + 1)
           else (m + 1, day - daysBefore ! nat m + 1))"

definition daysIn :: "int \<Rightarrow> int \<Rightarrow> int" where
  "daysIn m year =
     (if m = 2 \<and> isLeap year then 29 else daysBefore ! nat m - daysBefore ! nat (m - 1))"

text \<open>Days from 0001-01-01 to a date (\<^verbatim>\<open>time.Date\<close>).\<close>

definition days_of_date :: "int \<Rightarrow> int \<Rightarrow> int \<Rightarrow> int" where
  "days_of_date year m d =
     days_before_year year + daysBefore ! nat (m - 1) + (if isLeap year \<and> m \<ge> 3 then 1 else 0) + d - 1"

section \<open>Format\<close>

definition pad0 :: "nat \<Rightarrow> int \<Rightarrow> string" where
  "pad0 w x = (let s = show_nat (nat \<bar>x\<bar>) in
     (if x < 0 then ''-'' else []) @ replicate (w - length s) CHR ''0'' @ s)"

text \<open>
  \<^verbatim>\<open>t.Format(time.RFC3339)\<close> in a zone whose offset from UTC is \<open>off\<close> minutes.
\<close>

definition zone_text :: "int \<Rightarrow> string" where
  "zone_text off =
     (if off = 0 then ''Z''
      else (if off < 0 then ''-'' else ''+'') @ pad0 2 (\<bar>off\<bar> div 60) @ '':'' @ pad0 2 (\<bar>off\<bar> mod 60))"

definition Format_RFC3339 :: "int \<Rightarrow> time \<Rightarrow> string" where
  "Format_RFC3339 off t =
     (let local = t div Second + 60 * off;
          (year, yday) = year_yday (local div 86400 + unix_epoch_days);
          (m, d) = month_day (isLeap year) yday;
          sod = local mod 86400
      in pad0 4 year @ ''-'' @ pad0 2 m @ ''-'' @ pad0 2 d @ ''T'' @
         pad0 2 (sod div 3600) @ '':'' @ pad0 2 (sod div 60 mod 60) @ '':'' @ pad0 2 (sod mod 60) @
         zone_text off)"

section \<open>Parse\<close>

text \<open>The text of a \<^verbatim>\<open>time.ParseError\<close>.\<close>

definition time_quote :: "string \<Rightarrow> string" where
  "time_quote s =
     [CHR 0x22] @ concat (map (\<lambda>c. let n = of_char c :: nat in
        if n \<ge> 128 \<or> n < 32 then [CHR 0x5C, CHR ''x'', hex_digit (n div 16), hex_digit n]
        else if n = 34 \<or> n = 92 then [CHR 0x5C, c] else [c]) s) @ [CHR 0x22]"

definition RFC3339 :: string where "RFC3339 = ''2006-01-02T15:04:05Z07:00''"

definition cannot_parse :: "string \<Rightarrow> string \<Rightarrow> string \<Rightarrow> go_error" where
  "cannot_parse v elem rest =
     ErrorString (''parsing time '' @ time_quote v @ '' as '' @ time_quote RFC3339 @
       '': cannot parse '' @ time_quote rest @ '' as '' @ time_quote elem)"

definition parse_message :: "string \<Rightarrow> string \<Rightarrow> go_error" where
  "parse_message v m = ErrorString (''parsing time '' @ time_quote v @ m)"

text \<open>Steps of the parser; each takes the whole value for its error and the rest of the input.\<close>

definition sbind :: "'e + 'a \<Rightarrow> ('a \<Rightarrow> 'e + 'b) \<Rightarrow> 'e + 'b" where
  "sbind r k = (case r of Inl e \<Rightarrow> Inl e | Inr x \<Rightarrow> k x)"

definition getnum :: "bool \<Rightarrow> string \<Rightarrow> (int \<times> string) option" where
  "getnum fixed s = (case s of
      [] \<Rightarrow> None
    | c # t \<Rightarrow>
      if \<not> is_digit c then None
      else (case t of
          d # u \<Rightarrow>
            if is_digit d then Some (int (10 * digit_value c + digit_value d), u)
            else if fixed then None else Some (int (digit_value c), t)
        | [] \<Rightarrow> if fixed then None else Some (int (digit_value c), t)))"

definition expect :: "string \<Rightarrow> char \<Rightarrow> string \<Rightarrow> go_error + string" where
  "expect v c s = (case s of
      d # t \<Rightarrow> if d = c then Inr t else Inl (cannot_parse v [c] s)
    | [] \<Rightarrow> Inl (cannot_parse v [c] s))"

text \<open>A two-digit field with its bounds; the error names the element of the layout.\<close>

definition field2 ::
    "string \<Rightarrow> bool \<Rightarrow> string \<Rightarrow> string \<Rightarrow> int \<Rightarrow> int \<Rightarrow> string \<Rightarrow> go_error + int \<times> string" where
  "field2 v fixed elem name lo hi s = (case getnum fixed s of
      None \<Rightarrow> Inl (cannot_parse v elem s)
    | Some (n, t) \<Rightarrow>
        if n < lo \<or> hi < n then Inl (parse_message v ('': '' @ name @ '' out of range'')) else Inr (n, t))"

definition parse_year :: "string \<Rightarrow> string \<Rightarrow> go_error + int \<times> string" where
  "parse_year v s =
     (if 4 \<le> length s \<and> list_all is_digit (take 4 s) then Inr (int (nat_of_digits (take 4 s)), drop 4 s)
      else Inl (cannot_parse v ''2006'' s))"

text \<open>An optional fraction of a second; digits after the ninth are dropped.\<close>

definition parse_nanos :: "string \<Rightarrow> int \<times> string" where
  "parse_nanos s = (case s of
      p # c # t \<Rightarrow>
        if (p = CHR ''.'' \<or> p = CHR '','') \<and> is_digit c then
          (let ds = takeWhile is_digit (c # t); k = take 9 ds
           in (int (nat_of_digits k * 10 ^ (9 - length k)), dropWhile is_digit (c # t)))
        else (0, s)
    | _ \<Rightarrow> (0, s))"

definition parse_zone :: "string \<Rightarrow> string \<Rightarrow> go_error + int \<times> string" where
  "parse_zone v s =
     (if s \<noteq> [] \<and> hd s = CHR ''Z'' then Inr (0, tl s)
      else if length s < 6 \<or> s ! 3 \<noteq> CHR '':'' then Inl (cannot_parse v ''Z07:00'' s)
      else (case (getnum True (take 2 (drop 1 s)), getnum True (take 2 (drop 4 s))) of
          (Some (hr, _), Some (mm, _)) \<Rightarrow>
            if hr > 24 then Inl (parse_message v '': time zone offset hour out of range'')
            else if mm > 60 then Inl (parse_message v '': time zone offset minute out of range'')
            else if hd s = CHR ''+'' then Inr ((hr * 60 + mm) * 60, drop 6 s)
            else if hd s = CHR ''-'' then Inr (- ((hr * 60 + mm) * 60), drop 6 s)
            else Inl (cannot_parse v ''Z07:00'' (drop 6 s))
        | _ \<Rightarrow> Inl (cannot_parse v ''Z07:00'' (drop 6 s))))"

definition Parse_RFC3339 :: "string \<Rightarrow> go_error + time" where
  "Parse_RFC3339 v =
     sbind (parse_year v v) (\<lambda>(year, s).
     sbind (expect v CHR ''-'' s) (\<lambda>s.
     sbind (field2 v True ''01'' ''month'' 1 12 s) (\<lambda>(m, s).
     sbind (expect v CHR ''-'' s) (\<lambda>s.
     sbind (field2 v True ''02'' ''day'' 0 99 s) (\<lambda>(d, s).
     sbind (expect v CHR ''T'' s) (\<lambda>s.
     sbind (field2 v False ''15'' ''hour'' 0 23 s) (\<lambda>(hh, s).
     sbind (expect v CHR '':'' s) (\<lambda>s.
     sbind (field2 v True ''04'' ''minute'' 0 59 s) (\<lambda>(mi, s).
     sbind (expect v CHR '':'' s) (\<lambda>s.
     sbind (field2 v True ''05'' ''second'' 0 59 s) (\<lambda>(ss, s).
     (case parse_nanos s of (nanos, s) \<Rightarrow>
     sbind (parse_zone v s) (\<lambda>(off, s).
       if s \<noteq> [] then Inl (parse_message v ('': extra text: '' @ time_quote s))
       else if d < 1 \<or> daysIn m year < d then Inl (parse_message v '': day out of range'')
       else Inr (((days_of_date year m d - unix_epoch_days) * 86400 + hh * 3600 + mi * 60 + ss - off)
                 * Second + nanos))))))))))))))"

section \<open>The calendar\<close>

lemma days_before_year_cycles:
  fixes a b c e :: int
  assumes "0 \<le> b" "b \<le> 3" "0 \<le> c" "c \<le> 24" "0 \<le> e" "e \<le> 3"
  shows "days_before_year (400 * a + 100 * b + 4 * c + e + 1) =
    146097 * a + 36524 * b + 1461 * c + 365 * e"
proof -
  let ?y = "400 * a + 100 * b + 4 * c + e"
  have "?y div 4 = 100 * a + 25 * b + c" using assms by (intro int_div_pos_eq [where r = e]) auto
  moreover have "?y div 100 = 4 * a + b" using assms by (intro int_div_pos_eq [where r = "4 * c + e"]) auto
  moreover have "?y div 400 = a" using assms by (intro int_div_pos_eq [where r = "100 * b + 4 * c + e"]) auto
  ultimately show ?thesis by (simp add: days_before_year_def)
qed

lemma isLeap_cycles:
  fixes a b c :: int
  assumes "0 \<le> b" "b \<le> 3" "0 \<le> c" "c \<le> 24" "c \<noteq> 24 \<or> b = 3"
  shows "isLeap (400 * a + 100 * b + 4 * c + 3 + 1)"
proof -
  let ?y = "400 * a + 100 * b + 4 * c + 3 + 1"
  have "?y mod 4 = 0" by (intro int_mod_pos_eq [where q = "100 * a + 25 * b + c + 1"]) auto
  moreover have "?y mod 100 = 4 * c + 4" if "c \<noteq> 24"
    using assms that by (intro int_mod_pos_eq [where q = "4 * a + b"]) auto
  moreover have "?y mod 400 = 0" if "c = 24" "b = 3"
    using that by (intro int_mod_pos_eq [where q = "a + 1"]) auto
  ultimately show ?thesis using assms unfolding isLeap_def by (cases "c = 24") auto
qed

lemma div_bounds: "0 < k \<Longrightarrow> k * (x div k) \<le> x \<and> x < k * (x div k) + k" for k x :: int
  using mult_div_mod_eq [of k x] pos_mod_sign [of k x] pos_mod_bound [of k x] by linarith

text \<open>One cut of a remainder into at most four cycles, the fourth of which may be a day longer.\<close>

lemma four_cycles:
  fixes x k :: int
  assumes "0 \<le> x" "x \<le> 4 * k" "4 < k"
  defines "n \<equiv> x div k - x div k div 4"
  shows "0 \<le> n" "n \<le> 3" "0 \<le> x - k * n" "x - k * n \<le> k" "n < 3 \<Longrightarrow> x - k * n < k"
proof -
  have q: "k * (x div k) \<le> x" "x < k * (x div k) + k" using div_bounds [of k x] assms by auto
  have "0 \<le> x div k" using assms by (simp add: pos_imp_zdiv_nonneg_iff)
  moreover have "x div k \<le> 4"
  proof (rule ccontr)
    assume "\<not> x div k \<le> 4"
    then have "k * 5 \<le> k * (x div k)" using assms by (intro mult_left_mono) auto
    with q assms show False by simp
  qed
  ultimately consider "x div k = 0" | "x div k = 1" | "x div k = 2" | "x div k = 3" | "x div k = 4"
    by linarith
  then show "0 \<le> n" "n \<le> 3" "0 \<le> x - k * n" "x - k * n \<le> k" "n < 3 \<Longrightarrow> x - k * n < k"
    using q assms by (cases; simp add: n_def)+
qed

lemma year_yday_correct:
  assumes "year_yday d = (y, yd)"
  shows "days_before_year y + yd = d" and "0 \<le> yd" and "yd < (if isLeap y then 366 else 365)"
proof -
  define a where "a = d div 146097"
  define d1 where "d1 = d mod 146097"
  define b where "b = d1 div 36524 - d1 div 36524 div 4"
  define d2 where "d2 = d1 - 36524 * b"
  define c where "c = d2 div 1461"
  define d3 where "d3 = d2 - 1461 * c"
  define e where "e = d3 div 365 - d3 div 365 div 4"
  have y: "y = 400 * a + 100 * b + 4 * c + e + 1" and yd: "yd = d3 - 365 * e"
    using assms unfolding year_yday_def Let_def a_def [symmetric] d1_def [symmetric] b_def [symmetric]
      d2_def [symmetric] c_def [symmetric] d3_def [symmetric] e_def [symmetric] prod.inject by auto
  have d: "d = 146097 * a + d1" by (simp add: a_def d1_def)
  have d1: "0 \<le> d1" "d1 \<le> 4 * 36524" by (simp_all add: d1_def)
  note B = four_cycles [OF d1, folded b_def d2_def, simplified]
  have dc: "1461 * c \<le> d2" "d2 < 1461 * c + 1461" using div_bounds [of 1461 d2] by (auto simp: c_def)
  have c: "0 \<le> c" "c \<le> 24" using dc B by linarith+
  have d3: "0 \<le> d3" "d3 \<le> 4 * 365" using dc by (simp_all add: d3_def)
  note E = four_cycles [OF d3, folded e_def yd, simplified]
  show "0 \<le> yd" using E by simp
  show "days_before_year y + yd = d"
    unfolding y days_before_year_cycles [OF B(1,2) c E(1,2)] using yd d d2_def d3_def by simp
  have "isLeap y" if "yd = 365"
  proof -
    have e: "e = 3" using E(2) E(5) that by linarith
    have "c = 24 \<Longrightarrow> \<not> b < 3" using B(5) d3_def yd that e by linarith
    then have "c \<noteq> 24 \<or> b = 3" using B(2) by linarith
    then show ?thesis unfolding y e using B c by (intro isLeap_cycles) auto
  qed
  then show "yd < (if isLeap y then 366 else 365)" using E(4) by (cases "yd = 365") simp_all
qed

lemma month_day_correct:
  assumes "month_day l yd = (m, d)" and "0 \<le> yd" and "yd < (if l then 366 else 365)"
  shows "1 \<le> m" "m \<le> 12" "1 \<le> d" "d \<le> 31"
    and "daysBefore ! nat (m - 1) + (if l \<and> m \<ge> 3 then 1 else 0) + d - 1 = yd"
    and "d \<le> (if m = 2 \<and> l then 29 else daysBefore ! nat m - daysBefore ! nat (m - 1))"
proof -
  define P where "P l yd \<longleftrightarrow> (case month_day l yd of (m, d) \<Rightarrow>
      1 \<le> m \<and> m \<le> 12 \<and> 1 \<le> d \<and> d \<le> 31 \<and>
      daysBefore ! nat (m - 1) + (if l \<and> m \<ge> 3 then 1 else 0) + d - 1 = yd \<and>
      d \<le> (if m = 2 \<and> l then 29 else daysBefore ! nat m - daysBefore ! nat (m - 1)))" for l yd
  have "list_all (P True) [0..365]" and "list_all (P False) [0..364]"
    unfolding P_def by code_simp+
  then have "P l yd" using assms(2,3) by (cases l) (auto simp: list_all_iff)
  with assms(1) show "1 \<le> m" "m \<le> 12" "1 \<le> d" "d \<le> 31"
    "daysBefore ! nat (m - 1) + (if l \<and> m \<ge> 3 then 1 else 0) + d - 1 = yd"
    "d \<le> (if m = 2 \<and> l then 29 else daysBefore ! nat m - daysBefore ! nat (m - 1))"
    by (auto simp: P_def)
qed
section \<open>Formatting and parsing are inverse\<close>

lemma show_nat_1: "n < 10 \<Longrightarrow> show_nat n = [digit_char n]"
  by (simp add: show_nat.simps)

lemma show_nat_step: "\<not> n < 10 \<Longrightarrow> show_nat n = show_nat (n div 10) @ [digit_char (n mod 10)]"
  by (subst show_nat.simps) simp

lemma digit_char_0: "digit_char 0 = CHR ''0''"
  by code_simp

text \<open>A number below \<open>10 ^ w\<close> is written with exactly \<open>w\<close> digits.\<close>

fun digits_w :: "nat \<Rightarrow> nat \<Rightarrow> string" where
  "digits_w 0 n = []"
| "digits_w (Suc w) n = digits_w w (n div 10) @ [digit_char (n mod 10)]"

lemma digits_w_0: "digits_w w 0 = replicate w CHR ''0''"
  by (induction w) (simp_all add: digit_char_0 replicate_append_same)

lemma digits_w_show_nat:
  "0 < w \<Longrightarrow> n < 10 ^ w \<Longrightarrow> length (show_nat n) \<le> w \<and>
   replicate (w - length (show_nat n)) CHR ''0'' @ show_nat n = digits_w w n"
proof (induction w arbitrary: n)
  case (Suc w)
  show ?case
  proof (cases "n < 10")
    case True
    then show ?thesis by (simp add: show_nat_1 digits_w_0 digit_char_0)
  next
    case False
    with Suc.prems have "0 < w" by (cases w) auto
    moreover have "n div 10 < 10 ^ w" using Suc.prems by auto
    ultimately have "length (show_nat (n div 10)) \<le> w \<and>
        replicate (w - length (show_nat (n div 10))) CHR ''0'' @ show_nat (n div 10) = digits_w w (n div 10)"
      by (rule Suc.IH)
    with False show ?thesis by (simp add: show_nat_step [of n])
  qed
qed simp

lemma pad0_digits: "0 < w \<Longrightarrow> 0 \<le> x \<Longrightarrow> x < 10 ^ w \<Longrightarrow> pad0 w x = digits_w w (nat x)"
  using digits_w_show_nat [of w "nat x"] by (simp add: pad0_def nat_less_iff)

lemma length_digits_w [simp]: "length (digits_w w n) = w"
  by (induction w arbitrary: n) simp_all

lemma digits_w_all: "list_all is_digit (digits_w w n)"
  by (induction w arbitrary: n) simp_all

lemma nat_of_digits_w: "n < 10 ^ w \<Longrightarrow> nat_of_digits (digits_w w n) = n"
proof (induction w arbitrary: n)
  case 0
  then show ?case by (simp add: nat_of_digits_def)
next
  case (Suc w)
  then have "n div 10 < 10 ^ w" by auto
  with Suc.IH show ?case by simp
qed

lemma parse_year_pad0:
  assumes "0 \<le> y" and "y < 10000"
  shows "parse_year v (pad0 4 y @ t) = Inr (y, t)"
  using assms digits_w_all [of 4 "nat y"]
  by (simp add: pad0_digits parse_year_def nat_of_digits_w nat_less_iff)

lemma getnum_pad0:
  assumes "0 \<le> x" and "x < 100"
  shows "getnum f (pad0 2 x @ t) = Some (x, t)"
proof -
  have d: "pad0 2 x = [digit_char (nat x div 10), digit_char (nat x mod 10)]"
    using assms by (simp add: pad0_digits numeral_2_eq_2)
  have "nat x div 10 < 10" using assms by (simp add: nat_less_iff)
  then show ?thesis using assms by (simp add: d getnum_def)
qed

lemma field2_pad0:
  "\<lbrakk>0 \<le> lo; lo \<le> x; x \<le> hi; hi < 100\<rbrakk> \<Longrightarrow> field2 v f e n lo hi (pad0 2 x @ t) = Inr (x, t)"
  by (simp add: field2_def getnum_pad0)

lemma expect_Cons: "expect v c (c # t) = Inr t"
  by (simp add: expect_def)

lemma sbind_Inr [simp]: "sbind (Inr x) k = k x"
  by (simp add: sbind_def)

lemma parse_zone_text:
  assumes "\<bar>off\<bar> < 1500"
  shows "parse_zone v (zone_text off) = Inr (off * 60, [])"
proof (cases "off = 0")
  case True
  then show ?thesis by (simp add: zone_text_def parse_zone_def)
next
  case False
  define h where "h = \<bar>off\<bar> div 60"
  define m where "m = \<bar>off\<bar> mod 60"
  have h: "0 \<le> h" "h \<le> 24" and m: "0 \<le> m" "m < 60" using assms by (auto simp: h_def m_def)
  have hm: "\<bar>off\<bar> = h * 60 + m" by (simp add: h_def m_def)
  obtain a b where ab: "pad0 2 h = [a, b]"
    using h by (simp add: pad0_digits numeral_2_eq_2)
  obtain c d where cd: "pad0 2 m = [c, d]"
    using m by (simp add: pad0_digits numeral_2_eq_2)
  have "getnum True [a, b] = Some (h, [])" using getnum_pad0 [of h True "[]"] h ab by simp
  moreover have "getnum True [c, d] = Some (m, [])" using getnum_pad0 [of m True "[]"] m cd by simp
  ultimately show ?thesis
    using False h m hm by (auto simp: zone_text_def parse_zone_def ab cd simp flip: h_def m_def)
qed

lemma parse_nanos_zone: "parse_nanos (zone_text off) = (0, zone_text off)"
  by (simp add: zone_text_def parse_nanos_def split: list.split)

lemma days_before_year_bounds:
  "146097 * (y - 1) - 699 \<le> 400 * days_before_year y"
  "400 * days_before_year y \<le> 146097 * (y - 1) + 396"
  using div_bounds [of 4 "y - 1"] div_bounds [of 100 "y - 1"] div_bounds [of 400 "y - 1"]
  unfolding days_before_year_def by auto

lemma Parse_Format_RFC3339:
  assumes "0 \<le> t div Second + 60 * off" and "t div Second + 60 * off < 253402300800" and "\<bar>off\<bar> < 1500"
  shows "Parse_RFC3339 (Format_RFC3339 off t) = Inr (t - t mod Second)"
proof -
  define sec where "sec = t div Second"
  define local where "local = sec + 60 * off"
  define day where "day = local div 86400"
  define sod where "sod = local mod 86400"
  define hh where "hh = sod div 3600"
  define mi where "mi = sod div 60 mod 60"
  define ss where "ss = sod mod 60"
  obtain y yd where y: "year_yday (day + unix_epoch_days) = (y, yd)"
    by (cases "year_yday (day + unix_epoch_days)")
  obtain m d where md: "month_day (isLeap y) yd = (m, d)" by (cases "month_day (isLeap y) yd")
  note Y = year_yday_correct [OF y] and M = month_day_correct [OF md year_yday_correct(2) [OF y] year_yday_correct(3) [OF y]]
  have l: "0 \<le> local" "local < 253402300800" using assms(1,2) by (simp_all add: local_def sec_def)
  have sod: "0 \<le> sod" "sod < 86400" and local: "local = day * 86400 + sod"
    by (simp_all add: sod_def day_def)
  have day: "0 \<le> day" "day < 2932897" using l sod local by linarith+
  have yd: "yd \<le> 365" using Y(3) by (simp split: if_splits)
  have yr: "0 \<le> y" "y < 10000"
    using Y(1,2) yd day days_before_year_bounds [of y] by (auto simp: unix_epoch_days_def)
  have dd: "\<not> (d < 1 \<or> daysIn m y < d)" using M(3,6) by (simp add: daysIn_def)
  have days: "days_of_date y m d - unix_epoch_days = day"
    using M(5) Y(1) by (simp add: days_of_date_def)
  have ms: "0 \<le> hh" "hh \<le> 23" "0 \<le> mi" "mi \<le> 59" "0 \<le> ss" "ss \<le> 59"
    using div_bounds [of 3600 sod] sod by (auto simp: hh_def mi_def ss_def)
  have sum: "hh * 3600 + mi * 60 + ss = sod"
    using zdiv_zmult2_eq [of 60 sod 60] div_mult_mod_eq [of "sod div 60" 60] div_mult_mod_eq [of sod 60]
    unfolding hh_def mi_def ss_def by presburger
  have F: "field2 v True ''01'' ''month'' 1 12 (pad0 2 m @ s) = Inr (m, s)"
    "field2 v True ''02'' ''day'' 0 99 (pad0 2 d @ s) = Inr (d, s)"
    "field2 v False ''15'' ''hour'' 0 23 (pad0 2 hh @ s) = Inr (hh, s)"
    "field2 v True ''04'' ''minute'' 0 59 (pad0 2 mi @ s) = Inr (mi, s)"
    "field2 v True ''05'' ''second'' 0 59 (pad0 2 ss @ s) = Inr (ss, s)" for v s
    by (rule field2_pad0; use M(1-4) ms in simp)+
  have fmt: "Format_RFC3339 off t = pad0 4 y @ ''-'' @ pad0 2 m @ ''-'' @ pad0 2 d @ ''T'' @
      pad0 2 hh @ '':'' @ pad0 2 mi @ '':'' @ pad0 2 ss @ zone_text off"
    by (simp only: Format_RFC3339_def Let_def sec_def [symmetric] local_def [symmetric] day_def [symmetric]
        y md prod.case sod_def [symmetric] hh_def mi_def ss_def)
  have "Parse_RFC3339 (Format_RFC3339 off t) =
      Inr ((day * 86400 + hh * 3600 + mi * 60 + ss - off * 60) * Second)"
    unfolding Parse_RFC3339_def fmt
    by (simp only: parse_year_pad0 [OF yr] F append_Cons append_Nil expect_Cons sbind_Inr prod.case
        parse_nanos_zone parse_zone_text [OF assms(3)] dd days if_False simp_thms add_0_right)
  also have "day * 86400 + hh * 3600 + mi * 60 + ss - off * 60 = sec"
    using local sum local_def by linarith
  finally show ?thesis by (simp add: minus_mod_eq_div_mult sec_def)
qed

section \<open>Text of an instant\<close>

lemma ascii_pad0 [simp]: "ascii (pad0 w x)"
  by (simp add: pad0_def Let_def ascii_replicate ascii_Cons)

lemma ascii_zone_text [simp]: "ascii (zone_text off)"
  by (simp add: zone_text_def ascii_Cons)

lemma ascii_Format_RFC3339 [simp]: "ascii (Format_RFC3339 off t)"
  by (simp add: Format_RFC3339_def Let_def ascii_Cons split: prod.split)

lemma Format_RFC3339_not_Nil [simp]: "Format_RFC3339 off t \<noteq> []"
  by (simp add: Format_RFC3339_def Let_def split: prod.split)

text \<open>The instants of the years 1970 to 9999 in a zone less than 25 hours from UTC.\<close>

definition printable_time :: "int \<Rightarrow> time \<Rightarrow> bool" where
  "printable_time off t \<longleftrightarrow>
     0 \<le> t div Second + 60 * off \<and> t div Second + 60 * off < 253402300800 \<and> \<bar>off\<bar> < 1500"

definition whole_seconds :: "time \<Rightarrow> time" where
  "whole_seconds t = t - t mod Second"

interpretation rfc3339: codec "printable_time off" "Format_RFC3339 off" Parse_RFC3339 whole_seconds for off
proof
  show "Parse_RFC3339 (Format_RFC3339 off t) = Inr (whole_seconds t)" if "printable_time off t" for t
    using that by (auto simp: printable_time_def whole_seconds_def intro: Parse_Format_RFC3339)
qed

end
