(* ===== verification/Providers.thy ===== *)
theory Providers
  imports Go_Json Go_Time "HOL-Library.Multiset"
begin

text \<open>
  The package \<^verbatim>\<open>providers\<close>: the data exchanged with AWS and with the broker, and the three
  interfaces of the program as records of functions over an abstract world: \<^verbatim>\<open>ElastiCache\<close> and
  \<^verbatim>\<open>SecretsManager\<close> (the remote services, parameters of the whole development) and
  \<^verbatim>\<open>Provider\<close> (implemented by the Redis provider, called by the broker).
  Field names carry a short prefix for their struct, because Isabelle's record fields share one
  name space. A pointer field is an \<open>option\<close>; \<^verbatim>\<open>int64\<close> values are only stored and compared, so they are \<open>int\<close>.
\<close>

section \<open>Contexts\<close>

text \<open>\<^verbatim>\<open>context.Context\<close>: the request's own, or one with a deadline added (in nanoseconds).\<close>

datatype go_context = RequestContext | WithTimeout go_context int

section \<open>Data of the AWS SDK that the program reads\<close>

record Endpoint =
  ep_Address :: "string option"
  ep_Port :: "int option"

record NodeGroupMember =
  ngm_CurrentRole :: "string option"
  ngm_CacheClusterId :: "string option"

record NodeGroup =
  ng_NodeGroupMembers :: "NodeGroupMember list"
  ng_PrimaryEndpoint :: "Endpoint option"

record ReplicationGroup =
  rg_Status :: "string option"
  rg_ReplicationGroupId :: "string option"
  rg_MemberClusters :: "string option list"
  rg_SnapshotWindow :: "string option"
  rg_AutomaticFailover :: "string option"
  rg_NodeGroups :: "NodeGroup list"
  rg_ConfigurationEndpoint :: "Endpoint option"

record CacheCluster =
  cc_EngineVersion :: "string option"
  cc_PreferredMaintenanceWindow :: "string option"

record Parameter =
  pa_ParameterName :: "string option"
  pa_ParameterValue :: "string option"

record Tag =
  tag_Key :: "string option"
  tag_Value :: "string option"

record NodeSnapshot =
  ns_SnapshotCreateTime :: "time option"

record Snapshot =
  sn_SnapshotName :: "string option"
  sn_NodeSnapshots :: "NodeSnapshot list"

section \<open>Inputs of the AWS calls\<close>

record CreateCacheParameterGroupInput =
  ccpg_CacheParameterGroupFamily :: string
  ccpg_CacheParameterGroupName :: string
  ccpg_Description :: string

record ParameterNameValue =
  pnv_ParameterName :: string
  pnv_ParameterValue :: string

record ModifyCacheParameterGroupInput =
  mcpg_ParameterNameValues :: "ParameterNameValue list"
  mcpg_CacheParameterGroupName :: string

record ModifyReplicationGroupInput =
  mrg_ReplicationGroupId :: "string option"
  mrg_PreferredMaintenanceWindow :: "string option"
  mrg_PrimaryClusterId :: "string option"
  mrg_AutomaticFailoverEnabled :: "bool option"
  mrg_MultiAZEnabled :: "bool option"
  mrg_ApplyImmediately :: "bool option"

text \<open>\<^verbatim>\<open>&elasticache.ModifyReplicationGroupInput{}\<close>: all fields nil.\<close>

definition emptyModifyReplicationGroupInput :: ModifyReplicationGroupInput where
  "emptyModifyReplicationGroupInput =
     \<lparr>mrg_ReplicationGroupId = None, mrg_PreferredMaintenanceWindow = None, mrg_PrimaryClusterId = None,
      mrg_AutomaticFailoverEnabled = None, mrg_MultiAZEnabled = None, mrg_ApplyImmediately = None\<rparr>"

record CreateReplicationGroupInput =
  crg_Tags :: "Tag list"
  crg_AtRestEncryptionEnabled :: bool
  crg_TransitEncryptionEnabled :: bool
  crg_AuthToken :: string
  crg_AutomaticFailoverEnabled :: bool
  crg_MultiAZEnabled :: bool
  crg_CacheNodeType :: string
  crg_CacheParameterGroupName :: string
  crg_SecurityGroupIds :: "string list"
  crg_CacheSubnetGroupName :: string
  crg_Engine :: string
  crg_EngineVersion :: string
  crg_PreferredMaintenanceWindow :: string
  crg_ReplicationGroupDescription :: string
  crg_ReplicationGroupId :: string
  crg_NumNodeGroups :: int
  crg_ReplicasPerNodeGroup :: int
  crg_SnapshotName :: "string option"
  crg_SnapshotRetentionLimit :: "int option"
  crg_SnapshotWindow :: "string option"

record DeleteReplicationGroupInput =
  drg_ReplicationGroupId :: string
  drg_FinalSnapshotIdentifier :: "string option"

record CreateSecretInput =
  cs_Name :: string
  cs_SecretString :: string
  cs_KmsKeyId :: string
  cs_Tags :: "Tag list"

record DeleteSecretInput =
  ds_SecretId :: string
  ds_RecoveryWindowInDays :: int

section \<open>The remote services\<close>

text \<open>
  The methods of the interface \<^verbatim>\<open>ElastiCache\<close> that the program calls. An input with a single field
  is that field. \<^verbatim>\<open>DescribeSnapshotsPages\<close> returns the pages it hands to the callback, which always
  asks for the next page.
\<close>

record 'w ElastiCache =
  CreateCacheParameterGroup :: "go_context \<Rightarrow> CreateCacheParameterGroupInput \<Rightarrow> ('w, unit) go"
  CreateReplicationGroup :: "go_context \<Rightarrow> CreateReplicationGroupInput \<Rightarrow> ('w, unit) go"
  DeleteCacheParameterGroupCall :: "go_context \<Rightarrow> string \<Rightarrow> ('w, unit) go"
  DeleteReplicationGroup :: "go_context \<Rightarrow> DeleteReplicationGroupInput \<Rightarrow> ('w, unit) go"
  DescribeReplicationGroups :: "go_context \<Rightarrow> string \<Rightarrow> ('w, ReplicationGroup list) go"
  DescribeCacheClusters :: "go_context \<Rightarrow> string \<Rightarrow> ('w, CacheCluster list) go"
  DescribeCacheParameters :: "go_context \<Rightarrow> string \<Rightarrow> ('w, Parameter list) go"
  ModifyReplicationGroup :: "go_context \<Rightarrow> ModifyReplicationGroupInput \<Rightarrow> ('w, unit) go"
  ModifyCacheParameterGroup :: "go_context \<Rightarrow> ModifyCacheParameterGroupInput \<Rightarrow> ('w, unit) go"
  DescribeSnapshotsPages :: "go_context \<Rightarrow> ('w, Snapshot list list) go"
  ListTagsForResource :: "go_context \<Rightarrow> string \<Rightarrow> ('w, Tag list) go"

record 'w SecretsManager =
  CreateSecret :: "go_context \<Rightarrow> CreateSecretInput \<Rightarrow> ('w, unit) go"
  GetSecretValue :: "go_context \<Rightarrow> string \<Rightarrow> ('w, string option) go"
  DeleteSecret :: "go_context \<Rightarrow> DeleteSecretInput \<Rightarrow> ('w, unit) go"

section \<open>The provider interface\<close>

text \<open>\<^verbatim>\<open>ServiceState\<close> is a string type; these are its named values.\<close>

type_synonym ServiceState = string

definition Creating :: ServiceState where "Creating = ''creating''"
definition Available :: ServiceState where "Available = ''available''"
definition Modifying :: ServiceState where "Modifying = ''modifying''"
definition Deleting :: ServiceState where "Deleting = ''deleting''"
definition CreateFailed :: ServiceState where "CreateFailed = ''create-failed''"
definition Snapshotting :: ServiceState where "Snapshotting = ''snapshotting''"
definition NonExisting :: ServiceState where "NonExisting = ''non-existing''"

lemmas service_state_defs =
  Creating_def Available_def Modifying_def Deleting_def CreateFailed_def Snapshotting_def NonExisting_def

record ProvisionParameters =
  pp_InstanceType :: string
  pp_CacheParameterGroupFamily :: string
  pp_SecurityGroupIds :: "string list"
  pp_CacheSubnetGroupName :: string
  pp_PreferredMaintenanceWindow :: string
  pp_ReplicasPerNodeGroup :: int
  pp_ShardCount :: int
  pp_SnapshotRetentionLimit :: int
  pp_RestoreFromSnapshot :: "string option"
  pp_AutomaticFailoverEnabled :: bool
  pp_MultiAZEnabled :: bool
  pp_Description :: string
  pp_Parameters :: "string gomap"
  pp_Tags :: "string gomap"
  pp_Engine :: string
  pp_EngineVersion :: string

record DeprovisionParameters =
  dp_FinalSnapshotIdentifier :: string

record UpdateReplicationGroupParameters =
  urg_PreferredMaintenanceWindow :: string

record UpdateParamGroupParameters =
  upg_Parameters :: "string gomap"

record SnapshotInfo =
  si_Name :: string
  si_CreateTime :: time
  si_Tags :: "string gomap"

record CacheParameter =
  cp_ParameterName :: string
  cp_ParameterValue :: string

record InstanceParameters =
  ip_PreferredMaintenanceWindow :: string
  ip_DailyBackupWindow :: string
  ip_MaxMemoryPolicy :: string
  ip_CacheParameters :: "CacheParameter list"
  ip_ActiveNodes :: "string list"
  ip_PassiveNodes :: "string list"
  ip_AutoFailover :: bool

definition emptyInstanceParameters :: InstanceParameters where
  "emptyInstanceParameters =
     \<lparr>ip_PreferredMaintenanceWindow = [], ip_DailyBackupWindow = [], ip_MaxMemoryPolicy = [],
      ip_CacheParameters = [], ip_ActiveNodes = [], ip_PassiveNodes = [], ip_AutoFailover = False\<rparr>"

record Credentials =
  cr_Host :: string
  cr_Port :: int
  cr_Name :: string
  cr_Password :: string
  cr_URI :: string
  cr_TLSEnabled :: bool

text \<open>
  The methods of \<^verbatim>\<open>Provider\<close>. \<^verbatim>\<open>ProgressState\<close> and \<^verbatim>\<open>GetInstanceParameters\<close> return a value together with an
  error, so their error is part of the returned tuple.
\<close>

record 'w Provider =
  p_Provision :: "go_context \<Rightarrow> string \<Rightarrow> ProvisionParameters \<Rightarrow> ('w, unit) go"
  p_UpdateReplicationGroup :: "go_context \<Rightarrow> string \<Rightarrow> UpdateReplicationGroupParameters \<Rightarrow> ('w, unit) go"
  p_UpdateParamGroupParameters :: "go_context \<Rightarrow> string \<Rightarrow> UpdateParamGroupParameters \<Rightarrow> ('w, unit) go"
  p_Deprovision :: "go_context \<Rightarrow> string \<Rightarrow> DeprovisionParameters \<Rightarrow> ('w, unit) go"
  p_ProgressState ::
    "go_context \<Rightarrow> string \<Rightarrow> string \<Rightarrow> string \<Rightarrow> ('w, ServiceState \<times> string \<times> go_error option) go"
  p_GetInstanceParameters :: "go_context \<Rightarrow> string \<Rightarrow> ('w, InstanceParameters \<times> go_error option) go"
  p_GetInstanceTags :: "go_context \<Rightarrow> string \<Rightarrow> ('w, string gomap) go"
  p_GenerateCredentials :: "go_context \<Rightarrow> string \<Rightarrow> string \<Rightarrow> ('w, Credentials) go"
  p_RevokeCredentials :: "go_context \<Rightarrow> string \<Rightarrow> string \<Rightarrow> ('w, unit) go"
  p_DeleteCacheParameterGroup :: "go_context \<Rightarrow> string \<Rightarrow> ('w, unit) go"
  p_FindSnapshots :: "go_context \<Rightarrow> string \<Rightarrow> ('w, SnapshotInfo list) go"
  p_StartFailoverTest :: "go_context \<Rightarrow> string \<Rightarrow> ('w, string) go"

section \<open>The contract of a provider\<close>

text \<open>
  What the broker relies on, whatever the services behind the provider do: snapshots are found by
  the tag that names their instance, the methods that return a state or parameters beside an error
  hand every error out in that place, revoking does nothing, and credentials ask for TLS.
\<close>

locale provider_contract =
  fixes P :: "'w Provider"
  assumes find_tagged:
      "p_FindSnapshots P ctx i w = (Ok ss, w') \<Longrightarrow> s \<in> set ss \<Longrightarrow>
       map_of (si_Tags s) ''instance-id'' = Some i"
    and progress_no_error: "no_error (p_ProgressState P ctx i operation old)"
    and parameters_no_error: "no_error (p_GetInstanceParameters P ctx i)"
    and revoke_nothing: "p_RevokeCredentials P ctx i bindingID = ret ()"
    and credentials_tls: "p_GenerateCredentials P ctx i bindingID w = (Ok c, w') \<Longrightarrow> cr_TLSEnabled c"

section \<open>The run-time environment\<close>

text \<open>
  What the program takes from the Go run time and the operating system: the clock and its
  local zone (minutes east of UTC), the source of \<^verbatim>\<open>crypto/rand\<close>, the order in which \<^verbatim>\<open>range\<close>
  visits a map, and \<^verbatim>\<open>sort.Sort\<close> on a slice of snapshots (its algorithm is not stable, so the order
  of equal elements is left open).
\<close>

record 'w go_env =
  time_Now :: "'w \<Rightarrow> time \<times> 'w"
  local_zone :: "time \<Rightarrow> int"
  rand_Int :: "nat \<Rightarrow> ('w, nat) go"
  map_order :: "string list \<Rightarrow> string list"
  sort_Sort :: "(SnapshotInfo \<Rightarrow> SnapshotInfo \<Rightarrow> bool) \<Rightarrow> SnapshotInfo list \<Rightarrow> SnapshotInfo list"

definition read_clock :: "'w go_env \<Rightarrow> ('w, time) go" where
  [go_defs]: "read_clock env w = (case time_Now env w of (t, w') \<Rightarrow> (Ok t, w'))"

text \<open>The simplest environment: a clock that stands still and maps visited in their stored order.\<close>

definition unit_env :: "unit go_env" where
  "unit_env =
     \<lparr>time_Now = \<lambda>w. (0, w), local_zone = \<lambda>t. 0, rand_Int = \<lambda>n w. (Ok 0, w), map_order = id,
      sort_Sort = \<lambda>lt ss. ss\<rparr>"

lemma unit_env_order [simp]: "map_order unit_env = id"
  by (simp add: unit_env_def)

section \<open>The contract of sort.Sort\<close>

text \<open>
  \<^verbatim>\<open>sort.Sort\<close> permutes its slice and leaves it in ascending order of \<^verbatim>\<open>Less\<close>.
\<close>

locale sorter =
  fixes lt :: "'a \<Rightarrow> 'a \<Rightarrow> bool"
    and srt :: "'a list \<Rightarrow> 'a list"
  assumes srt_mset: "mset (srt xs) = mset xs"
    and srt_sorted: "sorted_wrt (\<lambda>x y. \<not> lt y x) (srt xs)"
begin

lemma srt_set: "set (srt xs) = set xs"
  using srt_mset by (metis set_mset_mset)

lemma srt_Nil_iff: "srt xs = [] \<longleftrightarrow> xs = []"
  using srt_set [of xs] by auto

lemma first_in: "xs \<noteq> [] \<Longrightarrow> hd (srt xs) \<in> set xs"
  using srt_set [of xs] srt_Nil_iff [of xs] by (metis hd_in_set)

lemma first_least:
  assumes "y \<in> set xs" and irrefl: "\<not> lt y y"
  shows "\<not> lt y (hd (srt xs))"
proof -
  obtain z zs where z: "srt xs = z # zs"
    using assms(1) srt_Nil_iff by (metis empty_iff list.exhaust set_empty)
  then have "y = z \<or> y \<in> set zs" using assms(1) srt_set by (metis set_ConsD)
  moreover have "\<forall>u \<in> set zs. \<not> lt u z" using srt_sorted [of xs] z by simp
  ultimately show ?thesis using z irrefl by auto
qed

end

text \<open>
  \<^verbatim>\<open>insertionSort\<close> of Go's package \<^verbatim>\<open>sort\<close>, which \<^verbatim>\<open>sort.Sort\<close> runs on slices of up to twelve elements:
  each element is moved left past the elements that are greater. The sorted part is kept with its
  last element first.
\<close>

fun insert_left :: "('a \<Rightarrow> 'a \<Rightarrow> bool) \<Rightarrow> 'a \<Rightarrow> 'a list \<Rightarrow> 'a list" where
  "insert_left lt x [] = [x]"
| "insert_left lt x (y # ys) = (if lt x y then y # insert_left lt x ys else x # y # ys)"

definition insertionSort :: "('a \<Rightarrow> 'a \<Rightarrow> bool) \<Rightarrow> 'a list \<Rightarrow> 'a list" where
  "insertionSort lt xs = rev (foldl (\<lambda>ys x. insert_left lt x ys) [] xs)"

lemma mset_insert_left: "mset (insert_left lt x ys) = add_mset x (mset ys)"
  by (induction ys) auto

lemma set_insert_left: "set (insert_left lt x ys) = insert x (set ys)"
  by (metis mset_insert_left set_mset_add_mset_insert set_mset_mset)

lemma mset_foldl_insert_left: "mset (foldl (\<lambda>ys x. insert_left lt x ys) ys xs) = mset ys + mset xs"
  by (induction xs arbitrary: ys) (simp_all add: mset_insert_left)

lemma mset_insertionSort: "mset (insertionSort lt xs) = mset xs"
  by (simp add: insertionSort_def mset_foldl_insert_left)

text \<open>The order of a slice: \<^verbatim>\<open>Less\<close> is asymmetric and not being less is transitive.\<close>

definition slice_order :: "('a \<Rightarrow> 'a \<Rightarrow> bool) \<Rightarrow> bool" where
  "slice_order lt \<longleftrightarrow>
     (\<forall>x y. lt x y \<longrightarrow> \<not> lt y x) \<and> (\<forall>x y z. \<not> lt x y \<longrightarrow> \<not> lt y z \<longrightarrow> \<not> lt x z)"

lemma sorted_insert_left:
  assumes "slice_order lt" and "sorted_wrt (\<lambda>a b. \<not> lt a b) ys"
  shows "sorted_wrt (\<lambda>a b. \<not> lt a b) (insert_left lt x ys)"
  using assms(2)
proof (induction ys)
  case (Cons y ys)
  show ?case
  proof (cases "lt x y")
    case True
    then have "\<not> lt y x" using assms(1) unfolding slice_order_def by blast
    with True Cons show ?thesis by (simp add: set_insert_left)
  next
    case False
    have "\<not> lt x z" if "z \<in> set ys" for z
      using assms(1) False that Cons.prems unfolding slice_order_def sorted_wrt.simps by metis
    with False Cons.prems show ?thesis by simp
  qed
qed simp

lemma sorted_foldl_insert_left:
  "slice_order lt \<Longrightarrow> sorted_wrt (\<lambda>a b. \<not> lt a b) ys \<Longrightarrow>
   sorted_wrt (\<lambda>a b. \<not> lt a b) (foldl (\<lambda>ys x. insert_left lt x ys) ys xs)"
  by (induction xs arbitrary: ys) (simp_all add: sorted_insert_left)

lemma sorter_insertionSort:
  assumes "slice_order lt"
  shows "sorter lt (insertionSort lt)"
proof
  show "mset (insertionSort lt xs) = mset xs" for xs by (rule mset_insertionSort)
  show "sorted_wrt (\<lambda>x y. \<not> lt y x) (insertionSort lt xs)" for xs
    using sorted_foldl_insert_left [OF assms, of "[]" xs] by (simp add: insertionSort_def sorted_wrt_rev)
qed

end
