(* ===== verification/Config.thy ===== *)
theory Config
  imports Providers
begin

text \<open>
  The broker's configuration, \<^verbatim>\<open>broker/config.go\<close> and \<^verbatim>\<open>broker/tls_config.go\<close>: the plan settings, the
  catalog, loading and validation, and the TLS settings. Of the catalog types of \<^verbatim>\<open>brokerapi\<close> the
  fields that the program reads are kept. Reading the file, decoding its bytes and
  \<^verbatim>\<open>tls.X509KeyPair\<close> are arguments of the operations that use them. The theory shows
  which configurations are accepted and that an accepted one answers for every plan it offers.
\<close>

section \<open>Settings\<close>

record PlanConfig =
  pc_InstanceType :: string
  pc_ReplicasPerNodeGroup :: int
  pc_ShardCount :: int
  pc_SnapshotRetentionLimit :: int
  pc_AutomaticFailoverEnabled :: bool
  pc_MultiAZEnabled :: bool
  pc_Parameters :: "string gomap"
  pc_Engine :: string
  pc_EngineVersion :: string
  pc_CacheParameterGroupFamily :: string

record TLSConfig =
  tls_Certificate :: string
  tls_PrivateKey :: string

record ServicePlan =
  plan_ID :: string
  plan_Name :: string

record Service =
  svc_ID :: string
  svc_Name :: string
  svc_Plans :: "ServicePlan list"

record Config =
  c_LogLevel :: string
  c_Username :: string
  c_Password :: string
  c_Region :: string
  c_BrokerName :: string
  c_CacheSubnetGroupName :: string
  c_VpcSecurityGroupIds :: "string list"
  c_Catalog :: "Service list"
  c_PlanConfigs :: "PlanConfig gomap"
  c_KmsKeyID :: string
  c_SecretsManagerPath :: string
  c_Host :: string
  c_TLS :: "TLSConfig option"

definition ErrNoSuchPlan :: go_error where
  "ErrNoSuchPlan = ErrorString ''no plan found''"

definition DefaultHost :: string where
  "DefaultHost = ''0.0.0.0''"

definition GetPlanConfig :: "Config \<Rightarrow> string \<Rightarrow> go_error + PlanConfig" where
  "GetPlanConfig c planID = (case map_of (c_PlanConfigs c) planID of
      None \<Rightarrow> Inl ErrNoSuchPlan
    | Some plan \<Rightarrow> Inr plan)"

section \<open>TLS settings\<close>

text \<open>
  The \<^verbatim>\<open>tls.Config\<close> that is produced; versions, curves and cipher suites are the protocol's code
  points.
\<close>

record 'cert tls_Config =
  tc_Certificates :: "'cert list"
  tc_MinVersion :: nat
  tc_CurvePreferences :: "nat list"
  tc_PreferServerCipherSuites :: bool
  tc_CipherSuites :: "nat list"

definition VersionTLS12 :: nat where "VersionTLS12 = 0x0303"
definition CurveP256 :: nat where "CurveP256 = 23"
definition CurveP384 :: nat where "CurveP384 = 24"
definition CurveP521 :: nat where "CurveP521 = 25"
definition TLS_ECDHE_RSA_WITH_AES_256_GCM_SHA384 :: nat where
  "TLS_ECDHE_RSA_WITH_AES_256_GCM_SHA384 = 0xC030"
definition TLS_ECDHE_RSA_WITH_AES_256_CBC_SHA :: nat where
  "TLS_ECDHE_RSA_WITH_AES_256_CBC_SHA = 0xC014"
definition TLS_RSA_WITH_AES_256_GCM_SHA384 :: nat where
  "TLS_RSA_WITH_AES_256_GCM_SHA384 = 0x009D"
definition TLS_RSA_WITH_AES_256_CBC_SHA :: nat where
  "TLS_RSA_WITH_AES_256_CBC_SHA = 0x0035"

type_synonym 'cert key_pair = "string \<Rightarrow> string \<Rightarrow> go_error + 'cert"

definition GenerateTLSConfig :: "'cert key_pair \<Rightarrow> TLSConfig \<Rightarrow> go_error + 'cert tls_Config" where
  "GenerateTLSConfig x509 t = (case x509 (tls_Certificate t) (tls_PrivateKey t) of
      Inl err \<Rightarrow> Inl err
    | Inr certificate \<Rightarrow> Inr
        \<lparr>tc_Certificates = [certificate],
         tc_MinVersion = VersionTLS12,
         tc_CurvePreferences = [CurveP521, CurveP384, CurveP256],
         tc_PreferServerCipherSuites = True,
         tc_CipherSuites =
           [TLS_ECDHE_RSA_WITH_AES_256_GCM_SHA384, TLS_ECDHE_RSA_WITH_AES_256_CBC_SHA,
            TLS_RSA_WITH_AES_256_GCM_SHA384, TLS_RSA_WITH_AES_256_CBC_SHA]\<rparr>)"

definition TLS_Validate :: "'cert key_pair \<Rightarrow> TLSConfig \<Rightarrow> go_error option" where
  "TLS_Validate x509 t =
     (if tls_Certificate t = [] then Some (ErrorString ''Config error: TLS certificate required'')
      else if tls_PrivateKey t = [] then Some (ErrorString ''Config error: TLS private key required'')
      else (case x509 (tls_Certificate t) (tls_PrivateKey t) of
         Inl err \<Rightarrow> Some (ErrorString (''Invalid Certificate and key: '' @ Error err))
       | Inr _ \<Rightarrow> None))"

section \<open>Validation and loading\<close>

definition hasPlanConfig :: "Config \<Rightarrow> string \<Rightarrow> bool" where
  "hasPlanConfig c i \<longleftrightarrow> map_of (c_PlanConfigs c) i \<noteq> None"

definition TLSEnabled :: "Config \<Rightarrow> bool" where
  "TLSEnabled c \<longleftrightarrow> c_TLS c \<noteq> None"

definition hasPlan :: "Config \<Rightarrow> string \<Rightarrow> bool" where
  "hasPlan c i \<longleftrightarrow> list_ex (\<lambda>s. list_ex (\<lambda>p. plan_ID p = i) (svc_Plans s)) (c_Catalog c)"

text \<open>The plan IDs in the order in which the two nested loops meet them.\<close>

definition catalog_plans :: "Config \<Rightarrow> string list" where
  "catalog_plans c = concat (map (\<lambda>s. map plan_ID (svc_Plans s)) (c_Catalog c))"

definition Validate :: "'w go_env \<Rightarrow> 'cert key_pair \<Rightarrow> Config \<Rightarrow> go_error option" where
  "Validate env x509 c =
     (if c_LogLevel c = [] then Some (ErrorString ''Must provide a non-empty log_level'')
      else if c_Username c = [] then Some (ErrorString ''Must provide a non-empty username'')
      else if c_Password c = [] then Some (ErrorString ''Must provide a non-empty password'')
      else if c_Region c = [] then Some (ErrorString ''Must provide a non-empty region'')
      else if c_BrokerName c = [] then Some (ErrorString ''Must provide a non-empty broker_name'')
      else if c_CacheSubnetGroupName c = [] then Some (ErrorString ''Must provide a cache_subnet_group_name'')
      else if length (c_VpcSecurityGroupIds c) < 1
        then Some (ErrorString ''Must provide at least one VPC security group ID'')
      else if c_KmsKeyID c = [] then Some (ErrorString ''Must provide a non-empty kms_key_id'')
      else if c_SecretsManagerPath c = [] then Some (ErrorString ''Must provide a non-empty secrets_manager_path'')
      else (case List.find (\<lambda>i. \<not> hasPlanConfig c i) (catalog_plans c) of
         Some i \<Rightarrow> Some (ErrorString (''Plan with ID '' @ i @ '' has no PlanConfig''))
       | None \<Rightarrow>
      (case List.find (\<lambda>k. \<not> hasPlan c k) (map fst (range_map (map_order env) (c_PlanConfigs c))) of
         Some k \<Rightarrow> Some (ErrorString (''PlanConfig '' @ k @ '' not found in catalog''))
       | None \<Rightarrow>
      (case c_TLS c of
         None \<Rightarrow> None
       | Some t \<Rightarrow> (case TLS_Validate x509 t of
           Some err \<Rightarrow> Some (ErrorString (''TLS Validation failed: '' @ Error err))
         | None \<Rightarrow> None)))))"

text \<open>
  \<open>read_file\<close> is \<^verbatim>\<open>os.Open\<close> followed by \<^verbatim>\<open>ioutil.ReadAll\<close>, \<open>decode\<close> is \<^verbatim>\<open>json.Unmarshal\<close> into an empty
  \<^verbatim>\<open>Config\<close>.
\<close>

definition LoadConfig ::
    "'w go_env \<Rightarrow> 'cert key_pair \<Rightarrow> (string \<Rightarrow> go_error + string) \<Rightarrow> (string \<Rightarrow> go_error + Config) \<Rightarrow>
     string \<Rightarrow> go_error + Config" where
  "LoadConfig env x509 read_file decode configFile =
     (if configFile = [] then Inl (ErrorString ''Must provide a config file'')
      else (case read_file configFile of
         Inl err \<Rightarrow> Inl err
       | Inr bytes \<Rightarrow> (case decode bytes of
           Inl err \<Rightarrow> Inl err
         | Inr config \<Rightarrow> (case Validate env x509 config of
             Some err \<Rightarrow> Inl (ErrorString (''Validating config contents: '' @ Error err))
           | None \<Rightarrow> Inr (if c_Host config = [] then config\<lparr>c_Host := DefaultHost\<rparr> else config)))))"

section \<open>Which configurations are accepted\<close>

lemma hasPlan_iff: "hasPlan c i \<longleftrightarrow> i \<in> set (catalog_plans c)"
  by (auto simp: hasPlan_def catalog_plans_def list_ex_iff)

lemma hasPlanConfig_iff: "hasPlanConfig c i \<longleftrightarrow> i \<in> set (map fst (c_PlanConfigs c))"
  by (simp add: hasPlanConfig_def map_of_eq_None_iff)

lemma find_None: "List.find P xs = None \<longleftrightarrow> (\<forall>x \<in> set xs. \<not> P x)"
  by (auto simp: find_None_iff)

lemma TLS_Validate_iff:
  "TLS_Validate x509 t = None \<longleftrightarrow>
     tls_Certificate t \<noteq> [] \<and> tls_PrivateKey t \<noteq> [] \<and>
     (\<exists>cert. x509 (tls_Certificate t) (tls_PrivateKey t) = Inr cert)"
  by (auto simp: TLS_Validate_def split: sum.split)

lemma GenerateTLSConfig_validated:
  "TLS_Validate x509 t = None \<Longrightarrow> \<exists>tc. GenerateTLSConfig x509 t = Inr tc \<and> tc_MinVersion tc = VersionTLS12"
  by (auto simp: TLS_Validate_iff GenerateTLSConfig_def)

text \<open>Every setting is present, plans and plan settings name each other, and the TLS settings work.\<close>

definition settings_present :: "Config \<Rightarrow> bool" where
  "settings_present c \<longleftrightarrow>
     list_all (\<lambda>s. s \<noteq> []) [c_LogLevel c, c_Username c, c_Password c, c_Region c, c_BrokerName c,
       c_CacheSubnetGroupName c, c_KmsKeyID c, c_SecretsManagerPath c] \<and> c_VpcSecurityGroupIds c \<noteq> []"

definition acceptable :: "'cert key_pair \<Rightarrow> Config \<Rightarrow> bool" where
  "acceptable x509 c \<longleftrightarrow>
     settings_present c \<and> set (catalog_plans c) = set (map fst (c_PlanConfigs c)) \<and>
     (case c_TLS c of
        None \<Rightarrow> True
      | Some t \<Rightarrow> tls_Certificate t \<noteq> [] \<and> tls_PrivateKey t \<noteq> [] \<and>
          (case x509 (tls_Certificate t) (tls_PrivateKey t) of Inl _ \<Rightarrow> False | Inr _ \<Rightarrow> True))"

lemma TLS_Validate_case:
  "TLS_Validate x509 t = None \<longleftrightarrow> tls_Certificate t \<noteq> [] \<and> tls_PrivateKey t \<noteq> [] \<and>
     (case x509 (tls_Certificate t) (tls_PrivateKey t) of Inl _ \<Rightarrow> False | Inr _ \<Rightarrow> True)"
  by (auto simp: TLS_Validate_iff split: sum.splits)

lemma acceptable_TLS: "acceptable x509 c \<Longrightarrow> c_TLS c = Some t \<Longrightarrow> TLS_Validate x509 t = None"
  by (simp add: acceptable_def TLS_Validate_case)

lemma Validate_None_iff:
  assumes "visits_all (map_order env)" and "wf_map (c_PlanConfigs c)"
  shows "Validate env x509 c = None \<longleftrightarrow> acceptable x509 c"
proof -
  have keys: "set (map fst (range_map (map_order env) (c_PlanConfigs c))) = set (map fst (c_PlanConfigs c))"
    using assms by (simp add: set_range_map)
  have plans: "List.find (\<lambda>i. \<not> hasPlanConfig c i) (catalog_plans c) = None \<and>
      List.find (\<lambda>k. \<not> hasPlan c k) (map fst (range_map (map_order env) (c_PlanConfigs c))) = None \<longleftrightarrow>
      set (catalog_plans c) = set (map fst (c_PlanConfigs c))"
    unfolding find_None hasPlan_iff hasPlanConfig_iff keys by blast
  have settings: "Validate env x509 c = None \<longleftrightarrow> settings_present c \<and>
      List.find (\<lambda>i. \<not> hasPlanConfig c i) (catalog_plans c) = None \<and>
      List.find (\<lambda>k. \<not> hasPlan c k) (map fst (range_map (map_order env) (c_PlanConfigs c))) = None \<and>
      (case c_TLS c of None \<Rightarrow> True | Some t \<Rightarrow> TLS_Validate x509 t = None)"
    by (simp add: Validate_def settings_present_def not_less_eq_eq split: option.split)
  show ?thesis unfolding settings acceptable_def TLS_Validate_case [symmetric] using plans by blast
qed

lemma LoadConfig_InrE:
  assumes "LoadConfig env x509 read_file decode file = Inr c"
  obtains bytes config where "file \<noteq> []" and "read_file file = Inr bytes" and "decode bytes = Inr config"
    and "Validate env x509 config = None" and "c = (if c_Host config = [] then config\<lparr>c_Host := DefaultHost\<rparr> else config)"
  using assms by (auto simp: LoadConfig_def split: if_splits sum.splits option.splits)

lemma catalog_plans_host [simp]: "catalog_plans (c\<lparr>c_Host := h\<rparr>) = catalog_plans c"
  by (simp add: catalog_plans_def)

lemma acceptable_host [simp]: "acceptable x509 (c\<lparr>c_Host := h\<rparr>) = acceptable x509 c"
  by (simp add: acceptable_def settings_present_def)

text \<open>A decoded map has every key once.\<close>

definition decodes_maps :: "(string \<Rightarrow> go_error + Config) \<Rightarrow> bool" where
  "decodes_maps decode \<longleftrightarrow> (\<forall>bytes c. decode bytes = Inr c \<longrightarrow> wf_map (c_PlanConfigs c))"

lemma LoadConfig_acceptable:
  assumes "visits_all (map_order env)" and "decodes_maps decode"
    and "LoadConfig env x509 read_file decode file = Inr c"
  shows "acceptable x509 c \<and> c_Host c \<noteq> []"
  using assms(3)
proof (rule LoadConfig_InrE)
  fix bytes config
  assume d: "decode bytes = Inr config" and v: "Validate env x509 config = None"
    and c: "c = (if c_Host config = [] then config\<lparr>c_Host := DefaultHost\<rparr> else config)"
  have "wf_map (c_PlanConfigs config)" using assms(2) d by (simp add: decodes_maps_def)
  then have "acceptable x509 config" by (rule iffD1 [OF Validate_None_iff [OF assms(1)] v])
  with c show ?thesis by (auto simp: DefaultHost_def)
qed

lemma acceptable_plan:
  assumes "acceptable x509 c" and "hasPlan c i"
  shows "\<exists>pc. GetPlanConfig c i = Inr pc"
proof -
  have "hasPlanConfig c i" using assms by (simp add: acceptable_def hasPlan_iff hasPlanConfig_iff)
  then show ?thesis by (auto simp: hasPlanConfig_def GetPlanConfig_def)
qed

section \<open>Properties\<close>

definition sample_plan :: PlanConfig where
  "sample_plan =
     \<lparr>pc_InstanceType = ''cache.t3.micro'', pc_ReplicasPerNodeGroup = 1, pc_ShardCount = 1,
      pc_SnapshotRetentionLimit = 7, pc_AutomaticFailoverEnabled = True, pc_MultiAZEnabled = True,
      pc_Parameters = [(''maxmemory-policy'', ''volatile-lru'')], pc_Engine = ''redis'', pc_EngineVersion = ''5.0.6'',
      pc_CacheParameterGroupFamily = ''redis5.0''\<rparr>"

definition sample_config :: Config where
  "sample_config =
     \<lparr>c_LogLevel = ''info'', c_Username = ''user'', c_Password = ''secret'', c_Region = ''eu-west-1'',
      c_BrokerName = ''broker'', c_CacheSubnetGroupName = ''subnets'', c_VpcSecurityGroupIds = [''sg-1''],
      c_Catalog = [\<lparr>svc_ID = ''s1'', svc_Name = ''redis'', svc_Plans = [\<lparr>plan_ID = ''p1'', plan_Name = ''small''\<rparr>]\<rparr>],
      c_PlanConfigs = [(''p1'', sample_plan)], c_KmsKeyID = ''key'', c_SecretsManagerPath = ''elasticache-broker'',
      c_Host = [], c_TLS = Some \<lparr>tls_Certificate = ''cert'', tls_PrivateKey = ''key''\<rparr>\<rparr>"

definition sample_pair :: "string key_pair" where
  "sample_pair cert key = (if cert = ''cert'' \<and> key = ''key'' then Inr ''pair'' else Inl (ErrorString ''tls: no match''))"

text \<open>
  C15: \<^verbatim>\<open>Validate\<close> accepts a configuration exactly when every setting is present, the plans of the catalog and the
  plan settings name the same IDs, and the TLS settings, if any, hold a matching certificate and key. The order in
  which maps are visited has no influence.
\<close>

theorem Validate_accepts:
  assumes "visits_all (map_order env)" and "wf_map (c_PlanConfigs c)"
  shows "Validate env x509 c = None \<longleftrightarrow> acceptable x509 c"
  by (rule Validate_None_iff [OF assms])

lemma sample_acceptable: "acceptable sample_pair sample_config"
  by (simp add: acceptable_def settings_present_def sample_config_def catalog_plans_def sample_pair_def)

theorem Validate_accepts_witness:
  "visits_all (map_order unit_env) \<and> wf_map (c_PlanConfigs sample_config) \<and>
   Validate unit_env sample_pair sample_config = None"
proof -
  have "wf_map (c_PlanConfigs sample_config)" by (simp add: sample_config_def)
  moreover from Validate_accepts [of unit_env sample_config sample_pair, OF _ this]
  have "Validate unit_env sample_pair sample_config = None" by (simp add: sample_acceptable)
  ultimately show ?thesis by simp
qed

text \<open>
  C34: a configuration that \<^verbatim>\<open>LoadConfig\<close> returns has settings for every plan that its catalog offers and an address
  to listen on, and its TLS settings give a TLS configuration that requires at least version 1.2.
\<close>

theorem LoadConfig_complete:
  assumes "visits_all (map_order env)" and "decodes_maps decode"
    and "LoadConfig env x509 read_file decode file = Inr c"
  shows "c_Host c \<noteq> [] \<and> (\<forall>i. hasPlan c i \<longrightarrow> (\<exists>pc. GetPlanConfig c i = Inr pc)) \<and>
    (\<forall>t. c_TLS c = Some t \<longrightarrow> (\<exists>tc. GenerateTLSConfig x509 t = Inr tc \<and> tc_MinVersion tc = VersionTLS12))"
proof -
  from LoadConfig_acceptable [OF assms] have a: "acceptable x509 c" and h: "c_Host c \<noteq> []" by blast+
  have "TLS_Validate x509 t = None" if "c_TLS c = Some t" for t using a that by (rule acceptable_TLS)
  with a h acceptable_plan GenerateTLSConfig_validated show ?thesis by metis
qed

theorem LoadConfig_complete_witness:
  "\<exists>c. LoadConfig unit_env sample_pair (\<lambda>_. Inr ''{}'') (\<lambda>_. Inr sample_config) ''config.json'' = Inr c \<and>
     c_Host c = ''0.0.0.0'' \<and> GetPlanConfig c ''p1'' = Inr sample_plan \<and>
     (\<exists>t tc. c_TLS c = Some t \<and> GenerateTLSConfig sample_pair t = Inr tc \<and> tc_MinVersion tc = VersionTLS12)"
proof -
  let ?c = "sample_config\<lparr>c_Host := DefaultHost\<rparr>"
  have wf: "wf_map (c_PlanConfigs sample_config)" by (simp add: sample_config_def)
  then have "Validate unit_env sample_pair sample_config = None"
    by (simp add: Validate_None_iff sample_acceptable)
  moreover have "c_Host sample_config = []" by (simp add: sample_config_def)
  ultimately have l: "LoadConfig unit_env sample_pair (\<lambda>_. Inr ''{}'') (\<lambda>_. Inr sample_config) ''config.json'' = Inr ?c"
    by (simp add: LoadConfig_def)
  have "decodes_maps (\<lambda>_. Inr sample_config)" using wf by (simp add: decodes_maps_def)
  from LoadConfig_complete [of unit_env "\<lambda>_. Inr sample_config", OF _ this l]
  have "\<forall>t. c_TLS ?c = Some t \<longrightarrow> (\<exists>tc. GenerateTLSConfig sample_pair t = Inr tc \<and> tc_MinVersion tc = VersionTLS12)"
    by simp
  moreover have "c_TLS ?c \<noteq> None" "GetPlanConfig ?c ''p1'' = Inr sample_plan" "c_Host ?c = ''0.0.0.0''"
    by (simp_all add: sample_config_def GetPlanConfig_def DefaultHost_def)
  ultimately show ?thesis using l by blast
qed

end
