(* ===== verification/Broker_Client.thy ===== *)
theory Broker_Client
  imports Go_Http Providers Config
begin

text \<open>
  The client of \<^verbatim>\<open>src/ci/helpers/brokerapi_helper.go\<close>, with which the integration tests drive the broker: the
  requests it builds and what it makes of the answers. The network is the parameter \<open>http_Do\<close>; a response is its status
  and what reading its body gives. Lines printed to the console are left out.
\<close>

section \<open>Types\<close>

record ProvisioningResponse =
  prr_DashboardURL :: string
  prr_Operation :: string

record BindingResponse =
  bir_Credentials :: "json gomap"

record LastOperationResponse =
  lor_State :: string
  lor_Description :: string

record uriParam =
  up_key :: string
  up_value :: string

record BrokerAPIClient =
  bc_URL :: string
  bc_Username :: string
  bc_Password :: string
  bc_DefaultOrganizationID :: string
  bc_DefaultSpaceID :: string
  bc_AcceptsIncomplete :: bool
  bc_CaPEM :: string

text \<open>The TLS side of the transport: the certificates that are trusted, as PEM text, and the expected server.\<close>

record tls_client =
  tc_RootCAs :: string
  tc_ServerName :: string

text \<open>
  \<open>http_Do\<close> is \<^verbatim>\<open>client.Do\<close>, \<open>fmt_response\<close> is how \<^verbatim>\<open>%v\<close> prints a response, and \<open>decode_catalog\<close> is
  \<^verbatim>\<open>json.Unmarshal\<close> into a \<^verbatim>\<open>CatalogResponse\<close>.
\<close>

record 'w http_net =
  http_Do :: "tls_client \<Rightarrow> Request \<Rightarrow> ('w, Response) go"
  fmt_response :: "Response \<Rightarrow> string"
  decode_catalog :: "string \<Rightarrow> go_error + Service list"

definition ByServiceID_Less :: "Service \<Rightarrow> Service \<Rightarrow> bool" where
  "ByServiceID_Less a b \<longleftrightarrow> svc_ID a < svc_ID b"

definition BodyBytes :: "Response \<Rightarrow> ('w, string) go" where
  "BodyBytes resp = lift (rs_Body resp)"

definition NewBrokerAPIClient ::
    "string \<Rightarrow> string \<Rightarrow> string \<Rightarrow> string \<Rightarrow> string \<Rightarrow> string \<Rightarrow> BrokerAPIClient" where
  "NewBrokerAPIClient url username password defaultOrganizationID defaultSpaceID caPEM =
     \<lparr>bc_URL = url, bc_Username = username, bc_Password = password,
      bc_DefaultOrganizationID = defaultOrganizationID, bc_DefaultSpaceID = defaultSpaceID,
      bc_AcceptsIncomplete = False, bc_CaPEM = caPEM\<rparr>"

section \<open>Requests\<close>

text \<open>The request that \<^verbatim>\<open>doRequest\<close> hands to the client, from the one that \<^verbatim>\<open>http.NewRequest\<close> returned.\<close>

definition finish_request :: "BrokerAPIClient \<Rightarrow> uriParam list \<Rightarrow> Request \<Rightarrow> Request" where
  "finish_request b params req =
     (let req' = SetBasicAuth (bc_Username b) (bc_Password b)
            (req\<lparr>rq_Header := Header_Set ''X-Broker-API-Version'' ''2.14'' (rq_Header req)\<rparr>);
          q = foldl (\<lambda>q p. Values_Add q (up_key p, up_value p)) (URL_Query (rq_URL req')) params
      in req'\<lparr>rq_URL := (rq_URL req')\<lparr>u_RawQuery := Values_Encode q\<rparr>\<rparr>)"

definition doRequest ::
    "'w http_net \<Rightarrow> BrokerAPIClient \<Rightarrow> string \<Rightarrow> string \<Rightarrow> string option \<Rightarrow> uriParam list \<Rightarrow> ('w, Response) go" where
  "doRequest net b action path body params =
     andThen (lift (NewRequest action (bc_URL b @ path) body)) (\<lambda>req.
       http_Do net \<lparr>tc_RootCAs = bc_CaPEM b, tc_ServerName = ''example.com''\<rparr> (finish_request b params req))"

definition FormatBool :: "bool \<Rightarrow> string" where
  "FormatBool x = (if x then ''true'' else ''false'')"

definition instance_path :: "string \<Rightarrow> string" where
  "instance_path instanceID = ''/v2/service_instances/'' @ instanceID"

definition binding_path :: "string \<Rightarrow> string \<Rightarrow> string" where
  "binding_path instanceID bindingID = instance_path instanceID @ ''/service_bindings/'' @ bindingID"

definition async_param :: "BrokerAPIClient \<Rightarrow> uriParam" where
  "async_param b = \<lparr>up_key = ''accepts_incomplete'', up_value = FormatBool (bc_AcceptsIncomplete b)\<rparr>"

text \<open>Lines of the bodies; the strings are put between the quotes as they are.\<close>

definition text_line :: "nat \<Rightarrow> string \<Rightarrow> string" where
  "text_line tabs s = CHR 0x0A # replicate tabs (CHR 0x09) @ s"

definition string_member :: "string \<Rightarrow> string \<Rightarrow> string" where
  "string_member k v = [dquote] @ k @ [dquote] @ '': '' @ [dquote] @ v @ [dquote]"

definition raw_member :: "string \<Rightarrow> string \<Rightarrow> string" where
  "raw_member k v = [dquote] @ k @ [dquote] @ '': '' @ v"

definition provision_body :: "BrokerAPIClient \<Rightarrow> string \<Rightarrow> string \<Rightarrow> string \<Rightarrow> string" where
  "provision_body b serviceID planID paramJSON =
     text_line 2 ''{'' @
     text_line 3 (string_member ''service_id'' serviceID @ '','') @
     text_line 3 (string_member ''plan_id'' planID @ '','') @
     text_line 3 (string_member ''organization_guid'' (bc_DefaultOrganizationID b) @ '','') @
     text_line 3 (string_member ''space_guid'' (bc_DefaultSpaceID b) @ '','') @
     text_line 3 (raw_member ''parameters'' paramJSON) @
     text_line 2 ''}'' @
     text_line 1 []"

definition DoProvisionRequest ::
    "'w http_net \<Rightarrow> BrokerAPIClient \<Rightarrow> string \<Rightarrow> string \<Rightarrow> string \<Rightarrow> string \<Rightarrow> ('w, Response) go" where
  "DoProvisionRequest net b instanceID serviceID planID paramJSON =
     doRequest net b ''PUT'' (instance_path instanceID) (Some (provision_body b serviceID planID paramJSON)) [async_param b]"

definition DoDeprovisionRequest ::
    "'w http_net \<Rightarrow> BrokerAPIClient \<Rightarrow> string \<Rightarrow> string \<Rightarrow> string \<Rightarrow> ('w, Response) go" where
  "DoDeprovisionRequest net b instanceID serviceID planID =
     doRequest net b ''DELETE'' (instance_path instanceID) None
       [\<lparr>up_key = ''service_id'', up_value = serviceID\<rparr>, \<lparr>up_key = ''plan_id'', up_value = planID\<rparr>, async_param b]"

definition update_body ::
    "string \<Rightarrow> string \<Rightarrow> string \<Rightarrow> string \<Rightarrow> string \<Rightarrow> string \<Rightarrow> string \<Rightarrow> string" where
  "update_body serviceID planID oldPlanID oldServiceID orgID spaceID paramJSON =
     text_line 2 ''{'' @
     text_line 3 (string_member ''service_id'' serviceID @ '','') @
     text_line 3 (string_member ''plan_id'' planID @ '','') @
     text_line 3 (raw_member ''previous_values'' ''{'') @
     text_line 4 (string_member ''plan_id'' oldPlanID @ '','') @
     text_line 4 (string_member ''service_id'' oldServiceID @ '','') @
     text_line 4 (string_member ''org_id'' orgID @ '','') @
     text_line 4 (string_member ''space_id'' spaceID) @
     text_line 3 ''},'' @
     text_line 3 (raw_member ''parameters'' paramJSON) @
     text_line 2 ''}'' @
     text_line 1 []"

definition DoUpdateRequest ::
    "'w http_net \<Rightarrow> BrokerAPIClient \<Rightarrow> string \<Rightarrow> string \<Rightarrow> string \<Rightarrow> string \<Rightarrow> string \<Rightarrow> string \<Rightarrow> string \<Rightarrow> string \<Rightarrow>
     ('w, Response) go" where
  "DoUpdateRequest net b instanceID serviceID planID oldPlanID oldServiceID orgID spaceID paramJSON =
     doRequest net b ''PATCH'' (instance_path instanceID)
       (Some (update_body serviceID planID oldPlanID oldServiceID orgID spaceID paramJSON)) [async_param b]"

definition DoLastOperationRequest ::
    "'w http_net \<Rightarrow> BrokerAPIClient \<Rightarrow> string \<Rightarrow> string \<Rightarrow> string \<Rightarrow> string \<Rightarrow> ('w, Response) go" where
  "DoLastOperationRequest net b instanceID serviceID planID operation =
     doRequest net b ''GET'' (instance_path instanceID @ ''/last_operation'') None
       [\<lparr>up_key = ''service_id'', up_value = serviceID\<rparr>, \<lparr>up_key = ''plan_id'', up_value = planID\<rparr>,
        \<lparr>up_key = ''operation'', up_value = operation\<rparr>]"

definition DoGetInstanceRequest :: "'w http_net \<Rightarrow> BrokerAPIClient \<Rightarrow> string \<Rightarrow> ('w, Response) go" where
  "DoGetInstanceRequest net b instanceID = doRequest net b ''GET'' (instance_path instanceID) None []"

definition bind_body :: "string \<Rightarrow> string \<Rightarrow> string \<Rightarrow> string" where
  "bind_body serviceID planID appGUID =
     text_line 2 ''{'' @
     text_line 3 (string_member ''service_id'' serviceID @ '','') @
     text_line 3 (string_member ''plan_id'' planID @ '','') @
     text_line 3 (raw_member ''bind_resource'' ''{'') @
     text_line 4 (string_member ''app_guid'' appGUID) @
     text_line 3 ''},'' @
     text_line 3 (raw_member ''parameters'' ''{}'') @
     text_line 2 ''}''"

definition DoBindRequest ::
    "'w http_net \<Rightarrow> BrokerAPIClient \<Rightarrow> string \<Rightarrow> string \<Rightarrow> string \<Rightarrow> string \<Rightarrow> string \<Rightarrow> ('w, Response) go" where
  "DoBindRequest net b instanceID serviceID planID appGUID bindingID =
     doRequest net b ''PUT'' (binding_path instanceID bindingID) (Some (bind_body serviceID planID appGUID)) []"

definition DoUnbindRequest ::
    "'w http_net \<Rightarrow> BrokerAPIClient \<Rightarrow> string \<Rightarrow> string \<Rightarrow> string \<Rightarrow> string \<Rightarrow> ('w, Response) go" where
  "DoUnbindRequest net b instanceID serviceID planID bindingID =
     doRequest net b ''DELETE'' (binding_path instanceID bindingID) None
       [\<lparr>up_key = ''service_id'', up_value = serviceID\<rparr>, \<lparr>up_key = ''plan_id'', up_value = planID\<rparr>]"

section \<open>Decoding answers\<close>

definition set_provisioning_field ::
    "string \<Rightarrow> json \<Rightarrow> ProvisioningResponse \<Rightarrow> go_error + ProvisioningResponse" where
  "set_provisioning_field n v r =
     (let fld = ''ProvisioningResponse.'' @ n in
      if n = ''dashboard_url'' then
        map_sum id (\<lambda>x. r\<lparr>prr_DashboardURL := x\<rparr>) (decode_string fld v (prr_DashboardURL r))
      else map_sum id (\<lambda>x. r\<lparr>prr_Operation := x\<rparr>) (decode_string fld v (prr_Operation r)))"

definition unmarshal_provisioning :: "string \<Rightarrow> go_error + ProvisioningResponse" where
  "unmarshal_provisioning =
     unmarshal_struct ''helpers.ProvisioningResponse'' [''dashboard_url'', ''operation''] set_provisioning_field
       \<lparr>prr_DashboardURL = [], prr_Operation = []\<rparr>"

definition set_last_operation_field ::
    "string \<Rightarrow> json \<Rightarrow> LastOperationResponse \<Rightarrow> go_error + LastOperationResponse" where
  "set_last_operation_field n v r =
     (let fld = ''LastOperationResponse.'' @ n in
      if n = ''state'' then map_sum id (\<lambda>x. r\<lparr>lor_State := x\<rparr>) (decode_string fld v (lor_State r))
      else map_sum id (\<lambda>x. r\<lparr>lor_Description := x\<rparr>) (decode_string fld v (lor_Description r)))"

definition unmarshal_last_operation :: "string \<Rightarrow> go_error + LastOperationResponse" where
  "unmarshal_last_operation =
     unmarshal_struct ''helpers.LastOperationResponse'' [''state'', ''description''] set_last_operation_field
       \<lparr>lor_State = [], lor_Description = []\<rparr>"

definition set_binding_field :: "string \<Rightarrow> json \<Rightarrow> BindingResponse \<Rightarrow> go_error + BindingResponse" where
  "set_binding_field n v r = (case v of
      JNull \<Rightarrow> Inr (r\<lparr>bir_Credentials := []\<rparr>)
    | JObject kvs \<Rightarrow> (case any_member_errors kvs of
        Some e \<Rightarrow> Inl e
      | None \<Rightarrow> Inr (r\<lparr>bir_Credentials := foldl (\<lambda>m (k, x). AList.update k x m) (bir_Credentials r) kvs\<rparr>))
    | _ \<Rightarrow> Inl (JsonTypeError (json_kind v) (''BindingResponse.'' @ n) ''map[string]interface {}''))"

definition unmarshal_binding :: "string \<Rightarrow> go_error + BindingResponse" where
  "unmarshal_binding =
     unmarshal_struct ''helpers.BindingResponse'' [''credentials''] set_binding_field \<lparr>bir_Credentials = []\<rparr>"

text \<open>
  A value into a field of a struct or slice type. Decoding into \<^verbatim>\<open>providers.InstanceDetails\<close>: the fields of the
  embedded \<^verbatim>\<open>GetInstanceDetailsSpec\<close> have the same names as fields of the outer struct and are hidden by them. The
  text of an error names the innermost struct and the whole path. When an array member occurs twice the last one counts.
\<close>

definition decode_struct ::
    "string \<Rightarrow> string \<Rightarrow> string list \<Rightarrow> (string \<Rightarrow> json \<Rightarrow> 'r \<Rightarrow> go_error + 'r) \<Rightarrow> 'r \<Rightarrow> json \<Rightarrow> go_error + 'r" where
  "decode_struct fld tname names setf r v = (case v of
      JNull \<Rightarrow> Inr r
    | JObject kvs \<Rightarrow> (case foldl (store_member names setf) (r, None) kvs of
        (r', None) \<Rightarrow> Inr r'
      | (_, Some e) \<Rightarrow> Inl e)
    | _ \<Rightarrow> Inl (JsonTypeError (json_kind v) fld tname))"

fun decode_elements :: "(json \<Rightarrow> go_error + 'a) \<Rightarrow> json list \<Rightarrow> go_error + 'a list" where
  "decode_elements f [] = Inr []"
| "decode_elements f (x # xs) = (case f x of
      Inl e \<Rightarrow> Inl e
    | Inr y \<Rightarrow> map_sum id (Cons y) (decode_elements f xs))"

definition decode_slice ::
    "string \<Rightarrow> string \<Rightarrow> (json \<Rightarrow> go_error + 'a) \<Rightarrow> json \<Rightarrow> go_error + 'a list" where
  "decode_slice fld tname f v = (case v of
      JNull \<Rightarrow> Inr []
    | JArray xs \<Rightarrow> decode_elements f xs
    | _ \<Rightarrow> Inl (JsonTypeError (json_kind v) fld tname))"

definition decode_bool :: "string \<Rightarrow> json \<Rightarrow> bool \<Rightarrow> go_error + bool" where
  "decode_bool fld v old = (case v of JBool b \<Rightarrow> Inr b | JNull \<Rightarrow> Inr old
     | _ \<Rightarrow> Inl (JsonTypeError (json_kind v) fld ''bool''))"

definition set_cache_parameter_field :: "string \<Rightarrow> json \<Rightarrow> CacheParameter \<Rightarrow> go_error + CacheParameter" where
  "set_cache_parameter_field n v r =
     (let fld = ''CacheParameter.parameters.cache_parameters.'' @ n in
      if n = ''parameter_name'' then
        map_sum id (\<lambda>x. r\<lparr>cp_ParameterName := x\<rparr>) (decode_string fld v (cp_ParameterName r))
      else map_sum id (\<lambda>x. r\<lparr>cp_ParameterValue := x\<rparr>) (decode_string fld v (cp_ParameterValue r)))"

definition decode_cache_parameter :: "json \<Rightarrow> go_error + CacheParameter" where
  "decode_cache_parameter =
     decode_struct ''InstanceParameters.parameters.cache_parameters'' ''providers.CacheParameter''
       [''parameter_name'', ''parameter_value''] set_cache_parameter_field
       \<lparr>cp_ParameterName = [], cp_ParameterValue = []\<rparr>"

definition instance_parameter_fields :: "string list" where
  "instance_parameter_fields =
     [''preferred_maintenance_window'', ''daily_backup_window'', ''maxmemory_policy'', ''cache_parameters'',
      ''active_nodes'', ''passive_nodes'', ''auto_failover'']"

definition set_instance_parameters_field ::
    "string \<Rightarrow> json \<Rightarrow> InstanceParameters \<Rightarrow> go_error + InstanceParameters" where
  "set_instance_parameters_field n v r =
     (let fld = ''InstanceParameters.parameters.'' @ n in
      if n = ''preferred_maintenance_window'' then
        map_sum id (\<lambda>x. r\<lparr>ip_PreferredMaintenanceWindow := x\<rparr>) (decode_string fld v (ip_PreferredMaintenanceWindow r))
      else if n = ''daily_backup_window'' then
        map_sum id (\<lambda>x. r\<lparr>ip_DailyBackupWindow := x\<rparr>) (decode_string fld v (ip_DailyBackupWindow r))
      else if n = ''maxmemory_policy'' then
        map_sum id (\<lambda>x. r\<lparr>ip_MaxMemoryPolicy := x\<rparr>) (decode_string fld v (ip_MaxMemoryPolicy r))
      else if n = ''cache_parameters'' then
        map_sum id (\<lambda>x. r\<lparr>ip_CacheParameters := x\<rparr>) (decode_slice fld ''[]providers.CacheParameter'' decode_cache_parameter v)
      else if n = ''active_nodes'' then
        map_sum id (\<lambda>x. r\<lparr>ip_ActiveNodes := x\<rparr>) (decode_slice fld ''[]string'' (\<lambda>x. decode_string fld x []) v)
      else if n = ''passive_nodes'' then
        map_sum id (\<lambda>x. r\<lparr>ip_PassiveNodes := x\<rparr>) (decode_slice fld ''[]string'' (\<lambda>x. decode_string fld x []) v)
      else map_sum id (\<lambda>x. r\<lparr>ip_AutoFailover := x\<rparr>) (decode_bool fld v (ip_AutoFailover r)))"

record InstanceDetails =
  id_ServiceID :: string
  id_PlanID :: string
  id_DashboardURL :: string
  id_Parameters :: InstanceParameters

definition set_instance_details_field :: "string \<Rightarrow> json \<Rightarrow> InstanceDetails \<Rightarrow> go_error + InstanceDetails" where
  "set_instance_details_field n v r =
     (let fld = ''InstanceDetails.'' @ n in
      if n = ''service_id'' then map_sum id (\<lambda>x. r\<lparr>id_ServiceID := x\<rparr>) (decode_string fld v (id_ServiceID r))
      else if n = ''plan_id'' then map_sum id (\<lambda>x. r\<lparr>id_PlanID := x\<rparr>) (decode_string fld v (id_PlanID r))
      else if n = ''dashboard_url'' then
        map_sum id (\<lambda>x. r\<lparr>id_DashboardURL := x\<rparr>) (decode_string fld v (id_DashboardURL r))
      else
        map_sum id (\<lambda>x. r\<lparr>id_Parameters := x\<rparr>)
          (decode_struct fld ''providers.InstanceParameters'' instance_parameter_fields set_instance_parameters_field
            (id_Parameters r) v))"

definition unmarshal_instance_details :: "string \<Rightarrow> go_error + InstanceDetails" where
  "unmarshal_instance_details =
     unmarshal_struct ''providers.InstanceDetails'' [''service_id'', ''plan_id'', ''dashboard_url'', ''parameters'']
       set_instance_details_field
       \<lparr>id_ServiceID = [], id_PlanID = [], id_DashboardURL = [], id_Parameters = emptyInstanceParameters\<rparr>"

section \<open>Operations\<close>

definition GetCatalog :: "'w http_net \<Rightarrow> BrokerAPIClient \<Rightarrow> ('w, Service list) go" where
  "GetCatalog net b =
     andThen (doRequest net b ''GET'' ''/v2/catalog'' None []) (\<lambda>resp.
     if rs_StatusCode resp \<noteq> 200 then fail (ErrorString (''Invalid catalog response '' @ fmt_response net resp))
     else andThen (BodyBytes resp) (\<lambda>body. lift (decode_catalog net body)))"

text \<open>
  What \<^verbatim>\<open>ProvisionInstance\<close> and \<^verbatim>\<open>DeprovisionInstance\<close> make of an answer: the status with the operation, with nothing
  when the status is not one of success, or with the error.
\<close>

definition read_operation :: "Response \<Rightarrow> ('w, nat \<times> string \<times> go_error option) go" where
  "read_operation resp =
     (let code = rs_StatusCode resp in
      if code \<noteq> 200 \<and> code \<noteq> 201 \<and> code \<noteq> 202 then ret (code, [], None)
      else handle (BodyBytes resp) (\<lambda>err. ret (code, [], Some err)) (\<lambda>body.
        case unmarshal_provisioning body of
          Inl err \<Rightarrow> ret (code, [], Some err)
        | Inr provisioningResponse \<Rightarrow> ret (code, prr_Operation provisioningResponse, None)))"

definition ProvisionInstance ::
    "'w http_net \<Rightarrow> BrokerAPIClient \<Rightarrow> string \<Rightarrow> string \<Rightarrow> string \<Rightarrow> string \<Rightarrow>
     ('w, nat \<times> string \<times> go_error option) go" where
  "ProvisionInstance net b instanceID serviceID planID paramJSON =
     handle (DoProvisionRequest net b instanceID serviceID planID paramJSON) (\<lambda>err. ret (0, [], Some err)) read_operation"

definition DeprovisionInstance ::
    "'w http_net \<Rightarrow> BrokerAPIClient \<Rightarrow> string \<Rightarrow> string \<Rightarrow> string \<Rightarrow>
     ('w, nat \<times> string \<times> go_error option) go" where
  "DeprovisionInstance net b instanceID serviceID planID =
     handle (DoDeprovisionRequest net b instanceID serviceID planID) (\<lambda>err. ret (0, [], Some err)) read_operation"

definition UpdateInstance ::
    "'w http_net \<Rightarrow> BrokerAPIClient \<Rightarrow> string \<Rightarrow> string \<Rightarrow> string \<Rightarrow> string \<Rightarrow> string \<Rightarrow> string \<Rightarrow> string \<Rightarrow> string \<Rightarrow>
     ('w, nat \<times> string \<times> string \<times> go_error option) go" where
  "UpdateInstance net b instanceID serviceID planID oldPlanID oldServiceID orgID spaceID paramJSON =
     handle (DoUpdateRequest net b instanceID serviceID planID oldPlanID oldServiceID orgID spaceID paramJSON)
       (\<lambda>err. ret (0, [], [], Some err)) (\<lambda>resp.
     let code = rs_StatusCode resp in
     handle (BodyBytes resp) (\<lambda>err. ret (code, [], [], Some err)) (\<lambda>body.
       if code \<noteq> 200 \<and> code \<noteq> 201 \<and> code \<noteq> 202 then ret (code, [], body, None)
       else case unmarshal_provisioning body of
          Inl err \<Rightarrow> ret (code, [], body, Some err)
        | Inr provisioningResponse \<Rightarrow> ret (code, prr_Operation provisioningResponse, body, None)))"

definition GetLastOperationState ::
    "'w http_net \<Rightarrow> BrokerAPIClient \<Rightarrow> string \<Rightarrow> string \<Rightarrow> string \<Rightarrow> string \<Rightarrow> ('w, string) go" where
  "GetLastOperationState net b instanceID serviceID planID operation =
     andThen (DoLastOperationRequest net b instanceID serviceID planID operation) (\<lambda>resp.
     andThen (BodyBytes resp) (\<lambda>body.
     if rs_StatusCode resp = 410 then ret ''gone''
     else if rs_StatusCode resp = 200 then
       andThen (lift (unmarshal_last_operation body)) (\<lambda>lastOperationResponse. ret (lor_State lastOperationResponse))
     else fail (ErrorString (''Unknown code '' @ show_nat (rs_StatusCode resp) @ '': '' @ body))))"

definition Client_Bind ::
    "'w http_net \<Rightarrow> BrokerAPIClient \<Rightarrow> string \<Rightarrow> string \<Rightarrow> string \<Rightarrow> string \<Rightarrow> string \<Rightarrow>
     ('w, nat \<times> BindingResponse option \<times> go_error option) go" where
  "Client_Bind net b instanceID serviceID planID appGUID bindingID =
     handle (DoBindRequest net b instanceID serviceID planID appGUID bindingID) (\<lambda>err. ret (0, None, Some err)) (\<lambda>resp.
     let code = rs_StatusCode resp in
     if code \<noteq> 200 \<and> code \<noteq> 201 then ret (code, None, None)
     else handle (BodyBytes resp) (\<lambda>err. ret (code, None, Some err)) (\<lambda>body.
       case unmarshal_binding body of
         Inl err \<Rightarrow> ret (code, None, Some err)
       | Inr bindingResponse \<Rightarrow> ret (code, Some bindingResponse, None)))"

definition Client_Unbind ::
    "'w http_net \<Rightarrow> BrokerAPIClient \<Rightarrow> string \<Rightarrow> string \<Rightarrow> string \<Rightarrow> string \<Rightarrow> ('w, nat \<times> go_error option) go" where
  "Client_Unbind net b instanceID serviceID planID bindingID =
     handle (DoUnbindRequest net b instanceID serviceID planID bindingID) (\<lambda>err. ret (0, Some err))
       (\<lambda>resp. ret (rs_StatusCode resp, None))"

definition GetServiceParams :: "'w http_net \<Rightarrow> BrokerAPIClient \<Rightarrow> string \<Rightarrow> ('w, InstanceParameters) go" where
  "GetServiceParams net b instanceID =
     andThen (DoGetInstanceRequest net b instanceID) (\<lambda>serviceInfo.
     andThen (lift (rs_Body serviceInfo)) (\<lambda>body.
     andThen (lift (unmarshal_instance_details body)) (\<lambda>serviceInfoJSON. ret (id_Parameters serviceInfoJSON))))"

end
