(* ===== verification/Parameters.thy ===== *)
theory Parameters
  imports Providers Go_Json
begin

text \<open>
  The parameters that a user passes with a request, \<^verbatim>\<open>broker/parameters.go\<close>: the JSON bytes are
  first decoded into a map to reject unknown keys and then into the struct. The theory shows which
  bytes are accepted, and that accepted parameters are the ones in the request.
\<close>

definition ParamRestoreLatestSnapshotOf :: string where
  "ParamRestoreLatestSnapshotOf = ''restore_from_latest_snapshot_of''"
definition ParamMaxMemoryPolicy :: string where
  "ParamMaxMemoryPolicy = ''maxmemory_policy''"
definition ParamPreferredMaintenanceWindow :: string where
  "ParamPreferredMaintenanceWindow = ''preferred_maintenance_window''"
definition TestFailover :: string where
  "TestFailover = ''test_failover''"

text \<open>\<^verbatim>\<open>broker.ProvisionParameters\<close> and \<^verbatim>\<open>broker.UpdateParameters\<close>.\<close>

record UserProvisionParameters =
  up_RestoreFromLatestSnapshotOf :: "string option"
  up_MaxMemoryPolicy :: "string option"
  up_PreferredMaintenanceWindow :: string

record UserUpdateParameters =
  uu_MaxMemoryPolicy :: "string option"
  uu_PreferredMaintenanceWindow :: string
  uu_TestFailover :: "bool option"

definition emptyProvisionParameters :: UserProvisionParameters where
  "emptyProvisionParameters =
     \<lparr>up_RestoreFromLatestSnapshotOf = None, up_MaxMemoryPolicy = None, up_PreferredMaintenanceWindow = []\<rparr>"

definition emptyUpdateParameters :: UserUpdateParameters where
  "emptyUpdateParameters =
     \<lparr>uu_MaxMemoryPolicy = None, uu_PreferredMaintenanceWindow = [], uu_TestFailover = None\<rparr>"

section \<open>Storing a member into its field\<close>

definition set_provision_field ::
    "string \<Rightarrow> json \<Rightarrow> UserProvisionParameters \<Rightarrow> go_error + UserProvisionParameters" where
  "set_provision_field n v r =
     (let fld = ''ProvisionParameters.'' @ n in
      if n = ParamRestoreLatestSnapshotOf then
        map_sum id (\<lambda>x. r\<lparr>up_RestoreFromLatestSnapshotOf := x\<rparr>) (decode_string_ptr fld v)
      else if n = ParamMaxMemoryPolicy then
        map_sum id (\<lambda>x. r\<lparr>up_MaxMemoryPolicy := x\<rparr>) (decode_string_ptr fld v)
      else
        map_sum id (\<lambda>x. r\<lparr>up_PreferredMaintenanceWindow := x\<rparr>)
          (decode_string fld v (up_PreferredMaintenanceWindow r)))"

definition set_update_field ::
    "string \<Rightarrow> json \<Rightarrow> UserUpdateParameters \<Rightarrow> go_error + UserUpdateParameters" where
  "set_update_field n v r =
     (let fld = ''UpdateParameters.'' @ n in
      if n = ParamMaxMemoryPolicy then
        map_sum id (\<lambda>x. r\<lparr>uu_MaxMemoryPolicy := x\<rparr>) (decode_string_ptr fld v)
      else if n = ParamPreferredMaintenanceWindow then
        map_sum id (\<lambda>x. r\<lparr>uu_PreferredMaintenanceWindow := x\<rparr>)
          (decode_string fld v (uu_PreferredMaintenanceWindow r))
      else
        map_sum id (\<lambda>x. r\<lparr>uu_TestFailover := x\<rparr>) (decode_bool_ptr fld v))"

section \<open>Parsing\<close>

definition unmarshalParameters ::
    "'w go_env \<Rightarrow> (string \<Rightarrow> go_error + 'r) \<Rightarrow> string list \<Rightarrow> string \<Rightarrow> go_error + 'r" where
  "unmarshalParameters env decode validKeys data = (case unmarshal_map data of
      Inl err \<Rightarrow> Inl err
    | Inr mapParams \<Rightarrow>
        (case List.find (\<lambda>key. key \<notin> set validKeys) (map fst (range_map (map_order env) mapParams)) of
           Some key \<Rightarrow> Inl (ErrorString (''unknown parameter: '' @ key))
         | None \<Rightarrow> decode data))"

definition provision_keys :: "string list" where
  "provision_keys = [ParamRestoreLatestSnapshotOf, ParamMaxMemoryPolicy, ParamPreferredMaintenanceWindow]"

definition update_keys :: "string list" where
  "update_keys = [ParamMaxMemoryPolicy, ParamPreferredMaintenanceWindow, TestFailover]"

definition parseProvisionParameters :: "'w go_env \<Rightarrow> string \<Rightarrow> go_error + UserProvisionParameters" where
  "parseProvisionParameters env data =
     unmarshalParameters env
       (unmarshal_struct ''broker.ProvisionParameters'' provision_keys set_provision_field emptyProvisionParameters)
       provision_keys data"

definition checkIfNoUpdateParametersAreSet :: "UserUpdateParameters \<Rightarrow> bool" where
  "checkIfNoUpdateParametersAreSet params \<longleftrightarrow>
     uu_MaxMemoryPolicy params = None \<and> uu_PreferredMaintenanceWindow params = [] \<and> uu_TestFailover params = None"

definition parseUpdateParameters :: "'w go_env \<Rightarrow> string \<Rightarrow> go_error + UserUpdateParameters" where
  "parseUpdateParameters env data =
     unmarshalParameters env
       (unmarshal_struct ''broker.UpdateParameters'' update_keys set_update_field emptyUpdateParameters)
       update_keys data"

section \<open>Unknown parameters\<close>

lemma unmarshalParameters_cases:
  assumes "unmarshal_map data = Inr m" and "visits_all (map_order env)"
  shows "(\<exists>k. k \<in> set (map fst m) - set validKeys) \<Longrightarrow>
      \<exists>k \<in> set (map fst m) - set validKeys.
        unmarshalParameters env decode validKeys data = Inl (ErrorString (''unknown parameter: '' @ k))"
    and "set (map fst m) \<subseteq> set validKeys \<Longrightarrow> unmarshalParameters env decode validKeys data = decode data"
proof -
  have wf: "wf_map m"
    using assms(1) by (auto simp: unmarshal_map_def wf_foldl_update split: sum.splits json.splits option.splits)
  have keys: "set (map fst (range_map (map_order env) m)) = set (map fst m)"
    using assms(2) wf by (simp add: set_range_map)
  let ?f = "List.find (\<lambda>key. key \<notin> set validKeys) (map fst (range_map (map_order env) m))"
  show "\<exists>k \<in> set (map fst m) - set validKeys.
        unmarshalParameters env decode validKeys data = Inl (ErrorString (''unknown parameter: '' @ k))"
    if "\<exists>k. k \<in> set (map fst m) - set validKeys"
  proof -
    have "?f \<noteq> None" using that unfolding find_None_iff keys by blast
    then obtain k where k: "?f = Some k" by blast
    then have "k \<in> set (map fst m) - set validKeys"
      using keys by (metis DiffI find_Some_iff nth_mem)
    with k assms(1) show ?thesis by (auto simp: unmarshalParameters_def)
  qed
  show "unmarshalParameters env decode validKeys data = decode data" if "set (map fst m) \<subseteq> set validKeys"
  proof -
    have "?f = None" using that unfolding find_None_iff keys by blast
    with assms(1) show ?thesis by (simp add: unmarshalParameters_def)
  qed
qed

section \<open>Parameters given as strings\<close>

lemma unmarshal_map_strings:
  assumes "utf8_members kvs"
  shows "unmarshal_map (json_object kvs) =
    Inr (foldl (\<lambda>m (k, v). AList.update k v m) [] (map (\<lambda>(k, v). (k, JString v)) kvs))"
proof -
  have "any_member_errors (map (\<lambda>(k, v). (k, JString v)) kvs) = None"
    by (induction kvs) auto
  with json_text.decode_encode [OF assms] show ?thesis by (simp add: unmarshal_map_def json_strings_def)
qed

lemma provision_keys_utf8: "k \<in> set provision_keys \<Longrightarrow> valid_utf8 k"
proof -
  have "list_all ascii provision_keys" by code_simp
  then show "k \<in> set provision_keys \<Longrightarrow> valid_utf8 k" by (auto simp: list_all_iff intro: valid_utf8_ascii)
qed

lemma parse_provision_strings:
  assumes "valid_utf8 snapshot" and "valid_utf8 policy" and "valid_utf8 window" and "visits_all (map_order env)"
  shows "parseProvisionParameters env (json_object
      [(ParamRestoreLatestSnapshotOf, snapshot), (ParamMaxMemoryPolicy, policy),
       (ParamPreferredMaintenanceWindow, window)]) =
    Inr \<lparr>up_RestoreFromLatestSnapshotOf = Some snapshot, up_MaxMemoryPolicy = Some policy,
         up_PreferredMaintenanceWindow = window\<rparr>"
proof -
  let ?kvs = "[(ParamRestoreLatestSnapshotOf, snapshot), (ParamMaxMemoryPolicy, policy),
    (ParamPreferredMaintenanceWindow, window)]"
  have distinct: "ParamRestoreLatestSnapshotOf \<noteq> ParamMaxMemoryPolicy"
      "ParamRestoreLatestSnapshotOf \<noteq> ParamPreferredMaintenanceWindow"
      "ParamMaxMemoryPolicy \<noteq> ParamPreferredMaintenanceWindow"
    by code_simp+
  have "valid_utf8 ParamRestoreLatestSnapshotOf" "valid_utf8 ParamMaxMemoryPolicy" "valid_utf8 ParamPreferredMaintenanceWindow"
    by (intro provision_keys_utf8; simp add: provision_keys_def)+
  with assms have utf: "utf8_members ?kvs" by (simp add: utf8_members_def)
  obtain m where m: "unmarshal_map (json_object ?kvs) = Inr m" and keys: "set (map fst m) \<subseteq> set provision_keys"
    using unmarshal_map_strings [OF utf] distinct by (simp add: provision_keys_def)
  have "parseProvisionParameters env (json_object ?kvs) =
      unmarshal_struct ''broker.ProvisionParameters'' provision_keys set_provision_field emptyProvisionParameters
        (json_object ?kvs)"
    unfolding parseProvisionParameters_def by (rule unmarshalParameters_cases(2) [OF m assms(4) keys])
  also have "\<dots> = Inr \<lparr>up_RestoreFromLatestSnapshotOf = Some snapshot, up_MaxMemoryPolicy = Some policy,
         up_PreferredMaintenanceWindow = window\<rparr>"
    using json_text.decode_encode [OF utf] distinct distinct [symmetric]
    by (simp add: unmarshal_struct_def json_strings_def store_member_def find_field_def provision_keys_def
        set_provision_field_def decode_string_ptr_def decode_string_def emptyProvisionParameters_def)
  finally show ?thesis .
qed

section \<open>Properties\<close>

text \<open>
  C30: the parameters of a request are rejected with \<^verbatim>\<open>unknown parameter\<close>, naming one of them, whenever the JSON object has
  a key that the operation does not know: \<^verbatim>\<open>Provision\<close> refuses every key but its own, \<^verbatim>\<open>test_failover\<close> included, and
  \<^verbatim>\<open>Update\<close> every key but its own, \<^verbatim>\<open>restore_from_latest_snapshot_of\<close> included. This holds for every visiting order. An
  object without such a key is never refused in this way: it is decoded into the struct.
\<close>

theorem unknown_parameters_rejected:
  assumes "visits_all (map_order env)" and "unmarshal_map data = Inr m"
  shows "(if set (map fst m) \<subseteq> {''restore_from_latest_snapshot_of'', ''maxmemory_policy'', ''preferred_maintenance_window''}
     then parseProvisionParameters env data =
       unmarshal_struct ''broker.ProvisionParameters'' provision_keys set_provision_field emptyProvisionParameters data
     else \<exists>k \<in> set (map fst m). k \<notin> {''restore_from_latest_snapshot_of'', ''maxmemory_policy'', ''preferred_maintenance_window''} \<and>
       parseProvisionParameters env data = Inl (ErrorString (''unknown parameter: '' @ k))) \<and>
    (if set (map fst m) \<subseteq> {''maxmemory_policy'', ''preferred_maintenance_window'', ''test_failover''}
     then parseUpdateParameters env data =
       unmarshal_struct ''broker.UpdateParameters'' update_keys set_update_field emptyUpdateParameters data
     else \<exists>k \<in> set (map fst m). k \<notin> {''maxmemory_policy'', ''preferred_maintenance_window'', ''test_failover''} \<and>
       parseUpdateParameters env data = Inl (ErrorString (''unknown parameter: '' @ k)))"
proof -
  have keys: "set provision_keys = {''restore_from_latest_snapshot_of'', ''maxmemory_policy'', ''preferred_maintenance_window''}"
    "set update_keys = {''maxmemory_policy'', ''preferred_maintenance_window'', ''test_failover''}"
    by (auto simp: provision_keys_def update_keys_def ParamRestoreLatestSnapshotOf_def ParamMaxMemoryPolicy_def
        ParamPreferredMaintenanceWindow_def TestFailover_def)
  note cases = unmarshalParameters_cases [OF assms(2,1)]
  show ?thesis
    unfolding parseProvisionParameters_def parseUpdateParameters_def keys [symmetric]
    by (intro conjI; split if_split; intro conjI impI cases(2); use cases(1) in blast)
qed

theorem unknown_parameters_rejected_witness:
  "parseProvisionParameters unit_env (json_object [(''test_failover'', ''x'')]) =
     Inl (ErrorString ''unknown parameter: test_failover'') \<and>
   parseUpdateParameters unit_env (json_object [(''restore_from_latest_snapshot_of'', ''i1'')]) =
     Inl (ErrorString ''unknown parameter: restore_from_latest_snapshot_of'')"
proof -
  have u: "utf8_members [(''test_failover'', ''x'')]" "utf8_members [(''restore_from_latest_snapshot_of'', ''i1'')]"
    by (simp_all add: utf8_members_def) (intro conjI valid_utf8_ascii; code_simp)+
  have m: "unmarshal_map (json_object [(''test_failover'', ''x'')]) = Inr [(''test_failover'', JString ''x'')]"
    "unmarshal_map (json_object [(''restore_from_latest_snapshot_of'', ''i1'')]) =
      Inr [(''restore_from_latest_snapshot_of'', JString ''i1'')]"
    by (simp_all add: unmarshal_map_strings [OF u(1)] unmarshal_map_strings [OF u(2)])
  from unknown_parameters_rejected [OF _ m(1), of unit_env] unknown_parameters_rejected [OF _ m(2), of unit_env]
  show ?thesis by simp
qed

text \<open>
  C31: the three parameters of a new instance that the user gives as strings are the ones that \<^verbatim>\<open>Provision\<close>
  works with, for all strings of valid UTF-8.
\<close>

theorem parseProvisionParameters_strings:
  assumes "valid_utf8 snapshot" and "valid_utf8 policy" and "valid_utf8 window" and "visits_all (map_order env)"
  shows "parseProvisionParameters env (json_object
      [(ParamRestoreLatestSnapshotOf, snapshot), (ParamMaxMemoryPolicy, policy),
       (ParamPreferredMaintenanceWindow, window)]) =
    Inr \<lparr>up_RestoreFromLatestSnapshotOf = Some snapshot, up_MaxMemoryPolicy = Some policy,
         up_PreferredMaintenanceWindow = window\<rparr>"
  using assms by (rule parse_provision_strings)

theorem parseProvisionParameters_strings_witness:
  "parseProvisionParameters unit_env (json_object
      [(ParamRestoreLatestSnapshotOf, ''i1''), (ParamMaxMemoryPolicy, ''noeviction''),
       (ParamPreferredMaintenanceWindow, ''sun:23:00-mon:01:30'')]) =
    Inr \<lparr>up_RestoreFromLatestSnapshotOf = Some ''i1'', up_MaxMemoryPolicy = Some ''noeviction'',
         up_PreferredMaintenanceWindow = ''sun:23:00-mon:01:30''\<rparr>"
proof -
  have "ascii ''i1''" "ascii ''noeviction''" "ascii ''sun:23:00-mon:01:30''" by code_simp+
  then show ?thesis by (intro parseProvisionParameters_strings valid_utf8_ascii) simp_all
qed

end
