(* ===== verification/Naming.thy ===== *)
theory Naming
  imports Providers "HOL-Library.Word"
begin

unbundle bit_operations_syntax

text \<open>
  Names and secrets: \<^verbatim>\<open>GenerateReplicationGroupName\<close> (FNV-1a and base32 of Go's standard library) and the
  random passwords of \<^verbatim>\<open>crypto_rand_utils.go\<close>. The theory shows that every generated name obeys
  the rules of ElastiCache, that two names are equal exactly when the hashes are, and what a
  generated token looks like.
\<close>

section \<open>hash/fnv and encoding/base32\<close>

definition fnv_offset64 :: "64 word" where "fnv_offset64 = 14695981039346656037"
definition fnv_prime64 :: "64 word" where "fnv_prime64 = 1099511628211"

definition fnv1a_step :: "64 word \<Rightarrow> char \<Rightarrow> 64 word" where
  "fnv1a_step h c = (h XOR word_of_nat (of_char c)) * fnv_prime64"

definition fnv1a :: "string \<Rightarrow> 64 word" where
  "fnv1a s = foldl fnv1a_step fnv_offset64 s"

text \<open>
  The hash as bits, most significant first: \<^verbatim>\<open>Sum\<close> writes the eight bytes in big-endian order and
  base32 reads them from the most significant bit on.
\<close>

definition bits64 :: "64 word \<Rightarrow> bool list" where
  "bits64 h = map (\<lambda>i. bit h (63 - i)) [0..<64]"

definition bits_value :: "bool list \<Rightarrow> nat" where
  "bits_value bs = foldl (\<lambda>n b. 2 * n + (if b then 1 else 0)) 0 bs"

definition base32_alphabet :: string where
  "base32_alphabet = ''ABCDEFGHIJKLMNOPQRSTUVWXYZ234567''"

text \<open>Base32 without padding: five bits per character, the last group filled with zeros.\<close>

definition base32_group :: "bool list \<Rightarrow> bool list" where
  "base32_group bs = take 5 (bs @ replicate 4 False)"

function base32_encode :: "bool list \<Rightarrow> string" where
  "base32_encode bs =
     (if bs = [] then []
      else base32_alphabet ! bits_value (base32_group bs) # base32_encode (drop 5 bs))"
  by pat_completeness auto
termination by (relation "measure length") auto

declare base32_encode.simps [simp del]

definition GenerateReplicationGroupName :: "string \<Rightarrow> string" where
  "GenerateReplicationGroupName instanceID = ToLower (''cf-'' @ base32_encode (bits64 (fnv1a instanceID)))"

section \<open>Random strings\<close>

definition alpha :: string where
  "alpha = ''ABCDEFGHIJKLMNOPQRSTUVWXYZabcdefghijklmnopqrstuvwxyz''"

definition numer :: string where
  "numer = ''0123456789''"

text \<open>The loop of \<^verbatim>\<open>randChar\<close>: an error of the random source is a panic.\<close>

fun randChar_loop :: "'w go_env \<Rightarrow> nat \<Rightarrow> string \<Rightarrow> ('w, string) go" where
  "randChar_loop env 0 chars = ret []"
| "randChar_loop env (Suc n) chars =
     handle (rand_Int env (length chars)) (\<lambda>e. panic (Error e)) (\<lambda>charsIndex.
       if charsIndex < length chars
       then andThen (randChar_loop env n chars) (\<lambda>rest. ret (chars ! charsIndex # rest))
       else panic ''index out of range'')"

definition randChar :: "'w go_env \<Rightarrow> int \<Rightarrow> string \<Rightarrow> ('w, string) go" where
  "randChar env len chars =
     (if len < 0 then panic ''makeslice: len out of range'' else randChar_loop env (nat len) chars)"

definition RandomAlphaNum :: "'w go_env \<Rightarrow> int \<Rightarrow> ('w, string) go" where
  "RandomAlphaNum env len =
     andThen (randChar env 1 alpha) (\<lambda>a.
     andThen (randChar env (len - 1) (alpha @ numer)) (\<lambda>b. ret (a @ b)))"

definition PasswordLength :: int where "PasswordLength = 32"

definition GenerateAuthToken :: "'w go_env \<Rightarrow> ('w, string) go" where
  "GenerateAuthToken env = RandomAlphaNum env PasswordLength"

section \<open>Names obey the rules of ElastiCache\<close>

text \<open>
  The rules in the comment on \<^verbatim>\<open>GenerateReplicationGroupName\<close>: 1 to 20 alphanumeric characters or hyphens,
  a letter first, no hyphen last, no two hyphens in a row.
\<close>

fun no_double_hyphen :: "string \<Rightarrow> bool" where
  "no_double_hyphen (a # b # s) \<longleftrightarrow> \<not> (a = CHR ''-'' \<and> b = CHR ''-'') \<and> no_double_hyphen (b # s)"
| "no_double_hyphen _ \<longleftrightarrow> True"

definition valid_replication_group_name :: "string \<Rightarrow> bool" where
  "valid_replication_group_name s \<longleftrightarrow>
     1 \<le> length s \<and> length s \<le> 20 \<and> list_all (\<lambda>c. is_alnum c \<or> c = CHR ''-'') s \<and>
     is_alpha (hd s) \<and> last s \<noteq> CHR ''-'' \<and> no_double_hyphen s"

lemma length_base32_encode: "length (base32_encode bs) = (length bs + 4) div 5"
proof (induction bs rule: base32_encode.induct)
  case (1 bs)
  show ?case
  proof (cases "bs = []")
    case False
    then have "length bs \<ge> 1" by (cases bs) auto
    with "1.IH" False show ?thesis
      by (subst base32_encode.simps) (auto simp: div_if le_imp_diff_is_add)
  qed (simp add: base32_encode.simps)
qed

lemma bits_value_less: "bits_value bs < 2 ^ length bs"
proof (induction bs rule: rev_induct)
  case (snoc b bs)
  then show ?case by (auto simp: bits_value_def)
qed (simp add: bits_value_def)

lemma base32_alphabet_length: "length base32_alphabet = 32"
  by (simp add: base32_alphabet_def)

lemma length_group: "bs \<noteq> [] \<Longrightarrow> length (base32_group bs) = 5"
  by (cases bs) (auto simp: base32_group_def)

lemma group_value_less: "bs \<noteq> [] \<Longrightarrow> bits_value (base32_group bs) < 32"
  using bits_value_less [of "base32_group bs"] length_group [of bs] by simp

lemma set_base32_encode: "set (base32_encode bs) \<subseteq> set base32_alphabet"
proof (induction bs rule: base32_encode.induct)
  case (1 bs)
  then show ?case
    by (subst base32_encode.simps)
       (auto simp: group_value_less base32_alphabet_length intro!: nth_mem)
qed

lemma lower_alphabet:
  assumes "c \<in> set base32_alphabet"
  shows "is_alnum (char_lower c)" and "char_lower c \<noteq> CHR ''-''"
proof -
  have "list_all (\<lambda>c. is_alnum c \<and> c \<noteq> CHR ''-'') (map char_lower base32_alphabet)" by code_simp
  with assms show "is_alnum (char_lower c)" and "char_lower c \<noteq> CHR ''-''" by (auto simp: list_all_iff)
qed

lemma no_double_hyphen_none: "CHR ''-'' \<notin> set s \<Longrightarrow> no_double_hyphen s"
  by (induction s rule: no_double_hyphen.induct) auto

lemma name_shape:
  obtains t where "GenerateReplicationGroupName i = ''cf-'' @ t" and "length t = 13"
    and "list_all is_alnum t" and "CHR ''-'' \<notin> set t"
proof
  let ?t = "ToLower (base32_encode (bits64 (fnv1a i)))"
  have "map char_lower ''cf-'' = ''cf-''" by code_simp
  then show "GenerateReplicationGroupName i = ''cf-'' @ ?t"
    unfolding GenerateReplicationGroupName_def ToLower_def map_append by (rule arg_cong)
  show "length ?t = 13" by (simp add: ToLower_def length_base32_encode bits64_def)
  show "list_all is_alnum ?t" and "CHR ''-'' \<notin> set ?t"
    using set_base32_encode lower_alphabet by (fastforce simp: ToLower_def list_all_iff)+
qed

lemma valid_name: "valid_replication_group_name (GenerateReplicationGroupName i)"
proof -
  obtain t where t: "GenerateReplicationGroupName i = ''cf-'' @ t" and l: "length t = 13"
    and a: "list_all is_alnum t" and h: "CHR ''-'' \<notin> set t"
    by (rule name_shape)
  have "t \<noteq> []" using l by auto
  moreover have "no_double_hyphen (CHR ''-'' # t)"
    using h \<open>t \<noteq> []\<close> no_double_hyphen_none [OF h] by (cases t) auto
  moreover have "is_alnum CHR ''c''" "is_alnum CHR ''f''" "is_alpha CHR ''c''" by code_simp+
  moreover have "last t \<noteq> CHR ''-''" using \<open>t \<noteq> []\<close> h by (metis last_in_set)
  ultimately show ?thesis
    using l a unfolding valid_replication_group_name_def t
    by (simp add: list_all_iff)
qed

section \<open>Distinct hashes give distinct names\<close>

lemma bits_value_inject:
  "length as = length bs \<Longrightarrow> bits_value as = bits_value bs \<Longrightarrow> as = bs"
proof (induction as arbitrary: bs rule: rev_induct)
  case (snoc a as)
  then obtain b bs' where bs: "bs = bs' @ [b]" by (metis length_0_conv rev_exhaust snoc_eq_iff_butlast)
  with snoc.prems have "2 * bits_value as + (if a then 1 else 0) = 2 * bits_value bs' + (if b then 1 else 0)"
    by (simp add: bits_value_def)
  then have "a = b" by (cases a; cases b) (simp_all, presburger+)
  moreover from this \<open>2 * bits_value as + _ = _\<close> have "bits_value as = bits_value bs'" by simp
  then have "as = bs'" using snoc.prems(1) bs by (intro snoc.IH) simp
  ultimately show ?case using bs by simp
qed simp

lemma base32_encode_inject:
  "length as = length bs \<Longrightarrow> base32_encode as = base32_encode bs \<Longrightarrow> as = bs"
proof (induction as arbitrary: bs rule: base32_encode.induct)
  case (1 as)
  show ?case
  proof (cases "as = []")
    case True
    with "1.prems" show ?thesis by simp
  next
    case False
    with "1.prems"(1) have ne: "bs \<noteq> []" by auto
    let ?g = base32_group
    have "base32_alphabet ! bits_value (?g as) = base32_alphabet ! bits_value (?g bs)"
      and tl: "base32_encode (drop 5 as) = base32_encode (drop 5 bs)"
      using "1.prems"(2) False ne base32_encode.simps [of as] base32_encode.simps [of bs] by simp_all
    moreover have "distinct base32_alphabet" by (simp add: base32_alphabet_def)
    ultimately have "bits_value (?g as) = bits_value (?g bs)"
      using group_value_less [OF False] group_value_less [OF ne] base32_alphabet_length
      by (simp add: nth_eq_iff_index_eq)
    then have "?g as = ?g bs"
      using length_group [OF False] length_group [OF ne] by (intro bits_value_inject) simp_all
    moreover have "take 5 as = take (length as) (?g as)" and "take 5 bs = take (length bs) (?g bs)"
      by (simp_all add: base32_group_def min_def)
    ultimately have "take 5 as = take 5 bs" using "1.prems"(1) by simp
    moreover have "drop 5 as = drop 5 bs"
      using "1.IH" [OF False, of "drop 5 bs"] "1.prems"(1) tl by simp
    ultimately show ?thesis by (metis append_take_drop_id)
  qed
qed

lemma bits64_inject: "bits64 g = bits64 h \<Longrightarrow> g = h"
proof -
  assume "bits64 g = bits64 h"
  then have "\<forall>i < 64. bit g (63 - i) = bit h (63 - i)" by (simp add: bits64_def)
  then have all: "i < 64 \<Longrightarrow> bit g (63 - i) = bit h (63 - i)" for i by blast
  have "bit g n = bit h n" if "n < 64" for n using all [of "63 - n"] that by simp
  then show ?thesis by (intro bit_word_eqI) simp
qed

lemma inj_lower_alphabet: "inj_on char_lower (set base32_alphabet)"
proof -
  have "distinct (map char_lower base32_alphabet)" by code_simp
  then show ?thesis by (simp add: distinct_map)
qed

lemma name_eq_iff_hash:
  "GenerateReplicationGroupName i = GenerateReplicationGroupName j \<longleftrightarrow> fnv1a i = fnv1a j"
proof
  assume "GenerateReplicationGroupName i = GenerateReplicationGroupName j"
  then have "map char_lower (base32_encode (bits64 (fnv1a i))) = map char_lower (base32_encode (bits64 (fnv1a j)))"
    by (simp add: GenerateReplicationGroupName_def ToLower_def)
  then have "base32_encode (bits64 (fnv1a i)) = base32_encode (bits64 (fnv1a j))"
    using inj_on_subset [OF inj_lower_alphabet Un_least [OF set_base32_encode set_base32_encode]]
    by (simp add: inj_on_map_eq_map)
  then have "bits64 (fnv1a i) = bits64 (fnv1a j)"
    by (intro base32_encode_inject) (simp_all add: bits64_def)
  then show "fnv1a i = fnv1a j" by (rule bits64_inject)
qed (simp add: GenerateReplicationGroupName_def)

section \<open>Random strings have the promised shape\<close>

text \<open>
  What \<^verbatim>\<open>rand.Int\<close> documents: a value below the bound, or an error when the source cannot be read.
\<close>

definition rand_in_range :: "'w go_env \<Rightarrow> bool" where
  "rand_in_range env \<longleftrightarrow>
     (\<forall>n w. n > 0 \<longrightarrow> (case rand_Int env n w of (Ok i, _) \<Rightarrow> i < n | (Err _, _) \<Rightarrow> True | (Panic _, _) \<Rightarrow> False))"

definition rand_readable :: "'w go_env \<Rightarrow> bool" where
  "rand_readable env \<longleftrightarrow> (\<forall>n w. n > 0 \<longrightarrow> (\<exists>i w'. rand_Int env n w = (Ok i, w') \<and> i < n))"

lemma randChar_loop_Ok:
  "randChar_loop env n chars w = (Ok s, w') \<Longrightarrow> length s = n \<and> set s \<subseteq> set chars"
proof (induction n arbitrary: s w w')
  case (Suc n)
  then obtain i w1 rest where "i < length chars" and "randChar_loop env n chars w1 = (Ok rest, w')"
      and "s = chars ! i # rest"
    by (auto elim!: handle_OkE andThen_OkE split: if_splits)
  with Suc.IH [of w1 rest w'] show ?case by auto
qed simp

lemma randChar_loop_total:
  assumes "rand_readable env" and "chars \<noteq> []"
  shows "\<exists>s w'. randChar_loop env n chars w = (Ok s, w')"
proof (induction n arbitrary: w)
  case (Suc n)
  obtain i w1 where i: "rand_Int env (length chars) w = (Ok i, w1)" and lt: "i < length chars"
    using assms by (metis length_greater_0_conv rand_readable_def)
  obtain s w2 where "randChar_loop env n chars w1 = (Ok s, w2)" using Suc by blast
  with i lt show ?case by (simp add: handle_eqs andThen_eqs)
qed simp

lemma alpha_chars: "c \<in> set alpha \<Longrightarrow> is_alpha c"
proof -
  have "list_all is_alpha alpha" by code_simp
  then show "c \<in> set alpha \<Longrightarrow> is_alpha c" by (simp add: list_all_iff)
qed

lemma numer_chars: "c \<in> set numer \<Longrightarrow> is_digit c"
proof -
  have "list_all is_digit numer" by code_simp
  then show "c \<in> set numer \<Longrightarrow> is_digit c" by (simp add: list_all_iff)
qed

lemma RandomAlphaNum_Ok:
  assumes "RandomAlphaNum env n w = (Ok s, w')"
  shows "1 \<le> n \<and> length s = nat n \<and> is_alpha (hd s) \<and> list_all is_alnum s"
proof -
  from assms obtain a b w1 where a: "randChar env 1 alpha w = (Ok a, w1)"
      and b: "randChar env (n - 1) (alpha @ numer) w1 = (Ok b, w')" and s: "s = a @ b"
    unfolding RandomAlphaNum_def by (auto elim!: andThen_OkE)
  from a have A: "length a = 1" "set a \<subseteq> set alpha"
    using randChar_loop_Ok [of env "nat 1" alpha w a w1] by (auto simp: randChar_def simp del: randChar_loop.simps)
  from b have B: "1 \<le> n" "length b = nat (n - 1)" "set b \<subseteq> set (alpha @ numer)"
    using randChar_loop_Ok [of env "nat (n - 1)" "alpha @ numer" w1 b w']
    by (auto simp: randChar_def split: if_splits)
  have "is_alpha (hd s)" using A s alpha_chars by (cases a) auto
  moreover have "list_all is_alnum s"
    using A B s alpha_chars numer_chars by (auto simp: list_all_iff is_alnum_def)
  ultimately show ?thesis using A B s by simp
qed

lemma GenerateAuthToken_Ok:
  "GenerateAuthToken env w = (Ok s, w') \<Longrightarrow> length s = 32 \<and> is_alpha (hd s) \<and> list_all is_alnum s"
  unfolding GenerateAuthToken_def PasswordLength_def by (drule RandomAlphaNum_Ok) simp

lemma GenerateAuthToken_no_error: "GenerateAuthToken env w \<noteq> (Err e, w')"
proof -
  have loop: "randChar_loop env n chars w \<noteq> (Err e, w')" for n chars w w'
    by (induction n arbitrary: w w')
       (auto simp: handle_def andThen_def split: prod.splits outcome.splits if_splits)
  then show ?thesis
    by (auto simp: GenerateAuthToken_def RandomAlphaNum_def randChar_def andThen_def handle_def
        split: prod.splits outcome.splits)
qed

lemma GenerateAuthToken_total:
  assumes "rand_readable env"
  shows "\<exists>s w'. GenerateAuthToken env w = (Ok s, w')"
proof -
  obtain a w1 where a: "randChar env 1 alpha w = (Ok a, w1)"
    using randChar_loop_total [OF assms, of alpha "nat 1" w] by (auto simp: randChar_def alpha_def)
  obtain b w2 where "randChar env 31 (alpha @ numer) w1 = (Ok b, w2)"
    using randChar_loop_total [OF assms, of "alpha @ numer" "nat 31" w1] by (auto simp: randChar_def alpha_def)
  with a show ?thesis
    by (simp add: GenerateAuthToken_def RandomAlphaNum_def PasswordLength_def andThen_eqs)
qed

text \<open>What reading random numbers keeps of the world, generating a token keeps.\<close>

lemma keeps_randChar_loop:
  assumes "\<And>n. keeps f (rand_Int env n)"
  shows "keeps f (randChar_loop env n chars)"
proof (induction n)
  case 0
  show ?case unfolding randChar_loop.simps by (rule keeps_ret)
next
  case (Suc n)
  show ?case unfolding randChar_loop.simps by (intro go_frame assms Suc)
qed

lemma keeps_GenerateAuthToken:
  "(\<And>n. keeps f (rand_Int env n)) \<Longrightarrow> keeps f (GenerateAuthToken env)"
  unfolding GenerateAuthToken_def RandomAlphaNum_def randChar_def
  by (intro go_frame keeps_randChar_loop)

section \<open>Properties\<close>

text \<open>
  C18: the name generated for a service instance obeys the rules of ElastiCache that the comment on
  \<^verbatim>\<open>GenerateReplicationGroupName\<close> quotes, whatever the instance ID is.
\<close>

theorem GenerateReplicationGroupName_valid:
  "valid_replication_group_name (GenerateReplicationGroupName instanceID)"
  by (rule valid_name)

text \<open>
  C29: two instances get the same name exactly when the 64-bit FNV-1a hashes of their IDs collide:
  hashing is the only step of the name that loses information.
\<close>

theorem GenerateReplicationGroupName_collision:
  "GenerateReplicationGroupName i = GenerateReplicationGroupName j \<longleftrightarrow> fnv1a i = fnv1a j"
  by (rule name_eq_iff_hash)

text \<open>
  C19: with a readable random source \<^verbatim>\<open>GenerateAuthToken\<close> returns, and its token has 32 alphanumeric
  characters of which the first is a letter.
\<close>

theorem GenerateAuthToken_shape:
  assumes "rand_readable env"
  shows "\<exists>s w'. GenerateAuthToken env w = (Ok s, w') \<and> length s = 32 \<and> is_alpha (hd s) \<and> list_all is_alnum s"
proof -
  obtain s w' where s: "GenerateAuthToken env w = (Ok s, w')" using GenerateAuthToken_total [OF assms] by blast
  with GenerateAuthToken_Ok [OF s] show ?thesis by auto
qed

text \<open>A random source that counts its readings.\<close>

definition counting_env :: "nat go_env" where
  "counting_env =
     \<lparr>time_Now = \<lambda>w. (0, w), local_zone = \<lambda>t. 0, rand_Int = \<lambda>n w. (Ok (w mod n), Suc w), map_order = id,
      sort_Sort = \<lambda>lt. insertionSort lt\<rparr>"

theorem GenerateAuthToken_shape_witness:
  "rand_readable counting_env \<and>
   (\<exists>s w'. GenerateAuthToken counting_env 7 = (Ok s, w') \<and> length s = 32 \<and> is_alpha (hd s) \<and> list_all is_alnum s)"
proof -
  have r: "rand_readable counting_env" by (simp add: rand_readable_def counting_env_def)
  show ?thesis by (rule conjI [OF r GenerateAuthToken_shape [OF r]])
qed

end
