(* ===== verification/Redis_Provider.thy ===== *)
theory Redis_Provider
  imports Naming
begin

text \<open>
  The Redis provider, \<^verbatim>\<open>providers/redis/redis.go\<close>: every method of \<^verbatim>\<open>RedisProvider\<close> and its helpers, in
  the order of the file. The remote services are the fields \<open>elastiCache\<close> and \<open>secretsManager\<close>; the
  logger has no field because logging changes no state the program reads. A pointer that may be
  nil is an \<open>option\<close> and reading through it is \<open>deref\<close>, which panics on nil.
\<close>

section \<open>The provider and its names\<close>

record 'w RedisProvider =
  elastiCache :: "'w ElastiCache"
  secretsManager :: "'w SecretsManager"
  awsAccountID :: string
  awsPartition :: string
  awsRegion :: string
  kmsKeyID :: string
  secretsManagerPath :: string

definition NewProvider ::
    "'w ElastiCache \<Rightarrow> 'w SecretsManager \<Rightarrow> string \<Rightarrow> string \<Rightarrow> string \<Rightarrow> string \<Rightarrow> string \<Rightarrow> 'w RedisProvider" where
  "NewProvider ec sm account aws_partition region kms path =
     \<lparr>elastiCache = ec, secretsManager = sm, awsAccountID = account, awsPartition = aws_partition,
      awsRegion = region, kmsKeyID = kms, secretsManagerPath = TrimRight path CHR ''/''\<rparr>"

definition snapshotARN :: "'w RedisProvider \<Rightarrow> string \<Rightarrow> string" where
  "snapshotARN p snapshotID =
     ''arn:'' @ awsPartition p @ '':elasticache:'' @ awsRegion p @ '':'' @ awsAccountID p @ '':snapshot:'' @ snapshotID"

definition replicationGroupARN :: "'w RedisProvider \<Rightarrow> string \<Rightarrow> string" where
  "replicationGroupARN p replicationGroupID =
     ''arn:'' @ awsPartition p @ '':elasticache:'' @ awsRegion p @ '':'' @ awsAccountID p @
     '':replicationgroup:'' @ replicationGroupID"

definition getAuthTokenPath :: "'w RedisProvider \<Rightarrow> string \<Rightarrow> string" where
  "getAuthTokenPath p instanceID = secretsManagerPath p @ ''/'' @ instanceID @ ''/auth-token''"

definition ErrCodeReplicationGroupNotFoundFault :: string where
  "ErrCodeReplicationGroupNotFoundFault = ''ReplicationGroupNotFoundFault''"

definition ErrCodeCacheParameterGroupNotFoundFault :: string where
  "ErrCodeCacheParameterGroupNotFoundFault = ''CacheParameterGroupNotFound''"

section \<open>Primary and replica nodes\<close>

text \<open>
  The two nested loops over node groups and members; the accumulator is
  \<^verbatim>\<open>(primaryNode, replicaNode)\<close>, and the last member of a role wins.
\<close>

fun scan_members :: "NodeGroupMember list \<Rightarrow> string \<times> string \<Rightarrow> ('w, string \<times> string) go" where
  "scan_members [] acc = ret acc"
| "scan_members (m # ms) (primaryNode, replicaNode) =
     andThen (deref (ngm_CurrentRole m)) (\<lambda>role.
       if role = ''primary''
       then andThen (deref (ngm_CacheClusterId m)) (\<lambda>i. scan_members ms (i, replicaNode))
       else if role = ''replica''
       then andThen (deref (ngm_CacheClusterId m)) (\<lambda>i. scan_members ms (primaryNode, i))
       else scan_members ms (primaryNode, replicaNode))"

fun scan_groups :: "NodeGroup list \<Rightarrow> string \<times> string \<Rightarrow> ('w, string \<times> string) go" where
  "scan_groups [] acc = ret acc"
| "scan_groups (g # gs) acc =
     andThen (scan_members (ng_NodeGroupMembers g) acc) (scan_groups gs)"

definition GetPrimaryAndReplicaCacheClusterIds ::
    "ReplicationGroup option \<Rightarrow> ('w, string \<times> string) go" where
  "GetPrimaryAndReplicaCacheClusterIds replicationGroup =
     andThen (deref replicationGroup) (\<lambda>rg.
     andThen (scan_groups (rg_NodeGroups rg) ([], [])) (\<lambda>(primaryNode, replicaNode).
       if primaryNode = [] then fail (ErrorString ''Unable to determine primary node'')
       else if replicaNode = [] then fail (ErrorString ''Unable to determine replica node'')
       else ret (primaryNode, replicaNode)))"

section \<open>Parameter groups and replication groups\<close>

definition modifyReplicationGroup ::
    "'w RedisProvider \<Rightarrow> go_context \<Rightarrow> string \<Rightarrow> string \<Rightarrow> ('w, unit) go" where
  "modifyReplicationGroup p ctx replicationGroupID preferredMaintenanceWindow =
     (if preferredMaintenanceWindow = [] then ret ()
      else ModifyReplicationGroup (elastiCache p) ctx
        (emptyModifyReplicationGroupInput\<lparr>mrg_PreferredMaintenanceWindow := Some preferredMaintenanceWindow,
          mrg_ReplicationGroupId := Some replicationGroupID\<rparr>))"

definition name_value :: "string \<times> string \<Rightarrow> ParameterNameValue" where
  "name_value kv = \<lparr>pnv_ParameterName = fst kv, pnv_ParameterValue = snd kv\<rparr>"

definition modifyCacheParameterGroup ::
    "'w go_env \<Rightarrow> 'w RedisProvider \<Rightarrow> go_context \<Rightarrow> string \<Rightarrow> string gomap \<Rightarrow> ('w, unit) go" where
  "modifyCacheParameterGroup env p ctx replicationGroupID params =
     (if params = [] then ret ()
      else ModifyCacheParameterGroup (elastiCache p) ctx
        \<lparr>mcpg_ParameterNameValues = map name_value (range_map (map_order env) params),
         mcpg_CacheParameterGroupName = replicationGroupID\<rparr>)"

text \<open>The map with \<^verbatim>\<open>cluster-enabled\<close> set to \<^verbatim>\<open>no\<close> unless the caller set it.\<close>

definition with_cluster_enabled :: "string gomap \<Rightarrow> string gomap" where
  "with_cluster_enabled ps =
     (case map_of ps ''cluster-enabled'' of
        None \<Rightarrow> AList.update ''cluster-enabled'' ''no'' ps
      | Some _ \<Rightarrow> ps)"

definition createCacheParameterGroup ::
    "'w go_env \<Rightarrow> 'w RedisProvider \<Rightarrow> go_context \<Rightarrow> string \<Rightarrow> ProvisionParameters \<Rightarrow> ('w, unit) go" where
  "createCacheParameterGroup env p ctx replicationGroupID params =
     andThen (CreateCacheParameterGroup (elastiCache p) ctx
       \<lparr>ccpg_CacheParameterGroupFamily = pp_CacheParameterGroupFamily params,
        ccpg_CacheParameterGroupName = replicationGroupID,
        ccpg_Description = ''Created by Cloud Foundry''\<rparr>) (\<lambda>_.
     modifyCacheParameterGroup env p ctx replicationGroupID (with_cluster_enabled (pp_Parameters params)))"

definition DeleteCacheParameterGroup ::
    "'w RedisProvider \<Rightarrow> go_context \<Rightarrow> string \<Rightarrow> ('w, unit) go" where
  "DeleteCacheParameterGroup p ctx instanceID =
     handle (DeleteCacheParameterGroupCall (elastiCache p) ctx (GenerateReplicationGroupName instanceID))
       (\<lambda>e. if has_aws_code ErrCodeCacheParameterGroupNotFoundFault e then ret () else fail e)
       (\<lambda>_. ret ())"

definition UpdateReplicationGroup ::
    "'w RedisProvider \<Rightarrow> go_context \<Rightarrow> string \<Rightarrow> UpdateReplicationGroupParameters \<Rightarrow> ('w, unit) go" where
  "UpdateReplicationGroup p ctx instanceID params =
     modifyReplicationGroup p ctx (GenerateReplicationGroupName instanceID) (urg_PreferredMaintenanceWindow params)"

definition UpdateParamGroupParameters ::
    "'w go_env \<Rightarrow> 'w RedisProvider \<Rightarrow> go_context \<Rightarrow> string \<Rightarrow> UpdateParamGroupParameters \<Rightarrow> ('w, unit) go" where
  "UpdateParamGroupParameters env p ctx instanceID params =
     modifyCacheParameterGroup env p ctx (GenerateReplicationGroupName instanceID) (upg_Parameters params)"

section \<open>Secrets\<close>

definition CreateAuthTokenSecret ::
    "'w RedisProvider \<Rightarrow> go_context \<Rightarrow> string \<Rightarrow> string \<Rightarrow> ('w, unit) go" where
  "CreateAuthTokenSecret p ctx instanceID authToken =
     CreateSecret (secretsManager p) ctx
       \<lparr>cs_Name = getAuthTokenPath p instanceID, cs_SecretString = authToken, cs_KmsKeyId = kmsKeyID p,
        cs_Tags = [\<lparr>tag_Key = Some ''chargeable_entity'', tag_Value = Some instanceID\<rparr>]\<rparr>"

definition DeleteAuthTokenSecret ::
    "'w RedisProvider \<Rightarrow> go_context \<Rightarrow> string \<Rightarrow> int \<Rightarrow> ('w, unit) go" where
  "DeleteAuthTokenSecret p ctx instanceID recoveryWindowInDays =
     DeleteSecret (secretsManager p) ctx
       \<lparr>ds_SecretId = getAuthTokenPath p instanceID, ds_RecoveryWindowInDays = recoveryWindowInDays\<rparr>"

section \<open>Provision and Deprovision\<close>

definition tag_of :: "string \<times> string \<Rightarrow> Tag" where
  "tag_of kv = \<lparr>tag_Key = Some (fst kv), tag_Value = Some (snd kv)\<rparr>"

definition replication_group_input ::
    "'w go_env \<Rightarrow> string \<Rightarrow> string \<Rightarrow> ProvisionParameters \<Rightarrow> CreateReplicationGroupInput" where
  "replication_group_input env replicationGroupID authToken params =
     \<lparr>crg_Tags = map tag_of (range_map (map_order env) (pp_Tags params)),
      crg_AtRestEncryptionEnabled = True,
      crg_TransitEncryptionEnabled = True,
      crg_AuthToken = authToken,
      crg_AutomaticFailoverEnabled = pp_AutomaticFailoverEnabled params,
      crg_MultiAZEnabled = pp_MultiAZEnabled params,
      crg_CacheNodeType = pp_InstanceType params,
      crg_CacheParameterGroupName = replicationGroupID,
      crg_SecurityGroupIds = pp_SecurityGroupIds params,
      crg_CacheSubnetGroupName = pp_CacheSubnetGroupName params,
      crg_Engine = pp_Engine params,
      crg_EngineVersion = pp_EngineVersion params,
      crg_PreferredMaintenanceWindow = pp_PreferredMaintenanceWindow params,
      crg_ReplicationGroupDescription = pp_Description params,
      crg_ReplicationGroupId = replicationGroupID,
      crg_NumNodeGroups = pp_ShardCount params,
      crg_ReplicasPerNodeGroup = pp_ReplicasPerNodeGroup params,
      crg_SnapshotName = pp_RestoreFromSnapshot params,
      crg_SnapshotRetentionLimit =
        (if pp_SnapshotRetentionLimit params > 0 then Some (pp_SnapshotRetentionLimit params) else None),
      crg_SnapshotWindow = (if pp_SnapshotRetentionLimit params > 0 then Some ''02:00-05:00'' else None)\<rparr>"

text \<open>A call whose error is only logged.\<close>

definition log_error :: "('w, unit) go \<Rightarrow> ('w, unit) go" where
  "log_error m = handle m (\<lambda>_. ret ()) (\<lambda>_. ret ())"

definition Provision ::
    "'w go_env \<Rightarrow> 'w RedisProvider \<Rightarrow> go_context \<Rightarrow> string \<Rightarrow> ProvisionParameters \<Rightarrow> ('w, unit) go" where
  "Provision env p ctx instanceID params =
     (let replicationGroupID = GenerateReplicationGroupName instanceID in
      andThen (createCacheParameterGroup env p ctx replicationGroupID params) (\<lambda>_.
      andThen (GenerateAuthToken env) (\<lambda>authToken.
      handle (CreateAuthTokenSecret p ctx instanceID authToken)
        (\<lambda>e. fail (ErrorString (''failed to create auth token: '' @ Error e)))
        (\<lambda>_.
      handle (CreateReplicationGroup (elastiCache p) ctx
               (replication_group_input env replicationGroupID authToken params))
        (\<lambda>createErr.
           andThen (log_error (DeleteCacheParameterGroup p ctx instanceID)) (\<lambda>_.
           andThen (log_error (DeleteAuthTokenSecret p ctx instanceID 7)) (\<lambda>_.
           fail createErr)))
        ret))))"

definition Deprovision ::
    "'w RedisProvider \<Rightarrow> go_context \<Rightarrow> string \<Rightarrow> DeprovisionParameters \<Rightarrow> ('w, unit) go" where
  "Deprovision p ctx instanceID params =
     andThen (DeleteReplicationGroup (elastiCache p) ctx
       \<lparr>drg_ReplicationGroupId = GenerateReplicationGroupName instanceID,
        drg_FinalSnapshotIdentifier =
          (if dp_FinalSnapshotIdentifier params \<noteq> [] then Some (dp_FinalSnapshotIdentifier params) else None)\<rparr>)
     (\<lambda>_. DeleteAuthTokenSecret p ctx instanceID 30)"

section \<open>Describing instances\<close>

definition describeReplicationGroup ::
    "'w RedisProvider \<Rightarrow> go_context \<Rightarrow> string \<Rightarrow> ('w, ReplicationGroup) go" where
  "describeReplicationGroup p ctx replicationGroupID =
     andThen (DescribeReplicationGroups (elastiCache p) ctx replicationGroupID) (\<lambda>groups.
       case groups of
         [] \<Rightarrow> fail (ErrorString (''Invalid response from AWS: no replication groups returned for '' @ replicationGroupID))
       | g # _ \<Rightarrow> ret g)"

definition describeCacheCluster ::
    "'w RedisProvider \<Rightarrow> go_context \<Rightarrow> string \<Rightarrow> ('w, CacheCluster) go" where
  "describeCacheCluster p ctx cacheClusterID =
     andThen (DescribeCacheClusters (elastiCache p) ctx cacheClusterID) (\<lambda>clusters.
       case clusters of
         [] \<Rightarrow> fail (ErrorString (''Invalid response from AWS: no CacheClusters found for '' @ cacheClusterID))
       | c # _ \<Rightarrow> ret c)"

definition describeCacheParameters ::
    "'w RedisProvider \<Rightarrow> go_context \<Rightarrow> string \<Rightarrow> ('w, Parameter list) go" where
  "describeCacheParameters p ctx cacheParameterGroupName =
     DescribeCacheParameters (elastiCache p) ctx cacheParameterGroupName"

text \<open>A line of the status message: \<^verbatim>\<open>fmt.Sprintf("%-20s : %s", label, value)\<close>.\<close>

definition message_line :: "string \<Rightarrow> string \<Rightarrow> string" where
  "message_line label v = pad20 label @ '' : '' @ v"

definition optional_line :: "string \<Rightarrow> string option \<Rightarrow> string list" where
  "optional_line label v = (case v of None \<Rightarrow> [] | Some x \<Rightarrow> [message_line label x])"

definition parameter_lines :: "Parameter \<Rightarrow> string list" where
  "parameter_lines param = (case pa_ParameterName param of
      None \<Rightarrow> []
    | Some n \<Rightarrow>
       (if n = ''maxmemory-policy''
        then optional_line ''maxmemory policy'' (map_option TrimSpace (pa_ParameterValue param)) else []) @
       (if n = ''cluster-enabled''
        then optional_line ''cluster enabled'' (map_option TrimSpace (pa_ParameterValue param)) else []))"

text \<open>The lines about the first member cluster; none when it cannot be described.\<close>

definition cluster_lines ::
    "'w RedisProvider \<Rightarrow> go_context \<Rightarrow> ReplicationGroup \<Rightarrow> ('w, string list) go" where
  "cluster_lines p ctx rg = (case rg_MemberClusters rg of
      Some cacheClusterId # _ \<Rightarrow>
        handle (describeCacheCluster p ctx cacheClusterId) (\<lambda>_. ret []) (\<lambda>cacheCluster.
        andThen (case rg_ReplicationGroupId rg of
            None \<Rightarrow> ret []
          | Some i \<Rightarrow> handle (describeCacheParameters p ctx i) (\<lambda>_. ret [])
                       (\<lambda>params. ret (concat (map parameter_lines params)))) (\<lambda>ls.
        ret (optional_line ''engine version'' (cc_EngineVersion cacheCluster) @ ls @
             optional_line ''maintenance window'' (cc_PreferredMaintenanceWindow cacheCluster))))
    | _ \<Rightarrow> ret [])"

definition getMessage ::
    "'w RedisProvider \<Rightarrow> go_context \<Rightarrow> ReplicationGroup \<Rightarrow> string \<Rightarrow> ('w, string) go" where
  "getMessage p ctx rg stateOverride =
     andThen (cluster_lines p ctx rg) (\<lambda>ls.
     ret (strings_Join
       ([''---'',
         message_line ''status''
           (if stateOverride = [] then (case rg_Status rg of Some s \<Rightarrow> s | None \<Rightarrow> ''unknown'')
            else stateOverride)] @
        optional_line ''cluster id'' (rg_ReplicationGroupId rg) @ ls @
        optional_line ''daily backup window'' (rg_SnapshotWindow rg) @
        optional_line ''automatic failover'' (map_option TrimSpace (rg_AutomaticFailover rg)))
       (CHR 0x0A # replicate 11 CHR 0x20)))"

section \<open>ProgressState\<close>

text \<open>The two requests of a failover test in progress.\<close>

definition cutover_input :: "string \<Rightarrow> string \<Rightarrow> ModifyReplicationGroupInput" where
  "cutover_input replicationGroupID node =
     emptyModifyReplicationGroupInput\<lparr>mrg_ReplicationGroupId := Some replicationGroupID,
       mrg_PrimaryClusterId := Some node, mrg_ApplyImmediately := Some True\<rparr>"

definition ha_input :: "bool \<Rightarrow> string \<Rightarrow> ModifyReplicationGroupInput" where
  "ha_input enabled replicationGroupID =
     emptyModifyReplicationGroupInput\<lparr>mrg_AutomaticFailoverEnabled := Some enabled,
       mrg_MultiAZEnabled := Some enabled, mrg_ReplicationGroupId := Some replicationGroupID,
       mrg_ApplyImmediately := Some True\<rparr>"

definition ProgressState ::
    "'w RedisProvider \<Rightarrow> go_context \<Rightarrow> string \<Rightarrow> string \<Rightarrow> string \<Rightarrow>
     ('w, ServiceState \<times> string \<times> go_error option) go" where
  "ProgressState p ctx instanceID operation oldPrimaryNode =
     (let replicationGroupID = GenerateReplicationGroupName instanceID in
      handle (describeReplicationGroup p ctx replicationGroupID)
        (\<lambda>e. if has_aws_code ErrCodeReplicationGroupNotFoundFault e
             then ret (NonExisting, ''Replication group does not exist: '' @ replicationGroupID, None)
             else ret ([], [], Some e))
        (\<lambda>rg. case rg_Status rg of
           None \<Rightarrow> ret ([], [],
             Some (ErrorString (''Invalid response from AWS: status is missing for '' @ replicationGroupID)))
         | Some status \<Rightarrow>
           let report = andThen (getMessage p ctx rg []) (\<lambda>message. ret (status, message, None)) in
           if status = ''available'' \<and> operation = ''failover'' then
             handle (GetPrimaryAndReplicaCacheClusterIds (Some rg))
               (\<lambda>e. ret ([], [], Some e))
               (\<lambda>(primaryNode, nodeToFailOverTo).
             andThen (deref (rg_AutomaticFailover rg)) (\<lambda>automaticFailover.
               if automaticFailover = ''disabled'' then
                 andThen (getMessage p ctx rg ''modifying'') (\<lambda>message.
                 handle (ModifyReplicationGroup (elastiCache p) ctx
                     (if oldPrimaryNode \<noteq> [] \<and> primaryNode = oldPrimaryNode
                      then cutover_input replicationGroupID nodeToFailOverTo
                      else ha_input True replicationGroupID))
                   (\<lambda>e. ret ([], message, Some e))
                   (\<lambda>_. ret (''modifying'', message, None)))
               else report))
           else report))"

section \<open>Credentials\<close>

definition host_and_port :: "string \<Rightarrow> ReplicationGroup \<Rightarrow> ('w, string \<times> int) go" where
  "host_and_port replicationGroupID rg = (case rg_ConfigurationEndpoint rg of
      Some e \<Rightarrow>
        andThen (deref (ep_Address e)) (\<lambda>host. andThen (deref (ep_Port e)) (\<lambda>port. ret (host, port)))
    | None \<Rightarrow> (case rg_NodeGroups rg of
        [] \<Rightarrow> fail (ErrorString (''Invalid response from AWS: no node groups returned for '' @ replicationGroupID))
      | g # _ \<Rightarrow>
        andThen (deref (ng_PrimaryEndpoint g)) (\<lambda>e.
        andThen (deref (ep_Address e)) (\<lambda>host. andThen (deref (ep_Port e)) (\<lambda>port. ret (host, port))))))"

definition GenerateCredentials ::
    "'w RedisProvider \<Rightarrow> go_context \<Rightarrow> string \<Rightarrow> string \<Rightarrow> ('w, Credentials) go" where
  "GenerateCredentials p ctx instanceID bindingID =
     (let replicationGroupID = GenerateReplicationGroupName instanceID in
      handle (describeReplicationGroup p ctx replicationGroupID)
        (\<lambda>e. if has_aws_code ErrCodeReplicationGroupNotFoundFault e
             then fail (ErrorString (''Replication group does not exist: '' @ replicationGroupID))
             else fail e)
        (\<lambda>rg.
      andThen (host_and_port replicationGroupID rg) (\<lambda>(host, port).
      andThen (GetSecretValue (secretsManager p) ctx (getAuthTokenPath p instanceID)) (\<lambda>secretString.
      let authToken = (case secretString of None \<Rightarrow> [] | Some s \<Rightarrow> s) in
      ret \<lparr>cr_Host = host, cr_Port = port, cr_Name = replicationGroupID, cr_Password = authToken,
           cr_URI = url_String ''rediss'' [] authToken (host @ '':'' @ show_int port), cr_TLSEnabled = True\<rparr>))))"

definition RevokeCredentials ::
    "'w RedisProvider \<Rightarrow> go_context \<Rightarrow> string \<Rightarrow> string \<Rightarrow> ('w, unit) go" where
  "RevokeCredentials p ctx instanceID bindingID = ret ()"

section \<open>Tags and snapshots\<close>

definition StringValue :: "string option \<Rightarrow> string" where
  "StringValue v = (case v of None \<Rightarrow> [] | Some s \<Rightarrow> s)"

definition tagsValues :: "Tag list \<Rightarrow> string gomap" where
  "tagsValues elasticacheTags =
     foldl (\<lambda>tags t. AList.update (StringValue (tag_Key t)) (StringValue (tag_Value t)) tags) [] elasticacheTags"

fun snapshot_infos ::
    "'w RedisProvider \<Rightarrow> go_context \<Rightarrow> string \<Rightarrow> Snapshot list \<Rightarrow> ('w, SnapshotInfo list) go" where
  "snapshot_infos p ctx instanceID [] = ret []"
| "snapshot_infos p ctx instanceID (s # ss) =
     (case (sn_SnapshotName s, map ns_SnapshotCreateTime (sn_NodeSnapshots s)) of
        (Some name, Some created # _) \<Rightarrow>
          andThen (ListTagsForResource (elastiCache p) ctx (snapshotARN p name)) (\<lambda>tagList.
          let tags = tagsValues tagList in
          andThen (snapshot_infos p ctx instanceID ss) (\<lambda>rest.
          ret (if map_of tags ''instance-id'' = Some instanceID
               then \<lparr>si_Name = name, si_CreateTime = created, si_Tags = tags\<rparr> # rest else rest)))
      | _ \<Rightarrow> fail (ErrorString
          (''Invalid response from AWS: Missing values for snapshot for elasticache cluster '' @ instanceID)))"

definition FindSnapshots ::
    "'w RedisProvider \<Rightarrow> go_context \<Rightarrow> string \<Rightarrow> ('w, SnapshotInfo list) go" where
  "FindSnapshots p ctx instanceID =
     andThen (DescribeSnapshotsPages (elastiCache p) ctx) (\<lambda>pages.
     snapshot_infos p ctx instanceID (concat pages))"

definition GetInstanceTags ::
    "'w RedisProvider \<Rightarrow> go_context \<Rightarrow> string \<Rightarrow> ('w, string gomap) go" where
  "GetInstanceTags p ctx instanceID =
     andThen (ListTagsForResource (elastiCache p) ctx
       (replicationGroupARN p (GenerateReplicationGroupName instanceID))) (\<lambda>tagList. ret (tagsValues tagList))"

section \<open>Instance parameters\<close>

fun collect_members :: "NodeGroupMember list \<Rightarrow> InstanceParameters \<Rightarrow> ('w, InstanceParameters) go" where
  "collect_members [] ip = ret ip"
| "collect_members (m # ms) ip =
     andThen (deref (ngm_CurrentRole m)) (\<lambda>role.
       if role = ''primary'' then
         andThen (deref (ngm_CacheClusterId m)) (\<lambda>i.
         collect_members ms (ip\<lparr>ip_ActiveNodes := ip_ActiveNodes ip @ [i]\<rparr>))
       else if role = ''replica'' then
         andThen (deref (ngm_CacheClusterId m)) (\<lambda>i.
         collect_members ms (ip\<lparr>ip_PassiveNodes := ip_PassiveNodes ip @ [i]\<rparr>))
       else collect_members ms ip)"

fun collect_groups :: "NodeGroup list \<Rightarrow> InstanceParameters \<Rightarrow> ('w, InstanceParameters) go" where
  "collect_groups [] ip = ret ip"
| "collect_groups (g # gs) ip =
     andThen (collect_members (ng_NodeGroupMembers g) ip) (collect_groups gs)"

fun collect_parameters :: "Parameter list \<Rightarrow> InstanceParameters \<Rightarrow> ('w, InstanceParameters) go" where
  "collect_parameters [] ip = ret ip"
| "collect_parameters (q # qs) ip =
     andThen (deref (pa_ParameterName q)) (\<lambda>name.
     let ip' = ip\<lparr>ip_CacheParameters := ip_CacheParameters ip @
                   [\<lparr>cp_ParameterName = name, cp_ParameterValue = StringValue (pa_ParameterValue q)\<rparr>]\<rparr> in
     if name = ''maxmemory-policy'' then
       andThen (deref (pa_ParameterValue q)) (\<lambda>v. collect_parameters qs (ip'\<lparr>ip_MaxMemoryPolicy := v\<rparr>))
     else collect_parameters qs ip')"

definition maintenance_window ::
    "'w RedisProvider \<Rightarrow> go_context \<Rightarrow> string \<Rightarrow> ('w, string) go" where
  "maintenance_window p ctx cacheClusterId =
     handle (describeCacheCluster p ctx cacheClusterId) (\<lambda>_. ret [])
       (\<lambda>c. ret (StringValue (cc_PreferredMaintenanceWindow c)))"

definition GetInstanceParameters ::
    "'w RedisProvider \<Rightarrow> go_context \<Rightarrow> string \<Rightarrow> ('w, InstanceParameters \<times> go_error option) go" where
  "GetInstanceParameters p ctx instanceID =
     (let replicationGroupID = GenerateReplicationGroupName instanceID in
      handle (describeReplicationGroup p ctx replicationGroupID)
        (\<lambda>e. if has_aws_code ErrCodeReplicationGroupNotFoundFault e
             then ret (emptyInstanceParameters,
               Some (ErrorString (''Replication group does not exist: '' @ replicationGroupID)))
             else ret (emptyInstanceParameters, Some e))
        (\<lambda>rg. case rg_MemberClusters rg of
           Some cacheClusterId # _ \<Rightarrow>
             andThen (maintenance_window p ctx cacheClusterId) (\<lambda>window.
             andThen (collect_groups (rg_NodeGroups rg)
               (emptyInstanceParameters\<lparr>ip_PreferredMaintenanceWindow := window,
                 ip_DailyBackupWindow := StringValue (rg_SnapshotWindow rg),
                 ip_AutoFailover := (rg_AutomaticFailover rg = Some ''enabled'')\<rparr>)) (\<lambda>ip.
             handle (describeCacheParameters p ctx replicationGroupID)
               (\<lambda>e. ret (ip, Some e))
               (\<lambda>params. andThen (collect_parameters params ip) (\<lambda>ip'. ret (ip', None)))))
         | _ \<Rightarrow> ret (emptyInstanceParameters,
             Some (ErrorString (''Replication group does not have any member clusters: '' @ replicationGroupID)))))"

section \<open>Starting a failover test\<close>

text \<open>The error of \<^verbatim>\<open>describeReplicationGroup\<close> is overwritten without being read; the group is then nil.\<close>

definition StartFailoverTest ::
    "'w RedisProvider \<Rightarrow> go_context \<Rightarrow> string \<Rightarrow> ('w, string) go" where
  "StartFailoverTest p ctx instanceID =
     (let replicationGroupID = GenerateReplicationGroupName instanceID in
      andThen (handle (describeReplicationGroup p ctx replicationGroupID) (\<lambda>_. ret None) (\<lambda>rg. ret (Some rg)))
        (\<lambda>replicationGroup.
      andThen (GetPrimaryAndReplicaCacheClusterIds replicationGroup) (\<lambda>(primaryNode, _).
      andThen (ModifyReplicationGroup (elastiCache p) ctx (ha_input False replicationGroupID)) (\<lambda>_.
      ret primaryNode))))"

section \<open>The provider as an implementation of the interface\<close>

definition redis_provider :: "'w go_env \<Rightarrow> 'w RedisProvider \<Rightarrow> 'w Provider" where
  "redis_provider env p =
     \<lparr>p_Provision = Provision env p,
      p_UpdateReplicationGroup = UpdateReplicationGroup p,
      p_UpdateParamGroupParameters = UpdateParamGroupParameters env p,
      p_Deprovision = Deprovision p,
      p_ProgressState = ProgressState p,
      p_GetInstanceParameters = GetInstanceParameters p,
      p_GetInstanceTags = GetInstanceTags p,
      p_GenerateCredentials = GenerateCredentials p,
      p_RevokeCredentials = RevokeCredentials p,
      p_DeleteCacheParameterGroup = DeleteCacheParameterGroup p,
      p_FindSnapshots = FindSnapshots p,
      p_StartFailoverTest = StartFailoverTest p\<rparr>"

section \<open>Parameters and tags\<close>

lemma with_cluster_enabled_Nil [simp]: "(with_cluster_enabled ps = []) = False"
  by (cases ps) (auto simp: with_cluster_enabled_def split: option.split)

lemma wf_with_cluster_enabled [simp]: "wf_map ps \<Longrightarrow> wf_map (with_cluster_enabled ps)"
  by (simp add: with_cluster_enabled_def split: option.split)

lemma map_of_with_cluster_enabled:
  "map_of (with_cluster_enabled ps) k =
     (if k = ''cluster-enabled'' \<and> map_of ps k = None then Some ''no'' else map_of ps k)"
  by (auto simp: with_cluster_enabled_def split: option.split)

definition tag_pair :: "Tag \<Rightarrow> string \<times> string" where
  "tag_pair t = (StringValue (tag_Key t), StringValue (tag_Value t))"

lemma tagsValues_foldl:
  "tagsValues ts = foldl (\<lambda>m (k, v). AList.update k v m) [] (map tag_pair ts)"
proof -
  have "foldl (\<lambda>tags t. AList.update (StringValue (tag_Key t)) (StringValue (tag_Value t)) tags) m ts =
      foldl (\<lambda>m (k, v). AList.update k v m) m (map tag_pair ts)" for m
    by (induction ts arbitrary: m) (simp_all add: tag_pair_def)
  then show ?thesis by (simp add: tagsValues_def)
qed

lemma map_of_tagsValues: "map_of (tagsValues ts) = map_of (rev (map tag_pair ts))"
  by (simp add: tagsValues_foldl map_of_foldl_update)

lemma wf_tagsValues [simp]: "wf_map (tagsValues ts)"
  by (simp add: tagsValues_foldl wf_foldl_update)

lemma tagsValues_tag_of:
  assumes "wf_map m"
  shows "map_of (tagsValues (map tag_of m)) = map_of m"
proof -
  have "map (tag_pair \<circ> tag_of) m = m"
    by (induction m) (auto simp: tag_pair_def tag_of_def StringValue_def)
  with assms show ?thesis by (simp add: map_of_tagsValues map_of_rev_distinct)
qed

section \<open>Snapshots of an instance\<close>

lemma snapshot_infos_tagged:
  "snapshot_infos p ctx i ss w = (Ok infos, w') \<Longrightarrow> s \<in> set infos \<Longrightarrow>
   map_of (si_Tags s) ''instance-id'' = Some i"
proof (induction ss arbitrary: infos w w')
  case (Cons x xs)
  from Cons.prems(1) obtain ts created name rest w1 w2 where
      rest: "snapshot_infos p ctx i xs w1 = (Ok rest, w2)"
      and infos: "infos = (if map_of (tagsValues ts) ''instance-id'' = Some i
        then \<lparr>si_Name = name, si_CreateTime = created, si_Tags = tagsValues ts\<rparr> # rest else rest)"
    by (auto simp: Let_def elim!: andThen_OkE split: option.splits list.splits)
  with Cons.IH [OF rest] Cons.prems(2) show ?case by (auto split: if_splits)
qed simp

text \<open>The entry for one snapshot when its tags can be read; \<open>tags\<close> gives the tags of a resource.\<close>

definition snapshot_info :: "(string \<Rightarrow> Tag list) \<Rightarrow> 'w RedisProvider \<Rightarrow> Snapshot \<Rightarrow> SnapshotInfo" where
  "snapshot_info tags p s =
     \<lparr>si_Name = the (sn_SnapshotName s),
      si_CreateTime = the (ns_SnapshotCreateTime (hd (sn_NodeSnapshots s))),
      si_Tags = tagsValues (tags (snapshotARN p (the (sn_SnapshotName s))))\<rparr>"

definition complete_snapshot :: "Snapshot \<Rightarrow> bool" where
  "complete_snapshot s \<longleftrightarrow> sn_SnapshotName s \<noteq> None \<and> sn_NodeSnapshots s \<noteq> [] \<and>
     ns_SnapshotCreateTime (hd (sn_NodeSnapshots s)) \<noteq> None"

lemma snapshot_infos_static:
  assumes tags: "\<And>arn w. ListTagsForResource (elastiCache p) ctx arn w = (Ok (tags arn), w)"
    and "list_all complete_snapshot ss"
  shows "snapshot_infos p ctx i ss w =
    (Ok (filter (\<lambda>s. map_of (si_Tags s) ''instance-id'' = Some i) (map (snapshot_info tags p) ss)), w)"
  using assms(2)
proof (induction ss)
  case (Cons x xs)
  then obtain name created ns where "sn_SnapshotName x = Some name" and "sn_NodeSnapshots x = created # ns"
      and "ns_SnapshotCreateTime created \<noteq> None"
    by (cases "sn_NodeSnapshots x") (auto simp: complete_snapshot_def)
  with Cons tags show ?case
    by (auto simp: andThen_eqs Let_def snapshot_info_def)
qed simp

section \<open>The contract\<close>

lemma no_error_getMessage [no_error_rules]: "no_error (getMessage p ctx rg s)"
  unfolding getMessage_def cluster_lines_def by (intro no_error_rules)

lemma no_error_collect_members [no_error_rules]: "no_error (collect_members ms ip)"
proof (induction ms arbitrary: ip)
  case Nil
  show ?case unfolding collect_members.simps by (rule no_error_ret)
next
  case (Cons m ms)
  show ?case unfolding collect_members.simps by (intro no_error_rules Cons)
qed

lemma no_error_collect_groups [no_error_rules]: "no_error (collect_groups gs ip)"
proof (induction gs arbitrary: ip)
  case Nil
  show ?case unfolding collect_groups.simps by (rule no_error_ret)
next
  case (Cons g gs)
  show ?case unfolding collect_groups.simps by (intro no_error_rules Cons)
qed

lemma no_error_collect_parameters [no_error_rules]: "no_error (collect_parameters qs ip)"
proof (induction qs arbitrary: ip)
  case Nil
  show ?case unfolding collect_parameters.simps by (rule no_error_ret)
next
  case (Cons q qs)
  show ?case unfolding collect_parameters.simps Let_def by (intro no_error_rules Cons)
qed

lemma no_error_ProgressState: "no_error (ProgressState p ctx i operation old)"
  unfolding ProgressState_def Let_def by (intro no_error_rules)

lemma no_error_GetInstanceParameters: "no_error (GetInstanceParameters p ctx i)"
  unfolding GetInstanceParameters_def maintenance_window_def Let_def by (intro no_error_rules)

lemma GenerateCredentials_Ok:
  assumes "GenerateCredentials p ctx i bindingID w = (Ok c, w')"
  obtains rg w1 secret w2 where "describeReplicationGroup p ctx (GenerateReplicationGroupName i) w = (Ok rg, w1)"
    and "host_and_port (GenerateReplicationGroupName i) rg w1 = (Ok (cr_Host c, cr_Port c), w2)"
    and "GetSecretValue (secretsManager p) ctx (getAuthTokenPath p i) w2 = (Ok secret, w')"
    and "c = \<lparr>cr_Host = cr_Host c, cr_Port = cr_Port c, cr_Name = GenerateReplicationGroupName i,
          cr_Password = StringValue secret,
          cr_URI = url_String ''rediss'' [] (StringValue secret) (cr_Host c @ '':'' @ show_int (cr_Port c)),
          cr_TLSEnabled = True\<rparr>"
  using assms unfolding GenerateCredentials_def Let_def StringValue_def [symmetric]
  by (auto elim!: handle_OkE andThen_OkE split: if_splits)

interpretation redis: provider_contract "redis_provider env p" for env p
proof
  show "map_of (si_Tags s) ''instance-id'' = Some i"
    if "p_FindSnapshots (redis_provider env p) ctx i w = (Ok ss, w')" and "s \<in> set ss" for ctx i w ss w' s
    using that by (auto simp: redis_provider_def FindSnapshots_def elim!: andThen_OkE intro: snapshot_infos_tagged)
  show "cr_TLSEnabled c"
    if "p_GenerateCredentials (redis_provider env p) ctx i bindingID w = (Ok c, w')" for ctx i bindingID w c w'
    using that by (auto simp: redis_provider_def elim!: GenerateCredentials_Ok) (metis Credentials.select_convs(6))
qed (simp_all add: redis_provider_def no_error_ProgressState no_error_GetInstanceParameters RevokeCredentials_def)

end
