(* ===== verification/Broker.thy ===== *)
theory Broker
  imports Config Parameters Go_Time Redis_Provider
begin

text \<open>
  The service broker, \<^verbatim>\<open>broker/broker.go\<close>: every method of \<^verbatim>\<open>Broker\<close> with its guards and early returns
  in the order of the code. The provider it calls is the interface record \<open>'w Provider\<close>; clock, map
  order and sorting come from the run-time environment. Logging is left out, since it changes no
  state the program reads.
\<close>

section \<open>Types of brokerapi\<close>

record ProvisionDetails =
  pd_ServiceID :: string
  pd_PlanID :: string
  pd_OrganizationGUID :: string
  pd_SpaceGUID :: string
  pd_RawParameters :: string

record ProvisionedServiceSpec =
  ps_IsAsync :: bool
  ps_AlreadyExists :: bool
  ps_DashboardURL :: string
  ps_OperationData :: string

record PreviousValues =
  pv_PlanID :: string
  pv_ServiceID :: string

record UpdateDetails =
  ud_ServiceID :: string
  ud_PlanID :: string
  ud_RawParameters :: string
  ud_PreviousValues :: PreviousValues

record UpdateServiceSpec =
  us_IsAsync :: bool
  us_DashboardURL :: string
  us_OperationData :: string

record DeprovisionDetails =
  dd_PlanID :: string
  dd_ServiceID :: string

record DeprovisionServiceSpec =
  dps_IsAsync :: bool
  dps_OperationData :: string

record GetInstanceDetailsSpec =
  gi_ServiceID :: string
  gi_PlanID :: string
  gi_DashboardURL :: string
  gi_Parameters :: InstanceParameters

record PollDetails =
  po_OperationData :: string

record LastOperation =
  lo_State :: string
  lo_Description :: string

definition InProgress :: string where "InProgress = ''in progress''"
definition Succeeded :: string where "Succeeded = ''succeeded''"
definition Failed :: string where "Failed = ''failed''"

lemmas last_operation_states = InProgress_def Succeeded_def Failed_def

definition ErrAsyncRequired :: go_error where
  "ErrAsyncRequired =
     FailureResponse ''This service plan requires client support for asynchronous service operations.''
       422 ''async-required'' False ''AsyncRequired''"

definition ErrInstanceDoesNotExist :: go_error where
  "ErrInstanceDoesNotExist = FailureResponse ''instance does not exist'' 410 ''instance-missing'' True []"

section \<open>The broker and its operation data\<close>

record 'w Broker =
  b_config :: Config
  b_provider :: "'w Provider"

definition New :: "Config \<Rightarrow> 'w Provider \<Rightarrow> 'w Broker" where
  "New config provider = \<lparr>b_config = config, b_provider = provider\<rparr>"

record Operation =
  op_Action :: string
  op_PrimaryNode :: string
  op_TimeOut :: string

definition emptyOperation :: Operation where
  "emptyOperation = \<lparr>op_Action = [], op_PrimaryNode = [], op_TimeOut = []\<rparr>"

definition Operation_String :: "Operation \<Rightarrow> string" where
  "Operation_String o' =
     json_object [(''action'', op_Action o'), (''primaryNode'', op_PrimaryNode o'), (''timeOut'', op_TimeOut o')]"

definition set_operation_field :: "string \<Rightarrow> json \<Rightarrow> Operation \<Rightarrow> go_error + Operation" where
  "set_operation_field n v r =
     (let fld = ''Operation.'' @ n in
      if n = ''action'' then map_sum id (\<lambda>x. r\<lparr>op_Action := x\<rparr>) (decode_string fld v (op_Action r))
      else if n = ''primaryNode'' then
        map_sum id (\<lambda>x. r\<lparr>op_PrimaryNode := x\<rparr>) (decode_string fld v (op_PrimaryNode r))
      else map_sum id (\<lambda>x. r\<lparr>op_TimeOut := x\<rparr>) (decode_string fld v (op_TimeOut r)))"

text \<open>\<^verbatim>\<open>json.Unmarshal([]byte(data), &operation)\<close> into an empty \<^verbatim>\<open>Operation\<close>.\<close>

definition unmarshal_operation :: "string \<Rightarrow> go_error + Operation" where
  "unmarshal_operation data =
     unmarshal_struct ''broker.Operation'' [''action'', ''primaryNode'', ''timeOut'']
       set_operation_field emptyOperation data"

definition ActionProvisioning :: string where "ActionProvisioning = ''provisioning''"
definition ActionDeprovisioning :: string where "ActionDeprovisioning = ''deprovisioning''"
definition ActionUpdating :: string where "ActionUpdating = ''updating''"
definition ActionFailover :: string where "ActionFailover = ''failover''"
definition FailoverTimeout :: int where "FailoverTimeout = 45 * Minute"

lemmas action_defs = ActionProvisioning_def ActionDeprovisioning_def ActionUpdating_def ActionFailover_def

lemma ascii_actions [simp]:
  "ascii ActionProvisioning" "ascii ActionDeprovisioning" "ascii ActionUpdating" "ascii ActionFailover"
  by code_simp+

lemma actions_not_Nil [simp]:
  "ActionProvisioning \<noteq> []" "ActionDeprovisioning \<noteq> []" "ActionUpdating \<noteq> []" "ActionFailover \<noteq> []"
  by (simp_all add: action_defs)

definition providerCtx :: "go_context \<Rightarrow> go_context" where
  "providerCtx ctx = WithTimeout ctx (30 * Second)"

definition ByCreateTime_Less :: "SnapshotInfo \<Rightarrow> SnapshotInfo \<Rightarrow> bool" where
  "ByCreateTime_Less a b \<longleftrightarrow> si_CreateTime a > si_CreateTime b"

section \<open>Methods that only read\<close>

definition GetBinding :: "'w Broker \<Rightarrow> go_context \<Rightarrow> string \<Rightarrow> string \<Rightarrow> ('w, unit) go" where
  "GetBinding b ctx first second = fail (ErrorString ''GetBinding method not implemented'')"

definition GetInstance :: "'w Broker \<Rightarrow> go_context \<Rightarrow> string \<Rightarrow> ('w, GetInstanceDetailsSpec) go" where
  "GetInstance b ctx instanceID =
     andThen (p_GetInstanceParameters (b_provider b) ctx instanceID) (\<lambda>(instanceParameters, err).
       case err of
         Some e \<Rightarrow> fail e
       | None \<Rightarrow>
     andThen (p_GetInstanceTags (b_provider b) ctx instanceID) (\<lambda>instanceTags.
     ret \<lparr>gi_ServiceID = mindex instanceTags ''service-id'', gi_PlanID = mindex instanceTags ''plan-id'',
          gi_DashboardURL = [], gi_Parameters = instanceParameters\<rparr>))"

definition LastBindingOperation ::
    "'w Broker \<Rightarrow> go_context \<Rightarrow> string \<Rightarrow> string \<Rightarrow> PollDetails \<Rightarrow> ('w, LastOperation) go" where
  "LastBindingOperation b ctx first second pollDetails =
     fail (ErrorString ''LastBindingOperation method not implemented'')"

definition Services :: "'w Broker \<Rightarrow> go_context \<Rightarrow> ('w, Service list) go" where
  "Services b ctx = ret (c_Catalog (b_config b))"

section \<open>Provision\<close>

text \<open>
  The snapshot to restore from: the most recent one of the named instance, if it belongs to
  the same space, organisation and plan.
\<close>

definition restore_snapshot ::
    "'w go_env \<Rightarrow> 'w Broker \<Rightarrow> go_context \<Rightarrow> ProvisionDetails \<Rightarrow> string option \<Rightarrow> ('w, string option) go" where
  "restore_snapshot env b ctx details source = (case source of
      None \<Rightarrow> ret None
    | Some instance_id \<Rightarrow>
        andThen (p_FindSnapshots (b_provider b) ctx instance_id) (\<lambda>snapshots.
        if length snapshots = 0 then fail (ErrorString (''No snapshots found for: '' @ instance_id))
        else (case sort_Sort env ByCreateTime_Less snapshots of
           [] \<Rightarrow> panic ''index out of range''
         | latestSnapshot # _ \<Rightarrow>
           if map_of (si_Tags latestSnapshot) ''space-id'' \<noteq> Some (pd_SpaceGUID details) then
             fail (ErrorString ''The service instance you are getting a snapshot from is not in the same org or space'')
           else if map_of (si_Tags latestSnapshot) ''organization-id'' \<noteq> Some (pd_OrganizationGUID details) then
             fail (ErrorString ''The service instance you are getting a snapshot from is not in the same org or space'')
           else if map_of (si_Tags latestSnapshot) ''plan-id'' \<noteq> Some (pd_PlanID details) then
             fail (ErrorString ''You must use the same plan as the service instance you are getting a snapshot from'')
           else ret (Some (si_Name latestSnapshot)))))"

definition copy_map :: "'w go_env \<Rightarrow> string gomap \<Rightarrow> string gomap" where
  "copy_map env m = foldl (\<lambda>acc (k, v). AList.update k v acc) [] (range_map (map_order env) m)"

definition instance_parameters :: "'w go_env \<Rightarrow> PlanConfig \<Rightarrow> string option \<Rightarrow> string gomap" where
  "instance_parameters env planConfig maxMemoryPolicy =
     (case maxMemoryPolicy of
        None \<Rightarrow> copy_map env (pc_Parameters planConfig)
      | Some policy \<Rightarrow> AList.update ''maxmemory-policy'' policy (copy_map env (pc_Parameters planConfig)))"

definition instance_tags :: "'w Broker \<Rightarrow> string \<Rightarrow> ProvisionDetails \<Rightarrow> string gomap" where
  "instance_tags b instanceID details =
     [(''created-by'', c_BrokerName (b_config b)),
      (''service-id'', pd_ServiceID details),
      (''plan-id'', pd_PlanID details),
      (''organization-id'', pd_OrganizationGUID details),
      (''space-id'', pd_SpaceGUID details),
      (''instance-id'', instanceID),
      (''chargeable_entity'', instanceID)]"

definition provision_parameters ::
    "'w go_env \<Rightarrow> 'w Broker \<Rightarrow> string \<Rightarrow> ProvisionDetails \<Rightarrow> PlanConfig \<Rightarrow> UserProvisionParameters \<Rightarrow>
     string option \<Rightarrow> ProvisionParameters" where
  "provision_parameters env b instanceID details planConfig userParameters restoreFromSnapshotName =
     \<lparr>pp_InstanceType = pc_InstanceType planConfig,
      pp_CacheParameterGroupFamily = pc_CacheParameterGroupFamily planConfig,
      pp_SecurityGroupIds = c_VpcSecurityGroupIds (b_config b),
      pp_CacheSubnetGroupName = c_CacheSubnetGroupName (b_config b),
      pp_PreferredMaintenanceWindow = up_PreferredMaintenanceWindow userParameters,
      pp_ReplicasPerNodeGroup = pc_ReplicasPerNodeGroup planConfig,
      pp_ShardCount = pc_ShardCount planConfig,
      pp_SnapshotRetentionLimit = pc_SnapshotRetentionLimit planConfig,
      pp_RestoreFromSnapshot = restoreFromSnapshotName,
      pp_AutomaticFailoverEnabled = pc_AutomaticFailoverEnabled planConfig,
      pp_MultiAZEnabled = pc_MultiAZEnabled planConfig,
      pp_Description = ''Cloud Foundry service'',
      pp_Parameters = instance_parameters env planConfig (up_MaxMemoryPolicy userParameters),
      pp_Tags = instance_tags b instanceID details,
      pp_Engine = pc_Engine planConfig,
      pp_EngineVersion = pc_EngineVersion planConfig\<rparr>"

text \<open>The error text that both \<^verbatim>\<open>Provision\<close> and \<^verbatim>\<open>Deprovision\<close> build around an error of the provider.\<close>

definition provider_error :: "string \<Rightarrow> go_error \<Rightarrow> go_error" where
  "provider_error planID err = ErrorString (''provider redis for plan '' @ planID @ '': '' @ Error err)"

definition Broker_Provision ::
    "'w go_env \<Rightarrow> 'w Broker \<Rightarrow> go_context \<Rightarrow> string \<Rightarrow> ProvisionDetails \<Rightarrow> bool \<Rightarrow>
     ('w, ProvisionedServiceSpec) go" where
  "Broker_Provision env b ctx instanceID details asyncAllowed =
     (if \<not> asyncAllowed then fail ErrAsyncRequired
      else (case GetPlanConfig (b_config b) (pd_PlanID details) of
         Inl err \<Rightarrow> fail (ErrorString (''service plan '' @ pd_PlanID details @ '': '' @ Error err))
       | Inr planConfig \<Rightarrow>
     andThen (lift (if length (pd_RawParameters details) > 0
                    then parseProvisionParameters env (pd_RawParameters details)
                    else Inr emptyProvisionParameters)) (\<lambda>userParameters.
     andThen (restore_snapshot env b (providerCtx ctx) details (up_RestoreFromLatestSnapshotOf userParameters))
       (\<lambda>restoreFromSnapshotName.
     handle (p_Provision (b_provider b) (providerCtx ctx) instanceID
              (provision_parameters env b instanceID details planConfig userParameters restoreFromSnapshotName))
       (\<lambda>err. fail (provider_error (pd_PlanID details) err))
       (\<lambda>_. ret \<lparr>ps_IsAsync = True, ps_AlreadyExists = False, ps_DashboardURL = [],
                ps_OperationData = Operation_String (emptyOperation\<lparr>op_Action := ActionProvisioning\<rparr>)\<rparr>)))))"

section \<open>Update\<close>

definition update_spec :: "Operation \<Rightarrow> UpdateServiceSpec" where
  "update_spec operation =
     \<lparr>us_IsAsync = True, us_DashboardURL = [], us_OperationData = Operation_String operation\<rparr>"

text \<open>Why a failover test is refused, if it is.\<close>

definition failover_guard :: "PlanConfig \<Rightarrow> UserUpdateParameters \<Rightarrow> go_error option" where
  "failover_guard planConfig userParameters =
     (if mindex (pc_Parameters planConfig) ''cluster-enabled'' = ''yes'' then
        Some (ErrorString ''Test failover is not supported for Redis instances in cluster mode'')
      else if pc_MultiAZEnabled planConfig = False \<or> pc_AutomaticFailoverEnabled planConfig = False then
        Some (ErrorString ''Test failover is not supported without MultiAZEnabled and AutomaticFailoverEnabled'')
      else if pc_ReplicasPerNodeGroup planConfig < 1 then
        Some (ErrorString ''Test failover requires one or more replicas'')
      else if uu_MaxMemoryPolicy userParameters \<noteq> None \<or> uu_PreferredMaintenanceWindow userParameters \<noteq> [] then
        Some (ErrorString ''Test failover must be used by itself'')
      else None)"

definition failover_timeout_text :: "'w go_env \<Rightarrow> time \<Rightarrow> string" where
  "failover_timeout_text env now =
     Format_RFC3339 (local_zone env (now + FailoverTimeout)) (now + FailoverTimeout)"

definition update_failover ::
    "'w go_env \<Rightarrow> 'w Broker \<Rightarrow> go_context \<Rightarrow> string \<Rightarrow> UpdateDetails \<Rightarrow> UserUpdateParameters \<Rightarrow>
     ('w, UpdateServiceSpec) go" where
  "update_failover env b ctx instanceID details userParameters =
     (case GetPlanConfig (b_config b) (ud_PlanID details) of
        Inl err \<Rightarrow> fail (WithMessage err ''Failed to find service plan'')
      | Inr planConfig \<Rightarrow> (case failover_guard planConfig userParameters of
          Some err \<Rightarrow> fail err
        | None \<Rightarrow>
     handle (p_StartFailoverTest (b_provider b) ctx instanceID)
       (\<lambda>err. fail (WithMessage err ''Test failover failed: ''))
       (\<lambda>primaryNode.
     andThen (read_clock env) (\<lambda>now.
     ret (update_spec \<lparr>op_Action = ActionFailover, op_PrimaryNode = primaryNode,
                       op_TimeOut = failover_timeout_text env now\<rparr>)))))"

definition update_maintenance_window ::
    "'w Broker \<Rightarrow> go_context \<Rightarrow> string \<Rightarrow> UserUpdateParameters \<Rightarrow> ('w, unit) go" where
  "update_maintenance_window b ctx instanceID userParameters =
     (if uu_PreferredMaintenanceWindow userParameters \<noteq> [] then
        handle (p_UpdateReplicationGroup (b_provider b) ctx instanceID
                 \<lparr>urg_PreferredMaintenanceWindow = uu_PreferredMaintenanceWindow userParameters\<rparr>)
          (\<lambda>err. fail (WithMessage err ''Updating preferred maintenance window failed'')) ret
      else ret ())"

definition update_maxmemory_policy ::
    "'w Broker \<Rightarrow> go_context \<Rightarrow> string \<Rightarrow> UserUpdateParameters \<Rightarrow> ('w, unit) go" where
  "update_maxmemory_policy b ctx instanceID userParameters = (case uu_MaxMemoryPolicy userParameters of
      None \<Rightarrow> ret ()
    | Some policy \<Rightarrow>
        handle (p_UpdateParamGroupParameters (b_provider b) ctx instanceID
                 \<lparr>upg_Parameters = [(''maxmemory-policy'', policy)]\<rparr>)
          (\<lambda>err. fail (WithMessage err ''Updating maxmemory policy failed'')) ret)"

definition Broker_Update ::
    "'w go_env \<Rightarrow> 'w Broker \<Rightarrow> go_context \<Rightarrow> string \<Rightarrow> UpdateDetails \<Rightarrow> bool \<Rightarrow> ('w, UpdateServiceSpec) go" where
  "Broker_Update env b ctx instanceID details asyncAllowed =
     (if \<not> asyncAllowed then fail ErrAsyncRequired
      else if ud_PlanID details \<noteq> pv_PlanID (ud_PreviousValues details) then
        fail (ErrorString ''changing plans is not currently supported'')
      else if ud_ServiceID details \<noteq> pv_ServiceID (ud_PreviousValues details) then
        fail (ErrorString ''changing plans is not currently supported'')
      else
     andThen (lift (if length (ud_RawParameters details) > 0
                    then parseUpdateParameters env (ud_RawParameters details)
                    else Inr emptyUpdateParameters)) (\<lambda>userParameters.
       if checkIfNoUpdateParametersAreSet userParameters then fail (ErrorString ''no parameters provided'')
       else if uu_TestFailover userParameters \<noteq> None then
         update_failover env b (providerCtx ctx) instanceID details userParameters
       else
         andThen (update_maintenance_window b (providerCtx ctx) instanceID userParameters) (\<lambda>_.
         andThen (update_maxmemory_policy b (providerCtx ctx) instanceID userParameters) (\<lambda>_.
         ret (update_spec (emptyOperation\<lparr>op_Action := ActionUpdating\<rparr>))))))"

section \<open>Deprovision, Bind and Unbind\<close>

definition Broker_Deprovision ::
    "'w Broker \<Rightarrow> go_context \<Rightarrow> string \<Rightarrow> DeprovisionDetails \<Rightarrow> bool \<Rightarrow> ('w, DeprovisionServiceSpec) go" where
  "Broker_Deprovision b ctx instanceID details asyncAllowed =
     (if \<not> asyncAllowed then fail ErrAsyncRequired
      else
     handle (p_Deprovision (b_provider b) (providerCtx ctx) instanceID \<lparr>dp_FinalSnapshotIdentifier = []\<rparr>)
       (\<lambda>err. fail (provider_error (dd_PlanID details) err))
       (\<lambda>_. ret \<lparr>dps_IsAsync = True,
                dps_OperationData = Operation_String (emptyOperation\<lparr>op_Action := ActionDeprovisioning\<rparr>)\<rparr>))"

text \<open>The binding holds the credentials; its other fields keep their zero values.\<close>

definition Bind ::
    "'w Broker \<Rightarrow> go_context \<Rightarrow> string \<Rightarrow> string \<Rightarrow> bool \<Rightarrow> ('w, Credentials) go" where
  "Bind b ctx instanceID bindingID asyncAllowed = p_GenerateCredentials (b_provider b) ctx instanceID bindingID"

definition Unbind ::
    "'w Broker \<Rightarrow> go_context \<Rightarrow> string \<Rightarrow> string \<Rightarrow> bool \<Rightarrow> ('w, unit) go" where
  "Unbind b ctx instanceID bindingID asyncAllowed = p_RevokeCredentials (b_provider b) ctx instanceID bindingID"

section \<open>LastOperation\<close>

definition ProviderStatesMapping :: "ServiceState \<Rightarrow> string \<times> go_error option" where
  "ProviderStatesMapping state =
     (if state = Available then (Succeeded, None)
      else if state = CreateFailed then (Failed, None)
      else if state = Creating \<or> state = Modifying \<or> state = Deleting \<or> state = Snapshotting then (InProgress, None)
      else (InProgress, Some (ErrorString (''Unknown service state: '' @ state))))"

text \<open>The operation data of the request; without any, the zero value.\<close>

definition poll_operation :: "string \<Rightarrow> go_error + Operation" where
  "poll_operation data =
     (if data = [] then Inr emptyOperation
      else (case unmarshal_operation data of
         Inl _ \<Rightarrow> Inl (ErrorString (''invalid operation data: '' @ data))
       | Inr operation \<Rightarrow>
           if op_Action operation = [] then
             Inl (ErrorString (''invalid operation, action parameter is empty: '' @ data))
           else Inr operation))"

definition check_timeout :: "'w go_env \<Rightarrow> string \<Rightarrow> Operation \<Rightarrow> ('w, unit) go" where
  "check_timeout env instanceID operation =
     (if op_TimeOut operation = [] then ret ()
      else (case Parse_RFC3339 (op_TimeOut operation) of
         Inl err \<Rightarrow> fail (WithMessage err ''Failed to parse time out string'')
       | Inr timeOutParsed \<Rightarrow>
           andThen (read_clock env) (\<lambda>now.
             if now > timeOutParsed then
               fail (ErrorString (''Operation '' @ op_Action operation @ '' timed out for '' @ instanceID))
             else ret ())))"

text \<open>What is made of the provider's answer.\<close>

definition report_state ::
    "'w Broker \<Rightarrow> go_context \<Rightarrow> string \<Rightarrow> string \<Rightarrow> ServiceState \<times> string \<times> go_error option \<Rightarrow>
     ('w, LastOperation) go" where
  "report_state b ctx instanceID operationAction = (\<lambda>(state, stateDescription, err).
     case err of
       Some e \<Rightarrow> fail (ErrorString (''error getting state for '' @ instanceID @ '': '' @ Error e))
     | None \<Rightarrow>
       if state = NonExisting then
         (if operationAction = ActionDeprovisioning then
            handle (p_DeleteCacheParameterGroup (b_provider b) ctx instanceID)
              (\<lambda>e. fail (ErrorString (''error deleting parameter group '' @ instanceID @ '': '' @ Error e)))
              (\<lambda>_. fail ErrInstanceDoesNotExist)
          else fail ErrInstanceDoesNotExist)
       else ret \<lparr>lo_State = fst (ProviderStatesMapping state), lo_Description = stateDescription\<rparr>)"

definition Broker_LastOperation ::
    "'w go_env \<Rightarrow> 'w Broker \<Rightarrow> go_context \<Rightarrow> string \<Rightarrow> PollDetails \<Rightarrow> ('w, LastOperation) go" where
  "Broker_LastOperation env b ctx instanceID pollDetails =
     andThen (lift (poll_operation (po_OperationData pollDetails))) (\<lambda>operation.
     andThen (check_timeout env instanceID operation) (\<lambda>_.
     andThen (p_ProgressState (b_provider b) (providerCtx ctx) instanceID (op_Action operation) (op_PrimaryNode operation))
       (report_state b (providerCtx ctx) instanceID (op_Action operation))))"

section \<open>Operation data\<close>

definition valid_operation :: "Operation \<Rightarrow> bool" where
  "valid_operation o' \<longleftrightarrow> valid_utf8 (op_Action o') \<and> valid_utf8 (op_PrimaryNode o') \<and> valid_utf8 (op_TimeOut o')"

lemma unmarshal_operation_String:
  assumes "valid_operation o'"
  shows "unmarshal_operation (Operation_String o') = Inr o'"
proof -
  have keys: "valid_utf8 ''action''" "valid_utf8 ''primaryNode''" "valid_utf8 ''timeOut''"
    by (rule valid_utf8_ascii, code_simp)+
  have "parse_json (Operation_String o') = Inr (json_strings
      [(''action'', op_Action o'), (''primaryNode'', op_PrimaryNode o'), (''timeOut'', op_TimeOut o')])"
    unfolding Operation_String_def
    by (rule json_text.decode_encode) (use assms keys in \<open>simp add: utf8_members_def valid_operation_def\<close>)
  then show ?thesis
    by (simp add: unmarshal_operation_def unmarshal_struct_def json_strings_def store_member_def find_field_def
        set_operation_field_def decode_string_def emptyOperation_def)
qed

interpretation operation_data: codec valid_operation Operation_String unmarshal_operation id
  by unfold_locales (simp add: unmarshal_operation_String)

lemma Operation_String_not_Nil [simp]: "Operation_String o' \<noteq> []"
  by (simp add: Operation_String_def json_object_with_def)

lemma poll_operation_String:
  "valid_operation o' \<Longrightarrow> op_Action o' \<noteq> [] \<Longrightarrow> poll_operation (Operation_String o') = Inr o'"
  by (simp add: poll_operation_def operation_data.decode_encode)

lemma valid_action_operation: "ascii a \<Longrightarrow> valid_operation (emptyOperation\<lparr>op_Action := a\<rparr>)"
  by (simp add: valid_operation_def emptyOperation_def valid_utf8_ascii)

section \<open>Snapshots in order of their creation\<close>

lemma slice_order_ByCreateTime: "slice_order ByCreateTime_Less"
  by (auto simp: slice_order_def ByCreateTime_Less_def)

interpretation by_create_time: sorter ByCreateTime_Less "insertionSort ByCreateTime_Less"
  by (rule sorter_insertionSort [OF slice_order_ByCreateTime])

text \<open>\<^verbatim>\<open>sort.Sort\<close> does what its documentation says on slices of snapshots.\<close>

definition sorts_snapshots :: "'w go_env \<Rightarrow> bool" where
  "sorts_snapshots env \<longleftrightarrow> sorter ByCreateTime_Less (sort_Sort env ByCreateTime_Less)"

lemma restore_snapshot_SomeE:
  assumes "restore_snapshot env b ctx d (Some source) w = (Ok r, w')"
  obtains ss latest rest where "p_FindSnapshots (b_provider b) ctx source w = (Ok ss, w')" and "ss \<noteq> []"
    and "sort_Sort env ByCreateTime_Less ss = latest # rest" and "r = Some (si_Name latest)"
    and "map_of (si_Tags latest) ''space-id'' = Some (pd_SpaceGUID d)"
    and "map_of (si_Tags latest) ''organization-id'' = Some (pd_OrganizationGUID d)"
    and "map_of (si_Tags latest) ''plan-id'' = Some (pd_PlanID d)"
  using assms unfolding restore_snapshot_def
  by (auto elim!: andThen_OkE split: if_splits list.splits)

context provider_contract
begin

text \<open>A snapshot that is restored is one of the named instance, of the same tenant and plan, and the latest.\<close>

lemma restored_snapshot:
  assumes "b_provider b = P" and "sorts_snapshots env"
    and "restore_snapshot env b ctx d (Some source) w = (Ok r, w')"
  shows "\<exists>ss s. p_FindSnapshots P ctx source w = (Ok ss, w') \<and> s \<in> set ss \<and> r = Some (si_Name s) \<and>
    map_of (si_Tags s) ''instance-id'' = Some source \<and>
    map_of (si_Tags s) ''space-id'' = Some (pd_SpaceGUID d) \<and>
    map_of (si_Tags s) ''organization-id'' = Some (pd_OrganizationGUID d) \<and>
    map_of (si_Tags s) ''plan-id'' = Some (pd_PlanID d) \<and>
    (\<forall>s' \<in> set ss. si_CreateTime s' \<le> si_CreateTime s)"
  using assms(3)
proof (rule restore_snapshot_SomeE)
  fix ss latest rest
  assume find: "p_FindSnapshots (b_provider b) ctx source w = (Ok ss, w')" and "ss \<noteq> []"
    and srt: "sort_Sort env ByCreateTime_Less ss = latest # rest"
    and rest: "r = Some (si_Name latest)" "map_of (si_Tags latest) ''space-id'' = Some (pd_SpaceGUID d)"
      "map_of (si_Tags latest) ''organization-id'' = Some (pd_OrganizationGUID d)"
      "map_of (si_Tags latest) ''plan-id'' = Some (pd_PlanID d)"
  note sorter = assms(2) [unfolded sorts_snapshots_def]
  have latest: "latest \<in> set ss" using sorter.first_in [OF sorter \<open>ss \<noteq> []\<close>] srt by simp
  have "si_CreateTime s' \<le> si_CreateTime latest" if "s' \<in> set ss" for s'
    using sorter.first_least [OF sorter that] srt by (simp add: ByCreateTime_Less_def)
  with find latest rest assms(1) find_tagged show ?thesis by blast
qed

lemma unbind_nothing: "b_provider b = P \<Longrightarrow> Unbind b ctx i bindingID async = ret ()"
  by (simp add: Unbind_def revoke_nothing)

lemma bind_tls: "b_provider b = P \<Longrightarrow> Bind b ctx i bindingID async w = (Ok c, w') \<Longrightarrow> cr_TLSEnabled c"
  by (auto simp: Bind_def intro: credentials_tls)

text \<open>The provider's own errors never leave \<^verbatim>\<open>LastOperation\<close> or \<^verbatim>\<open>GetInstance\<close> unseen.\<close>

lemma progress_cases:
  assumes "b_provider b = P"
  obtains st m e w' where "p_ProgressState (b_provider b) ctx i operation old w = (Ok (st, m, e), w')"
    | s w' where "p_ProgressState (b_provider b) ctx i operation old w = (Panic s, w')"
proof (cases "fst (p_ProgressState P ctx i operation old w)")
  case (Ok v)
  then show thesis using that(1) assms by (metis prod.collapse)
next
  case (Err e)
  with progress_no_error [of ctx i operation old] show thesis by (metis no_error_def prod.collapse)
next
  case (Panic s)
  then show thesis using that(2) assms by (metis prod.collapse)
qed

end

section \<open>Parameters and tags of a new instance\<close>

lemma map_of_copy_map:
  "visits_all (map_order env) \<Longrightarrow> wf_map m \<Longrightarrow> map_of (copy_map env m) = map_of m"
  by (simp add: copy_map_def map_of_foldl_update map_of_rev_distinct wf_range_map map_of_range_map)

lemma wf_copy_map [simp]: "wf_map (copy_map env m)"
  by (simp add: copy_map_def wf_foldl_update)

lemma wf_instance_parameters [simp]: "wf_map (instance_parameters env pc mp)"
  by (simp add: instance_parameters_def split: option.split)

lemma wf_instance_tags [simp]: "wf_map (instance_tags b i d)"
  by (simp add: instance_tags_def)

lemma map_of_instance_parameters:
  assumes "visits_all (map_order env)" and "wf_map (pc_Parameters pc)"
  shows "map_of (instance_parameters env pc mp) k =
    (case mp of Some policy \<Rightarrow> if k = ''maxmemory-policy'' then Some policy else map_of (pc_Parameters pc) k
     | None \<Rightarrow> map_of (pc_Parameters pc) k)"
  using map_of_copy_map [OF assms] by (auto simp: instance_parameters_def split: option.split)

section \<open>Polling\<close>

lemma check_timeout_none [simp]: "op_TimeOut operation = [] \<Longrightarrow> check_timeout env i operation = ret ()"
  by (simp add: check_timeout_def)

lemma check_timeout_text:
  assumes "Parse_RFC3339 (op_TimeOut operation) = Inr deadline" and "op_TimeOut operation \<noteq> []"
    and "time_Now env w = (now, w')"
  shows "check_timeout env i operation w =
    (if now > deadline
     then (Err (ErrorString (''Operation '' @ op_Action operation @ '' timed out for '' @ i)), w')
     else (Ok (), w'))"
  using assms by (simp add: check_timeout_def andThen_def handle_def read_clock_def)

lemma LastOperation_of_operation:
  assumes "valid_operation o'" and "op_Action o' \<noteq> []"
    and "check_timeout env i o' w = (Ok (), w1)"
  shows "Broker_LastOperation env b ctx i \<lparr>po_OperationData = Operation_String o'\<rparr> w =
    andThen (p_ProgressState (b_provider b) (providerCtx ctx) i (op_Action o') (op_PrimaryNode o'))
       (report_state b (providerCtx ctx) i (op_Action o')) w1"
  using assms(3) poll_operation_String [OF assms(1,2)] by (simp add: Broker_LastOperation_def andThen_eqs(1))

lemma LastOperation_state:
  assumes "valid_operation o'" and "op_Action o' \<noteq> []" and "check_timeout env i o' w = (Ok (), w1)"
    and "p_ProgressState (b_provider b) (providerCtx ctx) i (op_Action o') (op_PrimaryNode o') w1 =
      (Ok (state, message, None), w2)"
    and "state \<noteq> NonExisting"
  shows "Broker_LastOperation env b ctx i \<lparr>po_OperationData = Operation_String o'\<rparr> w =
    (Ok \<lparr>lo_State = fst (ProviderStatesMapping state), lo_Description = message\<rparr>, w2)"
  using assms(4,5) by (simp add: LastOperation_of_operation [OF assms(1-3)] andThen_eqs(1) report_state_def)

lemma ProviderStatesMapping_cases:
  "fst (ProviderStatesMapping s) =
     (if s = ''available'' then ''succeeded'' else if s = ''create-failed'' then ''failed'' else ''in progress'')"
  unfolding ProviderStatesMapping_def service_state_defs last_operation_states by simp

end
