(* ===== verification/Broker_Api.thy ===== *)
theory Broker_Api
  imports Broker_Client Broker
begin

text \<open>
  The HTTP side of the broker: \<^verbatim>\<open>brokerapi.New\<close> of the vendored \<^verbatim>\<open>github.com/pivotal-cf/brokerapi\<close>, that is its router,
  its middlewares and its handlers, over the interface \<^verbatim>\<open>domain.ServiceBroker\<close>, and that interface implemented by the
  broker. Log lines and the values that middlewares put into the context, which the broker does not read, are left out.
\<close>

section \<open>JSON answers\<close>

fun json_print :: "bool \<Rightarrow> json \<Rightarrow> string" where
  "json_print h JNull = ''null''"
| "json_print h (JBool b) = (if b then ''true'' else ''false'')"
| "json_print h (JNumber n) = n"
| "json_print h (JString s) = json_string h s"
| "json_print h (JArray xs) = ''['' @ strings_Join (map (json_print h) xs) '','' @ '']''"
| "json_print h (JObject kvs) =
     ''{'' @ strings_Join (map (\<lambda>(k, v). json_string h k @ '':'' @ json_print h v) kvs) '','' @ ''}''"

definition respond :: "nat \<Rightarrow> json \<Rightarrow> ('w, Response) go" where
  "respond status v = ret \<lparr>rs_StatusCode = status, rs_Body = Inr (json_print False v @ [CHR 0x0A])\<rparr>"

definition omitempty :: "string \<Rightarrow> string \<Rightarrow> (string \<times> string) list" where
  "omitempty k v = (if v = [] then [] else [(k, v)])"

definition ErrorResponse :: "string \<Rightarrow> string \<Rightarrow> json" where
  "ErrorResponse err description = json_strings (omitempty ''error'' err @ [(''description'', description)])"

definition ValidatedStatusCode :: "nat \<Rightarrow> nat" where
  "ValidatedStatusCode code = (if code < 400 \<or> 600 \<le> code then 500 else code)"

text \<open>The type switch on the error that every handler ends with.\<close>

definition respond_error :: "go_error \<Rightarrow> ('w, Response) go" where
  "respond_error e = (case e of
      FailureResponse message statusCode loggerAction emptyResponse errorKey \<Rightarrow>
        respond (ValidatedStatusCode statusCode)
          (if emptyResponse then JObject [] else ErrorResponse errorKey message)
    | _ \<Rightarrow> respond 500 (ErrorResponse [] (Error e)))"

section \<open>Request bodies\<close>

text \<open>
  \<^verbatim>\<open>json.NewDecoder(req.Body).Decode\<close> reads the first value of the body; a member of type \<^verbatim>\<open>json.RawMessage\<close> keeps the text
  of its value. \<open>raw_members\<close> collects the members of an object that the parser accepted, each with its text.
\<close>

fun raw_members :: "nat \<Rightarrow> string \<Rightarrow> (string \<times> json \<times> string) list" where
  "raw_members 0 s = []"
| "raw_members (Suc f) s = (case skip_ws s of
      [] \<Rightarrow> []
    | c # r \<Rightarrow> (case parse_string r of
        Inl e \<Rightarrow> []
      | Inr (k, r1) \<Rightarrow>
          let text = skip_ws (drop 1 (skip_ws r1)) in
          (case parse_value (2 * length text + 2) 1 text of
             Some (Inr (v, r2)) \<Rightarrow>
               (k, v, take (length text - length r2) text) #
               (case skip_ws r2 of c2 # r3 \<Rightarrow> if c2 = CHR '','' then raw_members f r3 else [] | [] \<Rightarrow> [])
           | _ \<Rightarrow> [])))"

definition stream_error :: "go_error \<Rightarrow> go_error" where
  "stream_error e = (case e of JsonSyntaxError None ctx \<Rightarrow> ErrorString ''unexpected EOF'' | _ \<Rightarrow> e)"

definition decode_body ::
    "string \<Rightarrow> string list \<Rightarrow> (string \<Rightarrow> json \<times> string \<Rightarrow> 'r \<Rightarrow> go_error + 'r) \<Rightarrow> 'r \<Rightarrow> Request \<Rightarrow> go_error + 'r" where
  "decode_body tname names setf r req =
     (let body = (case rq_Body req of None \<Rightarrow> [] | Some s \<Rightarrow> s) in
      if skip_ws body = [] then Inl (ErrorString ''EOF'')
      else (case parse_value (2 * length body + 2) 0 body of
         None \<Rightarrow> Inl (ErrorString ''unexpected EOF'') \<comment> \<open>never reached: \<open>parse_value_total\<close>\<close>
       | Some (Inl e) \<Rightarrow> Inl (stream_error e)
       | Some (Inr (v, _)) \<Rightarrow> (case v of
           JNull \<Rightarrow> Inr r
         | JObject kvs \<Rightarrow>
             (case foldl (store_member names setf) (r, None)
                 (if kvs = [] then [] else raw_members (length body) (drop 1 (skip_ws body))) of
                (r', None) \<Rightarrow> Inr r'
              | (_, Some e) \<Rightarrow> Inl e)
         | _ \<Rightarrow> Inl (JsonTypeError (json_kind v) [] tname))))"

text \<open>Members whose value is checked but never read.\<close>

definition check_string :: "string \<Rightarrow> json \<Rightarrow> 'r \<Rightarrow> go_error + 'r" where
  "check_string fld v r = map_sum id (\<lambda>_. r) (decode_string fld v [])"

definition check_public :: "string \<Rightarrow> json \<Rightarrow> go_error + unit" where
  "check_public fld v = (case v of
      JNull \<Rightarrow> Inr ()
    | JObject kvs \<Rightarrow> map_sum id (\<lambda>_. ()) (decode_elements (\<lambda>x. decode_string fld x []) (map snd kvs))
    | _ \<Rightarrow> Inl (JsonTypeError (json_kind v) fld ''map[string]string''))"

definition set_maintenance_field :: "string \<Rightarrow> json \<Rightarrow> unit \<Rightarrow> go_error + unit" where
  "set_maintenance_field n v r =
     (let fld = ''MaintenanceInfo.maintenance_info.'' @ n in
      if n = ''public'' then check_public fld v else check_string fld v r)"

definition check_maintenance_info :: "string \<Rightarrow> json \<Rightarrow> 'r \<Rightarrow> go_error + 'r" where
  "check_maintenance_info fld v r =
     map_sum id (\<lambda>_. r) (decode_struct fld ''domain.MaintenanceInfo'' [''public'', ''private'', ''version'', ''description'']
       set_maintenance_field () v)"

definition set_provision_details ::
    "string \<Rightarrow> json \<times> string \<Rightarrow> ProvisionDetails \<Rightarrow> go_error + ProvisionDetails" where
  "set_provision_details n vr r = (case vr of (v, raw) \<Rightarrow>
     let fld = ''ProvisionDetails.'' @ n in
     if n = ''service_id'' then map_sum id (\<lambda>x. r\<lparr>pd_ServiceID := x\<rparr>) (decode_string fld v (pd_ServiceID r))
     else if n = ''plan_id'' then map_sum id (\<lambda>x. r\<lparr>pd_PlanID := x\<rparr>) (decode_string fld v (pd_PlanID r))
     else if n = ''organization_guid'' then
       map_sum id (\<lambda>x. r\<lparr>pd_OrganizationGUID := x\<rparr>) (decode_string fld v (pd_OrganizationGUID r))
     else if n = ''space_guid'' then map_sum id (\<lambda>x. r\<lparr>pd_SpaceGUID := x\<rparr>) (decode_string fld v (pd_SpaceGUID r))
     else if n = ''context'' then Inr r
     else if n = ''parameters'' then Inr (r\<lparr>pd_RawParameters := raw\<rparr>)
     else check_maintenance_info fld v r)"

definition decode_provision_details :: "Request \<Rightarrow> go_error + ProvisionDetails" where
  "decode_provision_details =
     decode_body ''domain.ProvisionDetails''
       [''service_id'', ''plan_id'', ''organization_guid'', ''space_guid'', ''context'', ''parameters'', ''maintenance_info'']
       set_provision_details
       \<lparr>pd_ServiceID = [], pd_PlanID = [], pd_OrganizationGUID = [], pd_SpaceGUID = [], pd_RawParameters = []\<rparr>"

definition set_previous_field :: "string \<Rightarrow> json \<Rightarrow> PreviousValues \<Rightarrow> go_error + PreviousValues" where
  "set_previous_field n v r =
     (let fld = ''PreviousValues.previous_values.'' @ n in
      if n = ''plan_id'' then map_sum id (\<lambda>x. r\<lparr>pv_PlanID := x\<rparr>) (decode_string fld v (pv_PlanID r))
      else if n = ''service_id'' then map_sum id (\<lambda>x. r\<lparr>pv_ServiceID := x\<rparr>) (decode_string fld v (pv_ServiceID r))
      else check_string fld v r)"

definition set_update_details :: "string \<Rightarrow> json \<times> string \<Rightarrow> UpdateDetails \<Rightarrow> go_error + UpdateDetails" where
  "set_update_details n vr r = (case vr of (v, raw) \<Rightarrow>
     let fld = ''UpdateDetails.'' @ n in
     if n = ''service_id'' then map_sum id (\<lambda>x. r\<lparr>ud_ServiceID := x\<rparr>) (decode_string fld v (ud_ServiceID r))
     else if n = ''plan_id'' then map_sum id (\<lambda>x. r\<lparr>ud_PlanID := x\<rparr>) (decode_string fld v (ud_PlanID r))
     else if n = ''parameters'' then Inr (r\<lparr>ud_RawParameters := raw\<rparr>)
     else if n = ''previous_values'' then
       map_sum id (\<lambda>x. r\<lparr>ud_PreviousValues := x\<rparr>)
         (decode_struct fld ''domain.PreviousValues'' [''plan_id'', ''service_id'', ''organization_id'', ''space_id'']
           set_previous_field (ud_PreviousValues r) v)
     else if n = ''context'' then Inr r
     else check_maintenance_info fld v r)"

definition decode_update_details :: "Request \<Rightarrow> go_error + UpdateDetails" where
  "decode_update_details =
     decode_body ''domain.UpdateDetails''
       [''service_id'', ''plan_id'', ''parameters'', ''previous_values'', ''context'', ''maintenance_info'']
       set_update_details
       \<lparr>ud_ServiceID = [], ud_PlanID = [], ud_RawParameters = [],
        ud_PreviousValues = \<lparr>pv_PlanID = [], pv_ServiceID = []\<rparr>\<rparr>"

record BindDetails =
  bd_PlanID :: string
  bd_ServiceID :: string

definition set_bind_details :: "string \<Rightarrow> json \<times> string \<Rightarrow> BindDetails \<Rightarrow> go_error + BindDetails" where
  "set_bind_details n vr r = (case vr of (v, raw) \<Rightarrow>
     let fld = ''BindDetails.'' @ n in
     if n = ''service_id'' then map_sum id (\<lambda>x. r\<lparr>bd_ServiceID := x\<rparr>) (decode_string fld v (bd_ServiceID r))
     else if n = ''plan_id'' then map_sum id (\<lambda>x. r\<lparr>bd_PlanID := x\<rparr>) (decode_string fld v (bd_PlanID r))
     else if n = ''app_guid'' then check_string fld v r
     else if n = ''bind_resource'' then
       map_sum id (\<lambda>_. r)
         (decode_struct fld ''domain.BindResource'' [''app_guid'', ''space_guid'', ''route'', ''credential_client_id'']
           (\<lambda>n. check_string (''BindResource.bind_resource.'' @ n)) () v)
     else Inr r)"

definition decode_bind_details :: "Request \<Rightarrow> go_error + BindDetails" where
  "decode_bind_details =
     decode_body ''domain.BindDetails''
       [''app_guid'', ''plan_id'', ''service_id'', ''bind_resource'', ''context'', ''parameters''] set_bind_details
       \<lparr>bd_PlanID = [], bd_ServiceID = []\<rparr>"

section \<open>The interface of the broker\<close>

text \<open>
  The results of \<^verbatim>\<open>Bind\<close> and \<^verbatim>\<open>Unbind\<close> have further fields, which this broker leaves at their zero values: bindings are
  synchronous, new and without volume mounts.
\<close>

record 'w ServiceBroker =
  sb_Services :: "go_context \<Rightarrow> ('w, Service list) go"
  sb_Provision :: "go_context \<Rightarrow> string \<Rightarrow> ProvisionDetails \<Rightarrow> bool \<Rightarrow> ('w, ProvisionedServiceSpec) go"
  sb_Deprovision :: "go_context \<Rightarrow> string \<Rightarrow> DeprovisionDetails \<Rightarrow> bool \<Rightarrow> ('w, DeprovisionServiceSpec) go"
  sb_GetInstance :: "go_context \<Rightarrow> string \<Rightarrow> ('w, GetInstanceDetailsSpec) go"
  sb_Update :: "go_context \<Rightarrow> string \<Rightarrow> UpdateDetails \<Rightarrow> bool \<Rightarrow> ('w, UpdateServiceSpec) go"
  sb_LastOperation :: "go_context \<Rightarrow> string \<Rightarrow> PollDetails \<Rightarrow> ('w, LastOperation) go"
  sb_Bind :: "go_context \<Rightarrow> string \<Rightarrow> string \<Rightarrow> bool \<Rightarrow> ('w, Credentials) go"
  sb_Unbind :: "go_context \<Rightarrow> string \<Rightarrow> string \<Rightarrow> bool \<Rightarrow> ('w, unit) go"
  sb_GetBinding :: "go_context \<Rightarrow> string \<Rightarrow> string \<Rightarrow> ('w, unit) go"
  sb_LastBindingOperation :: "go_context \<Rightarrow> string \<Rightarrow> string \<Rightarrow> PollDetails \<Rightarrow> ('w, LastOperation) go"

definition service_broker :: "'w go_env \<Rightarrow> 'w Broker \<Rightarrow> 'w ServiceBroker" where
  "service_broker env b =
     \<lparr>sb_Services = Services b, sb_Provision = Broker_Provision env b, sb_Deprovision = Broker_Deprovision b,
      sb_GetInstance = GetInstance b, sb_Update = Broker_Update env b, sb_LastOperation = Broker_LastOperation env b,
      sb_Bind = Bind b, sb_Unbind = Unbind b, sb_GetBinding = GetBinding b,
      sb_LastBindingOperation = LastBindingOperation b\<rparr>"

section \<open>Versions\<close>

definition scan_int :: "string \<Rightarrow> (int \<times> string) option" where
  "scan_int s =
     (let t = dropWhile (\<lambda>c. c \<in> set ('' '' @ [CHR 0x09])) s;
          u = (if t \<noteq> [] \<and> hd t \<in> set ''+-'' then tl t else t);
          ds = takeWhile is_digit u;
          n = (if t \<noteq> [] \<and> hd t = CHR ''-'' then - int (nat_of_digits ds) else int (nat_of_digits ds))
      in if ds = [] \<or> n < - (2 ^ 63) \<or> 2 ^ 63 \<le> n then None else Some (n, drop (length ds) u))"

text \<open>\<^verbatim>\<open>fmt.Sscanf(s, "%d.%d", &major, &minor)\<close> with both numbers read.\<close>

definition scan_version :: "string \<Rightarrow> (int \<times> int) option" where
  "scan_version s = (case scan_int s of
      Some (major, c # r) \<Rightarrow> if c = CHR ''.'' then map_option (\<lambda>(minor, _). (major, minor)) (scan_int r) else None
    | _ \<Rightarrow> None)"

definition checkBrokerAPIVersionHdr :: "Request \<Rightarrow> string option" where
  "checkBrokerAPIVersionHdr req =
     (let apiVersion = Header_Get (rq_Header req) ''X-Broker-API-Version'' in
      if apiVersion = [] then Some ''X-Broker-API-Version Header not set''
      else (case scan_version apiVersion of
         None \<Rightarrow> Some ''X-Broker-API-Version Header must contain a version''
       | Some (major, minor) \<Rightarrow> if major \<noteq> 2 then Some ''X-Broker-API-Version Header must be 2.x'' else None))"

text \<open>The minor version of a request that passed the check above.\<close>

definition minor_version :: "Request \<Rightarrow> int" where
  "minor_version req = (case scan_version (Header_Get (rq_Header req) ''X-Broker-API-Version'') of
      None \<Rightarrow> 0 | Some (_, minor) \<Rightarrow> minor)"

section \<open>Handlers\<close>

definition missing :: "string \<Rightarrow> ('w, Response) go" where
  "missing message = respond 400 (ErrorResponse [] message)"

definition operation_json :: "string \<Rightarrow> string \<Rightarrow> json" where
  "operation_json dashboardURL operationData =
     json_strings (omitempty ''dashboard_url'' dashboardURL @ omitempty ''operation'' operationData)"

definition Catalog_handler :: "(Service list \<Rightarrow> json) \<Rightarrow> 'w ServiceBroker \<Rightarrow> ('w, Response) go" where
  "Catalog_handler catalog_json sb =
     handle (sb_Services sb RequestContext) (\<lambda>e. respond 500 (ErrorResponse [] (Error e)))
       (\<lambda>services. respond 200 (catalog_json services))"

definition Provision_handler :: "'w ServiceBroker \<Rightarrow> string \<Rightarrow> Request \<Rightarrow> ('w, Response) go" where
  "Provision_handler sb instanceID req = (case decode_provision_details req of
      Inl e \<Rightarrow> respond 422 (ErrorResponse [] (Error e))
    | Inr details \<Rightarrow>
        if pd_ServiceID details = [] then missing ''service_id missing''
        else if pd_PlanID details = [] then missing ''plan_id missing''
        else andThen (handle (sb_Services sb RequestContext) (\<lambda>_. ret []) ret) (\<lambda>services.
        if pd_ServiceID details \<notin> set (map svc_ID services) then missing ''service-id not in the catalog''
        else if pd_PlanID details \<notin> set (concat (map (\<lambda>s. map plan_ID (svc_Plans s)) services))
          then missing ''plan-id not in the catalog''
        else handle (sb_Provision sb RequestContext instanceID details (FormValue req ''accepts_incomplete'' = ''true''))
          respond_error
          (\<lambda>spec. if ps_AlreadyExists spec then respond 200 (operation_json (ps_DashboardURL spec) [])
             else if ps_IsAsync spec then respond 202 (operation_json (ps_DashboardURL spec) (ps_OperationData spec))
             else respond 201 (operation_json (ps_DashboardURL spec) []))))"

definition Deprovision_handler :: "'w ServiceBroker \<Rightarrow> string \<Rightarrow> Request \<Rightarrow> ('w, Response) go" where
  "Deprovision_handler sb instanceID req =
     (let details = \<lparr>dd_PlanID = FormValue req ''plan_id'', dd_ServiceID = FormValue req ''service_id''\<rparr> in
      if dd_ServiceID details = [] then missing ''service_id missing''
      else if dd_PlanID details = [] then missing ''plan_id missing''
      else handle (sb_Deprovision sb RequestContext instanceID details (FormValue req ''accepts_incomplete'' = ''true''))
        respond_error
        (\<lambda>spec. if dps_IsAsync spec then respond 202 (operation_json [] (dps_OperationData spec))
           else respond 200 (JObject [])))"

definition json_cache_parameter :: "CacheParameter \<Rightarrow> json" where
  "json_cache_parameter c =
     json_strings [(''parameter_name'', cp_ParameterName c), (''parameter_value'', cp_ParameterValue c)]"

text \<open>A nil slice is written as \<^verbatim>\<open>null\<close>; the provider builds its slices by appending to nil.\<close>

definition json_slice :: "json list \<Rightarrow> json" where
  "json_slice xs = (if xs = [] then JNull else JArray xs)"

definition json_instance_parameters :: "InstanceParameters \<Rightarrow> json" where
  "json_instance_parameters ip =
     JObject [(''preferred_maintenance_window'', JString (ip_PreferredMaintenanceWindow ip)),
       (''daily_backup_window'', JString (ip_DailyBackupWindow ip)),
       (''maxmemory_policy'', JString (ip_MaxMemoryPolicy ip)),
       (''cache_parameters'', json_slice (map json_cache_parameter (ip_CacheParameters ip))),
       (''active_nodes'', json_slice (map JString (ip_ActiveNodes ip))),
       (''passive_nodes'', json_slice (map JString (ip_PassiveNodes ip))),
       (''auto_failover'', JBool (ip_AutoFailover ip))]"

definition instance_json :: "GetInstanceDetailsSpec \<Rightarrow> json" where
  "instance_json d = JObject (
     [(''service_id'', JString (gi_ServiceID d)), (''plan_id'', JString (gi_PlanID d))] @
     map (map_prod id JString) (omitempty ''dashboard_url'' (gi_DashboardURL d)) @
     [(''parameters'', json_instance_parameters (gi_Parameters d))])"

definition GetInstance_handler :: "'w ServiceBroker \<Rightarrow> string \<Rightarrow> Request \<Rightarrow> ('w, Response) go" where
  "GetInstance_handler sb instanceID req =
     (if minor_version req < 14
        then respond 412 (ErrorResponse [] ''get instance endpoint only supported starting with OSB version 2.14'')
      else handle (sb_GetInstance sb RequestContext instanceID) respond_error (\<lambda>d. respond 200 (instance_json d)))"

definition ParseBool :: "string \<Rightarrow> bool" where
  "ParseBool s \<longleftrightarrow> s \<in> {''1'', ''t'', ''T'', ''TRUE'', ''true'', ''True''}"

definition Update_handler :: "'w ServiceBroker \<Rightarrow> string \<Rightarrow> Request \<Rightarrow> ('w, Response) go" where
  "Update_handler sb instanceID req = (case decode_update_details req of
      Inl e \<Rightarrow> respond 422 (ErrorResponse [] (Error e))
    | Inr details \<Rightarrow>
        if ud_ServiceID details = [] then missing ''service_id missing''
        else handle (sb_Update sb RequestContext instanceID details
            (ParseBool (Values_Get (URL_Query (rq_URL req)) ''accepts_incomplete'')))
          respond_error
          (\<lambda>spec. respond (if us_IsAsync spec then 202 else 200)
             (operation_json (us_DashboardURL spec) (us_OperationData spec))))"

definition last_operation_json :: "LastOperation \<Rightarrow> json" where
  "last_operation_json lo =
     json_strings ([(''state'', lo_State lo)] @ omitempty ''description'' (lo_Description lo))"

definition LastOperation_handler :: "'w ServiceBroker \<Rightarrow> string \<Rightarrow> Request \<Rightarrow> ('w, Response) go" where
  "LastOperation_handler sb instanceID req =
     handle (sb_LastOperation sb RequestContext instanceID \<lparr>po_OperationData = FormValue req ''operation''\<rparr>) respond_error
       (\<lambda>lo. respond 200 (last_operation_json lo))"

definition json_credentials :: "Credentials \<Rightarrow> json" where
  "json_credentials c =
     JObject [(''host'', JString (cr_Host c)), (''port'', JNumber (show_int (cr_Port c))), (''name'', JString (cr_Name c)),
       (''password'', JString (cr_Password c)), (''uri'', JString (cr_URI c)), (''tls_enabled'', JBool (cr_TLSEnabled c))]"

definition Bind_handler :: "'w ServiceBroker \<Rightarrow> string \<Rightarrow> string \<Rightarrow> Request \<Rightarrow> ('w, Response) go" where
  "Bind_handler sb instanceID bindingID req =
     (let asyncAllowed = (14 \<le> minor_version req \<and> FormValue req ''accepts_incomplete'' = ''true'') in
      case decode_bind_details req of
        Inl e \<Rightarrow> respond 422 (ErrorResponse [] (Error e))
      | Inr details \<Rightarrow>
          if bd_ServiceID details = [] then missing ''service_id missing''
          else if bd_PlanID details = [] then missing ''plan_id missing''
          else handle (sb_Bind sb RequestContext instanceID bindingID asyncAllowed)
            (\<lambda>e. if e = ErrInstanceDoesNotExist then respond 404 (ErrorResponse [] (Error e)) else respond_error e)
            (\<lambda>credentials. respond 201 (JObject [(''credentials'', json_credentials credentials)])))"

definition Unbind_handler :: "'w ServiceBroker \<Rightarrow> string \<Rightarrow> string \<Rightarrow> Request \<Rightarrow> ('w, Response) go" where
  "Unbind_handler sb instanceID bindingID req =
     (let asyncAllowed = (FormValue req ''accepts_incomplete'' = ''true'') in
      if asyncAllowed \<and> minor_version req < 14
        then respond 422 (ErrorResponse [] ''async unbinding only supported from OSB version 2.14 and up'')
      else if FormValue req ''service_id'' = [] then missing ''service_id missing''
      else if FormValue req ''plan_id'' = [] then missing ''plan_id missing''
      else handle (sb_Unbind sb RequestContext instanceID bindingID asyncAllowed) respond_error
        (\<lambda>_. respond 200 (JObject [])))"

definition GetBinding_handler :: "'w ServiceBroker \<Rightarrow> string \<Rightarrow> string \<Rightarrow> Request \<Rightarrow> ('w, Response) go" where
  "GetBinding_handler sb instanceID bindingID req =
     (if minor_version req < 14
        then respond 412 (ErrorResponse [] ''get binding endpoint only supported starting with OSB version 2.14'')
      else handle (sb_GetBinding sb RequestContext instanceID bindingID) respond_error
        (\<lambda>_. respond 200 (JObject [(''credentials'', JNull)])))"

definition LastBindingOperation_handler :: "'w ServiceBroker \<Rightarrow> string \<Rightarrow> string \<Rightarrow> Request \<Rightarrow> ('w, Response) go" where
  "LastBindingOperation_handler sb instanceID bindingID req =
     (if minor_version req < 14
        then respond 412 (ErrorResponse [] ''get binding endpoint only supported starting with OSB version 2.14'')
      else handle (sb_LastBindingOperation sb RequestContext instanceID bindingID
            \<lparr>po_OperationData = FormValue req ''operation''\<rparr>) respond_error
        (\<lambda>lo. respond 200 (last_operation_json lo)))"

section \<open>Router and middlewares\<close>

datatype api_call =
    ApiCatalog
  | ApiGetInstance string
  | ApiProvision string
  | ApiDeprovision string
  | ApiUpdate string
  | ApiLastOperation string
  | ApiGetBinding string string
  | ApiBind string string
  | ApiUnbind string string
  | ApiLastBindingOperation string string

text \<open>\<^verbatim>\<open>AttachRoutes\<close>: the methods that a path answers to. A variable of a path template matches one non-empty segment.\<close>

definition route_table :: "string list \<Rightarrow> (string \<times> api_call) list" where
  "route_table segments = (case segments of
      [r, v, c] \<Rightarrow> if [r, v, c] = [[], ''v2'', ''catalog''] then [(''GET'', ApiCatalog)] else []
    | [r, v, s, i] \<Rightarrow>
        if [r, v, s] = [[], ''v2'', ''service_instances''] \<and> i \<noteq> []
        then [(''GET'', ApiGetInstance i), (''PUT'', ApiProvision i), (''DELETE'', ApiDeprovision i), (''PATCH'', ApiUpdate i)]
        else []
    | [r, v, s, i, l] \<Rightarrow>
        if [r, v, s, l] = [[], ''v2'', ''service_instances'', ''last_operation''] \<and> i \<noteq> []
        then [(''GET'', ApiLastOperation i)] else []
    | [r, v, s, i, t, j] \<Rightarrow>
        if [r, v, s, t] = [[], ''v2'', ''service_instances'', ''service_bindings''] \<and> i \<noteq> [] \<and> j \<noteq> []
        then [(''GET'', ApiGetBinding i j), (''PUT'', ApiBind i j), (''DELETE'', ApiUnbind i j)] else []
    | [r, v, s, i, t, j, l] \<Rightarrow>
        if [r, v, s, t, l] = [[], ''v2'', ''service_instances'', ''service_bindings'', ''last_operation''] \<and> i \<noteq> [] \<and> j \<noteq> []
        then [(''GET'', ApiLastBindingOperation i j)] else []
    | _ \<Rightarrow> [])"

text \<open>\<^verbatim>\<open>cleanPath(path) = path\<close>.\<close>

definition clean_path :: "string \<Rightarrow> bool" where
  "clean_path path = (case split_on (CHR ''/'') path of
      r # segs \<Rightarrow> r = [] \<and> segs \<noteq> [] \<and> list_all (\<lambda>s. s \<notin> {[], ''.'', ''..''}) (butlast segs) \<and>
        last segs \<notin> {''.'', ''..''}
    | [] \<Rightarrow> False)"

definition authorized :: "(string \<Rightarrow> string) \<Rightarrow> string \<Rightarrow> string \<Rightarrow> Request \<Rightarrow> bool" where
  "authorized sha256 username password req = (case BasicAuth req of
      None \<Rightarrow> False
    | Some (u, p) \<Rightarrow> sha256 username = sha256 u \<and> sha256 password = sha256 p)"

definition dispatch ::
    "(Service list \<Rightarrow> json) \<Rightarrow> 'w ServiceBroker \<Rightarrow> api_call \<Rightarrow> Request \<Rightarrow> ('w, Response) go" where
  "dispatch catalog_json sb call req = (case call of
      ApiCatalog \<Rightarrow> Catalog_handler catalog_json sb
    | ApiGetInstance i \<Rightarrow> GetInstance_handler sb i req
    | ApiProvision i \<Rightarrow> Provision_handler sb i req
    | ApiDeprovision i \<Rightarrow> Deprovision_handler sb i req
    | ApiUpdate i \<Rightarrow> Update_handler sb i req
    | ApiLastOperation i \<Rightarrow> LastOperation_handler sb i req
    | ApiGetBinding i j \<Rightarrow> GetBinding_handler sb i j req
    | ApiBind i j \<Rightarrow> Bind_handler sb i j req
    | ApiUnbind i j \<Rightarrow> Unbind_handler sb i j req
    | ApiLastBindingOperation i j \<Rightarrow> LastBindingOperation_handler sb i j req)"

definition text_response :: "nat \<Rightarrow> string \<Rightarrow> ('w, Response) go" where
  "text_response status s = ret \<lparr>rs_StatusCode = status, rs_Body = Inr s\<rparr>"

text \<open>The middlewares run on a matched route only, authentication before the check of the version.\<close>

definition api_serve ::
    "(string \<Rightarrow> string) \<Rightarrow> (Service list \<Rightarrow> json) \<Rightarrow> string \<Rightarrow> string \<Rightarrow> 'w ServiceBroker \<Rightarrow> Request \<Rightarrow> ('w, Response) go" where
  "api_serve sha256 catalog_json username password sb req =
     (let path = u_Path (rq_URL req); table = route_table (split_on (CHR ''/'') path) in
      if \<not> clean_path path then text_response 301 []
      else if table = [] then text_response 404 (''404 page not found'' @ [CHR 0x0A])
      else (case map_of table (rq_Method req) of
         None \<Rightarrow> text_response 405 []
       | Some call \<Rightarrow>
           if \<not> authorized sha256 username password req then text_response 401 (''Not Authorized'' @ [CHR 0x0A])
           else (case checkBrokerAPIVersionHdr req of
              Some message \<Rightarrow> text_response 412 (json_line True [(''Description'', message)])
            | None \<Rightarrow> dispatch catalog_json sb call req)))"

section \<open>Bodies that a client writes\<close>

text \<open>\<open>x\<close> is the text of the value \<open>v\<close>, nested \<open>n\<close> deep, whatever follows it.\<close>

definition value_text :: "nat \<Rightarrow> string \<Rightarrow> json \<Rightarrow> bool" where
  "value_text n x v \<longleftrightarrow> x \<noteq> [] \<and> \<not> is_ws (hd x) \<and> hd x \<noteq> CHR '']'' \<and>
     (\<forall>f d t. 2 * length x < f \<longrightarrow> d + n \<le> maxNestingDepth \<longrightarrow> parse_value f d (x @ t) = Some (Inr (v, t)))"

lemma parse_value_text:
  "value_text n x v \<Longrightarrow> 2 * length x < f \<Longrightarrow> d + n \<le> maxNestingDepth \<Longrightarrow> parse_value f d (x @ t) = Some (Inr (v, t))"
  by (simp add: value_text_def)

lemma value_text_mono: "value_text n x v \<Longrightarrow> n \<le> n' \<Longrightarrow> value_text n' x v"
  by (simp add: value_text_def)

lemma skip_ws_text: "value_text n x v \<Longrightarrow> skip_ws (x @ t) = x @ t"
  by (cases x) (simp_all add: value_text_def)

lemma value_text_string: "valid_utf8 s \<Longrightarrow> value_text n (json_string h s) (JString s)"
proof -
  assume s: "valid_utf8 s"
  have "parse_value f d (json_string h s @ t) = Some (Inr (JString s, t))" if "2 * length (json_string h s) < f" for f d t
    using that parse_value_json_string [OF s, of "f - 1" d h t] by (cases f) simp_all
  then show ?thesis by (simp add: value_text_def) (simp add: json_string_def)
qed

lemma parse_value_cong: "skip_ws s = skip_ws s' \<Longrightarrow> parse_value f d s = parse_value f d s'"
  by (cases f) (simp_all add: parse_value.simps)

lemma parse_value_object:
  assumes "utf8_members kvs" and "length kvs < f" and "d < maxNestingDepth"
  shows "parse_value (Suc f) d (json_object_with h kvs @ t) = Some (Inr (json_strings kvs, t))"
proof -
  let ?body = "strings_Join (map (json_member h) kvs) '','' @ CHR ''}'' # t"
  have utf8: "\<forall>kv \<in> set kvs. valid_utf8 (fst kv) \<and> valid_utf8 (snd kv)"
    using assms(1) by (auto simp: utf8_members_def list_all_iff)
  have open_brace: "parse_value (Suc f) d (CHR ''{'' # ?body) = (case skip_ws ?body of
      c # r \<Rightarrow> if c = CHR ''}'' then Some (Inr (JObject [], r)) else parse_members f (Suc d) [] ?body
    | [] \<Rightarrow> Some (Inl (syntax_error [] [])))"
    using assms(3) by (simp add: parse_value.simps(2))
  have "parse_value (Suc f) d (CHR ''{'' # ?body) = Some (Inr (json_strings kvs, t))"
  proof (cases "kvs = []")
    case True
    then show ?thesis unfolding open_brace by (simp add: json_strings_def)
  next
    case False
    obtain r where "?body = dquote # r"
      using False by (cases kvs; cases "tl kvs") (auto simp: json_member_def json_string_def)
    then show ?thesis
      unfolding open_brace using parse_members_strings [OF False utf8 assms(2), of "Suc d" "[]" h t]
      by (simp add: json_strings_def)
  qed
  then show ?thesis by (simp add: json_object_with_def)
qed

lemma value_text_object: "utf8_members kvs \<Longrightarrow> value_text 1 (json_object_with h kvs) (json_strings kvs)"
proof -
  assume kvs: "utf8_members kvs"
  have "parse_value f d (json_object_with h kvs @ t) = Some (Inr (json_strings kvs, t))"
    if f: "2 * length (json_object_with h kvs) < f" and d: "d + 1 \<le> maxNestingDepth" for f d t
  proof -
    have "length kvs < f - 1"
      using f strings_Join_length [of "map (json_member h) kvs" "CHR '',''"] by (simp add: json_object_with_def)
    with d f parse_value_object [OF kvs this, of d h t] show ?thesis by (cases f) simp_all
  qed
  then show ?thesis by (simp add: value_text_def) (simp add: json_object_with_def)
qed

text \<open>The members of an object, one on each line, up to the text that closes the object.\<close>

fun members_text :: "(string \<times> string \<times> json) list \<Rightarrow> string \<Rightarrow> string" where
  "members_text [] close = close"
| "members_text ((k, x, v) # ms) close =
     [CHR 0x0A, CHR 0x09, CHR 0x09, CHR 0x09] @ json_string False k @ '': '' @ x @
     (if ms = [] then close else CHR '','' # members_text ms close)"

definition members_ok :: "nat \<Rightarrow> (string \<times> string \<times> json) list \<Rightarrow> bool" where
  "members_ok n ms \<longleftrightarrow> list_all (\<lambda>(k, x, v). valid_utf8 k \<and> value_text n x v) ms"

lemma parse_members_text:
  assumes "ms \<noteq> []" and "members_ok n ms" and "skip_ws close = CHR ''}'' # rest" and "d + n \<le> maxNestingDepth"
    and "2 * length (members_text ms close) < f"
  shows "parse_members f d acc (members_text ms close) = Some (Inr (JObject (acc @ map (\<lambda>(k, x, v). (k, v)) ms), rest))"
  using assms
proof (induction ms arbitrary: acc f)
  case (Cons m ms)
  obtain k x v where m: "m = (k, x, v)" by (cases m)
  obtain g where f: "f = Suc g" using Cons.prems(5) by (cases f) simp_all
  have k: "valid_utf8 k" and x: "value_text n x v" and ms: "members_ok n ms" using Cons.prems(2) m by (simp_all add: members_ok_def)
  let ?rest = "if ms = [] then close else CHR '','' # members_text ms close"
  have g: "2 * length x < g" using Cons.prems(5) f m by simp
  have "skip_ws (members_text (m # ms) close) = dquote # json_escape False k @ dquote # CHR '':'' # CHR '' '' # x @ ?rest"
    by (simp add: m skip_ws_def is_ws_def json_string_def)
  moreover have "parse_string (json_escape False k @ dquote # CHR '':'' # CHR '' '' # x @ ?rest) = Inr (k, CHR '':'' # CHR '' '' # x @ ?rest)"
    using k by (rule parse_json_escape)
  moreover have "parse_value g d (CHR '' '' # x @ ?rest) = Some (Inr (v, ?rest))"
    using parse_value_text [OF x g Cons.prems(4)] parse_value_cong [of "CHR '' '' # x @ ?rest" "x @ ?rest" g d]
    by (simp add: skip_ws_def is_ws_def)
  ultimately have step: "parse_members f d acc (members_text (m # ms) close) = (case skip_ws ?rest of
      [] \<Rightarrow> Some (Inl (syntax_error [] []))
    | c # r \<Rightarrow> if c = CHR '','' then parse_members g d (acc @ [(k, v)]) r
        else if c = CHR ''}'' then Some (Inr (JObject (acc @ [(k, v)]), r))
        else Some (Inl (syntax_error (c # r) ''after object key:value pair'')))"
    unfolding f parse_members.simps(2) by (simp del: members_text.simps)
  show ?case
  proof (cases "ms = []")
    case True
    with step Cons.prems(3) m show ?thesis by simp
  next
    case False
    have "2 * length (members_text ms close) < g" using Cons.prems(5) f m False by simp
    from Cons.IH [OF False ms Cons.prems(3,4) this, of "acc @ [(k, v)]"] step False m show ?thesis by simp
  qed
qed simp

lemma raw_members_text:
  assumes "ms \<noteq> []" and "members_ok n ms" and "skip_ws close = CHR ''}'' # rest" and "length ms \<le> f" and "1 + n \<le> maxNestingDepth"
  shows "raw_members f (members_text ms close) = map (\<lambda>(k, x, v). (k, v, x)) ms"
  using assms
proof (induction ms arbitrary: f)
  case (Cons m ms)
  obtain k x v where m: "m = (k, x, v)" by (cases m)
  obtain g where f: "f = Suc g" using Cons.prems(4) by (cases f) simp_all
  have k: "valid_utf8 k" and x: "value_text n x v" and ms: "members_ok n ms" using Cons.prems(2) m by (simp_all add: members_ok_def)
  define R where "R = (if ms = [] then close else CHR '','' # members_text ms close)"
  have "skip_ws (members_text (m # ms) close) = dquote # json_escape False k @ dquote # CHR '':'' # CHR '' '' # x @ R"
    by (simp add: m R_def skip_ws_def is_ws_def json_string_def)
  moreover have "parse_string (json_escape False k @ dquote # CHR '':'' # CHR '' '' # x @ R) = Inr (k, CHR '':'' # CHR '' '' # x @ R)"
    using k by (rule parse_json_escape)
  moreover have "skip_ws (CHR '' '' # x @ R) = x @ R"
    using skip_ws_text [OF x, of R] by (simp add: skip_ws_def is_ws_def)
  moreover have "parse_value (2 * length (x @ R) + 2) 1 (x @ R) = Some (Inr (v, R))"
    by (rule parse_value_text [OF x]) (use Cons.prems(5) in simp_all)
  moreover have "take (length (x @ R) - length R) (x @ R) = x" by simp
  ultimately have step: "raw_members f (members_text (m # ms) close) = (k, v, x) #
      (case skip_ws R of c2 # r3 \<Rightarrow> if c2 = CHR '','' then raw_members g r3 else [] | [] \<Rightarrow> [])"
    unfolding f raw_members.simps(2) by (simp del: members_text.simps length_append take_append add: Let_def)
  show ?case
  proof (cases "ms = []")
    case True
    with step Cons.prems(3) m show ?thesis by (simp add: R_def)
  next
    case False
    with Cons.IH [OF False ms Cons.prems(3) _ Cons.prems(5), of g] Cons.prems(4) f step m show ?thesis by (simp add: R_def)
  qed
qed simp

lemma skip_ws_members_text:
  assumes "ms \<noteq> []"
  shows "\<exists>r. skip_ws (members_text ms close) = dquote # r"
proof -
  obtain k x v ms' where "ms = (k, x, v) # ms'" using assms by (cases ms) auto
  then show ?thesis by (simp add: skip_ws_def is_ws_def json_string_def)
qed

lemma decode_body_members:
  assumes ms: "ms \<noteq> []" "members_ok n ms" and n: "1 + n \<le> maxNestingDepth" and close: "skip_ws close = CHR ''}'' # rest"
    and body: "rq_Body req = Some ([CHR 0x0A, CHR 0x09, CHR 0x09, CHR ''{''] @ members_text ms close)"
  shows "decode_body tname names setf r req =
    (case foldl (store_member names setf) (r, None) (map (\<lambda>(k, x, v). (k, v, x)) ms) of
       (r', None) \<Rightarrow> Inr r' | (_, Some e) \<Rightarrow> Inl e)"
proof -
  let ?m = "members_text ms close"
  define B where "B = [CHR 0x0A, CHR 0x09, CHR 0x09, CHR ''{''] @ ?m"
  have skip: "skip_ws B = CHR ''{'' # ?m" by (simp add: B_def skip_ws_def is_ws_def)
  obtain q where q: "skip_ws ?m = dquote # q" using skip_ws_members_text [OF ms(1)] by blast
  have "parse_members (2 * length B + 1) 1 [] ?m = Some (Inr (JObject ([] @ map (\<lambda>(k, x, v). (k, v)) ms), rest))"
    by (rule parse_members_text [OF ms close n]) (simp add: B_def)
  moreover have "parse_value (Suc (2 * length B + 1)) 0 B = parse_members (2 * length B + 1) 1 [] ?m"
    using skip q by (simp add: parse_value.simps(2) maxNestingDepth_def del: length_append)
  ultimately have parsed: "parse_value (2 * length B + 2) 0 B = Some (Inr (JObject (map (\<lambda>(k, x, v). (k, v)) ms), rest))"
    by simp
  have count: "length ms \<le> length ?m"
    by (induction ms close rule: members_text.induct) auto
  have "raw_members (length B) ?m = map (\<lambda>(k, x, v). (k, v, x)) ms"
    by (rule raw_members_text [OF ms close _ n]) (use count in \<open>simp add: B_def\<close>)
  with parsed skip ms(1) show ?thesis
    unfolding decode_body_def body B_def [symmetric] by (simp add: Let_def)
qed

text \<open>Text that is its own JSON string.\<close>

definition json_plain :: "string \<Rightarrow> bool" where
  "json_plain s \<longleftrightarrow> list_all (\<lambda>c. 32 \<le> (of_char c :: nat) \<and> (of_char c :: nat) < 128 \<and> c \<noteq> dquote \<and> c \<noteq> bslash) s"

lemma json_string_plain: "json_plain s \<Longrightarrow> json_string False s = dquote # s @ [dquote]"
proof -
  have "escape_ascii False c = [c]" if "32 \<le> (of_char c :: nat)" "c \<noteq> dquote" "c \<noteq> bslash" for c
    using that by (auto simp: escape_ascii_def Let_def)
  then have "json_plain s \<Longrightarrow> json_escape False s = s"
    by (induction s) (auto simp: json_plain_def)
  then show "json_plain s \<Longrightarrow> json_string False s = dquote # s @ [dquote]" by (simp add: json_string_def)
qed

lemma ascii_plain: "json_plain s \<Longrightarrow> ascii s"
  by (auto simp: json_plain_def ascii_def list_all_iff)

lemma value_text_plain: "json_plain s \<Longrightarrow> value_text n (dquote # s @ [dquote]) (JString s)"
  using value_text_string [of s n False] by (simp add: json_string_plain valid_utf8_ascii ascii_plain)

section \<open>Printed values are read back\<close>

text \<open>Values without numbers whose strings are valid UTF-8, and how deep they are nested.\<close>

fun printable :: "json \<Rightarrow> bool" where
  "printable (JNumber n) = False"
| "printable (JString s) = valid_utf8 s"
| "printable (JArray xs) = list_all printable xs"
| "printable (JObject kvs) = list_all (\<lambda>(k, v). valid_utf8 k \<and> printable v) kvs"
| "printable v = True"

fun json_depth :: "json \<Rightarrow> nat" where
  "json_depth (JArray xs) = Suc (foldr max (map json_depth xs) 0)"
| "json_depth (JObject kvs) = Suc (foldr max (map (\<lambda>(k, v). json_depth v) kvs) 0)"
| "json_depth v = 0"

lemma le_foldr_max: "x \<in> set xs \<Longrightarrow> x \<le> foldr max xs (0 :: nat)"
  by (induction xs) auto

lemma parse_elements_text:
  assumes "ps \<noteq> []" and "\<forall>(x, v) \<in> set ps. value_text n x v" and "d + n \<le> maxNestingDepth"
    and "2 * length (strings_Join (map fst ps) '','') + 1 < f"
  shows "parse_elements f d acc (strings_Join (map fst ps) '','' @ CHR '']'' # t) = Some (Inr (JArray (acc @ map snd ps), t))"
  using assms
proof (induction ps arbitrary: acc f)
  case (Cons p ps)
  obtain x v where p: "p = (x, v)" by (cases p)
  obtain g where f: "f = Suc g" using Cons.prems(4) by (cases f) simp_all
  have x: "value_text n x v" using Cons.prems(2) p by simp
  define R where "R = (if ps = [] then CHR '']'' # t else CHR '','' # strings_Join (map fst ps) '','' @ CHR '']'' # t)"
  have split: "strings_Join (map fst (p # ps)) '','' @ CHR '']'' # t = x @ R"
    by (simp add: p R_def strings_Join_Cons)
  have "2 * length x < g" using Cons.prems(4) f p by (cases "ps = []") (simp_all add: strings_Join_Cons)
  from parse_value_text [OF x this Cons.prems(3)] have v: "parse_value g d (x @ R) = Some (Inr (v, R))" .
  show ?case
  proof (cases "ps = []")
    case True
    with v show ?thesis unfolding split f parse_elements.simps(2) by (simp add: R_def p is_ws_def)
  next
    case False
    have "2 * length (strings_Join (map fst ps) '','') + 1 < g"
      using Cons.prems(4) f p False by (simp add: strings_Join_Cons)
    from Cons.IH [OF False _ Cons.prems(3) this, of "acc @ [v]"] Cons.prems(2) v False
    show ?thesis unfolding split f parse_elements.simps(2) by (simp add: R_def p)
  qed
qed simp

lemma parse_members_print:
  assumes "ms \<noteq> []" and "\<forall>(k, x, v) \<in> set ms. valid_utf8 k \<and> value_text n x v" and "d + n \<le> maxNestingDepth"
    and "2 * length (strings_Join (map (\<lambda>(k, x, v). json_string h k @ '':'' @ x) ms) '','') + 1 < f"
  shows "parse_members f d acc (strings_Join (map (\<lambda>(k, x, v). json_string h k @ '':'' @ x) ms) '','' @ CHR ''}'' # t) =
    Some (Inr (JObject (acc @ map (\<lambda>(k, x, v). (k, v)) ms), t))"
  using assms
proof (induction ms arbitrary: acc f)
  case (Cons m ms)
  let ?join = "strings_Join (map (\<lambda>(k, x, v). json_string h k @ '':'' @ x) ms) '',''"
  obtain k x v where m: "m = (k, x, v)" by (cases m)
  obtain g where f: "f = Suc g" using Cons.prems(4) by (cases f) simp_all
  have k: "valid_utf8 k" and x: "value_text n x v" using Cons.prems(2) m by simp_all
  define R where "R = (if ms = [] then CHR ''}'' # t else CHR '','' # ?join @ CHR ''}'' # t)"
  have split: "strings_Join (map (\<lambda>(k, x, v). json_string h k @ '':'' @ x) (m # ms)) '','' @ CHR ''}'' # t =
      dquote # json_escape h k @ dquote # CHR '':'' # x @ R"
    by (simp add: m R_def strings_Join_Cons json_string_def)
  have s: "parse_string (json_escape h k @ dquote # CHR '':'' # x @ R) = Inr (k, CHR '':'' # x @ R)"
    using k by (rule parse_json_escape)
  have "2 * length x < g" using Cons.prems(4) f m by (cases "ms = []") (simp_all add: strings_Join_Cons)
  from parse_value_text [OF x this Cons.prems(3)] have v: "parse_value g d (x @ R) = Some (Inr (v, R))" .
  show ?case
  proof (cases "ms = []")
    case True
    with v s show ?thesis unfolding split f parse_members.simps(2) by (simp add: R_def m)
  next
    case False
    have "2 * length ?join + 1 < g" using Cons.prems(4) f m False by (simp add: strings_Join_Cons)
    from Cons.IH [OF False _ Cons.prems(3) this, of "acc @ [(k, v)]"] Cons.prems(2) v s False
    show ?thesis unfolding split f parse_members.simps(2) by (simp add: R_def m)
  qed
qed simp

lemma value_text_literal:
  "value_text n ''null'' JNull" "value_text n ''true'' (JBool True)" "value_text n ''false'' (JBool False)"
proof -
  have "parse_value (Suc g) d (''null'' @ t) = Some (Inr (JNull, t))"
    "parse_value (Suc g) d (''true'' @ t) = Some (Inr (JBool True, t))"
    "parse_value (Suc g) d (''false'' @ t) = Some (Inr (JBool False, t))" for g d t
    by (simp_all add: parse_value.simps(2) literal_value_def is_ws_def)
  then have "0 < f \<Longrightarrow> parse_value f d (''null'' @ t) = Some (Inr (JNull, t))"
    "0 < f \<Longrightarrow> parse_value f d (''true'' @ t) = Some (Inr (JBool True, t))"
    "0 < f \<Longrightarrow> parse_value f d (''false'' @ t) = Some (Inr (JBool False, t))" for f d t
    by (metis Suc_pred)+
  then show "value_text n ''null'' JNull" "value_text n ''true'' (JBool True)" "value_text n ''false'' (JBool False)"
    by (simp_all add: value_text_def is_ws_def)
qed

lemma value_text_array:
  assumes "\<forall>(x, v) \<in> set ps. value_text n x v"
  shows "value_text (Suc n) (''['' @ strings_Join (map fst ps) '','' @ '']'') (JArray (map snd ps))"
proof -
  let ?join = "strings_Join (map fst ps) '',''"
  have "parse_value f d (CHR ''['' # ?join @ CHR '']'' # t) = Some (Inr (JArray (map snd ps), t))"
    if f: "2 * length (''['' @ ?join @ '']'') < f" and d: "d + Suc n \<le> maxNestingDepth" for f d t
  proof -
    obtain g where g: "f = Suc g" using f by (cases f) simp_all
    have o: "parse_value f d (CHR ''['' # ?join @ CHR '']'' # t) = (case skip_ws (?join @ CHR '']'' # t) of
        c # r \<Rightarrow> if c = CHR '']'' then Some (Inr (JArray [], r)) else parse_elements g (Suc d) [] (?join @ CHR '']'' # t)
      | [] \<Rightarrow> Some (Inl (syntax_error [] [])))"
      using d by (simp add: g parse_value.simps(2) is_ws_def)
    show ?thesis
    proof (cases "ps = []")
      case True
      then show ?thesis unfolding o by (simp add: is_ws_def)
    next
      case False
      then obtain x v ps' where ps: "ps = (x, v) # ps'" by (cases ps) auto
      with assms have "value_text n x v" by simp
      then obtain c r where "x = c # r" "\<not> is_ws c" "c \<noteq> CHR '']''" by (cases x) (auto simp: value_text_def)
      with ps have "\<exists>r. ?join @ CHR '']'' # t = c # r" by (cases "ps' = []") (simp_all add: strings_Join_Cons)
      then obtain q where q: "?join @ CHR '']'' # t = c # q" ..
      from parse_elements_text [OF False assms, of "Suc d" g "[]" t] f d g
      have "parse_elements g (Suc d) [] (?join @ CHR '']'' # t) = Some (Inr (JArray (map snd ps), t))" by simp
      with q \<open>\<not> is_ws c\<close> \<open>c \<noteq> CHR '']''\<close> show ?thesis unfolding o by simp
    qed
  qed
  then show ?thesis by (simp add: value_text_def is_ws_def)
qed

lemma value_text_members:
  assumes "\<forall>(k, x, v) \<in> set ms. valid_utf8 k \<and> value_text n x v"
  shows "value_text (Suc n) (''{'' @ strings_Join (map (\<lambda>(k, x, v). json_string h k @ '':'' @ x) ms) '','' @ ''}'')
    (JObject (map (\<lambda>(k, x, v). (k, v)) ms))"
proof -
  let ?join = "strings_Join (map (\<lambda>(k, x, v). json_string h k @ '':'' @ x) ms) '',''"
  have "parse_value f d (CHR ''{'' # ?join @ CHR ''}'' # t) = Some (Inr (JObject (map (\<lambda>(k, x, v). (k, v)) ms), t))"
    if f: "2 * length (''{'' @ ?join @ ''}'') < f" and d: "d + Suc n \<le> maxNestingDepth" for f d t
  proof -
    obtain g where g: "f = Suc g" using f by (cases f) simp_all
    have "parse_value f d (CHR ''{'' # z) = (case skip_ws z of
        c # r \<Rightarrow> if c = CHR ''}'' then Some (Inr (JObject [], r)) else parse_members g (Suc d) [] z
      | [] \<Rightarrow> Some (Inl (syntax_error [] [])))" for z
      using d by (simp add: g parse_value.simps(2))
    note o = this [of "?join @ CHR ''}'' # t"]
    show ?thesis
    proof (cases "ms = []")
      case True
      then show ?thesis unfolding o by simp
    next
      case False
      then obtain k x v ms' where "ms = (k, x, v) # ms'" by (cases ms) auto
      then have "\<exists>q. ?join @ CHR ''}'' # t = dquote # q"
        by (cases "ms' = []") (simp_all add: strings_Join_Cons json_string_def)
      then obtain q where q: "?join @ CHR ''}'' # t = dquote # q" ..
      from parse_members_print [OF False assms, of "Suc d" h g "[]" t] f d g
      have "parse_members g (Suc d) [] (?join @ CHR ''}'' # t) = Some (Inr (JObject (map (\<lambda>(k, x, v). (k, v)) ms), t))" by simp
      with q show ?thesis unfolding o by simp
    qed
  qed
  then show ?thesis by (simp add: value_text_def is_ws_def)
qed

lemma value_text_print: "printable v \<Longrightarrow> value_text (json_depth v) (json_print h v) v"
proof (induction v rule: printable.induct)
  case (3 xs)
  let ?n = "foldr max (map json_depth xs) 0"
  have "value_text ?n (json_print h x) x" if "x \<in> set xs" for x
    using 3 that le_foldr_max [of "json_depth x" "map json_depth xs"] by (auto simp: list_all_iff intro: value_text_mono)
  then show ?case using value_text_array [of "map (\<lambda>x. (json_print h x, x)) xs" ?n] by (auto simp: comp_def)
next
  case (4 kvs)
  let ?n = "foldr max (map (\<lambda>(k, v). json_depth v) kvs) 0"
  have "valid_utf8 k \<and> value_text ?n (json_print h v) v" if "(k, v) \<in> set kvs" for k v
    using 4 that le_foldr_max [of "json_depth v" "map (\<lambda>(k, v). json_depth v) kvs"]
    by (force simp: list_all_iff intro: value_text_mono)
  then have "\<forall>(k, x, v) \<in> set (map (\<lambda>(k, v). (k, json_print h v, v)) kvs). valid_utf8 k \<and> value_text ?n x v" by auto
  from value_text_members [OF this, of h] show ?case by (simp add: comp_def case_prod_unfold)
qed (simp_all add: value_text_literal value_text_string)

lemma parse_json_print:
  assumes "printable v" and "json_depth v \<le> maxNestingDepth"
  shows "parse_json (json_print h v @ [CHR 0x0A]) = Inr v"
proof -
  have "parse_value (2 * length (json_print h v @ [CHR 0x0A]) + 2) 0 (json_print h v @ [CHR 0x0A]) = Some (Inr (v, [CHR 0x0A]))"
    by (rule parse_value_text [OF value_text_print [OF assms(1)]]) (use assms(2) in simp_all)
  moreover have "skip_ws [CHR 0x0A] = []" by code_simp
  ultimately show ?thesis by (simp add: parse_json_def)
qed

end
