(* ===== verification/Main_App.thy ===== *)
theory Main_App
  imports Broker_Api
begin

text \<open>
  The executables, \<^verbatim>\<open>main.go\<close> and \<^verbatim>\<open>cache-cluster-name-generator/main.go\<close>: the log level, the broker
  built over the AWS clients, the routes of the HTTP server, the listener and the start-up sequence.
  The handlers of the routes are functions from requests to answers, the broker API's is that of \<open>Broker_Api\<close>; the AWS session
  and \<^verbatim>\<open>net.Listen\<close> are arguments.
\<close>

section \<open>Logger\<close>

datatype LogLevel = DEBUG | INFO | ERROR | FATAL

definition logLevels :: "(string \<times> LogLevel) list" where
  "logLevels = [(''DEBUG'', DEBUG), (''INFO'', INFO), (''ERROR'', ERROR), (''FATAL'', FATAL)]"

text \<open>
  The level of the logger's sink; \<^verbatim>\<open>log.Fatal\<close> ends the process, which is the left value with
  the text it prints.
\<close>

definition newLogger :: "string \<Rightarrow> string + LogLevel" where
  "newLogger logLevel = (case map_of logLevels (ToUpper logLevel) of
      None \<Rightarrow> Inl (''Invalid log level: '' @ logLevel)
    | Some laggerLogLevel \<Rightarrow> Inr laggerLogLevel)"

section \<open>Broker\<close>

text \<open>The clients that \<^verbatim>\<open>elasticache.New\<close>, \<^verbatim>\<open>secretsmanager.New\<close> and \<^verbatim>\<open>sts.New\<close> make from a session.\<close>

record 'w aws_session =
  as_elastiCache :: "'w ElastiCache"
  as_secretsManager :: "'w SecretsManager"
  as_GetCallerIdentity :: "('w, string option) go"

definition userAccount :: "'w aws_session \<Rightarrow> ('w, string) go" where
  "userAccount stssvc = andThen (as_GetCallerIdentity stssvc) deref"

definition newBroker ::
    "'w go_env \<Rightarrow> (string \<Rightarrow> go_error + 'w aws_session) \<Rightarrow> Config \<Rightarrow> ('w, 'w Broker) go" where
  "newBroker env NewSession config = (case NewSession (c_Region config) of
      Inl err \<Rightarrow> panic (Error err)
    | Inr awsSession \<Rightarrow>
        andThen (userAccount awsSession) (\<lambda>awsAccountID.
        ret (New config (redis_provider env
          (NewProvider (as_elastiCache awsSession) (as_secretsManager awsSession) awsAccountID ''aws''
             (c_Region config) (c_KmsKeyID config) (c_SecretsManagerPath config))))))"

section \<open>HTTP routes\<close>

text \<open>
  A handler answers a request. \<^verbatim>\<open>brokerapi.New\<close> is \<open>api_serve\<close>, with the digest and the text of the catalog as arguments; the
  health check writes status 200 and nothing else.
\<close>

type_synonym 'w http_handler = "Request \<Rightarrow> ('w, Response) go"

definition healthcheck :: "'w http_handler" where
  "healthcheck req = text_response 200 []"

definition newHTTPHandler ::
    "'w go_env \<Rightarrow> (string \<Rightarrow> string) \<Rightarrow> (Service list \<Rightarrow> json) \<Rightarrow> 'w Broker \<Rightarrow> Config \<Rightarrow> (string \<times> 'w http_handler) list" where
  "newHTTPHandler env sha256 catalog_json serviceBroker config =
     (let brokerAPI = api_serve sha256 catalog_json (c_Username config) (c_Password config) (service_broker env serviceBroker) in
      [(''/'', brokerAPI), (''/healthcheck'', healthcheck)])"

text \<open>
  \<^verbatim>\<open>http.ServeMux\<close> on a path that is already clean: a pattern that ends in a slash matches every
  path it is a prefix of, any other pattern matches itself only, and the longest match wins.
\<close>

definition pattern_matches :: "string \<Rightarrow> string \<Rightarrow> bool" where
  "pattern_matches pattern path =
     (if pattern \<noteq> [] \<and> last pattern = CHR ''/'' then take (length pattern) path = pattern
      else path = pattern)"

fun mux_best :: "(string \<times> 'h) option \<Rightarrow> (string \<times> 'h) list \<Rightarrow> string \<Rightarrow> (string \<times> 'h) option" where
  "mux_best best [] path = best"
| "mux_best best ((pattern, h) # ms) path =
     mux_best (if pattern_matches pattern path \<and>
                  (case best of None \<Rightarrow> True | Some (q, _) \<Rightarrow> length q < length pattern)
               then Some (pattern, h) else best) ms path"

definition mux_handler :: "(string \<times> 'h) list \<Rightarrow> string \<Rightarrow> 'h option" where
  "mux_handler mux path = map_option snd (mux_best None mux path)"

text \<open>
  \<^verbatim>\<open>ServeMux.ServeHTTP\<close>: the request for \<^verbatim>\<open>*\<close> is refused, an unclean path is redirected with the answer \<open>redirect\<close> of
  \<^verbatim>\<open>http.RedirectHandler\<close> unless the method is \<^verbatim>\<open>CONNECT\<close>, and a path without a pattern is not found.
\<close>

definition serve_mux :: "(Request \<Rightarrow> Response) \<Rightarrow> (string \<times> 'w http_handler) list \<Rightarrow> 'w http_handler" where
  "serve_mux redirect mux req =
     (let path = u_Path (rq_URL req) in
      if path = ''*'' then text_response 400 []
      else if rq_Method req \<noteq> ''CONNECT'' \<and> \<not> clean_path path then ret (redirect req)
      else (case mux_handler mux path of
         None \<Rightarrow> text_response 404 (''404 page not found'' @ [CHR 0x0A])
       | Some h \<Rightarrow> h req))"

section \<open>Listener and start-up\<close>

datatype ('l, 'cert) listener = TCP 'l | TLS 'l "'cert tls_Config"

definition listen_address :: "Config \<Rightarrow> string \<Rightarrow> string" where
  "listen_address config portNumber = c_Host config @ '':'' @ portNumber"

definition CreateListener ::
    "'w go_env \<Rightarrow> (string \<Rightarrow> string) \<Rightarrow> (Service list \<Rightarrow> json) \<Rightarrow> 'cert key_pair \<Rightarrow> (string \<Rightarrow> ('w, 'l) go) \<Rightarrow>
     'w Broker \<Rightarrow> Config \<Rightarrow> string \<Rightarrow> ('w, (string \<times> 'w http_handler) list \<times> ('l, 'cert) listener) go" where
  "CreateListener env sha256 catalog_json x509 Listen serviceBroker config portNumber =
     (let server = newHTTPHandler env sha256 catalog_json serviceBroker config; listenAddress = listen_address config portNumber in
      handle (Listen listenAddress)
        (\<lambda>err. fail (ErrorString (''failed to listen on address '' @ listenAddress @ '': '' @ Error err)))
        (\<lambda>l. case c_TLS config of
           None \<Rightarrow> ret (server, TCP l)
         | Some t \<Rightarrow> (case GenerateTLSConfig x509 t of
             Inl err \<Rightarrow> fail (ErrorString (''Error configuring TLS: '' @ Error err))
           | Inr tlsConfig \<Rightarrow> ret (server, TLS l tlsConfig))))"

text \<open>
  \<^verbatim>\<open>main\<close>: the outcome is what is served, or the text with which \<^verbatim>\<open>log.Fatal\<close> ends the process.
\<close>

definition main ::
    "'w go_env \<Rightarrow> (string \<Rightarrow> string) \<Rightarrow> (Service list \<Rightarrow> json) \<Rightarrow> 'cert key_pair \<Rightarrow> (string \<Rightarrow> go_error + string) \<Rightarrow> (string \<Rightarrow> go_error + Config) \<Rightarrow>
     (string \<Rightarrow> go_error + 'w aws_session) \<Rightarrow> (string \<Rightarrow> ('w, 'l) go) \<Rightarrow> string \<Rightarrow> string \<Rightarrow>
     ('w, string + 'w Broker \<times> (string \<times> 'w http_handler) list \<times> ('l, 'cert) listener) go" where
  "main env sha256 catalog_json x509 read_file decode NewSession Listen configFilePath port =
     (case LoadConfig env x509 read_file decode configFilePath of
        Inl err \<Rightarrow> ret (Inl (''Error loading config file: '' @ Error err))
      | Inr config \<Rightarrow> (case newLogger (c_LogLevel config) of
          Inl msg \<Rightarrow> ret (Inl msg)
        | Inr _ \<Rightarrow>
            handle (newBroker env NewSession config)
              (\<lambda>err. ret (Inl (''Error creating broker: '' @ Error err)))
              (\<lambda>serviceBroker.
            handle (CreateListener env sha256 catalog_json x509 Listen serviceBroker config port)
              (\<lambda>err. ret (Inl (''Error creating listener: '' @ Error err)))
              (\<lambda>(server, listener). ret (Inr (serviceBroker, server, listener))))))"

section \<open>The name generator\<close>

text \<open>Printed text and exit code of \<^verbatim>\<open>cache-cluster-name-generator\<close> for the arguments \<^verbatim>\<open>os.Args\<close>.\<close>

definition name_generator :: "string list \<Rightarrow> string \<times> nat" where
  "name_generator args =
     (if length args < 2
      then (''Must provide a service GUID as the first argument'' @ [CHR 0x0A], 1)
      else let i = args ! 1; hash = GenerateReplicationGroupName i in
        (''GUID: '' @ i @ [CHR 0x0A] @ ''Hash: '' @ hash @ [CHR 0x0A], 0))"

section \<open>Start-up\<close>

lemma CreateListener_acceptable:
  assumes "acceptable x509 config" and "Listen (listen_address config port) w = (Ok l, w')"
  shows "\<exists>listener. CreateListener env sha256 catalog_json x509 Listen b config port w = (Ok (newHTTPHandler env sha256 catalog_json b config, listener), w') \<and>
    (case c_TLS config of
       None \<Rightarrow> listener = TCP l
     | Some t \<Rightarrow> (\<exists>tc. listener = TLS l tc \<and> GenerateTLSConfig x509 t = Inr tc \<and> tc_MinVersion tc = VersionTLS12))"
proof (cases "c_TLS config")
  case None
  with assms(2) show ?thesis by (simp add: CreateListener_def Let_def handle_eqs(1))
next
  case (Some t)
  from assms(1) this have "TLS_Validate x509 t = None" by (rule acceptable_TLS)
  then obtain tc where "GenerateTLSConfig x509 t = Inr tc" "tc_MinVersion tc = VersionTLS12"
    using GenerateTLSConfig_validated by blast
  with Some assms(2) show ?thesis by (simp add: CreateListener_def Let_def handle_eqs(1))
qed

lemma main_InrE:
  assumes "main env sha256 catalog_json x509 read_file decode NewSession Listen file port w = (Ok (Inr (b, server, listener)), w')"
  obtains config level w1 where "LoadConfig env x509 read_file decode file = Inr config"
    and "newLogger (c_LogLevel config) = Inr level" and "newBroker env NewSession config w = (Ok b, w1)"
    and "CreateListener env sha256 catalog_json x509 Listen b config port w1 = (Ok (server, listener), w')"
  using assms unfolding main_def by (auto elim!: handle_OkE split: sum.splits)

lemma newBroker_config:
  assumes "newBroker env NewSession config w = (Ok b, w')"
  shows "b_config b = config"
  using assms unfolding newBroker_def by (auto simp: New_def elim!: andThen_OkE split: sum.splits)

lemma CreateListener_OkE:
  assumes "CreateListener env sha256 catalog_json x509 Listen b config port w = (Ok (server, listener), w')"
  obtains l where "Listen (listen_address config port) w = (Ok l, w')"
proof -
  from assms obtain l w1 where l: "Listen (listen_address config port) w = (Ok l, w1)"
    and rest: "(case c_TLS config of
           None \<Rightarrow> ret (newHTTPHandler env sha256 catalog_json b config, TCP l)
         | Some t \<Rightarrow> (case GenerateTLSConfig x509 t of
             Inl err \<Rightarrow> fail (ErrorString (''Error configuring TLS: '' @ Error err))
           | Inr tlsConfig \<Rightarrow> ret (newHTTPHandler env sha256 catalog_json b config, TLS l tlsConfig))) w1 = (Ok (server, listener), w')"
    unfolding CreateListener_def Let_def by (auto elim!: handle_OkE)
  from rest have "w1 = w'" by (auto split: option.splits sum.splits)
  with l show thesis using that by simp
qed

section \<open>Properties\<close>

text \<open>
  C32: the process serves requests only with a configuration that passed validation and a known log level. It then
  listens on the configured address and port; with TLS settings every connection is TLS of version 1.2 or later, and
  without them none is.
\<close>

theorem main_serves_validated:
  assumes "visits_all (map_order env)" and "decodes_maps decode"
    and "main env sha256 catalog_json x509 read_file decode NewSession Listen file port w = (Ok (Inr (b, server, listener)), w')"
  shows "acceptable x509 (b_config b) \<and> c_Host (b_config b) \<noteq> [] \<and>
    (\<exists>level. newLogger (c_LogLevel (b_config b)) = Inr level) \<and> server = newHTTPHandler env sha256 catalog_json b (b_config b) \<and>
    (\<exists>l w1. Listen (c_Host (b_config b) @ '':'' @ port) w1 = (Ok l, w') \<and>
      (case c_TLS (b_config b) of
         None \<Rightarrow> listener = TCP l
       | Some t \<Rightarrow> (\<exists>tc. listener = TLS l tc \<and> GenerateTLSConfig x509 t = Inr tc \<and> tc_MinVersion tc = VersionTLS12)))"
  using assms(3)
proof (rule main_InrE)
  fix config level w1
  assume load: "LoadConfig env x509 read_file decode file = Inr config"
    and level: "newLogger (c_LogLevel config) = Inr level" and b: "newBroker env NewSession config w = (Ok b, w1)"
    and c: "CreateListener env sha256 catalog_json x509 Listen b config port w1 = (Ok (server, listener), w')"
  have a: "acceptable x509 config" "c_Host config \<noteq> []" using LoadConfig_acceptable [OF assms(1,2) load] by blast+
  obtain l where l: "Listen (listen_address config port) w1 = (Ok l, w')" by (rule CreateListener_OkE [OF c])
  note r = CreateListener_acceptable [of x509 config Listen port w1 l w' env sha256 catalog_json b, OF a(1) l] newBroker_config [OF b]
  show ?thesis using a level l c r unfolding listen_address_def by auto
qed

definition sample_session :: "unit aws_session" where
  "sample_session =
     \<lparr>as_elastiCache =
        \<lparr>CreateCacheParameterGroup = \<lambda>ctx i. ret (), CreateReplicationGroup = \<lambda>ctx i. ret (),
         DeleteCacheParameterGroupCall = \<lambda>ctx i. ret (), DeleteReplicationGroup = \<lambda>ctx i. ret (),
         DescribeReplicationGroups = \<lambda>ctx i. ret [], DescribeCacheClusters = \<lambda>ctx i. ret [],
         DescribeCacheParameters = \<lambda>ctx i. ret [], ModifyReplicationGroup = \<lambda>ctx i. ret (),
         ModifyCacheParameterGroup = \<lambda>ctx i. ret (), DescribeSnapshotsPages = \<lambda>ctx. ret [],
         ListTagsForResource = \<lambda>ctx arn. ret []\<rparr>,
      as_secretsManager =
        \<lparr>CreateSecret = \<lambda>ctx i. ret (), GetSecretValue = \<lambda>ctx i. ret None, DeleteSecret = \<lambda>ctx i. ret ()\<rparr>,
      as_GetCallerIdentity = ret (Some ''123456789012'')\<rparr>"

definition sample_main :: "(unit, string + unit Broker \<times> (string \<times> unit http_handler) list \<times> (string, string) listener) go" where
  "sample_main = main unit_env id (\<lambda>_. JNull) sample_pair (\<lambda>_. Inr ''{}'') (\<lambda>_. Inr sample_config) (\<lambda>_. Inr sample_session) ret
     ''config.json'' ''3000''"

lemma sample_main_serves: "\<exists>b server listener. sample_main () = (Ok (Inr (b, server, listener)), ())"
proof -
  have "wf_map (c_PlanConfigs sample_config)" by (simp add: sample_config_def)
  then have "Validate unit_env sample_pair sample_config = None" by (simp add: Validate_None_iff sample_acceptable)
  then have l: "LoadConfig unit_env sample_pair (\<lambda>_. Inr ''{}'') (\<lambda>_. Inr sample_config) ''config.json'' =
      Inr (sample_config\<lparr>c_Host := DefaultHost\<rparr>)"
    by (simp add: LoadConfig_def) (simp add: sample_config_def)
  have level: "newLogger ''info'' = Inr INFO" by code_simp
  let ?c = "sample_config\<lparr>c_Host := DefaultHost\<rparr>"
  obtain b where "newBroker unit_env (\<lambda>_. Inr sample_session) ?c () = (Ok b, ())"
    by (simp add: newBroker_def userAccount_def sample_session_def)
  moreover obtain server listener where
    "CreateListener unit_env id (\<lambda>_. JNull) sample_pair ret b ?c ''3000'' () = (Ok (server, listener), ())"
    using CreateListener_acceptable [of sample_pair ?c ret "''3000''" "()" "listen_address ?c ''3000''" "()" unit_env id
        "\<lambda>_. JNull" b]
    by (auto simp: sample_acceptable)
  moreover have "c_LogLevel ?c = ''info''" by (simp add: sample_config_def)
  ultimately show ?thesis using l level by (simp add: sample_main_def main_def handle_eqs(1))
qed

theorem main_serves_validated_witness:
  "\<exists>b server listener. sample_main () = (Ok (Inr (b, server, listener)), ()) \<and> acceptable sample_pair (b_config b) \<and>
     server = newHTTPHandler unit_env id (\<lambda>_. JNull) b (b_config b)"
proof -
  obtain b server listener where m: "sample_main () = (Ok (Inr (b, server, listener)), ())"
    using sample_main_serves by blast
  have "decodes_maps (\<lambda>_. Inr sample_config)" by (simp add: decodes_maps_def sample_config_def)
  with m main_serves_validated [of unit_env "\<lambda>_. Inr sample_config" id "\<lambda>_. JNull"] show ?thesis
    unfolding sample_main_def by fastforce
qed

end
