(* ===== verification/Broker_Properties.thy ===== *)
theory Broker_Properties
  imports Broker
begin

text \<open>
  Properties of the broker over an arbitrary provider: what its operation data carries from one request to the
  next, when an update is accepted, when a failover test times out, how a deprovisioning ends and what a new
  instance is made of.
\<close>

section \<open>A provider that accepts everything\<close>

definition agreeable_provider :: "unit Provider" where
  "agreeable_provider =
     \<lparr>p_Provision = \<lambda>ctx i params. ret (),
      p_UpdateReplicationGroup = \<lambda>ctx i params. ret (),
      p_UpdateParamGroupParameters = \<lambda>ctx i params. ret (),
      p_Deprovision = \<lambda>ctx i params. ret (),
      p_ProgressState = \<lambda>ctx i operation old. ret (NonExisting, ''gone'', None),
      p_GetInstanceParameters = \<lambda>ctx i. ret (emptyInstanceParameters, None),
      p_GetInstanceTags = \<lambda>ctx i. ret [],
      p_GenerateCredentials = \<lambda>ctx i bindingID. fail (ErrorString ''none''),
      p_RevokeCredentials = \<lambda>ctx i bindingID. ret (),
      p_DeleteCacheParameterGroup = \<lambda>ctx i. ret (),
      p_FindSnapshots = \<lambda>ctx i. ret [],
      p_StartFailoverTest = \<lambda>ctx i. ret ''n1''\<rparr>"

definition sample_broker :: "unit Broker" where
  "sample_broker = New sample_config agreeable_provider"

section \<open>Operation data\<close>

text \<open>
  C10: the operation data that the broker hands out is read back unchanged by \<^verbatim>\<open>LastOperation\<close>: action, primary node and
  deadline survive the trip through JSON and the platform, for all strings of valid UTF-8.
\<close>

theorem operation_data_round_trip:
  assumes "valid_operation o'" and "op_Action o' \<noteq> []"
  shows "poll_operation (Operation_String o') = Inr o'"
  using assms by (rule poll_operation_String)

theorem operation_data_round_trip_witness:
  "poll_operation (Operation_String \<lparr>op_Action = ''failover'', op_PrimaryNode = ''n-001'', op_TimeOut = ''2020-09-13T13:11:40Z''\<rparr>) =
   Inr \<lparr>op_Action = ''failover'', op_PrimaryNode = ''n-001'', op_TimeOut = ''2020-09-13T13:11:40Z''\<rparr>"
proof -
  have "ascii ''failover''" "ascii ''n-001''" "ascii ''2020-09-13T13:11:40Z''" by code_simp+
  then show ?thesis by (intro operation_data_round_trip) (simp_all add: valid_operation_def valid_utf8_ascii)
qed

section \<open>Updates\<close>

definition update_parameters :: "'w go_env \<Rightarrow> UpdateDetails \<Rightarrow> go_error + UserUpdateParameters" where
  "update_parameters env d =
     (if length (ud_RawParameters d) > 0 then parseUpdateParameters env (ud_RawParameters d)
      else Inr emptyUpdateParameters)"

lemma Broker_Update_OkE:
  assumes "Broker_Update env b ctx i d async w = (Ok spec, w')"
  obtains up where "async" and "ud_PlanID d = pv_PlanID (ud_PreviousValues d)"
    and "ud_ServiceID d = pv_ServiceID (ud_PreviousValues d)" and "update_parameters env d = Inr up"
    and "\<not> checkIfNoUpdateParametersAreSet up" and "uu_TestFailover up \<noteq> None"
    and "update_failover env b (providerCtx ctx) i d up w = (Ok spec, w')"
  | up where "async" and "ud_PlanID d = pv_PlanID (ud_PreviousValues d)"
    and "ud_ServiceID d = pv_ServiceID (ud_PreviousValues d)" and "update_parameters env d = Inr up"
    and "\<not> checkIfNoUpdateParametersAreSet up" and "uu_TestFailover up = None"
    and "spec = update_spec (emptyOperation\<lparr>op_Action := ActionUpdating\<rparr>)"
proof -
  have g: "async" "ud_PlanID d = pv_PlanID (ud_PreviousValues d)" "ud_ServiceID d = pv_ServiceID (ud_PreviousValues d)"
    using assms by (auto simp: Broker_Update_def split: if_splits)
  with assms obtain up where up: "update_parameters env d = Inr up"
    unfolding Broker_Update_def update_parameters_def [symmetric] by (cases "update_parameters env d") auto
  with assms g show thesis
    unfolding Broker_Update_def update_parameters_def [symmetric]
    using that(1) [OF g up] that(2) [OF g up] by (auto elim!: andThen_OkE split: if_splits)
qed

lemma update_failover_OkE:
  assumes "update_failover env b ctx i d up w = (Ok spec, w')"
  obtains pc old now where "GetPlanConfig (b_config b) (ud_PlanID d) = Inr pc" and "failover_guard pc up = None"
    and "spec = update_spec \<lparr>op_Action = ActionFailover, op_PrimaryNode = old, op_TimeOut = failover_timeout_text env now\<rparr>"
  using assms unfolding update_failover_def
  by (auto elim!: handle_OkE andThen_OkE split: sum.splits option.splits)

text \<open>
  C11: an update succeeds only when the client accepts an asynchronous answer, neither plan nor service changes and some
  parameter is set; a failover test moreover only when it is the only parameter and the plan has
  replicas, high availability and no cluster mode. The answer is asynchronous and its operation data
  names what was done.
\<close>

theorem Update_guarded:
  assumes "Broker_Update env b ctx i d async w = (Ok spec, w')"
  shows "async \<and> ud_PlanID d = pv_PlanID (ud_PreviousValues d) \<and> ud_ServiceID d = pv_ServiceID (ud_PreviousValues d) \<and>
    us_IsAsync spec \<and>
    (\<exists>up. update_parameters env d = Inr up \<and> \<not> checkIfNoUpdateParametersAreSet up \<and>
      (if uu_TestFailover up = None
       then us_OperationData spec = Operation_String (emptyOperation\<lparr>op_Action := ActionUpdating\<rparr>)
       else (\<exists>pc old now. GetPlanConfig (b_config b) (ud_PlanID d) = Inr pc \<and>
         mindex (pc_Parameters pc) ''cluster-enabled'' \<noteq> ''yes'' \<and> pc_MultiAZEnabled pc \<and>
         pc_AutomaticFailoverEnabled pc \<and> pc_ReplicasPerNodeGroup pc \<ge> 1 \<and>
         uu_MaxMemoryPolicy up = None \<and> uu_PreferredMaintenanceWindow up = [] \<and>
         us_OperationData spec = Operation_String \<lparr>op_Action = ActionFailover, op_PrimaryNode = old,
           op_TimeOut = failover_timeout_text env now\<rparr>)))"
  using assms
proof (rule Broker_Update_OkE)
  fix up
  assume g: "async" "ud_PlanID d = pv_PlanID (ud_PreviousValues d)" "ud_ServiceID d = pv_ServiceID (ud_PreviousValues d)"
    "update_parameters env d = Inr up" "\<not> checkIfNoUpdateParametersAreSet up" "uu_TestFailover up \<noteq> None"
    and f: "update_failover env b (providerCtx ctx) i d up w = (Ok spec, w')"
  from f obtain pc old now where pc: "GetPlanConfig (b_config b) (ud_PlanID d) = Inr pc" "failover_guard pc up = None"
    and spec: "spec = update_spec \<lparr>op_Action = ActionFailover, op_PrimaryNode = old, op_TimeOut = failover_timeout_text env now\<rparr>"
    by (rule update_failover_OkE)
  from pc(2) have "mindex (pc_Parameters pc) ''cluster-enabled'' \<noteq> ''yes'' \<and> pc_MultiAZEnabled pc \<and>
      pc_AutomaticFailoverEnabled pc \<and> pc_ReplicasPerNodeGroup pc \<ge> 1 \<and>
      uu_MaxMemoryPolicy up = None \<and> uu_PreferredMaintenanceWindow up = []"
    by (auto simp: failover_guard_def split: if_splits)
  with g pc(1) spec show ?thesis by (auto simp: update_spec_def)
qed (auto simp: update_spec_def)

definition sample_update :: UpdateDetails where
  "sample_update =
     \<lparr>ud_ServiceID = ''s1'', ud_PlanID = ''p1'', ud_RawParameters = json_object [(ParamMaxMemoryPolicy, ''noeviction'')],
      ud_PreviousValues = \<lparr>pv_PlanID = ''p1'', pv_ServiceID = ''s1''\<rparr>\<rparr>"

lemma sample_update_parameters:
  "update_parameters unit_env sample_update = Inr (emptyUpdateParameters\<lparr>uu_MaxMemoryPolicy := Some ''noeviction''\<rparr>)"
proof -
  have "utf8_members [(ParamMaxMemoryPolicy, ''noeviction'')]"
    by (simp add: utf8_members_def) (intro conjI valid_utf8_ascii; code_simp)
  note s = unmarshal_map_strings [OF this] json_text.decode_encode [OF this]
  have "parseUpdateParameters unit_env (json_object [(ParamMaxMemoryPolicy, ''noeviction'')]) =
      unmarshal_struct ''broker.UpdateParameters'' update_keys set_update_field emptyUpdateParameters
        (json_object [(ParamMaxMemoryPolicy, ''noeviction'')])"
    unfolding parseUpdateParameters_def
    by (rule unmarshalParameters_cases(2) [of _ "[(ParamMaxMemoryPolicy, JString ''noeviction'')]"])
       (simp_all add: s update_keys_def)
  also have "\<dots> = Inr (emptyUpdateParameters\<lparr>uu_MaxMemoryPolicy := Some ''noeviction''\<rparr>)"
    by (simp add: s(2) unmarshal_struct_def json_strings_def store_member_def find_field_def update_keys_def
        set_update_field_def decode_string_ptr_def)
  finally show ?thesis
    by (simp add: update_parameters_def sample_update_def) (simp add: json_object_with_def)
qed

theorem Update_guarded_witness:
  "\<exists>spec. Broker_Update unit_env sample_broker RequestContext ''i1'' sample_update True () = (Ok spec, ()) \<and>
     us_OperationData spec = Operation_String (emptyOperation\<lparr>op_Action := ActionUpdating\<rparr>)"
proof -
  let ?spec = "update_spec (emptyOperation\<lparr>op_Action := ActionUpdating\<rparr>)"
  have u: "Broker_Update unit_env sample_broker RequestContext ''i1'' sample_update True () = (Ok ?spec, ())"
    unfolding Broker_Update_def update_parameters_def [symmetric] sample_update_parameters
    by (simp add: sample_update_def checkIfNoUpdateParametersAreSet_def emptyUpdateParameters_def
        update_maintenance_window_def update_maxmemory_policy_def sample_broker_def New_def agreeable_provider_def)
  from Update_guarded [OF u] sample_update_parameters u show ?thesis
    by (auto simp: emptyUpdateParameters_def)
qed

section \<open>Deadline of a failover test\<close>

lemma valid_failover_text:
  "valid_utf8 old \<Longrightarrow> valid_operation \<lparr>op_Action = ActionFailover, op_PrimaryNode = old,
     op_TimeOut = failover_timeout_text env start\<rparr>"
  by (simp add: valid_operation_def failover_timeout_text_def valid_utf8_ascii)

text \<open>
  C20: the operation data of a failover test started at \<open>start\<close> makes \<^verbatim>\<open>LastOperation\<close> answer with a time-out, without asking
  the provider, exactly from the moment the clock passes \<open>start\<close> plus 45 minutes, cut to whole seconds; before that
  the provider is asked for the failover of the same old primary.
\<close>

theorem failover_deadline:
  assumes "printable_time (local_zone env (start + 45 * Minute)) (start + 45 * Minute)" and "valid_utf8 old"
    and "time_Now env w = (now, w1)"
  shows "Broker_LastOperation env b ctx i \<lparr>po_OperationData = Operation_String
      \<lparr>op_Action = ActionFailover, op_PrimaryNode = old, op_TimeOut = failover_timeout_text env start\<rparr>\<rparr> w =
    (if now > whole_seconds (start + 45 * Minute)
     then (Err (ErrorString (''Operation failover timed out for '' @ i)), w1)
     else andThen (p_ProgressState (b_provider b) (providerCtx ctx) i ''failover'' old)
            (report_state b (providerCtx ctx) i ''failover'') w1)"
proof -
  let ?o = "\<lparr>op_Action = ActionFailover, op_PrimaryNode = old, op_TimeOut = failover_timeout_text env start\<rparr>"
  have "Parse_RFC3339 (op_TimeOut ?o) = Inr (whole_seconds (start + 45 * Minute))"
    using rfc3339.decode_encode [OF assms(1)] by (simp add: failover_timeout_text_def FailoverTimeout_def)
  moreover have "op_TimeOut ?o \<noteq> []" by (simp add: failover_timeout_text_def)
  ultimately have c: "check_timeout env i ?o w =
      (if now > whole_seconds (start + 45 * Minute)
       then (Err (ErrorString (''Operation '' @ op_Action ?o @ '' timed out for '' @ i)), w1) else (Ok (), w1))"
    using assms(3) by (rule check_timeout_text)
  have o: "valid_operation ?o" "op_Action ?o \<noteq> []"
    using assms(2) by (simp_all add: valid_failover_text)
  show ?thesis
  proof (cases "now > whole_seconds (start + 45 * Minute)")
    case True
    with c poll_operation_String [OF o] show ?thesis
      by (simp add: Broker_LastOperation_def andThen_eqs(2) ActionFailover_def)
  next
    case False
    with c have "check_timeout env i ?o w = (Ok (), w1)" by simp
    from LastOperation_of_operation [OF o this] False show ?thesis by (simp add: ActionFailover_def)
  qed
qed

theorem failover_deadline_witness:
  "Broker_LastOperation (unit_env\<lparr>time_Now := \<lambda>w. (3000 * Second, w)\<rparr>) sample_broker RequestContext ''i1''
     \<lparr>po_OperationData = Operation_String \<lparr>op_Action = ActionFailover, op_PrimaryNode = ''n1'',
       op_TimeOut = failover_timeout_text (unit_env\<lparr>time_Now := \<lambda>w. (3000 * Second, w)\<rparr>) 0\<rparr>\<rparr> () =
   (Err (ErrorString ''Operation failover timed out for i1''), ())"
proof -
  let ?e = "unit_env\<lparr>time_Now := \<lambda>w. (3000 * Second, w)\<rparr>"
  have a: "printable_time (local_zone ?e (0 + 45 * Minute)) (0 + 45 * Minute)"
    by (simp add: unit_env_def printable_time_def)
  have b: "valid_utf8 ''n1''" by (rule valid_utf8_ascii) code_simp
  have c: "time_Now ?e () = (3000 * Second, ())" by simp
  have "3000 * Second > whole_seconds (0 + 45 * Minute)" by (simp add: whole_seconds_def)
  with failover_deadline [OF a b c, of sample_broker RequestContext "''i1''"] show ?thesis by simp
qed

section \<open>The end of a deprovisioning\<close>

text \<open>
  C21: once the provider says that a deprovisioned instance is gone, \<^verbatim>\<open>LastOperation\<close> has its parameter group deleted, and only then
  tells the platform with status 410 that the instance does not exist; if the deletion fails the platform gets that
  error and will ask again.
\<close>

theorem deprovision_ends:
  assumes "p_ProgressState (b_provider b) (providerCtx ctx) i ActionDeprovisioning [] w = (Ok (NonExisting, msg, None), w1)"
  shows "Broker_LastOperation env b ctx i \<lparr>po_OperationData = Operation_String (emptyOperation\<lparr>op_Action := ActionDeprovisioning\<rparr>)\<rparr> w =
    (case p_DeleteCacheParameterGroup (b_provider b) (providerCtx ctx) i w1 of
       (Ok _, w2) \<Rightarrow> (Err ErrInstanceDoesNotExist, w2)
     | (Err e, w2) \<Rightarrow> (Err (ErrorString (''error deleting parameter group '' @ i @ '': '' @ Error e)), w2)
     | (Panic s, w2) \<Rightarrow> (Panic s, w2))"
proof -
  let ?o = "emptyOperation\<lparr>op_Action := ActionDeprovisioning\<rparr>"
  have o: "valid_operation ?o" "op_Action ?o \<noteq> []" "check_timeout env i ?o w = (Ok (), w)"
    by (simp_all add: valid_action_operation) (simp add: emptyOperation_def)
  from LastOperation_of_operation [OF o] assms show ?thesis
    by (simp add: emptyOperation_def andThen_eqs(1) report_state_def handle_def split: prod.split outcome.split)
qed

theorem deprovision_ends_witness:
  "Broker_LastOperation unit_env sample_broker RequestContext ''i1''
     \<lparr>po_OperationData = Operation_String (emptyOperation\<lparr>op_Action := ActionDeprovisioning\<rparr>)\<rparr> () =
   (Err ErrInstanceDoesNotExist, ())"
proof -
  have "p_ProgressState (b_provider sample_broker) (providerCtx RequestContext) ''i1'' ActionDeprovisioning [] () =
      (Ok (NonExisting, ''gone'', None), ())"
    by (simp add: sample_broker_def New_def agreeable_provider_def)
  from deprovision_ends [OF this, of unit_env] show ?thesis
    by (simp add: sample_broker_def New_def agreeable_provider_def)
qed

section \<open>A request for an instance\<close>

definition sample_details :: ProvisionDetails where
  "sample_details =
     \<lparr>pd_ServiceID = ''s1'', pd_PlanID = ''p1'', pd_OrganizationGUID = ''org'', pd_SpaceGUID = ''space'', pd_RawParameters = []\<rparr>"

end
