(* ===== verification/Aws_Trace.thy ===== *)
theory Aws_Trace
  imports Redis_Provider "HOL-Library.Sublist"
begin

text \<open>
  The calls that the program makes to AWS, in order. An arbitrary ElastiCache and Secrets Manager
  are instrumented so that each call is appended, with what AWS answered to it, to a trace kept beside the
  world; the provider runs over the instrumented services unchanged. The judgement \<open>emits\<close> bounds the calls of a
  computation whatever AWS answers; \<open>calls_only\<close> says that all of them satisfy a predicate.
\<close>

section \<open>Calls and instrumented services\<close>

datatype aws_call =
    CreateCacheParameterGroupC CreateCacheParameterGroupInput
  | CreateReplicationGroupC CreateReplicationGroupInput
  | DeleteCacheParameterGroupC string
  | DeleteReplicationGroupC DeleteReplicationGroupInput
  | DescribeReplicationGroupsC string
  | DescribeCacheClustersC string
  | DescribeCacheParametersC string
  | ModifyReplicationGroupC ModifyReplicationGroupInput
  | ModifyCacheParameterGroupC ModifyCacheParameterGroupInput
  | DescribeSnapshotsPagesC
  | ListTagsForResourceC string
  | CreateSecretC CreateSecretInput
  | GetSecretValueC string
  | DeleteSecretC DeleteSecretInput

text \<open>
  An answer: the call was accepted, it was refused with an error, or the program did not survive it. Of the values that
  are returned the described replication groups are kept: they are the only ones that decide about later changes.
\<close>

datatype aws_answer = Accepted | Described "ReplicationGroup list" | Refused go_error | Crashed string

type_synonym aws_event = "go_context \<times> aws_call \<times> aws_answer"

type_synonym trace = "aws_event list"

fun answer :: "('a \<Rightarrow> aws_answer) \<Rightarrow> 'a outcome \<Rightarrow> aws_answer" where
  "answer f (Ok x) = f x"
| "answer f (Err e) = Refused e"
| "answer f (Panic s) = Crashed s"

definition traced ::
    "go_context \<Rightarrow> aws_call \<Rightarrow> ('a \<Rightarrow> aws_answer) \<Rightarrow> ('w, 'a) go \<Rightarrow> ('w \<times> trace, 'a) go" where
  "traced ctx c f m wt = (case m (fst wt) of (r, w') \<Rightarrow> (r, w', snd wt @ [(ctx, c, answer f r)]))"

definition untraced :: "('w, 'a) go \<Rightarrow> ('w \<times> trace, 'a) go" where
  "untraced m wt = (case m (fst wt) of (r, w') \<Rightarrow> (r, w', snd wt))"

definition traced_elastiCache :: "'w ElastiCache \<Rightarrow> ('w \<times> trace) ElastiCache" where
  "traced_elastiCache ec =
     \<lparr>CreateCacheParameterGroup = \<lambda>ctx i. traced ctx (CreateCacheParameterGroupC i) (\<lambda>_. Accepted) (CreateCacheParameterGroup ec ctx i),
      CreateReplicationGroup = \<lambda>ctx i. traced ctx (CreateReplicationGroupC i) (\<lambda>_. Accepted) (CreateReplicationGroup ec ctx i),
      DeleteCacheParameterGroupCall =
        \<lambda>ctx i. traced ctx (DeleteCacheParameterGroupC i) (\<lambda>_. Accepted) (DeleteCacheParameterGroupCall ec ctx i),
      DeleteReplicationGroup = \<lambda>ctx i. traced ctx (DeleteReplicationGroupC i) (\<lambda>_. Accepted) (DeleteReplicationGroup ec ctx i),
      DescribeReplicationGroups = \<lambda>ctx i. traced ctx (DescribeReplicationGroupsC i) Described (DescribeReplicationGroups ec ctx i),
      DescribeCacheClusters = \<lambda>ctx i. traced ctx (DescribeCacheClustersC i) (\<lambda>_. Accepted) (DescribeCacheClusters ec ctx i),
      DescribeCacheParameters = \<lambda>ctx i. traced ctx (DescribeCacheParametersC i) (\<lambda>_. Accepted) (DescribeCacheParameters ec ctx i),
      ModifyReplicationGroup = \<lambda>ctx i. traced ctx (ModifyReplicationGroupC i) (\<lambda>_. Accepted) (ModifyReplicationGroup ec ctx i),
      ModifyCacheParameterGroup = \<lambda>ctx i. traced ctx (ModifyCacheParameterGroupC i) (\<lambda>_. Accepted) (ModifyCacheParameterGroup ec ctx i),
      DescribeSnapshotsPages = \<lambda>ctx. traced ctx DescribeSnapshotsPagesC (\<lambda>_. Accepted) (DescribeSnapshotsPages ec ctx),
      ListTagsForResource = \<lambda>ctx i. traced ctx (ListTagsForResourceC i) (\<lambda>_. Accepted) (ListTagsForResource ec ctx i)\<rparr>"

definition traced_secretsManager :: "'w SecretsManager \<Rightarrow> ('w \<times> trace) SecretsManager" where
  "traced_secretsManager sm =
     \<lparr>CreateSecret = \<lambda>ctx i. traced ctx (CreateSecretC i) (\<lambda>_. Accepted) (CreateSecret sm ctx i),
      GetSecretValue = \<lambda>ctx i. traced ctx (GetSecretValueC i) (\<lambda>_. Accepted) (GetSecretValue sm ctx i),
      DeleteSecret = \<lambda>ctx i. traced ctx (DeleteSecretC i) (\<lambda>_. Accepted) (DeleteSecret sm ctx i)\<rparr>"

definition traced_provider :: "'w RedisProvider \<Rightarrow> ('w \<times> trace) RedisProvider" where
  "traced_provider p =
     \<lparr>elastiCache = traced_elastiCache (elastiCache p),
      secretsManager = traced_secretsManager (secretsManager p),
      awsAccountID = awsAccountID p, awsPartition = awsPartition p, awsRegion = awsRegion p,
      kmsKeyID = kmsKeyID p, secretsManagerPath = secretsManagerPath p\<rparr>"

definition traced_env :: "'w go_env \<Rightarrow> ('w \<times> trace) go_env" where
  "traced_env env =
     \<lparr>time_Now = \<lambda>wt. (case time_Now env (fst wt) of (t, w') \<Rightarrow> (t, w', snd wt)),
      local_zone = local_zone env,
      rand_Int = \<lambda>n. untraced (rand_Int env n),
      map_order = map_order env,
      sort_Sort = sort_Sort env\<rparr>"

lemma traced_provider_simps [simp]:
  "elastiCache (traced_provider p) = traced_elastiCache (elastiCache p)"
  "secretsManager (traced_provider p) = traced_secretsManager (secretsManager p)"
  "kmsKeyID (traced_provider p) = kmsKeyID p"
  "getAuthTokenPath (traced_provider p) i = getAuthTokenPath p i"
  "snapshotARN (traced_provider p) s = snapshotARN p s"
  "replicationGroupARN (traced_provider p) s = replicationGroupARN p s"
  by (simp_all add: traced_provider_def getAuthTokenPath_def snapshotARN_def replicationGroupARN_def)

lemma traced_env_simps [simp]:
  "map_order (traced_env env) = map_order env"
  "local_zone (traced_env env) = local_zone env"
  "sort_Sort (traced_env env) = sort_Sort env"
  "rand_Int (traced_env env) n = untraced (rand_Int env n)"
  by (simp_all add: traced_env_def)

lemma replication_group_input_traced [simp]:
  "replication_group_input (traced_env env) = replication_group_input env"
  by (simp add: fun_eq_iff replication_group_input_def)

lemma traced_calls [simp]:
  "CreateCacheParameterGroup (traced_elastiCache ec) ctx i1 =
     traced ctx (CreateCacheParameterGroupC i1) (\<lambda>_. Accepted) (CreateCacheParameterGroup ec ctx i1)"
  "CreateReplicationGroup (traced_elastiCache ec) ctx i2 =
     traced ctx (CreateReplicationGroupC i2) (\<lambda>_. Accepted) (CreateReplicationGroup ec ctx i2)"
  "DeleteCacheParameterGroupCall (traced_elastiCache ec) ctx s =
     traced ctx (DeleteCacheParameterGroupC s) (\<lambda>_. Accepted) (DeleteCacheParameterGroupCall ec ctx s)"
  "DeleteReplicationGroup (traced_elastiCache ec) ctx i3 =
     traced ctx (DeleteReplicationGroupC i3) (\<lambda>_. Accepted) (DeleteReplicationGroup ec ctx i3)"
  "DescribeReplicationGroups (traced_elastiCache ec) ctx s =
     traced ctx (DescribeReplicationGroupsC s) Described (DescribeReplicationGroups ec ctx s)"
  "DescribeCacheClusters (traced_elastiCache ec) ctx s =
     traced ctx (DescribeCacheClustersC s) (\<lambda>_. Accepted) (DescribeCacheClusters ec ctx s)"
  "DescribeCacheParameters (traced_elastiCache ec) ctx s =
     traced ctx (DescribeCacheParametersC s) (\<lambda>_. Accepted) (DescribeCacheParameters ec ctx s)"
  "ModifyReplicationGroup (traced_elastiCache ec) ctx i4 =
     traced ctx (ModifyReplicationGroupC i4) (\<lambda>_. Accepted) (ModifyReplicationGroup ec ctx i4)"
  "ModifyCacheParameterGroup (traced_elastiCache ec) ctx i5 =
     traced ctx (ModifyCacheParameterGroupC i5) (\<lambda>_. Accepted) (ModifyCacheParameterGroup ec ctx i5)"
  "DescribeSnapshotsPages (traced_elastiCache ec) ctx =
     traced ctx DescribeSnapshotsPagesC (\<lambda>_. Accepted) (DescribeSnapshotsPages ec ctx)"
  "ListTagsForResource (traced_elastiCache ec) ctx s =
     traced ctx (ListTagsForResourceC s) (\<lambda>_. Accepted) (ListTagsForResource ec ctx s)"
  "CreateSecret (traced_secretsManager sm) ctx i6 = traced ctx (CreateSecretC i6) (\<lambda>_. Accepted) (CreateSecret sm ctx i6)"
  "GetSecretValue (traced_secretsManager sm) ctx s = traced ctx (GetSecretValueC s) (\<lambda>_. Accepted) (GetSecretValue sm ctx s)"
  "DeleteSecret (traced_secretsManager sm) ctx i7 = traced ctx (DeleteSecretC i7) (\<lambda>_. Accepted) (DeleteSecret sm ctx i7)"
  by (simp_all add: traced_elastiCache_def traced_secretsManager_def)

section \<open>Bounding the calls of a computation\<close>

text \<open>
  \<open>emits m T\<close>: from every world and every trace, \<open>m\<close> appends calls \<open>ds\<close> with \<open>T r ds\<close>, where \<open>r\<close> is
  its outcome. The rules are those of a weakest precondition.
\<close>

definition emits :: "('w \<times> trace, 'a) go \<Rightarrow> ('a outcome \<Rightarrow> trace \<Rightarrow> bool) \<Rightarrow> bool" where
  "emits m T \<longleftrightarrow> (\<forall>w cs. \<exists>ds. snd (snd (m (w, cs))) = cs @ ds \<and> T (fst (m (w, cs))) ds)"

named_theorems emit_rules \<open>rules of the trace judgement\<close>

lemma emits_ret [emit_rules]: "T (Ok x) [] \<Longrightarrow> emits (ret x) T"
  by (simp add: emits_def)

lemma emits_fail [emit_rules]: "T (Err e) [] \<Longrightarrow> emits (fail e) T"
  by (simp add: emits_def)

lemma emits_panic [emit_rules]: "T (Panic s) [] \<Longrightarrow> emits (panic s) T"
  by (simp add: emits_def)

lemma emits_traced [emit_rules]: "(\<And>r. T r [(ctx, c, answer f r)]) \<Longrightarrow> emits (traced ctx c f m) T"
  by (simp add: emits_def traced_def split: prod.split)

lemma emits_untraced [emit_rules]: "(\<And>r. T r []) \<Longrightarrow> emits (untraced m) T"
  by (simp add: emits_def untraced_def split: prod.split)

lemma emitsD:
  assumes "emits m T" and "m (w, cs) = (r, w', cs')"
  obtains ds where "cs' = cs @ ds" and "T r ds"
proof -
  obtain ds where "snd (snd (m (w, cs))) = cs @ ds" and "T (fst (m (w, cs))) ds"
    using assms(1) unfolding emits_def by blast
  with assms(2) show thesis using that by simp
qed

lemma emits_handle [emit_rules]:
  assumes "emits m (\<lambda>r ds. case r of
      Ok x \<Rightarrow> emits (k x) (\<lambda>r' ds'. T r' (ds @ ds'))
    | Err e \<Rightarrow> emits (h e) (\<lambda>r' ds'. T r' (ds @ ds'))
    | Panic s \<Rightarrow> T (Panic s) ds)"
  shows "emits (handle m h k) T"
  unfolding emits_def
proof (intro allI)
  fix w cs
  obtain r w' cs' where m: "m (w, cs) = (r, w', cs')" by (cases "m (w, cs)") auto
  from assms m obtain ds where ds: "cs' = cs @ ds" and T: "case r of
      Ok x \<Rightarrow> emits (k x) (\<lambda>r' ds'. T r' (ds @ ds'))
    | Err e \<Rightarrow> emits (h e) (\<lambda>r' ds'. T r' (ds @ ds'))
    | Panic s \<Rightarrow> T (Panic s) ds" by (rule emitsD)
  show "\<exists>ds. snd (snd (handle m h k (w, cs))) = cs @ ds \<and> T (fst (handle m h k (w, cs))) ds"
  proof (cases r)
    case (Ok x)
    with T obtain es where "snd (snd (k x (w', cs'))) = cs' @ es" and "T (fst (k x (w', cs'))) (ds @ es)"
      by (auto simp: emits_def)
    with m ds Ok show ?thesis by (intro exI [of _ "ds @ es"]) (simp add: handle_eqs)
  next
    case (Err e)
    with T obtain es where "snd (snd (h e (w', cs'))) = cs' @ es" and "T (fst (h e (w', cs'))) (ds @ es)"
      by (auto simp: emits_def)
    with m ds Err show ?thesis by (intro exI [of _ "ds @ es"]) (simp add: handle_eqs)
  qed (use m ds T in \<open>simp add: handle_eqs\<close>)
qed

lemma emits_andThen [emit_rules]:
  "emits m (\<lambda>r ds. case r of
      Ok x \<Rightarrow> emits (k x) (\<lambda>r' ds'. T r' (ds @ ds'))
    | Err e \<Rightarrow> T (Err e) ds
    | Panic s \<Rightarrow> T (Panic s) ds) \<Longrightarrow> emits (andThen m k) T"
  unfolding andThen_def by (rule emits_handle) (auto simp: emits_def split: outcome.splits)

lemma emits_mono: "emits m S \<Longrightarrow> (\<And>r ds. S r ds \<Longrightarrow> T r ds) \<Longrightarrow> emits m T"
  unfolding emits_def by blast

text \<open>Sequencing with what is already known of the first part.\<close>

lemma emits_handle_known:
  assumes "emits m S" and "\<And>x ds. S (Ok x) ds \<Longrightarrow> emits (k x) (\<lambda>r es. T r (ds @ es))"
    and "\<And>e ds. S (Err e) ds \<Longrightarrow> emits (h e) (\<lambda>r es. T r (ds @ es))"
    and "\<And>s ds. S (Panic s) ds \<Longrightarrow> T (Panic s) ds"
  shows "emits (handle m h k) T"
  by (rule emits_handle, rule emits_mono [OF assms(1)]) (use assms(2-4) in \<open>auto split: outcome.split\<close>)

lemma emits_andThen_known:
  assumes "emits m S" and "\<And>x ds. S (Ok x) ds \<Longrightarrow> emits (k x) (\<lambda>r es. T r (ds @ es))"
    and "\<And>e ds. S (Err e) ds \<Longrightarrow> T (Err e) ds" and "\<And>s ds. S (Panic s) ds \<Longrightarrow> T (Panic s) ds"
  shows "emits (andThen m k) T"
  unfolding andThen_def
  by (rule emits_handle_known [OF assms(1,2) _ assms(4)]) (simp_all add: emits_fail assms(3))

text \<open>A computation that makes no calls at all, and one whose calls all satisfy a predicate.\<close>

definition silent :: "('w \<times> trace, 'a) go \<Rightarrow> bool" where
  "silent m \<longleftrightarrow> emits m (\<lambda>r ds. ds = [])"

definition calls_only :: "(aws_event \<Rightarrow> bool) \<Rightarrow> ('w \<times> trace, 'a) go \<Rightarrow> bool" where
  "calls_only Q m \<longleftrightarrow> emits m (\<lambda>r ds. list_all Q ds)"

named_theorems call_rules \<open>rules of the judgement calls_only\<close>

lemma calls_ret [call_rules]: "calls_only Q (ret x)"
  by (simp add: calls_only_def emits_ret)

lemma calls_fail [call_rules]: "calls_only Q (fail e)"
  by (simp add: calls_only_def emits_fail)

lemma calls_panic [call_rules]: "calls_only Q (panic s)"
  by (simp add: calls_only_def emits_panic)

lemma calls_traced [call_rules]: "(\<And>a. Q (ctx, c, a)) \<Longrightarrow> calls_only Q (traced ctx c f m)"
  by (simp add: calls_only_def emits_traced)

lemma calls_untraced [call_rules]: "calls_only Q (untraced m)"
  by (simp add: calls_only_def emits_untraced)

lemma calls_deref [call_rules]: "calls_only Q (deref p)"
  by (cases p) (simp_all add: call_rules)

lemma calls_lift [call_rules]: "calls_only Q (lift r)"
  by (cases r) (simp_all add: call_rules)

lemma calls_handle [call_rules]:
  assumes "calls_only Q m" and "\<And>e. calls_only Q (h e)" and "\<And>x. calls_only Q (k x)"
  shows "calls_only Q (handle m h k)"
  unfolding calls_only_def
proof (rule emits_handle, rule emits_mono [OF assms(1) [unfolded calls_only_def]])
  show "case r of Ok x \<Rightarrow> emits (k x) (\<lambda>r' ds'. list_all Q (ds @ ds'))
      | Err e \<Rightarrow> emits (h e) (\<lambda>r' ds'. list_all Q (ds @ ds')) | Panic s \<Rightarrow> list_all Q ds"
    if "list_all Q ds" for r ds
    using that assms(2,3) by (simp add: calls_only_def split: outcome.split)
qed

lemma calls_andThen [call_rules]:
  "calls_only Q m \<Longrightarrow> (\<And>x. calls_only Q (k x)) \<Longrightarrow> calls_only Q (andThen m k)"
  by (simp add: andThen_def calls_handle calls_fail)

lemma calls_if [call_rules]:
  "(b \<Longrightarrow> calls_only Q m) \<Longrightarrow> (\<not> b \<Longrightarrow> calls_only Q n) \<Longrightarrow> calls_only Q (if b then m else n)"
  by simp

lemma calls_option [call_rules]:
  "(v = None \<Longrightarrow> calls_only Q m) \<Longrightarrow> (\<And>x. v = Some x \<Longrightarrow> calls_only Q (k x)) \<Longrightarrow>
   calls_only Q (case v of None \<Rightarrow> m | Some x \<Rightarrow> k x)"
  by (cases v) simp_all

lemma calls_list [call_rules]:
  "calls_only Q m \<Longrightarrow> (\<And>x xs. calls_only Q (k x xs)) \<Longrightarrow>
   calls_only Q (case v of [] \<Rightarrow> m | x # xs \<Rightarrow> k x xs)"
  by (cases v) simp_all

lemma calls_prod [call_rules]:
  "(\<And>x y. calls_only Q (k x y)) \<Longrightarrow> calls_only Q (case v of (x, y) \<Rightarrow> k x y)"
  by (cases v) simp

lemma calls_sum [call_rules]:
  "(\<And>x. calls_only Q (f x)) \<Longrightarrow> (\<And>y. calls_only Q (g y)) \<Longrightarrow>
   calls_only Q (case v of Inl x \<Rightarrow> f x | Inr y \<Rightarrow> g y)"
  by (cases v) simp_all

lemma calls_read_clock [call_rules]: "calls_only Q (read_clock (traced_env env))"
  by (simp add: calls_only_def emits_def read_clock_def traced_env_def split: prod.split)

lemma silent_iff: "silent m \<longleftrightarrow> calls_only (\<lambda>_. False) m"
proof -
  have "list_all (\<lambda>_. False) ds \<longleftrightarrow> ds = []" for ds :: trace by (cases ds) auto
  then show ?thesis by (simp add: silent_def calls_only_def)
qed

lemma calls_onlyD:
  assumes "calls_only Q m" and "m (w, cs) = (r, w', cs')"
  obtains ds where "cs' = cs @ ds" and "list_all Q ds"
  using assms unfolding calls_only_def by (rule emitsD)

section \<open>Calls of the provider\<close>

lemma calls_randChar_loop: "calls_only Q (randChar_loop (traced_env env) n chars)"
proof (induction n)
  case 0
  show ?case unfolding randChar_loop.simps by (rule calls_ret)
next
  case (Suc n)
  show ?case unfolding randChar_loop.simps traced_env_simps by (intro call_rules Suc)
qed

lemma calls_GenerateAuthToken [call_rules]: "calls_only Q (GenerateAuthToken (traced_env env))"
  unfolding GenerateAuthToken_def RandomAlphaNum_def randChar_def
  by (intro call_rules calls_randChar_loop)

lemma emits_GenerateAuthToken [emit_rules]:
  assumes "\<And>s. T (Ok s) []" and "\<And>s. T (Panic s) []"
  shows "emits (GenerateAuthToken (traced_env env)) T"
  unfolding emits_def
proof (intro allI)
  fix w cs
  obtain r w' cs' where g: "GenerateAuthToken (traced_env env) (w, cs) = (r, w', cs')"
    by (cases "GenerateAuthToken (traced_env env) (w, cs)") auto
  have "calls_only (\<lambda>_. False) (GenerateAuthToken (traced_env env))" by (rule calls_GenerateAuthToken)
  then have "silent (GenerateAuthToken (traced_env env))" by (simp add: silent_iff)
  from this [unfolded silent_def] g obtain ds where ds: "cs' = cs @ ds" and nil: "ds = []" by (rule emitsD)
  have "T r []" using assms g GenerateAuthToken_no_error [of "traced_env env"] by (cases r) (simp_all)
  with ds nil g show "\<exists>ds. snd (snd (GenerateAuthToken (traced_env env) (w, cs))) = cs @ ds \<and>
      T (fst (GenerateAuthToken (traced_env env) (w, cs))) ds" by simp
qed

lemma calls_scan_members [call_rules]: "calls_only Q (scan_members ms acc)"
proof (induction ms arbitrary: acc)
  case Nil
  show ?case unfolding scan_members.simps by (rule calls_ret)
next
  case (Cons m ms)
  show ?case by (cases acc) (simp only: scan_members.simps, intro call_rules Cons)
qed

lemma calls_scan_groups [call_rules]: "calls_only Q (scan_groups gs acc)"
proof (induction gs arbitrary: acc)
  case Nil
  show ?case unfolding scan_groups.simps by (rule calls_ret)
next
  case (Cons g gs)
  show ?case unfolding scan_groups.simps by (intro call_rules Cons)
qed

lemma calls_GetPrimaryAndReplica [call_rules]: "calls_only Q (GetPrimaryAndReplicaCacheClusterIds rg)"
  unfolding GetPrimaryAndReplicaCacheClusterIds_def by (intro call_rules)

lemma calls_describeReplicationGroup [call_rules]:
  "(\<And>a. Q (ctx, DescribeReplicationGroupsC i, a)) \<Longrightarrow> calls_only Q (describeReplicationGroup (traced_provider p) ctx i)"
  unfolding describeReplicationGroup_def traced_provider_simps traced_calls by (intro call_rules)

lemma calls_describeCacheCluster [call_rules]:
  "(\<And>a. Q (ctx, DescribeCacheClustersC i, a)) \<Longrightarrow> calls_only Q (describeCacheCluster (traced_provider p) ctx i)"
  unfolding describeCacheCluster_def traced_provider_simps traced_calls by (intro call_rules)

lemma calls_describeCacheParameters [call_rules]:
  "(\<And>a. Q (ctx, DescribeCacheParametersC i, a)) \<Longrightarrow> calls_only Q (describeCacheParameters (traced_provider p) ctx i)"
  unfolding describeCacheParameters_def traced_provider_simps traced_calls by (intro call_rules)

lemma calls_getMessage [call_rules]:
  assumes "\<And>i a. Q (ctx, DescribeCacheClustersC i, a)" and "\<And>i a. Q (ctx, DescribeCacheParametersC i, a)"
  shows "calls_only Q (getMessage (traced_provider p) ctx rg s)"
  unfolding getMessage_def cluster_lines_def by (intro call_rules assms)

lemma calls_modifyReplicationGroup [call_rules]:
  "(\<And>i a. mrg_ReplicationGroupId i = Some g \<Longrightarrow> Q (ctx, ModifyReplicationGroupC i, a)) \<Longrightarrow>
   calls_only Q (modifyReplicationGroup (traced_provider p) ctx g window)"
  unfolding modifyReplicationGroup_def traced_provider_simps traced_calls by (intro call_rules) simp

lemma calls_modifyCacheParameterGroup [call_rules]:
  "(\<And>i a. mcpg_CacheParameterGroupName i = g \<Longrightarrow> Q (ctx, ModifyCacheParameterGroupC i, a)) \<Longrightarrow>
   calls_only Q (modifyCacheParameterGroup (traced_env env) (traced_provider p) ctx g params)"
  unfolding modifyCacheParameterGroup_def traced_provider_simps traced_calls by (intro call_rules) simp

lemma calls_snapshot_infos [call_rules]:
  assumes "\<And>i a. Q (ctx, ListTagsForResourceC i, a)"
  shows "calls_only Q (snapshot_infos (traced_provider p) ctx instanceID ss)"
proof (induction ss)
  case Nil
  show ?case unfolding snapshot_infos.simps by (rule calls_ret)
next
  case (Cons s ss)
  show ?case unfolding snapshot_infos.simps traced_provider_simps traced_calls Let_def
    by (intro call_rules assms Cons)
qed

lemma calls_collect_members [call_rules]: "calls_only Q (collect_members ms ip)"
proof (induction ms arbitrary: ip)
  case Nil
  show ?case unfolding collect_members.simps by (rule calls_ret)
next
  case (Cons m ms)
  show ?case unfolding collect_members.simps by (intro call_rules Cons)
qed

lemma calls_collect_groups [call_rules]: "calls_only Q (collect_groups gs ip)"
proof (induction gs arbitrary: ip)
  case Nil
  show ?case unfolding collect_groups.simps by (rule calls_ret)
next
  case (Cons g gs)
  show ?case unfolding collect_groups.simps by (intro call_rules Cons)
qed

lemma calls_collect_parameters [call_rules]: "calls_only Q (collect_parameters qs ip)"
proof (induction qs arbitrary: ip)
  case Nil
  show ?case unfolding collect_parameters.simps by (rule calls_ret)
next
  case (Cons q qs)
  show ?case unfolding collect_parameters.simps Let_def by (intro call_rules Cons)
qed

subsection \<open>Calls that only read, and calls on the resources of one instance\<close>

fun reads :: "aws_call \<Rightarrow> bool" where
  "reads (DescribeReplicationGroupsC _) = True"
| "reads (DescribeCacheClustersC _) = True"
| "reads (DescribeCacheParametersC _) = True"
| "reads DescribeSnapshotsPagesC = True"
| "reads (ListTagsForResourceC _) = True"
| "reads (GetSecretValueC _) = True"
| "reads _ = False"

text \<open>
  A call that changes something, addressed to the replication group, the parameter group or the
  secret of one instance.
\<close>

fun changes :: "'w RedisProvider \<Rightarrow> string \<Rightarrow> aws_call \<Rightarrow> bool" where
  "changes p i (CreateCacheParameterGroupC x) =
     (ccpg_CacheParameterGroupName x = GenerateReplicationGroupName i)"
| "changes p i (CreateReplicationGroupC x) =
     (crg_ReplicationGroupId x = GenerateReplicationGroupName i \<and>
      crg_CacheParameterGroupName x = GenerateReplicationGroupName i)"
| "changes p i (DeleteCacheParameterGroupC x) = (x = GenerateReplicationGroupName i)"
| "changes p i (DeleteReplicationGroupC x) = (drg_ReplicationGroupId x = GenerateReplicationGroupName i)"
| "changes p i (ModifyReplicationGroupC x) = (mrg_ReplicationGroupId x = Some (GenerateReplicationGroupName i))"
| "changes p i (ModifyCacheParameterGroupC x) = (mcpg_CacheParameterGroupName x = GenerateReplicationGroupName i)"
| "changes p i (CreateSecretC x) = (cs_Name x = getAuthTokenPath p i)"
| "changes p i (DeleteSecretC x) = (ds_SecretId x = getAuthTokenPath p i)"
| "changes p i _ = False"

text \<open>Every call is made with the given context and either reads or is addressed to the instance.\<close>

definition own_calls :: "'w RedisProvider \<Rightarrow> go_context \<Rightarrow> string \<Rightarrow> aws_event \<Rightarrow> bool" where
  "own_calls p ctx i = (\<lambda>(ctx', c, _). ctx' = ctx \<and> (reads c \<or> changes p i c))"

definition read_calls :: "go_context \<Rightarrow> aws_event \<Rightarrow> bool" where
  "read_calls ctx = (\<lambda>(ctx', c, _). ctx' = ctx \<and> reads c)"

lemma own_calls_simp [simp]: "own_calls p ctx i (ctx', c, a) \<longleftrightarrow> ctx' = ctx \<and> (reads c \<or> changes p i c)"
  by (simp add: own_calls_def)

lemma read_calls_simp [simp]: "read_calls ctx (ctx', c, a) \<longleftrightarrow> ctx' = ctx \<and> reads c"
  by (simp add: read_calls_def)

lemmas op_unfold = traced_provider_simps traced_calls traced_env_simps replication_group_input_traced Let_def

lemma own_DeleteCacheParameterGroup [call_rules]:
  "calls_only (own_calls p ctx i) (DeleteCacheParameterGroup (traced_provider p) ctx i)"
  unfolding DeleteCacheParameterGroup_def op_unfold by (intro call_rules) simp

lemma own_DeleteAuthTokenSecret [call_rules]:
  "calls_only (own_calls p ctx i) (DeleteAuthTokenSecret (traced_provider p) ctx i n)"
  unfolding DeleteAuthTokenSecret_def op_unfold by (intro call_rules) simp

lemma own_Provision [call_rules]:
  "calls_only (own_calls p ctx i) (Provision (traced_env env) (traced_provider p) ctx i params)"
  unfolding Provision_def createCacheParameterGroup_def CreateAuthTokenSecret_def log_error_def op_unfold
  by (intro call_rules) (simp_all add: replication_group_input_def)

lemma own_Deprovision [call_rules]:
  "calls_only (own_calls p ctx i) (Deprovision (traced_provider p) ctx i params)"
  unfolding Deprovision_def op_unfold by (intro call_rules) simp

lemma own_UpdateReplicationGroup [call_rules]:
  "calls_only (own_calls p ctx i) (UpdateReplicationGroup (traced_provider p) ctx i params)"
  unfolding UpdateReplicationGroup_def by (intro call_rules) simp

lemma own_UpdateParamGroupParameters [call_rules]:
  "calls_only (own_calls p ctx i) (UpdateParamGroupParameters (traced_env env) (traced_provider p) ctx i params)"
  unfolding UpdateParamGroupParameters_def by (intro call_rules) simp

lemma own_StartFailoverTest [call_rules]:
  "calls_only (own_calls p ctx i) (StartFailoverTest (traced_provider p) ctx i)"
  unfolding StartFailoverTest_def op_unfold by (intro call_rules) (simp_all add: ha_input_def)

lemma own_ProgressState [call_rules]:
  "calls_only (own_calls p ctx i) (ProgressState (traced_provider p) ctx i operation old)"
  unfolding ProgressState_def op_unfold
  by (intro call_rules) (simp_all add: ha_input_def cutover_input_def)

lemma reads_ProgressState:
  assumes "operation \<noteq> ''failover''"
  shows "calls_only (read_calls ctx) (ProgressState (traced_provider p) ctx i operation old)"
  unfolding ProgressState_def op_unfold
  by (intro call_rules) (use assms in simp_all)

lemma reads_GetInstanceParameters [call_rules]:
  "calls_only (read_calls ctx) (GetInstanceParameters (traced_provider p) ctx i)"
  unfolding GetInstanceParameters_def maintenance_window_def op_unfold by (intro call_rules) simp_all

lemma reads_GetInstanceTags [call_rules]:
  "calls_only (read_calls ctx) (GetInstanceTags (traced_provider p) ctx i)"
  unfolding GetInstanceTags_def op_unfold by (intro call_rules) simp

lemma reads_GenerateCredentials [call_rules]:
  "calls_only (read_calls ctx) (GenerateCredentials (traced_provider p) ctx i bindingID)"
  unfolding GenerateCredentials_def host_and_port_def op_unfold by (intro call_rules) simp_all

lemma reads_FindSnapshots [call_rules]:
  "calls_only (read_calls ctx) (FindSnapshots (traced_provider p) ctx i)"
  unfolding FindSnapshots_def op_unfold by (intro call_rules) simp_all

lemma calls_only_mono: "calls_only Q m \<Longrightarrow> (\<And>c. Q c \<Longrightarrow> R c) \<Longrightarrow> calls_only R m"
  unfolding calls_only_def by (erule emits_mono) (auto simp: list_all_iff)

lemma own_of_reads: "calls_only (read_calls ctx) m \<Longrightarrow> calls_only (own_calls p ctx i) m"
  by (erule calls_only_mono) (auto simp: read_calls_def own_calls_def)

section \<open>The order of the calls\<close>

lemma emits_handle_call:
  assumes "\<And>x. emits (k x) (\<lambda>r ds. T r ((ctx, c, f x) # ds))" and "\<And>e. emits (h e) (\<lambda>r ds. T r ((ctx, c, Refused e) # ds))"
    and "\<And>s. T (Panic s) [(ctx, c, Crashed s)]"
  shows "emits (handle (traced ctx c f m) h k) T"
  by (intro emit_rules) (use assms in \<open>simp split: outcome.split\<close>)

lemma emits_andThen_call:
  assumes "\<And>x. emits (k x) (\<lambda>r ds. T r ((ctx, c, f x) # ds))" and "\<And>e. T (Err e) [(ctx, c, Refused e)]"
    and "\<And>s. T (Panic s) [(ctx, c, Crashed s)]"
  shows "emits (andThen (traced ctx c f m) k) T"
  by (intro emit_rules) (use assms in \<open>simp split: outcome.split\<close>)

lemma emits_andThen_token:
  assumes "\<And>x. emits (k x) T" and "\<And>s. T (Panic s) []"
  shows "emits (andThen (GenerateAuthToken (traced_env env)) k) T"
  by (rule emit_rules)+ (use assms in simp_all)

lemma emits_if: "(b \<Longrightarrow> emits m T) \<Longrightarrow> (\<not> b \<Longrightarrow> emits n T) \<Longrightarrow> emits (if b then m else n) T"
  by simp

lemma emits_option:
  "(v = None \<Longrightarrow> emits m T) \<Longrightarrow> (\<And>x. v = Some x \<Longrightarrow> emits (k x) T) \<Longrightarrow>
   emits (case v of None \<Rightarrow> m | Some x \<Rightarrow> k x) T"
  by (cases v) simp_all

lemma emits_prod: "(\<And>x y. emits (k x y) T) \<Longrightarrow> emits (case v of (x, y) \<Rightarrow> k x y) T"
  by (cases v) simp

lemmas emit_calls = emits_if emits_andThen_call emits_handle_call emits_andThen_token emits_ret emits_fail emits_traced

text \<open>The calls of \<^verbatim>\<open>Provision\<close> when all succeed, and the calls that undo them.\<close>

definition provision_calls ::
    "'w go_env \<Rightarrow> 'w RedisProvider \<Rightarrow> string \<Rightarrow> ProvisionParameters \<Rightarrow> string \<Rightarrow> aws_call list" where
  "provision_calls env p i params token =
     (let g = GenerateReplicationGroupName i in
      [CreateCacheParameterGroupC
         \<lparr>ccpg_CacheParameterGroupFamily = pp_CacheParameterGroupFamily params,
          ccpg_CacheParameterGroupName = g, ccpg_Description = ''Created by Cloud Foundry''\<rparr>,
       ModifyCacheParameterGroupC
         \<lparr>mcpg_ParameterNameValues =
            map name_value (range_map (map_order env) (with_cluster_enabled (pp_Parameters params))),
          mcpg_CacheParameterGroupName = g\<rparr>,
       CreateSecretC
         \<lparr>cs_Name = getAuthTokenPath p i, cs_SecretString = token, cs_KmsKeyId = kmsKeyID p,
          cs_Tags = [\<lparr>tag_Key = Some ''chargeable_entity'', tag_Value = Some i\<rparr>]\<rparr>,
       CreateReplicationGroupC (replication_group_input env g token params)])"

definition cleanup_calls :: "'w RedisProvider \<Rightarrow> string \<Rightarrow> aws_call list" where
  "cleanup_calls p i =
     [DeleteCacheParameterGroupC (GenerateReplicationGroupName i),
      DeleteSecretC \<lparr>ds_SecretId = getAuthTokenPath p i, ds_RecoveryWindowInDays = 7\<rparr>]"

text \<open>
  The calls of a trace and their answers. \<open>carried_out calls cs\<close>: exactly \<open>calls\<close> were made, and AWS accepted each.
  \<open>refused_at n calls e cs\<close>: the calls were made up to the one of index \<open>n\<close>, AWS accepted those before it, refused that
  one with the error \<open>e\<close>, and nothing was called after it.
\<close>

definition calls_of :: "trace \<Rightarrow> (go_context \<times> aws_call) list" where
  "calls_of cs = map (\<lambda>(ctx, c, a). (ctx, c)) cs"

definition answers_of :: "trace \<Rightarrow> aws_answer list" where
  "answers_of cs = map (\<lambda>(ctx, c, a). a) cs"

fun accepts :: "aws_answer \<Rightarrow> bool" where
  "accepts Accepted = True"
| "accepts (Described _) = True"
| "accepts (Refused _) = False"
| "accepts (Crashed _) = False"

definition carried_out :: "(go_context \<times> aws_call) list \<Rightarrow> trace \<Rightarrow> bool" where
  "carried_out calls cs \<longleftrightarrow> calls_of cs = calls \<and> list_all accepts (answers_of cs)"

definition refused_at :: "nat \<Rightarrow> (go_context \<times> aws_call) list \<Rightarrow> go_error \<Rightarrow> trace \<Rightarrow> bool" where
  "refused_at n calls e cs \<longleftrightarrow> n < length calls \<and> calls_of cs = take (Suc n) calls \<and>
     (\<exists>as. answers_of cs = as @ [Refused e] \<and> list_all accepts as)"

text \<open>Calls of which each is made only after the one before it was accepted, up to a crash of the program.\<close>

definition interrupted :: "(go_context \<times> aws_call) list \<Rightarrow> trace \<Rightarrow> bool" where
  "interrupted calls cs \<longleftrightarrow> prefix (calls_of cs) calls \<and> list_all accepts (butlast (answers_of cs))"

text \<open>A sequence of calls that ends with the first refusal, which is also the error of the whole.\<close>

definition in_sequence :: "(go_context \<times> aws_call) list \<Rightarrow> 'a outcome \<Rightarrow> trace \<Rightarrow> bool" where
  "in_sequence calls r cs = (case r of
      Ok _ \<Rightarrow> carried_out calls cs
    | Err e \<Rightarrow> (\<exists>n. refused_at n calls e cs)
    | Panic _ \<Rightarrow> interrupted calls cs)"

lemma calls_of_simps [simp]:
  "calls_of [] = []" "calls_of ((ctx, c, a) # cs) = (ctx, c) # calls_of cs" "calls_of (cs @ ds) = calls_of cs @ calls_of ds"
  by (simp_all add: calls_of_def)

lemma answers_of_simps [simp]:
  "answers_of [] = []" "answers_of ((ctx, c, a) # cs) = a # answers_of cs" "answers_of (cs @ ds) = answers_of cs @ answers_of ds"
  by (simp_all add: answers_of_def)

lemma refused_at_0: "refused_at 0 ((ctx, c) # calls) e [(ctx, c, Refused e)]"
  by (simp add: refused_at_def)

lemma refused_at_Suc [simp]:
  "accepts a \<Longrightarrow> refused_at (Suc n) ((ctx, c) # calls) e ((ctx, c, a) # cs) \<longleftrightarrow> refused_at n calls e cs"
proof
  assume a: "accepts a"
  show "refused_at n calls e cs" if "refused_at (Suc n) ((ctx, c) # calls) e ((ctx, c, a) # cs)"
    using a that by (auto simp: refused_at_def Cons_eq_append_conv)
  show "refused_at (Suc n) ((ctx, c) # calls) e ((ctx, c, a) # cs)" if "refused_at n calls e cs"
    using a that by (auto simp: refused_at_def Cons_eq_append_conv)
qed

text \<open>Sequences one after the other.\<close>

lemma carried_out_append:
  "carried_out calls cs \<Longrightarrow> carried_out calls' ds \<Longrightarrow> carried_out (calls @ calls') (cs @ ds)"
  by (simp add: carried_out_def)

lemma refused_at_append: "refused_at n calls e cs \<Longrightarrow> refused_at n (calls @ calls') e cs"
  by (auto simp: refused_at_def)

lemma refused_at_after:
  assumes "carried_out calls cs" and "refused_at n calls' e ds"
  shows "refused_at (length calls + n) (calls @ calls') e (cs @ ds)"
proof -
  from assms(2) obtain as where "answers_of ds = as @ [Refused e]" "list_all accepts as" by (auto simp: refused_at_def)
  with assms show ?thesis by (auto simp: refused_at_def carried_out_def intro!: exI [of _ "answers_of cs @ as"])
qed

lemma interrupted_append: "interrupted calls cs \<Longrightarrow> interrupted (calls @ calls') cs"
  by (auto simp: interrupted_def intro: prefix_prefix)

lemma interrupted_after: "carried_out calls cs \<Longrightarrow> interrupted calls' ds \<Longrightarrow> interrupted (calls @ calls') (cs @ ds)"
  by (auto simp: interrupted_def carried_out_def butlast_append list_all_iff dest: in_set_butlastD)

text \<open>The calls of a trace that change something.\<close>

definition changing :: "trace \<Rightarrow> trace" where
  "changing ds = filter (\<lambda>(_, c, _). \<not> reads c) ds"

lemma changing_append [simp]: "changing (ds @ es) = changing ds @ changing es"
  by (simp add: changing_def)

lemma changing_reads: "list_all (read_calls ctx) ds \<Longrightarrow> changing ds = []"
  by (induction ds) (auto simp: changing_def)

lemma changing_Cons [simp]: "changing ((ctx, c, a) # ds) = (if reads c then changing ds else (ctx, c, a) # changing ds)"
  by (simp add: changing_def)

lemma changing_Nil [simp]: "changing [] = []"
  by (simp add: changing_def)

text \<open>Reads before a computation do not count.\<close>

lemma emits_changing_handle:
  assumes "calls_only (read_calls ctx) m" and "\<And>x. emits (k x) (\<lambda>r ds. U r (changing ds))"
    and "\<And>e. emits (h e) (\<lambda>r ds. U r (changing ds))" and "\<And>s. U (Panic s) []"
  shows "emits (handle m h k) (\<lambda>r ds. U r (changing ds))"
proof (rule emits_handle, rule emits_mono [OF assms(1) [unfolded calls_only_def]])
  show "case r of Ok x \<Rightarrow> emits (k x) (\<lambda>r' ds'. U r' (changing (ds @ ds')))
      | Err e \<Rightarrow> emits (h e) (\<lambda>r' ds'. U r' (changing (ds @ ds'))) | Panic s \<Rightarrow> U (Panic s) (changing ds)"
    if "list_all (read_calls ctx) ds" for r ds
    using assms(2-4) changing_reads [OF that] by (simp split: outcome.split)
qed

lemma emits_changing_andThen:
  assumes "calls_only (read_calls ctx) m" and "\<And>x. emits (k x) (\<lambda>r ds. U r (changing ds))"
    and "\<And>e. U (Err e) []" and "\<And>s. U (Panic s) []"
  shows "emits (andThen m k) (\<lambda>r ds. U r (changing ds))"
  unfolding andThen_def by (rule emits_changing_handle [OF assms(1,2) _ assms(4)]) (simp add: emits_fail assms(3))

lemma emits_changing_reads:
  assumes "calls_only (read_calls ctx) m" and "\<And>r. U r []"
  shows "emits m (\<lambda>r ds. U r (changing ds))"
  by (rule emits_mono [OF assms(1) [unfolded calls_only_def]]) (simp add: changing_reads assms(2))


section \<open>Creating and deleting an instance\<close>

text \<open>
  The calls of \<^verbatim>\<open>Provision\<close> with their answers: all four accepted; one of the first three refused and nothing after it,
  where the error about the secret is wrapped; or the last one refused and everything undone, whatever AWS
  answers to that.
\<close>

definition provision_trace ::
    "(go_context \<times> aws_call) list \<Rightarrow> (go_context \<times> aws_call) list \<Rightarrow> unit outcome \<Rightarrow> trace \<Rightarrow> bool" where
  "provision_trace calls cleanup r cs = (case r of
      Ok _ \<Rightarrow> carried_out calls cs
    | Err e \<Rightarrow> refused_at 0 calls e cs \<or> refused_at 1 calls e cs \<or>
        (\<exists>e'. refused_at 2 calls e' cs \<and> e = ErrorString (''failed to create auth token: '' @ Error e')) \<or>
        (\<exists>created undone. cs = created @ undone \<and> refused_at 3 calls e created \<and> calls_of undone = cleanup)
    | Panic _ \<Rightarrow> interrupted calls cs \<or>
        (\<exists>created undone e. cs = created @ undone \<and> refused_at 3 calls e created \<and> prefix (calls_of undone) cleanup))"

lemma refused_at_3:
  "refused_at 3 [(ctx, c1), (ctx, c2), (ctx, c3), (ctx, c4)] e
     [(ctx, c1, Accepted), (ctx, c2, Accepted), (ctx, c3, Accepted), (ctx, c4, Refused e)]"
  by (simp add: refused_at_def eval_nat_numeral)

lemma provision_trace_undone:
  assumes "refused_at 3 calls e created"
  shows "calls_of undone = cleanup \<Longrightarrow> provision_trace calls cleanup (Err e) (created @ undone)"
    and "prefix (calls_of undone) cleanup \<Longrightarrow> provision_trace calls cleanup (Panic s) (created @ undone)"
  using assms unfolding provision_trace_def outcome.case by blast+

lemma provision_trace_intros:
  "provision_trace [(ctx, c1), (ctx, c2), (ctx, c3), (ctx, c4)] cleanup (Ok u)
    [(ctx, c1, Accepted), (ctx, c2, Accepted), (ctx, c3, Accepted), (ctx, c4, Accepted)]"
  "provision_trace ((ctx, c1) # calls) cleanup (Err e) [(ctx, c1, Refused e)]"
  "provision_trace ((ctx, c1) # (ctx, c2) # calls) cleanup (Err e) [(ctx, c1, Accepted), (ctx, c2, Refused e)]"
  "provision_trace ((ctx, c1) # (ctx, c2) # (ctx, c3) # calls) cleanup
    (Err (ErrorString (''failed to create auth token: '' @ Error e)))
    [(ctx, c1, Accepted), (ctx, c2, Accepted), (ctx, c3, Refused e)]"
  "provision_trace ((ctx, c1) # calls) cleanup (Panic s) [(ctx, c1, Crashed s)]"
  "provision_trace ((ctx, c1) # (ctx, c2) # calls) cleanup (Panic s) [(ctx, c1, Accepted), (ctx, c2, Crashed s)]"
  "provision_trace ((ctx, c1) # (ctx, c2) # calls) cleanup (Panic s) [(ctx, c1, Accepted), (ctx, c2, Accepted)]"
  "provision_trace ((ctx, c1) # (ctx, c2) # (ctx, c3) # calls) cleanup (Panic s)
    [(ctx, c1, Accepted), (ctx, c2, Accepted), (ctx, c3, Crashed s)]"
  "provision_trace [(ctx, c1), (ctx, c2), (ctx, c3), (ctx, c4)] cleanup (Panic s)
    [(ctx, c1, Accepted), (ctx, c2, Accepted), (ctx, c3, Accepted), (ctx, c4, Crashed s)]"
  by (simp_all add: provision_trace_def carried_out_def refused_at_def interrupted_def eval_nat_numeral)

lemma provision_trace_cleanup:
  "provision_trace [(ctx, c1), (ctx, c2), (ctx, c3), (ctx, c4)] [(ctx, d1), (ctx, d2)] (Err e)
    [(ctx, c1, Accepted), (ctx, c2, Accepted), (ctx, c3, Accepted), (ctx, c4, Refused e), (ctx, d1, a), (ctx, d2, a')]"
  "provision_trace [(ctx, c1), (ctx, c2), (ctx, c3), (ctx, c4)] [(ctx, d1), (ctx, d2)] (Panic s)
    [(ctx, c1, Accepted), (ctx, c2, Accepted), (ctx, c3, Accepted), (ctx, c4, Refused e), (ctx, d1, a)]"
  "provision_trace [(ctx, c1), (ctx, c2), (ctx, c3), (ctx, c4)] [(ctx, d1), (ctx, d2)] (Panic s)
    [(ctx, c1, Accepted), (ctx, c2, Accepted), (ctx, c3, Accepted), (ctx, c4, Refused e), (ctx, d1, a), (ctx, d2, a')]"
  using provision_trace_undone(1) [OF refused_at_3 [of ctx c1 c2 c3 c4 e], of "[(ctx, d1, a), (ctx, d2, a')]"]
    provision_trace_undone(2) [OF refused_at_3 [of ctx c1 c2 c3 c4 e], of "[(ctx, d1, a)]" "[(ctx, d1), (ctx, d2)]" s]
    provision_trace_undone(2) [OF refused_at_3 [of ctx c1 c2 c3 c4 e], of "[(ctx, d1, a), (ctx, d2, a')]" "[(ctx, d1), (ctx, d2)]" s]
  by simp_all

lemma emits_Provision:
  "emits (Provision (traced_env env) (traced_provider p) ctx i params) (\<lambda>r ds. \<exists>token.
     provision_trace (map (Pair ctx) (provision_calls env p i params token)) (map (Pair ctx) (cleanup_calls p i)) r ds)"
  unfolding Provision_def createCacheParameterGroup_def modifyCacheParameterGroup_def CreateAuthTokenSecret_def
    DeleteCacheParameterGroup_def DeleteAuthTokenSecret_def log_error_def op_unfold provision_calls_def cleanup_calls_def
    with_cluster_enabled_Nil if_False seq_flatten list.map
  by (intro emit_calls emits_if exI) (rule provision_trace_intros provision_trace_cleanup)+

lemma emits_Deprovision:
  "emits (Deprovision (traced_provider p) ctx i params) (in_sequence
     [(ctx, DeleteReplicationGroupC \<lparr>drg_ReplicationGroupId = GenerateReplicationGroupName i,
         drg_FinalSnapshotIdentifier = (if dp_FinalSnapshotIdentifier params \<noteq> []
           then Some (dp_FinalSnapshotIdentifier params) else None)\<rparr>),
      (ctx, DeleteSecretC \<lparr>ds_SecretId = getAuthTokenPath p i, ds_RecoveryWindowInDays = 30\<rparr>)])"
  unfolding Deprovision_def DeleteAuthTokenSecret_def op_unfold seq_flatten
  by (intro emit_calls) (auto simp: in_sequence_def carried_out_def interrupted_def refused_at_def split: outcome.split)

section \<open>Failover tests\<close>

text \<open>The nodes of a replication group that have a role, in the order of the node groups.\<close>

definition node_ids :: "string \<Rightarrow> NodeGroupMember list \<Rightarrow> string list" where
  "node_ids role ms = List.map_filter (\<lambda>m. if ngm_CurrentRole m = Some role then ngm_CacheClusterId m else None) ms"

abbreviation group_members :: "ReplicationGroup \<Rightarrow> NodeGroupMember list" where
  "group_members rg \<equiv> concat (map ng_NodeGroupMembers (rg_NodeGroups rg))"

lemma node_ids_simps [simp]:
  "node_ids role [] = []" "node_ids role (ms @ ns) = node_ids role ms @ node_ids role ns"
  "node_ids role (m # ms) = (case ngm_CacheClusterId m of
      Some i \<Rightarrow> if ngm_CurrentRole m = Some role then i # node_ids role ms else node_ids role ms
    | None \<Rightarrow> node_ids role ms)"
  by (simp_all add: node_ids_def map_filter_def split: option.split)

lemma last_shift: "last (last (a # xs) # ys) = last (a # xs @ ys)"
  by (cases ys) simp_all

lemma scan_members_result:
  "scan_members ms (a, b) w = (Ok (x, y), w') \<Longrightarrow>
   x = last (a # node_ids ''primary'' ms) \<and> y = last (b # node_ids ''replica'' ms)"
proof (induction ms arbitrary: a b w)
  case (Cons m ms)
  show ?case
  proof (cases "ngm_CurrentRole m")
    case None
    with Cons.prems show ?thesis by simp
  next
    case role: (Some role)
    show ?thesis
      using Cons.prems Cons.IH role by (cases "ngm_CacheClusterId m") (auto simp: last_shift split: if_splits)
  qed
qed simp

lemma scan_groups_result:
  "scan_groups gs (a, b) w = (Ok (x, y), w') \<Longrightarrow>
   x = last (a # node_ids ''primary'' (concat (map ng_NodeGroupMembers gs))) \<and>
   y = last (b # node_ids ''replica'' (concat (map ng_NodeGroupMembers gs)))"
proof (induction gs arbitrary: a b w)
  case (Cons g gs)
  from Cons.prems obtain c d w1 where m: "scan_members (ng_NodeGroupMembers g) (a, b) w = (Ok (c, d), w1)"
    and rest: "scan_groups gs (c, d) w1 = (Ok (x, y), w')"
    by (auto simp: scan_groups.simps elim!: andThen_OkE)
  from scan_members_result [OF m] Cons.IH [OF rest] show ?case by (simp add: last_shift)
qed simp

lemma GetPrimaryAndReplica_result:
  assumes "GetPrimaryAndReplicaCacheClusterIds (Some rg) w = (Ok (x, y), w')"
  shows "node_ids ''primary'' (group_members rg) \<noteq> [] \<and> x = last (node_ids ''primary'' (group_members rg)) \<and>
    node_ids ''replica'' (group_members rg) \<noteq> [] \<and> y = last (node_ids ''replica'' (group_members rg))"
  using assms unfolding GetPrimaryAndReplicaCacheClusterIds_def
  by (auto elim!: andThen_OkE dest!: scan_groups_result split: if_splits)

lemma emits_silent:
  assumes "calls_only (\<lambda>_. False) m" and "\<And>w r w'. m w = (r, w') \<Longrightarrow> S r"
  shows "emits m (\<lambda>r ds. ds = [] \<and> S r)"
  unfolding emits_def
proof (intro allI)
  fix w cs
  obtain r w' cs' where m: "m (w, cs) = (r, w', cs')" by (cases "m (w, cs)") auto
  from assms(1) m obtain ds where "cs' = cs @ ds" and "list_all (\<lambda>_. False) ds" by (rule calls_onlyD)
  then have "cs' = cs" by (cases ds) auto
  with m assms(2) [OF m] show "\<exists>ds. snd (snd (m (w, cs))) = cs @ ds \<and> ds = [] \<and> S (fst (m (w, cs)))" by simp
qed

lemma emits_GetPrimaryAndReplica:
  "emits (GetPrimaryAndReplicaCacheClusterIds (Some rg)) (\<lambda>r ds. ds = [] \<and> (\<forall>x y. r = Ok (x, y) \<longrightarrow>
     node_ids ''primary'' (group_members rg) \<noteq> [] \<and> x = last (node_ids ''primary'' (group_members rg)) \<and>
     node_ids ''replica'' (group_members rg) \<noteq> [] \<and> y = last (node_ids ''replica'' (group_members rg))))"
  by (rule emits_silent [OF calls_GetPrimaryAndReplica]) (blast dest: GetPrimaryAndReplica_result)

lemma emits_handle_nodes:
  assumes "\<And>x y. node_ids ''primary'' (group_members rg) \<noteq> [] \<and> x = last (node_ids ''primary'' (group_members rg)) \<and>
      node_ids ''replica'' (group_members rg) \<noteq> [] \<and> y = last (node_ids ''replica'' (group_members rg)) \<Longrightarrow> emits (k x y) T"
    and "\<And>e. emits (h e) T" and "\<And>s. T (Panic s) []"
  shows "emits (handle (GetPrimaryAndReplicaCacheClusterIds (Some rg)) h (\<lambda>(x, y). k x y)) T"
  by (rule emits_handle_known [OF emits_GetPrimaryAndReplica]) (use assms in auto)

lemma emits_describe:
  "emits (describeReplicationGroup (traced_provider p) ctx g) (\<lambda>r ds. \<exists>a. ds = [(ctx, DescribeReplicationGroupsC g, a)] \<and>
     (\<forall>rg. r = Ok rg \<longrightarrow> (\<exists>rest. a = Described (rg # rest))))"
  unfolding describeReplicationGroup_def traced_provider_simps traced_calls
  by (intro emits_andThen_call) (auto intro!: emits_ret emits_fail split: list.split)

text \<open>
  What \<^verbatim>\<open>ProgressState\<close> changes: nothing, or one thing about a replication group that the poll has just found available with
  automatic failover disabled. While the last node described as primary is the old one, the last replica is made
  primary; afterwards high availability is switched on. AWS's answer decides about the result.
\<close>

definition progress_trace ::
    "go_context \<Rightarrow> string \<Rightarrow> string \<Rightarrow> string \<Rightarrow> (ServiceState \<times> string \<times> go_error option) outcome \<Rightarrow> trace \<Rightarrow> bool" where
  "progress_trace ctx g operation old r cs \<longleftrightarrow> changing cs = [] \<or>
     operation = ''failover'' \<and> (\<exists>rg rest messages a.
       cs = (ctx, DescribeReplicationGroupsC g, Described (rg # rest)) # messages @
         [(ctx, ModifyReplicationGroupC
            (if old \<noteq> [] \<and> last (node_ids ''primary'' (group_members rg)) = old
             then cutover_input g (last (node_ids ''replica'' (group_members rg))) else ha_input True g), a)] \<and>
       changing messages = [] \<and> rg_Status rg = Some ''available'' \<and> rg_AutomaticFailover rg = Some ''disabled'' \<and>
       node_ids ''primary'' (group_members rg) \<noteq> [] \<and> node_ids ''replica'' (group_members rg) \<noteq> [] \<and>
       (case a of
          Refused e \<Rightarrow> (\<exists>message. r = Ok ([], message, Some e))
        | Crashed s \<Rightarrow> r = Panic s
        | _ \<Rightarrow> (\<exists>message. r = Ok (''modifying'', message, None))))"

lemma progress_trace_unchanged: "changing cs = [] \<Longrightarrow> progress_trace ctx g operation old r cs"
  by (simp add: progress_trace_def)

lemma emits_andThen_deref:
  "(v = None \<Longrightarrow> T (Panic ''nil pointer dereference'') []) \<Longrightarrow> (\<And>x. v = Some x \<Longrightarrow> emits (k x) T) \<Longrightarrow>
   emits (andThen (deref v) k) T"
  by (cases v) (simp_all add: emits_panic)

lemma emits_getMessage: "emits (getMessage (traced_provider p) ctx rg s) (\<lambda>r ds. changing ds = [])"
proof -
  have "calls_only (read_calls ctx) (getMessage (traced_provider p) ctx rg s)" by (intro call_rules; simp)
  then show ?thesis unfolding calls_only_def by (rule emits_mono) (rule changing_reads)
qed

lemma progress_trace_change:
  assumes "rg_Status rg = Some ''available''" and "rg_AutomaticFailover rg = Some ''disabled''"
    and "node_ids ''primary'' (group_members rg) \<noteq> [] \<and> x = last (node_ids ''primary'' (group_members rg)) \<and>
      node_ids ''replica'' (group_members rg) \<noteq> [] \<and> y = last (node_ids ''replica'' (group_members rg))"
    and "changing messages = []"
    and "case a of Refused e \<Rightarrow> (\<exists>message. r = Ok ([], message, Some e)) | Crashed s \<Rightarrow> r = Panic s
        | _ \<Rightarrow> (\<exists>message. r = Ok (''modifying'', message, None))"
  shows "progress_trace ctx g ''failover'' old r ([(ctx, DescribeReplicationGroupsC g, Described (rg # rest))] @ messages @
    [(ctx, ModifyReplicationGroupC (if old \<noteq> [] \<and> x = old then cutover_input g y else ha_input True g), a)])"
proof -
  from assms(3) have "x = last (node_ids ''primary'' (group_members rg))" "y = last (node_ids ''replica'' (group_members rg))"
    by blast+
  with assms(1,2,4,5) conjunct1 [OF assms(3)] show ?thesis
    unfolding progress_trace_def append_Cons append_Nil using assms(3) by blast
qed

text \<open>The part of \<^verbatim>\<open>ProgressState\<close> that may change something.\<close>

lemma emits_progress_change:
  assumes "rg_Status rg = Some ''available''" and "rg_AutomaticFailover rg = Some ''disabled''"
    and "node_ids ''primary'' (group_members rg) \<noteq> [] \<and> x = last (node_ids ''primary'' (group_members rg)) \<and>
      node_ids ''replica'' (group_members rg) \<noteq> [] \<and> y = last (node_ids ''replica'' (group_members rg))"
  shows "emits (andThen (getMessage (traced_provider p) ctx rg ''modifying'') (\<lambda>message.
      handle (traced ctx (ModifyReplicationGroupC (if old \<noteq> [] \<and> x = old then cutover_input g y else ha_input True g))
          (\<lambda>_. Accepted) m)
        (\<lambda>e. ret ([], message, Some e)) (\<lambda>_. ret (''modifying'', message, None))))
    (\<lambda>r es. progress_trace ctx g ''failover'' old r ([(ctx, DescribeReplicationGroupsC g, Described (rg # rest))] @ es))"
proof (rule emits_andThen_known [OF emits_getMessage])
  fix message and ds :: trace
  assume ds: "changing ds = []"
  note change = progress_trace_change [OF assms ds]
  show "emits (handle (traced ctx (ModifyReplicationGroupC (if old \<noteq> [] \<and> x = old then cutover_input g y else ha_input True g))
          (\<lambda>_. Accepted) m)
        (\<lambda>e. ret ([], message, Some e)) (\<lambda>_. ret (''modifying'', message, None)))
    (\<lambda>r es. progress_trace ctx g ''failover'' old r
      ([(ctx, DescribeReplicationGroupsC g, Described (rg # rest))] @ ds @ es))"
    by (intro emits_handle_call emits_ret change) simp_all
qed (simp_all add: progress_trace_unchanged)

lemma emits_progress_unchanged:
  assumes "emits m (\<lambda>r es. changing es = [])"
  shows "emits m (\<lambda>r es. progress_trace ctx g operation old r ([(ctx, DescribeReplicationGroupsC g, a)] @ es))"
  by (rule emits_mono [OF assms]) (simp add: progress_trace_unchanged)

lemma emits_report:
  "emits (andThen (getMessage (traced_provider p) ctx rg s) (\<lambda>message. ret (k message))) (\<lambda>r es. changing es = [])"
  by (intro emits_andThen_known [OF emits_getMessage] emits_ret) simp_all

lemma emits_ProgressState:
  "emits (ProgressState (traced_provider p) ctx i operation old)
     (progress_trace ctx (GenerateReplicationGroupName i) operation old)"
proof (cases "operation = ''failover''")
  case False
  show ?thesis
    by (rule emits_mono [OF reads_ProgressState [OF False, unfolded calls_only_def]])
       (simp add: progress_trace_unchanged changing_reads)
next
  case True
  show ?thesis
    unfolding ProgressState_def op_unfold True
  proof (rule emits_handle_known [OF emits_describe], goal_cases)
    case (1 rg ds)
    then obtain rest where ds: "ds = [(ctx, DescribeReplicationGroupsC (GenerateReplicationGroupName i), Described (rg # rest))]"
      by auto
    show ?case unfolding ds
      by (intro emits_option emits_if emits_handle_nodes emits_andThen_deref emits_progress_unchanged [OF emits_report]
          emits_ret emits_progress_change)
         (simp_all add: progress_trace_unchanged)
  next
    case 2
    then show ?case by (intro emits_if emits_ret) (auto simp: progress_trace_def)
  next
    case 3
    then show ?case by (auto simp: progress_trace_def)
  qed
qed

text \<open>
  A computation that reads and then carries out one sequence of changes: without an error all of it was accepted, and an
  error comes from a read, with nothing changed, or is the refusal that ended the sequence.
\<close>

definition changes_in_sequence ::
    "(go_context \<times> aws_call) list \<Rightarrow> 'a outcome \<Rightarrow> trace \<Rightarrow> bool" where
  "changes_in_sequence calls r cs = (case r of
      Ok _ \<Rightarrow> carried_out calls (changing cs)
    | Err e \<Rightarrow> changing cs = [] \<or> (\<exists>n. refused_at n calls e (changing cs))
    | Panic _ \<Rightarrow> interrupted calls (changing cs))"

lemma emits_StartFailoverTest:
  "emits (StartFailoverTest (traced_provider p) ctx i)
     (changes_in_sequence [(ctx, ModifyReplicationGroupC (ha_input False (GenerateReplicationGroupName i)))])"
proof -
  let ?c = "(ctx, ModifyReplicationGroupC (ha_input False (GenerateReplicationGroupName i)))"
  let ?U = "\<lambda>r cs. case r of Ok _ \<Rightarrow> carried_out [?c] cs
    | Err e \<Rightarrow> cs = [] \<or> (\<exists>n. refused_at n [?c] e cs) | Panic _ \<Rightarrow> interrupted [?c] cs"
  have "emits (StartFailoverTest (traced_provider p) ctx i) (\<lambda>r ds. ?U r (changing ds))"
    unfolding StartFailoverTest_def op_unfold
    by (intro emits_changing_andThen [where ctx = ctx and U = ?U] call_rules emits_prod emits_andThen_call emits_ret)
       (auto simp: carried_out_def interrupted_def refused_at_def)
  then show ?thesis by (simp only: changes_in_sequence_def [abs_def])
qed

lemma emits_read_clock: "(\<And>t. T (Ok t) []) \<Longrightarrow> emits (read_clock (traced_env env)) T"
  by (simp add: emits_def read_clock_def traced_env_def split: prod.split)

lemma emits_run:
  assumes "emits m T"
  shows "case m (w, []) of (r, w', cs) \<Rightarrow> T r cs"
proof -
  obtain r w' cs where m: "m (w, []) = (r, w', cs)" by (cases "m (w, [])") auto
  with assms show ?thesis by (auto elim: emitsD)
qed

section \<open>Properties\<close>

text \<open>
  C5: whatever AWS answers, \<^verbatim>\<open>Provision\<close> creates and fills the parameter group, then stores a token as the instance's
  secret, then creates the replication group with that same token, and makes each of these calls only after the one
  before it was accepted. It returns without an error exactly when all four were accepted. When one of the first
  three is refused nothing is called after it and its error is returned; when the creation of the group is refused,
  the parameter group and the secret are deleted, both in any case, and the error of the creation is returned.
\<close>

theorem Provision_trace:
  "case Provision (traced_env env) (traced_provider p) ctx i params (w, []) of (r, w', cs) \<Rightarrow>
     (\<exists>token. provision_trace (map (Pair ctx) (provision_calls env p i params token)) (map (Pair ctx) (cleanup_calls p i)) r cs)"
  by (rule emits_run [OF emits_Provision])

text \<open>
  C12: \<^verbatim>\<open>Deprovision\<close> deletes the secret of the instance, with a recovery window of 30 days, only after AWS accepted the
  deletion of its replication group. It succeeds exactly when both were accepted, and its error is the refusal that
  ended the sequence.
\<close>

theorem Deprovision_trace:
  "case Deprovision (traced_provider p) ctx i params (w, []) of (r, w', cs) \<Rightarrow>
     in_sequence
       [(ctx, DeleteReplicationGroupC \<lparr>drg_ReplicationGroupId = GenerateReplicationGroupName i,
           drg_FinalSnapshotIdentifier = (if dp_FinalSnapshotIdentifier params \<noteq> []
             then Some (dp_FinalSnapshotIdentifier params) else None)\<rparr>),
        (ctx, DeleteSecretC \<lparr>ds_SecretId = getAuthTokenPath p i, ds_RecoveryWindowInDays = 30\<rparr>)] r cs"
  by (rule emits_run [OF emits_Deprovision])

text \<open>
  C13: \<^verbatim>\<open>ProgressState\<close> makes at most one call that changes anything, as its last one and only for a failover test of a
  replication group that AWS has just described as available and without automatic failover. While the primary
  in that description is the old one, the call makes the replica of the description the primary; otherwise it switches
  high availability on again. When AWS refuses it, its error is returned; otherwise the state is \<^verbatim>\<open>modifying\<close>.
\<close>

theorem ProgressState_trace:
  "case ProgressState (traced_provider p) ctx i operation old (w, []) of (r, w', cs) \<Rightarrow>
     progress_trace ctx (GenerateReplicationGroupName i) operation old r cs"
  by (rule emits_run [OF emits_ProgressState])

end
