(* ===== verification/Broker_Trace.thy ===== *)
theory Broker_Trace
  imports Broker_Properties Aws_Trace
begin

text \<open>
  The AWS calls of whole broker requests: the broker runs over the Redis provider, which runs over the
  instrumented services. Every request stays with the resources of its own instance, and every call of a
  request that may change something is made under the deadline of 30 seconds.
\<close>

definition traced_broker :: "'w go_env \<Rightarrow> Config \<Rightarrow> 'w RedisProvider \<Rightarrow> ('w \<times> trace) Broker" where
  "traced_broker env config p = New config (redis_provider (traced_env env) (traced_provider p))"

lemma traced_broker_simps [simp]:
  "b_config (traced_broker env config p) = config"
  "p_Provision (b_provider (traced_broker env config p)) = Provision (traced_env env) (traced_provider p)"
  "p_UpdateReplicationGroup (b_provider (traced_broker env config p)) = UpdateReplicationGroup (traced_provider p)"
  "p_UpdateParamGroupParameters (b_provider (traced_broker env config p)) =
     UpdateParamGroupParameters (traced_env env) (traced_provider p)"
  "p_Deprovision (b_provider (traced_broker env config p)) = Deprovision (traced_provider p)"
  "p_ProgressState (b_provider (traced_broker env config p)) = ProgressState (traced_provider p)"
  "p_GetInstanceParameters (b_provider (traced_broker env config p)) = GetInstanceParameters (traced_provider p)"
  "p_GetInstanceTags (b_provider (traced_broker env config p)) = GetInstanceTags (traced_provider p)"
  "p_GenerateCredentials (b_provider (traced_broker env config p)) = GenerateCredentials (traced_provider p)"
  "p_RevokeCredentials (b_provider (traced_broker env config p)) = RevokeCredentials (traced_provider p)"
  "p_DeleteCacheParameterGroup (b_provider (traced_broker env config p)) = DeleteCacheParameterGroup (traced_provider p)"
  "p_FindSnapshots (b_provider (traced_broker env config p)) = FindSnapshots (traced_provider p)"
  "p_StartFailoverTest (b_provider (traced_broker env config p)) = StartFailoverTest (traced_provider p)"
  by (simp_all add: traced_broker_def New_def redis_provider_def)

section \<open>Every request stays with its own instance\<close>

lemma own_restore_snapshot [call_rules]:
  "calls_only (own_calls p ctx i) (restore_snapshot env' (traced_broker env config p) ctx d source)"
  unfolding restore_snapshot_def traced_broker_simps
  by (intro call_rules own_of_reads)

lemma own_Broker_Provision:
  "calls_only (own_calls p (providerCtx ctx) i)
     (Broker_Provision (traced_env env) (traced_broker env config p) ctx i d async)"
  unfolding Broker_Provision_def traced_broker_simps by (intro call_rules)

lemma own_update_failover [call_rules]:
  "calls_only (own_calls p ctx i) (update_failover (traced_env env) (traced_broker env config p) ctx i d up)"
  unfolding update_failover_def traced_broker_simps by (intro call_rules)

lemma own_Broker_Update:
  "calls_only (own_calls p (providerCtx ctx) i)
     (Broker_Update (traced_env env) (traced_broker env config p) ctx i d async)"
  unfolding Broker_Update_def update_maintenance_window_def update_maxmemory_policy_def traced_broker_simps
  by (intro call_rules)

lemma own_Broker_Deprovision:
  "calls_only (own_calls p (providerCtx ctx) i) (Broker_Deprovision (traced_broker env config p) ctx i d async)"
  unfolding Broker_Deprovision_def traced_broker_simps by (intro call_rules)

lemma calls_check_timeout [call_rules]: "calls_only Q (check_timeout (traced_env env) i operation)"
  unfolding check_timeout_def by (intro call_rules)

lemma own_Broker_LastOperation:
  "calls_only (own_calls p (providerCtx ctx) i)
     (Broker_LastOperation (traced_env env) (traced_broker env config p) ctx i d)"
  unfolding Broker_LastOperation_def report_state_def traced_broker_simps by (intro call_rules)

lemma reads_GetInstance: "calls_only (read_calls ctx) (GetInstance (traced_broker env config p) ctx i)"
  unfolding GetInstance_def traced_broker_simps by (intro call_rules)

lemma reads_Bind: "calls_only (read_calls ctx) (Bind (traced_broker env config p) ctx i bindingID async)"
  unfolding Bind_def traced_broker_simps by (intro call_rules)

lemma reads_Unbind: "calls_only Q (Unbind (traced_broker env config p) ctx i bindingID async)"
  unfolding Unbind_def RevokeCredentials_def traced_broker_simps by (intro call_rules)

lemma calls_run:
  assumes "calls_only Q m"
  shows "list_all Q (snd (snd (m (w, []))))"
proof -
  have "case m (w, []) of (r, w', cs) \<Rightarrow> list_all Q cs" using assms unfolding calls_only_def by (rule emits_run)
  then show ?thesis by (simp add: case_prod_unfold)
qed

text \<open>
  C4: isolation. Whatever AWS answers and whatever the request holds, a request for one instance changes
  nothing but the replication group, the parameter group and the secret of that instance, and all its calls carry
  the deadline of 30 seconds; binding, unbinding and fetching an instance change nothing at all.
\<close>

theorem requests_stay_with_their_instance:
  "list_all (own_calls p (WithTimeout ctx (30 * Second)) i)
     (snd (snd (Broker_Provision (traced_env env) (traced_broker env config p) ctx i pd async (w, [])))) \<and>
   list_all (own_calls p (WithTimeout ctx (30 * Second)) i)
     (snd (snd (Broker_Update (traced_env env) (traced_broker env config p) ctx i ud async (w, [])))) \<and>
   list_all (own_calls p (WithTimeout ctx (30 * Second)) i)
     (snd (snd (Broker_Deprovision (traced_broker env config p) ctx i dd async (w, [])))) \<and>
   list_all (own_calls p (WithTimeout ctx (30 * Second)) i)
     (snd (snd (Broker_LastOperation (traced_env env) (traced_broker env config p) ctx i po (w, [])))) \<and>
   list_all (read_calls ctx) (snd (snd (GetInstance (traced_broker env config p) ctx i (w, [])))) \<and>
   list_all (read_calls ctx) (snd (snd (Bind (traced_broker env config p) ctx i bindingID async (w, [])))) \<and>
   snd (snd (Unbind (traced_broker env config p) ctx i bindingID async (w, []))) = []"
proof -
  note own = own_Broker_Provision [THEN calls_run, unfolded providerCtx_def]
    own_Broker_Update [THEN calls_run, unfolded providerCtx_def]
    own_Broker_Deprovision [THEN calls_run, unfolded providerCtx_def]
    own_Broker_LastOperation [THEN calls_run, unfolded providerCtx_def]
  have "list_all (\<lambda>_. False) (snd (snd (Unbind (traced_broker env config p) ctx i bindingID async (w, []))))"
    by (rule calls_run [OF reads_Unbind])
  then have "snd (snd (Unbind (traced_broker env config p) ctx i bindingID async (w, []))) = []"
    by (cases "snd (snd (Unbind (traced_broker env config p) ctx i bindingID async (w, [])))") auto
  then show ?thesis by (intro conjI own calls_run [OF reads_GetInstance] calls_run [OF reads_Bind])
qed

section \<open>The changes of an update\<close>

definition window_calls :: "go_context \<Rightarrow> string \<Rightarrow> UserUpdateParameters \<Rightarrow> (go_context \<times> aws_call) list" where
  "window_calls ctx g up =
     (if uu_PreferredMaintenanceWindow up = [] then []
      else [(ctx, ModifyReplicationGroupC (emptyModifyReplicationGroupInput\<lparr>
        mrg_PreferredMaintenanceWindow := Some (uu_PreferredMaintenanceWindow up), mrg_ReplicationGroupId := Some g\<rparr>))])"

definition policy_calls :: "'w go_env \<Rightarrow> go_context \<Rightarrow> string \<Rightarrow> UserUpdateParameters \<Rightarrow> (go_context \<times> aws_call) list" where
  "policy_calls env ctx g up = (case uu_MaxMemoryPolicy up of
      None \<Rightarrow> []
    | Some policy \<Rightarrow> [(ctx, ModifyCacheParameterGroupC
        \<lparr>mcpg_ParameterNameValues = map name_value (range_map (map_order env) [(''maxmemory-policy'', policy)]),
         mcpg_CacheParameterGroupName = g\<rparr>)])"

definition update_calls :: "'w go_env \<Rightarrow> go_context \<Rightarrow> string \<Rightarrow> UserUpdateParameters \<Rightarrow> (go_context \<times> aws_call) list" where
  "update_calls env ctx g up =
     (if uu_TestFailover up \<noteq> None then [(ctx, ModifyReplicationGroupC (ha_input False g))]
      else window_calls ctx g up @ policy_calls env ctx g up)"

text \<open>
  Calls that end with the first refusal, whose error is returned with a message about it.
\<close>

definition wrapped_sequence :: "(go_context \<times> aws_call) list \<Rightarrow> 'a outcome \<Rightarrow> trace \<Rightarrow> bool" where
  "wrapped_sequence calls r cs = (case r of
      Ok _ \<Rightarrow> carried_out calls cs
    | Err e \<Rightarrow> (\<exists>n e' message. refused_at n calls e' cs \<and> e = WithMessage e' message)
    | Panic _ \<Rightarrow> interrupted calls cs)"

lemma wrapped_sequence_stop:
  "wrapped_sequence calls (Err e :: 'a outcome) cs \<Longrightarrow> wrapped_sequence (calls @ calls') (Err e :: 'b outcome) cs"
  "wrapped_sequence calls (Panic s :: 'a outcome) cs \<Longrightarrow> wrapped_sequence (calls @ calls') (Panic s :: 'b outcome) cs"
  by (auto simp: wrapped_sequence_def intro: interrupted_append dest: refused_at_append)

lemma wrapped_sequence_Ok: "wrapped_sequence calls (Ok x) cs \<longleftrightarrow> carried_out calls cs"
  by (simp add: wrapped_sequence_def)

lemma wrapped_sequence_after:
  assumes "carried_out calls cs"
  shows "wrapped_sequence calls' (Err e :: 'a outcome) ds \<Longrightarrow> wrapped_sequence (calls @ calls') (Err e :: 'b outcome) (cs @ ds)"
    and "wrapped_sequence calls' (Panic s :: 'a outcome) ds \<Longrightarrow> wrapped_sequence (calls @ calls') (Panic s :: 'b outcome) (cs @ ds)"
  using assms by (auto simp: wrapped_sequence_def interrupted_after dest: refused_at_after)

lemmas sequence_defs = wrapped_sequence_def carried_out_def refused_at_def interrupted_def

lemma emits_window:
  "emits (update_maintenance_window (traced_broker env config p) ctx i up)
     (wrapped_sequence (window_calls ctx (GenerateReplicationGroupName i) up))"
  unfolding update_maintenance_window_def traced_broker_simps UpdateReplicationGroup_def modifyReplicationGroup_def
    op_unfold UpdateReplicationGroupParameters.select_convs
  by (cases "uu_PreferredMaintenanceWindow up = []")
     (simp_all only: simp_thms if_True if_False length_0_conv seq_flatten,
      (intro emit_calls; force simp: window_calls_def sequence_defs)+)

lemma emits_policy:
  "emits (update_maxmemory_policy (traced_broker env config p) ctx i up)
     (wrapped_sequence (policy_calls env ctx (GenerateReplicationGroupName i) up))"
proof (cases "uu_MaxMemoryPolicy up")
  case None
  then show ?thesis unfolding update_maxmemory_policy_def None option.case
    by (intro emit_calls) (simp add: policy_calls_def None sequence_defs)
next
  case (Some policy)
  have one: "([(''maxmemory-policy'', policy)] = []) = False" by simp
  show ?thesis
    unfolding update_maxmemory_policy_def traced_broker_simps UpdateParamGroupParameters_def modifyCacheParameterGroup_def
      op_unfold UpdateParamGroupParameters.select_convs Some option.case one if_False seq_flatten
    by (intro emit_calls; force simp: policy_calls_def Some sequence_defs)
qed

lemma update_parameters_traced [simp]: "update_parameters (traced_env env) d = update_parameters env d"
  by (simp only: update_parameters_def parseUpdateParameters_def unmarshalParameters_def traced_env_simps)

text \<open>
  The calls of an update that change something, with their answers: all that the parameters ask for, each accepted;
  or none; or a first part of them that ends with a refusal, which the error of the update tells.
\<close>

definition update_trace ::
    "'w go_env \<Rightarrow> go_context \<Rightarrow> string \<Rightarrow> UpdateDetails \<Rightarrow> UpdateServiceSpec outcome \<Rightarrow> trace \<Rightarrow> bool" where
  "update_trace env ctx g d r cs \<longleftrightarrow>
     (\<forall>spec. r \<noteq> Ok spec) \<and> cs = [] \<or>
     (\<exists>up. update_parameters env d = Inr up \<and> update_calls env ctx g up \<noteq> [] \<and>
        wrapped_sequence (update_calls env ctx g up) r cs)"

lemma emits_update_failover:
  assumes "update_parameters env d = Inr up" and "uu_TestFailover up \<noteq> None"
  shows "emits (update_failover (traced_env env) (traced_broker env config p) ctx i d up)
    (\<lambda>r ds. update_trace env ctx (GenerateReplicationGroupName i) d r (changing ds))"
proof (cases "GetPlanConfig config (ud_PlanID d)")
  case (Inl e)
  show ?thesis unfolding update_failover_def traced_broker_simps Inl sum.case
    by (intro emits_fail) (simp add: update_trace_def)
next
  case (Inr pc)
  show ?thesis unfolding update_failover_def traced_broker_simps Inr sum.case
    by (intro emits_option emits_fail emits_handle_known [OF emits_StartFailoverTest]
        emits_andThen_known [OF emits_read_clock [where T = "\<lambda>r ds. ds = [] \<and> (\<exists>t. r = Ok t)"]] emits_ret)
       (use assms in \<open>auto simp: update_trace_def update_calls_def changes_in_sequence_def wrapped_sequence_def\<close>)
qed

lemma changing_calls: "\<forall>(ctx, c) \<in> set (calls_of ds). \<not> reads c \<Longrightarrow> changing ds = ds"
  by (induction ds) (auto simp: changing_def)

lemma wrapped_calls: "wrapped_sequence calls r ds \<Longrightarrow> set (calls_of ds) \<subseteq> set calls"
  by (cases r) (auto simp: wrapped_sequence_def carried_out_def refused_at_def interrupted_def
      dest: in_set_takeD set_mono_prefix)

lemma emits_window_policy:
  "emits (andThen (update_maintenance_window (traced_broker env config p) ctx i up) (\<lambda>_.
      andThen (update_maxmemory_policy (traced_broker env config p) ctx i up) (\<lambda>_. ret spec)))
    (\<lambda>r ds. wrapped_sequence (window_calls ctx (GenerateReplicationGroupName i) up @
       policy_calls env ctx (GenerateReplicationGroupName i) up) r (changing ds))"
proof -
  let ?w = "window_calls ctx (GenerateReplicationGroupName i) up" and ?p = "policy_calls env ctx (GenerateReplicationGroupName i) up"
  have "emits (andThen (update_maintenance_window (traced_broker env config p) ctx i up) (\<lambda>_.
      andThen (update_maxmemory_policy (traced_broker env config p) ctx i up) (\<lambda>_. ret spec))) (wrapped_sequence (?w @ ?p))"
    by (rule emits_andThen_known [OF emits_window], rule emits_andThen_known [OF emits_policy], rule emits_ret)
       (auto intro: wrapped_sequence_after wrapped_sequence_stop carried_out_append simp: wrapped_sequence_Ok)
  moreover have "\<forall>(ctx, c) \<in> set (?w @ ?p). \<not> reads c"
    by (auto simp: window_calls_def policy_calls_def split: option.split)
  ultimately show ?thesis
    by (elim emits_mono) (metis (no_types, lifting) changing_calls subsetD wrapped_calls)
qed

lemma emits_Broker_Update:
  "emits (Broker_Update (traced_env env) (traced_broker env config p) ctx i d async)
     (\<lambda>r ds. update_trace env (providerCtx ctx) (GenerateReplicationGroupName i) d r (changing ds))"
proof (cases "update_parameters env d")
  case (Inl e)
  show ?thesis
    unfolding Broker_Update_def update_parameters_def [symmetric] update_parameters_traced Inl lift_simps andThen_fail
    by (intro emits_if emits_fail) (simp_all add: update_trace_def)
next
  case (Inr up)
  let ?c = "providerCtx ctx" and ?g = "GenerateReplicationGroupName i"
  have set: "\<not> checkIfNoUpdateParametersAreSet up \<Longrightarrow> update_calls env ?c ?g up \<noteq> []"
    by (auto simp: update_calls_def window_calls_def policy_calls_def checkIfNoUpdateParametersAreSet_def)
  show ?thesis
    unfolding Broker_Update_def update_parameters_def [symmetric] update_parameters_traced Inr lift_simps andThen_ret
    by (intro emits_if emits_fail emits_update_failover [OF Inr] emits_mono [OF emits_window_policy [where env = env]])
       (use Inr set in \<open>auto simp: update_trace_def update_calls_def\<close>)
qed

text \<open>
  C14: an update changes exactly what its parameters ask for. It succeeds exactly when it has switched high availability
  off for a failover test, or set the maintenance window and then the \<^verbatim>\<open>maxmemory-policy\<close>, whichever were given, and AWS
  accepted each. Otherwise nothing was changed, or the first refusal ended the sequence and its error is returned: the
  policy is not touched unless the window was accepted.
\<close>

theorem Update_changes_what_is_asked:
  "case Broker_Update (traced_env env) (traced_broker env config p) ctx i d async (w, []) of (r, w', cs) \<Rightarrow>
     update_trace env (WithTimeout ctx (30 * Second)) (GenerateReplicationGroupName i) d r (changing cs)"
  by (rule emits_run [OF emits_Broker_Update [unfolded providerCtx_def]])

end
