(* ===== verification/Simulated_Aws.thy ===== *)
theory Simulated_Aws
  imports Redis_Provider
begin

text \<open>
  A small executable AWS: replication groups, parameter groups, secrets, snapshots and tags kept in
  association lists, with the not-found and already-exists faults of the real services. It is
  the concrete instance on which the hypotheses about AWS are shown to hold together; no
  definition of the model depends on it.
\<close>

record aws =
  aw_groups :: "(string \<times> ReplicationGroup) list"
  aw_parameter_groups :: "(string \<times> (string \<times> string) list) list"
  aw_secrets :: "(string \<times> string) list"
  aw_snapshots :: "Snapshot list"
  aw_tags :: "(string \<times> Tag list) list"
  aw_clock :: time

definition not_found :: "string \<Rightarrow> go_error" where
  "not_found code = AwsError code (code @ '': not found'')"

definition already_exists :: "string \<Rightarrow> go_error" where
  "already_exists code = AwsError code (code @ '': already exists'')"

definition node :: "string \<Rightarrow> string \<Rightarrow> NodeGroupMember" where
  "node role i = \<lparr>ngm_CurrentRole = Some role, ngm_CacheClusterId = Some i\<rparr>"

definition new_group :: "string \<Rightarrow> ReplicationGroup" where
  "new_group g =
     \<lparr>rg_Status = Some ''available'', rg_ReplicationGroupId = Some g,
      rg_MemberClusters = [Some (g @ ''-001''), Some (g @ ''-002'')],
      rg_SnapshotWindow = Some ''02:00-05:00'', rg_AutomaticFailover = Some ''enabled'',
      rg_NodeGroups = [\<lparr>ng_NodeGroupMembers = [node ''primary'' (g @ ''-001''), node ''replica'' (g @ ''-002'')],
        ng_PrimaryEndpoint = Some \<lparr>ep_Address = Some ''redis.example'', ep_Port = Some 6379\<rparr>\<rparr>],
      rg_ConfigurationEndpoint = None\<rparr>"

text \<open>The effect of a modification; the roles of the nodes follow the primary.\<close>

definition set_primary :: "string \<Rightarrow> NodeGroupMember \<Rightarrow> NodeGroupMember" where
  "set_primary n m = m\<lparr>ngm_CurrentRole := Some (if ngm_CacheClusterId m = Some n then ''primary'' else ''replica'')\<rparr>"

definition modified :: "ModifyReplicationGroupInput \<Rightarrow> ReplicationGroup \<Rightarrow> ReplicationGroup" where
  "modified i rg =
     rg\<lparr>rg_AutomaticFailover := (case mrg_AutomaticFailoverEnabled i of
          None \<Rightarrow> rg_AutomaticFailover rg
        | Some b \<Rightarrow> Some (if b then ''enabled'' else ''disabled'')),
        rg_NodeGroups := (case mrg_PrimaryClusterId i of
          None \<Rightarrow> rg_NodeGroups rg
        | Some n \<Rightarrow> map (\<lambda>g. g\<lparr>ng_NodeGroupMembers := map (set_primary n) (ng_NodeGroupMembers g)\<rparr>) (rg_NodeGroups rg))\<rparr>"

definition sim_group_arn :: "string \<Rightarrow> string" where
  "sim_group_arn n = ''arn:aws:elasticache:eu-west-1:123456789012:replicationgroup:'' @ n"

definition sim_elastiCache :: "aws ElastiCache" where
  "sim_elastiCache =
     \<lparr>CreateCacheParameterGroup = \<lambda>ctx i w.
        (let n = ccpg_CacheParameterGroupName i in
         if map_of (aw_parameter_groups w) n \<noteq> None
         then (Err (already_exists ''CacheParameterGroupAlreadyExists''), w)
         else (Ok (), w\<lparr>aw_parameter_groups := (n, []) # aw_parameter_groups w\<rparr>)),
      CreateReplicationGroup = \<lambda>ctx i w.
        (let n = crg_ReplicationGroupId i in
         if map_of (aw_groups w) n \<noteq> None then (Err (already_exists ''ReplicationGroupAlreadyExists''), w)
         else (Ok (), w\<lparr>aw_groups := (n, new_group n) # aw_groups w,
           aw_tags := (sim_group_arn n, crg_Tags i) # aw_tags w\<rparr>)),
      DeleteCacheParameterGroupCall = \<lambda>ctx n w.
        (if map_of (aw_parameter_groups w) n = None then (Err (not_found ''CacheParameterGroupNotFound''), w)
         else (Ok (), w\<lparr>aw_parameter_groups := filter (\<lambda>(m, _). m \<noteq> n) (aw_parameter_groups w)\<rparr>)),
      DeleteReplicationGroup = \<lambda>ctx i w.
        (let n = drg_ReplicationGroupId i in
         if map_of (aw_groups w) n = None then (Err (not_found ''ReplicationGroupNotFoundFault''), w)
         else (Ok (), w\<lparr>aw_groups := filter (\<lambda>(m, _). m \<noteq> n) (aw_groups w)\<rparr>)),
      DescribeReplicationGroups = \<lambda>ctx n w.
        (case map_of (aw_groups w) n of
           None \<Rightarrow> (Err (not_found ''ReplicationGroupNotFoundFault''), w)
         | Some rg \<Rightarrow> (Ok [rg], w)),
      DescribeCacheClusters = \<lambda>ctx n w.
        (Ok [\<lparr>cc_EngineVersion = Some ''5.0.6'', cc_PreferredMaintenanceWindow = Some ''sun:23:00-mon:01:30''\<rparr>], w),
      DescribeCacheParameters = \<lambda>ctx n w.
        (case map_of (aw_parameter_groups w) n of
           None \<Rightarrow> (Err (not_found ''CacheParameterGroupNotFound''), w)
         | Some ps \<Rightarrow> (Ok (map (\<lambda>(k, v). \<lparr>pa_ParameterName = Some k, pa_ParameterValue = Some v\<rparr>) ps), w)),
      ModifyReplicationGroup = \<lambda>ctx i w.
        (case mrg_ReplicationGroupId i of
           None \<Rightarrow> (Err (ErrorString ''InvalidParameter''), w)
         | Some n \<Rightarrow> (case map_of (aw_groups w) n of
             None \<Rightarrow> (Err (not_found ''ReplicationGroupNotFoundFault''), w)
           | Some rg \<Rightarrow> (Ok (), w\<lparr>aw_groups := (n, modified i rg) # filter (\<lambda>(m, _). m \<noteq> n) (aw_groups w)\<rparr>))),
      ModifyCacheParameterGroup = \<lambda>ctx i w.
        (let n = mcpg_CacheParameterGroupName i in
         case map_of (aw_parameter_groups w) n of
           None \<Rightarrow> (Err (not_found ''CacheParameterGroupNotFound''), w)
         | Some ps \<Rightarrow> (Ok (), w\<lparr>aw_parameter_groups :=
             (n, map (\<lambda>v. (pnv_ParameterName v, pnv_ParameterValue v)) (mcpg_ParameterNameValues i) @ ps) #
             filter (\<lambda>(m, _). m \<noteq> n) (aw_parameter_groups w)\<rparr>)),
      DescribeSnapshotsPages = \<lambda>ctx w. (Ok [aw_snapshots w], w),
      ListTagsForResource = \<lambda>ctx arn w.
        (case map_of (aw_tags w) arn of None \<Rightarrow> (Ok [], w) | Some ts \<Rightarrow> (Ok ts, w))\<rparr>"

definition sim_secretsManager :: "aws SecretsManager" where
  "sim_secretsManager =
     \<lparr>CreateSecret = \<lambda>ctx i w.
        (if map_of (aw_secrets w) (cs_Name i) \<noteq> None then (Err (already_exists ''ResourceExistsException''), w)
         else (Ok (), w\<lparr>aw_secrets := (cs_Name i, cs_SecretString i) # aw_secrets w\<rparr>)),
      GetSecretValue = \<lambda>ctx n w.
        (case map_of (aw_secrets w) n of
           None \<Rightarrow> (Err (not_found ''ResourceNotFoundException''), w)
         | Some s \<Rightarrow> (Ok (Some s), w)),
      DeleteSecret = \<lambda>ctx i w.
        (if map_of (aw_secrets w) (ds_SecretId i) = None then (Err (not_found ''ResourceNotFoundException''), w)
         else (Ok (), w\<lparr>aw_secrets := filter (\<lambda>(m, _). m \<noteq> ds_SecretId i) (aw_secrets w)\<rparr>))\<rparr>"

text \<open>
  A clock that advances by one second with every reading, a random source that always gives zero,
  and maps visited in their stored order.
\<close>

definition sim_env :: "aws go_env" where
  "sim_env =
     \<lparr>time_Now = \<lambda>w. (aw_clock w, w\<lparr>aw_clock := aw_clock w + Second\<rparr>),
      local_zone = \<lambda>t. 0,
      rand_Int = \<lambda>n w. (Ok 0, w),
      map_order = id,
      sort_Sort = insertionSort\<rparr>"

definition sim_provider :: "aws RedisProvider" where
  "sim_provider =
     NewProvider sim_elastiCache sim_secretsManager ''123456789012'' ''aws'' ''eu-west-1'' ''key'' ''elasticache-broker/''"

definition sim_start :: aws where
  "sim_start = \<lparr>aw_groups = [], aw_parameter_groups = [], aw_secrets = [], aw_snapshots = [], aw_tags = [],
     aw_clock = 1600000000 * Second\<rparr>"

end
