(* ===== verification/Redis_Properties.thy ===== *)
theory Redis_Properties
  imports Simulated_Aws
begin

text \<open>
  Functional properties of the Redis provider: the contents of the parameter group, the snapshots that
  are found, where the secrets lie, what the deletion of a parameter group reports, and the two
  places where a nil pointer is read.
\<close>

section \<open>Parameter groups\<close>

definition name_values :: "ParameterNameValue list \<Rightarrow> string gomap" where
  "name_values ps = map (\<lambda>v. (pnv_ParameterName v, pnv_ParameterValue v)) ps"

lemma name_values_name_value [simp]: "name_values (map name_value m) = m"
  by (induction m) (auto simp: name_values_def name_value_def)

text \<open>The parameters that a call of \<^verbatim>\<open>ModifyCacheParameterGroup\<close> carries, as a map.\<close>

definition group_parameters :: "'w go_env \<Rightarrow> ProvisionParameters \<Rightarrow> string \<Rightarrow> string option" where
  "group_parameters env params =
     map_of (name_values (map name_value (range_map (map_order env) (with_cluster_enabled (pp_Parameters params)))))"

lemma group_parameters_eq:
  assumes "visits_all (map_order env)" and "wf_map (pp_Parameters params)"
  shows "group_parameters env params k =
    (if k = ''cluster-enabled'' \<and> map_of (pp_Parameters params) k = None then Some ''no''
     else map_of (pp_Parameters params) k)"
  using assms by (simp add: group_parameters_def map_of_range_map map_of_with_cluster_enabled)

lemma createCacheParameterGroup_calls:
  assumes "CreateCacheParameterGroup (elastiCache p) ctx
      \<lparr>ccpg_CacheParameterGroupFamily = pp_CacheParameterGroupFamily params, ccpg_CacheParameterGroupName = g,
       ccpg_Description = ''Created by Cloud Foundry''\<rparr> w = (Ok (), w1)"
  shows "createCacheParameterGroup env p ctx g params w =
    ModifyCacheParameterGroup (elastiCache p) ctx
      \<lparr>mcpg_ParameterNameValues =
         map name_value (range_map (map_order env) (with_cluster_enabled (pp_Parameters params))),
       mcpg_CacheParameterGroupName = g\<rparr> w1"
  using assms by (simp add: createCacheParameterGroup_def modifyCacheParameterGroup_def andThen_eqs(1))

text \<open>
  C26: once the parameter group exists, \<^verbatim>\<open>createCacheParameterGroup\<close> sets every parameter of the request, in
  whatever order the map is visited, and sets \<^verbatim>\<open>cluster-enabled\<close> to \<^verbatim>\<open>no\<close> when the request leaves it open.
\<close>

theorem createCacheParameterGroup_contents:
  assumes "visits_all (map_order env)" and "wf_map (pp_Parameters params)"
    and "CreateCacheParameterGroup (elastiCache p) ctx
      \<lparr>ccpg_CacheParameterGroupFamily = pp_CacheParameterGroupFamily params, ccpg_CacheParameterGroupName = g,
       ccpg_Description = ''Created by Cloud Foundry''\<rparr> w = (Ok (), w1)"
  shows "\<exists>nvs. createCacheParameterGroup env p ctx g params w =
      ModifyCacheParameterGroup (elastiCache p) ctx
        \<lparr>mcpg_ParameterNameValues = nvs, mcpg_CacheParameterGroupName = g\<rparr> w1 \<and>
    wf_map (name_values nvs) \<and>
    map_of (name_values nvs) ''cluster-enabled'' \<noteq> None \<and>
    (\<forall>k. map_of (name_values nvs) k =
      (if k = ''cluster-enabled'' \<and> map_of (pp_Parameters params) k = None then Some ''no''
       else map_of (pp_Parameters params) k))"
proof (intro exI conjI)
  show "createCacheParameterGroup env p ctx g params w = ModifyCacheParameterGroup (elastiCache p) ctx
      \<lparr>mcpg_ParameterNameValues =
         map name_value (range_map (map_order env) (with_cluster_enabled (pp_Parameters params))),
       mcpg_CacheParameterGroupName = g\<rparr> w1"
    by (rule createCacheParameterGroup_calls [OF assms(3)])
qed (use assms(1,2) group_parameters_eq [OF assms(1,2)] in
      \<open>auto simp: group_parameters_def wf_range_map map_of_range_map map_of_with_cluster_enabled\<close>)

definition sim_params :: ProvisionParameters where
  "sim_params =
     \<lparr>pp_InstanceType = ''cache.t3.micro'', pp_CacheParameterGroupFamily = ''redis5.0'',
      pp_SecurityGroupIds = [''sg-1''], pp_CacheSubnetGroupName = ''subnets'',
      pp_PreferredMaintenanceWindow = [], pp_ReplicasPerNodeGroup = 1, pp_ShardCount = 1,
      pp_SnapshotRetentionLimit = 7, pp_RestoreFromSnapshot = None, pp_AutomaticFailoverEnabled = True,
      pp_MultiAZEnabled = True, pp_Description = ''Cloud Foundry service'',
      pp_Parameters = [(''maxmemory-policy'', ''volatile-lru'')], pp_Tags = [(''instance-id'', ''i1'')],
      pp_Engine = ''redis'', pp_EngineVersion = ''5.0.6''\<rparr>"

lemma sim_CreateCacheParameterGroup:
  "CreateCacheParameterGroup sim_elastiCache ctx
     \<lparr>ccpg_CacheParameterGroupFamily = fam, ccpg_CacheParameterGroupName = g, ccpg_Description = d\<rparr> sim_start =
   (Ok (), sim_start\<lparr>aw_parameter_groups := [(g, [])]\<rparr>)"
  by (simp add: sim_elastiCache_def sim_start_def Let_def)

lemma sim_provider_simps [simp]:
  "elastiCache sim_provider = sim_elastiCache" "secretsManager sim_provider = sim_secretsManager"
  "kmsKeyID sim_provider = ''key''"
  by (simp_all add: sim_provider_def NewProvider_def)

lemma sim_env_simps [simp]: "map_order sim_env = id" "sort_Sort sim_env = insertionSort" "local_zone sim_env t = 0"
  by (simp_all add: sim_env_def)

theorem createCacheParameterGroup_contents_witness:
  "\<exists>nvs. createCacheParameterGroup sim_env sim_provider RequestContext ''g'' sim_params sim_start =
      ModifyCacheParameterGroup sim_elastiCache RequestContext
        \<lparr>mcpg_ParameterNameValues = nvs, mcpg_CacheParameterGroupName = ''g''\<rparr>
        (sim_start\<lparr>aw_parameter_groups := [(''g'', [])]\<rparr>) \<and>
    map_of (name_values nvs) ''cluster-enabled'' = Some ''no'' \<and>
    map_of (name_values nvs) ''maxmemory-policy'' = Some ''volatile-lru''"
proof -
  have wf: "wf_map (pp_Parameters sim_params)" by (simp add: sim_params_def)
  have ps: "map_of (pp_Parameters sim_params) ''cluster-enabled'' = None"
    "map_of (pp_Parameters sim_params) ''maxmemory-policy'' = Some ''volatile-lru''"
    by (simp_all add: sim_params_def)
  have "CreateCacheParameterGroup (elastiCache sim_provider) RequestContext
      \<lparr>ccpg_CacheParameterGroupFamily = pp_CacheParameterGroupFamily sim_params, ccpg_CacheParameterGroupName = ''g'',
       ccpg_Description = ''Created by Cloud Foundry''\<rparr> sim_start =
      (Ok (), sim_start\<lparr>aw_parameter_groups := [(''g'', [])]\<rparr>)"
    by (simp add: sim_CreateCacheParameterGroup)
  from createCacheParameterGroup_contents [of sim_env sim_params, OF _ wf this] ps show ?thesis
    by auto
qed

section \<open>Secrets\<close>

lemma TrimRight_replicate: "TrimRight (s @ replicate n c) c = TrimRight s c"
proof -
  have "dropWhile ((=) c) (replicate n c @ t) = dropWhile ((=) c) t" for t
    by (induction n) (simp_all del: replicate_app_Cons_same)
  then show ?thesis by (simp add: TrimRight_def)
qed

text \<open>
  C28: the secrets of two instances never share a path, and slashes at the end of the configured path make no
  difference to where the secrets lie.
\<close>

theorem getAuthTokenPath_separate:
  "(getAuthTokenPath p i = getAuthTokenPath p j \<longleftrightarrow> i = j) \<and>
   getAuthTokenPath (NewProvider ec sm account part region kms (path @ replicate n CHR ''/'')) i =
   getAuthTokenPath (NewProvider ec sm account part region kms path) i"
  by (simp add: getAuthTokenPath_def NewProvider_def TrimRight_replicate)

section \<open>Snapshots\<close>

text \<open>
  C25: when every snapshot is complete and the tags of each can be read, \<^verbatim>\<open>FindSnapshots\<close> returns exactly the
  snapshots of all pages that are tagged with the instance, in the order of the pages.
\<close>

theorem FindSnapshots_exact:
  assumes "\<And>w. DescribeSnapshotsPages (elastiCache p) ctx w = (Ok pages, w)"
    and "\<And>arn w. ListTagsForResource (elastiCache p) ctx arn w = (Ok (tags arn), w)"
    and "list_all complete_snapshot (concat pages)"
  shows "FindSnapshots p ctx i w =
    (Ok (filter (\<lambda>s. map_of (si_Tags s) ''instance-id'' = Some i) (map (snapshot_info tags p) (concat pages))), w)"
  using snapshot_infos_static [OF assms(2,3)] assms(1) by (simp add: FindSnapshots_def andThen_eqs(1))

definition snapshot_of :: "string \<Rightarrow> time \<Rightarrow> Snapshot" where
  "snapshot_of n t = \<lparr>sn_SnapshotName = Some n, sn_NodeSnapshots = [\<lparr>ns_SnapshotCreateTime = Some t\<rparr>]\<rparr>"

definition two_snapshots :: "unit ElastiCache" where
  "two_snapshots =
     \<lparr>CreateCacheParameterGroup = \<lambda>ctx i. ret (), CreateReplicationGroup = \<lambda>ctx i. ret (),
      DeleteCacheParameterGroupCall = \<lambda>ctx i. ret (), DeleteReplicationGroup = \<lambda>ctx i. ret (),
      DescribeReplicationGroups = \<lambda>ctx i. ret [], DescribeCacheClusters = \<lambda>ctx i. ret [],
      DescribeCacheParameters = \<lambda>ctx i. ret [], ModifyReplicationGroup = \<lambda>ctx i. ret (),
      ModifyCacheParameterGroup = \<lambda>ctx i. ret (),
      DescribeSnapshotsPages = \<lambda>ctx. ret [[snapshot_of ''a'' 1], [snapshot_of ''b'' 2]],
      ListTagsForResource = \<lambda>ctx arn. ret [\<lparr>tag_Key = Some ''instance-id'', tag_Value = Some [last arn]\<rparr>]\<rparr>"

definition two_secrets :: "unit SecretsManager" where
  "two_secrets = \<lparr>CreateSecret = \<lambda>ctx i. ret (), GetSecretValue = \<lambda>ctx i. ret None, DeleteSecret = \<lambda>ctx i. ret ()\<rparr>"

definition two_provider :: "unit RedisProvider" where
  "two_provider = NewProvider two_snapshots two_secrets ''1'' ''aws'' ''r'' ''k'' ''p''"

theorem FindSnapshots_exact_witness:
  "FindSnapshots two_provider RequestContext ''b'' () =
     (Ok [\<lparr>si_Name = ''b'', si_CreateTime = 2, si_Tags = [(''instance-id'', ''b'')]\<rparr>], ())"
proof -
  let ?pages = "[[snapshot_of ''a'' 1], [snapshot_of ''b'' 2]]"
  let ?tags = "\<lambda>arn. [\<lparr>tag_Key = Some ''instance-id'', tag_Value = Some [last arn]\<rparr>]"
  have "FindSnapshots two_provider RequestContext ''b'' () =
    (Ok (filter (\<lambda>s. map_of (si_Tags s) ''instance-id'' = Some ''b'')
      (map (snapshot_info ?tags two_provider) (concat ?pages))), ())"
    by (rule FindSnapshots_exact) (simp_all add: two_provider_def NewProvider_def two_snapshots_def complete_snapshot_def snapshot_of_def)
  then show ?thesis
    by (simp add: snapshot_info_def snapshot_of_def snapshotARN_def tagsValues_def StringValue_def)
qed

section \<open>Where a nil pointer is read\<close>

text \<open>
  C37: \<^verbatim>\<open>StartFailoverTest\<close> drops the error of \<^verbatim>\<open>describeReplicationGroup\<close>: whenever the group cannot be described it
  panics on the nil group, and no call that changes anything is made.
\<close>

theorem StartFailoverTest_panics:
  assumes "describeReplicationGroup p ctx (GenerateReplicationGroupName i) w = (Err e, w')"
  shows "StartFailoverTest p ctx i w = (Panic ''nil pointer dereference'', w')"
  using assms by (simp add: StartFailoverTest_def Let_def andThen_eqs handle_eqs GetPrimaryAndReplicaCacheClusterIds_def)

theorem StartFailoverTest_panics_witness:
  "StartFailoverTest sim_provider RequestContext ''gone'' sim_start = (Panic ''nil pointer dereference'', sim_start)"
proof -
  have "describeReplicationGroup sim_provider RequestContext (GenerateReplicationGroupName ''gone'') sim_start =
      (Err (not_found ''ReplicationGroupNotFoundFault''), sim_start)"
    by (simp add: describeReplicationGroup_def sim_elastiCache_def sim_start_def andThen_eqs(2))
  then show ?thesis by (rule StartFailoverTest_panics)
qed

text \<open>A parameter as the loop of \<^verbatim>\<open>GetInstanceParameters\<close> needs it: named, and \<^verbatim>\<open>maxmemory-policy\<close> with a value.\<close>

definition readable_parameter :: "Parameter \<Rightarrow> bool" where
  "readable_parameter q = (case pa_ParameterName q of
      None \<Rightarrow> False
    | Some n \<Rightarrow> n \<noteq> ''maxmemory-policy'' \<or> pa_ParameterValue q \<noteq> None)"

definition read_parameter :: "InstanceParameters \<Rightarrow> Parameter \<Rightarrow> InstanceParameters" where
  "read_parameter ip q =
     ip\<lparr>ip_CacheParameters := ip_CacheParameters ip @
          [\<lparr>cp_ParameterName = StringValue (pa_ParameterName q), cp_ParameterValue = StringValue (pa_ParameterValue q)\<rparr>],
        ip_MaxMemoryPolicy := (if pa_ParameterName q = Some ''maxmemory-policy''
          then StringValue (pa_ParameterValue q) else ip_MaxMemoryPolicy ip)\<rparr>"

lemma collect_parameters_Cons:
  "collect_parameters (q # qs) ip =
     (if readable_parameter q then collect_parameters qs (read_parameter ip q)
      else panic ''nil pointer dereference'')"
  by (cases "pa_ParameterName q"; cases "pa_ParameterValue q")
     (rule ext, simp add: readable_parameter_def read_parameter_def StringValue_def Let_def)+

text \<open>
  C38: the loop over the parameters of an instance collects all of them in order with the last
  \<^verbatim>\<open>maxmemory-policy\<close>, or panics: exactly when a parameter has no name or \<^verbatim>\<open>maxmemory-policy\<close> has no value,
  although any other parameter may have none.
\<close>

theorem collect_parameters_result:
  "collect_parameters qs ip w =
     (if list_all readable_parameter qs then (Ok (foldl read_parameter ip qs), w)
      else (Panic ''nil pointer dereference'', w))"
  by (induction qs arbitrary: ip) (simp_all add: collect_parameters_Cons del: collect_parameters.simps(2))

end
