(* ===== verification/Failover.thy ===== *)
theory Failover
  imports Broker
begin

text \<open>
  The failover test as a state machine. \<^verbatim>\<open>Update\<close> with \<^verbatim>\<open>test_failover\<close> switches high availability off; every poll
  of \<^verbatim>\<open>LastOperation\<close> then looks at the group and takes the next step: cut over to the replica, switch
  high availability on again, report success. Between polls AWS carries out what was asked for. What is
  assumed of AWS is stated in \<open>failover_laws\<close>. The theory shows that polls and AWS together
  go through the stages of an abstract machine in order, from any interleaving, and that success
  is reported at its end.
\<close>

section \<open>Nodes of a group\<close>

definition members :: "ReplicationGroup \<Rightarrow> NodeGroupMember list" where
  "members rg = concat (map ng_NodeGroupMembers (rg_NodeGroups rg))"

definition last_of :: "string \<Rightarrow> NodeGroupMember list \<Rightarrow> string \<Rightarrow> string" where
  "last_of role ms start =
     foldl (\<lambda>acc m. if ngm_CurrentRole m = Some role then StringValue (ngm_CacheClusterId m) else acc) start ms"

definition primary_of :: "ReplicationGroup \<Rightarrow> string" where
  "primary_of rg = last_of ''primary'' (members rg) []"

definition replica_of :: "ReplicationGroup \<Rightarrow> string" where
  "replica_of rg = last_of ''replica'' (members rg) []"

definition described :: "NodeGroupMember \<Rightarrow> bool" where
  "described m \<longleftrightarrow> ngm_CurrentRole m \<noteq> None \<and> ngm_CacheClusterId m \<noteq> None"

lemma last_of_append: "last_of role (ms @ ns) s = last_of role ns (last_of role ms s)"
  by (simp add: last_of_def)

lemma scan_members_described:
  "list_all described ms \<Longrightarrow>
   scan_members ms (a, b) = ret (last_of ''primary'' ms a, last_of ''replica'' ms b)"
proof (induction ms arbitrary: a b)
  case Nil
  show ?case unfolding scan_members.simps by (simp only: last_of_def foldl.simps)
next
  case (Cons m ms)
  then obtain role i where "ngm_CurrentRole m = Some role" and "ngm_CacheClusterId m = Some i"
    by (auto simp: described_def)
  with Cons show ?case by (auto simp: last_of_def StringValue_def)
qed

lemma scan_groups_described:
  "list_all described (concat (map ng_NodeGroupMembers gs)) \<Longrightarrow>
   scan_groups gs (a, b) = ret (last_of ''primary'' (concat (map ng_NodeGroupMembers gs)) a,
     last_of ''replica'' (concat (map ng_NodeGroupMembers gs)) b)"
proof (induction gs arbitrary: a b)
  case Nil
  show ?case by (simp only: scan_groups.simps last_of_def list.map concat.simps foldl.simps)
next
  case (Cons g gs)
  then show ?case by (simp add: scan_members_described last_of_append)
qed

text \<open>A group with a primary and a different replica, all members described.\<close>

definition two_nodes :: "ReplicationGroup \<Rightarrow> bool" where
  "two_nodes rg \<longleftrightarrow> list_all described (members rg) \<and> primary_of rg \<noteq> [] \<and> replica_of rg \<noteq> [] \<and>
     primary_of rg \<noteq> replica_of rg"

lemma GetPrimaryAndReplica_two_nodes:
  "two_nodes rg \<Longrightarrow> GetPrimaryAndReplicaCacheClusterIds (Some rg) = ret (primary_of rg, replica_of rg)"
  by (rule ext) (simp add: GetPrimaryAndReplicaCacheClusterIds_def two_nodes_def primary_of_def replica_of_def
      members_def scan_groups_described)

section \<open>What is assumed of AWS\<close>

text \<open>
  \<open>view w\<close> is the group as AWS describes it in world \<open>w\<close>, \<open>pend w\<close> the modification it is carrying out. A
  modification is accepted and the group's status becomes \<^verbatim>\<open>modifying\<close>; when it is carried
  out the status is \<^verbatim>\<open>available\<close> again and the requested settings hold.
\<close>

definition applied :: "ModifyReplicationGroupInput \<Rightarrow> ReplicationGroup \<Rightarrow> ReplicationGroup \<Rightarrow> bool" where
  "applied inp rg rg' \<longleftrightarrow>
     rg_Status rg' = Some ''available'' \<and> two_nodes rg' \<and>
     rg_AutomaticFailover rg' = (case mrg_AutomaticFailoverEnabled inp of
        None \<Rightarrow> rg_AutomaticFailover rg
      | Some True \<Rightarrow> Some ''enabled''
      | Some False \<Rightarrow> Some ''disabled'') \<and>
     primary_of rg' = (case mrg_PrimaryClusterId inp of None \<Rightarrow> primary_of rg | Some n \<Rightarrow> n)"

definition completes ::
    "('w \<Rightarrow> ReplicationGroup) \<Rightarrow> ('w \<Rightarrow> ModifyReplicationGroupInput option) \<Rightarrow> 'w \<Rightarrow> 'w \<Rightarrow> bool" where
  "completes view pend w w' \<longleftrightarrow> (\<exists>inp. pend w = Some inp \<and> pend w' = None \<and> applied inp (view w) (view w'))"

definition evolves ::
    "('w \<Rightarrow> ReplicationGroup) \<Rightarrow> ('w \<Rightarrow> ModifyReplicationGroupInput option) \<Rightarrow> 'w \<Rightarrow> 'w \<Rightarrow> bool" where
  "evolves view pend w w' \<longleftrightarrow> (view w' = view w \<and> pend w' = pend w) \<or> completes view pend w w'"

definition quiet :: "('w, 'a) go \<Rightarrow> bool" where
  "quiet m \<longleftrightarrow> (\<forall>w. (\<exists>x. m w = (Ok x, w)) \<or> (\<exists>e. m w = (Err e, w)))"

definition failover_laws ::
    "'w go_env \<Rightarrow> 'w ElastiCache \<Rightarrow> string \<Rightarrow> ('w \<Rightarrow> ReplicationGroup) \<Rightarrow>
     ('w \<Rightarrow> ModifyReplicationGroupInput option) \<Rightarrow> bool" where
  "failover_laws env ec g view pend \<longleftrightarrow>
     (\<forall>ctx w. DescribeReplicationGroups ec ctx g w = (Ok [view w], w)) \<and>
     (\<forall>ctx c. quiet (DescribeCacheClusters ec ctx c)) \<and>
     (\<forall>ctx c. quiet (DescribeCacheParameters ec ctx c)) \<and>
     (\<forall>ctx inp w. \<exists>w'. ModifyReplicationGroup ec ctx (inp\<lparr>mrg_ReplicationGroupId := Some g\<rparr>) w = (Ok (), w') \<and>
        pend w' = Some (inp\<lparr>mrg_ReplicationGroupId := Some g\<rparr>) \<and>
        view w' = (view w)\<lparr>rg_Status := Some ''modifying''\<rparr>) \<and>
     (\<forall>w. view (snd (time_Now env w)) = view w \<and> pend (snd (time_Now env w)) = pend w)"

lemma failover_lawsD:
  assumes "failover_laws env ec g view pend"
  shows "DescribeReplicationGroups ec ctx g w = (Ok [view w], w)"
    and "quiet (DescribeCacheClusters ec ctx c)" and "quiet (DescribeCacheParameters ec ctx c)"
    and "mrg_ReplicationGroupId inp = Some g \<Longrightarrow> \<exists>w'. ModifyReplicationGroup ec ctx inp w = (Ok (), w') \<and>
        pend w' = Some inp \<and> view w' = (view w)\<lparr>rg_Status := Some ''modifying''\<rparr>"
    and "time_Now env w = (t, w') \<Longrightarrow> view w' = view w \<and> pend w' = pend w"
proof -
  show "mrg_ReplicationGroupId inp = Some g \<Longrightarrow> \<exists>w'. ModifyReplicationGroup ec ctx inp w = (Ok (), w') \<and>
        pend w' = Some inp \<and> view w' = (view w)\<lparr>rg_Status := Some ''modifying''\<rparr>"
  proof -
    assume "mrg_ReplicationGroupId inp = Some g"
    then have "inp\<lparr>mrg_ReplicationGroupId := Some g\<rparr> = inp" by simp
    with assms show ?thesis unfolding failover_laws_def by metis
  qed
  show "time_Now env w = (t, w') \<Longrightarrow> view w' = view w \<and> pend w' = pend w"
    using assms unfolding failover_laws_def by (metis snd_conv)
qed (use assms in \<open>simp_all add: failover_laws_def\<close>)

section \<open>One look at the group\<close>

lemma quiet_cases:
  assumes "quiet m"
  obtains x where "m w = (Ok x, w)" | e where "m w = (Err e, w)"
  using assms unfolding quiet_def by blast

lemma quiet_handle:
  "quiet m \<Longrightarrow> (\<And>e. quiet (h e)) \<Longrightarrow> (\<And>x. quiet (k x)) \<Longrightarrow> quiet (handle m h k)"
  unfolding quiet_def by (metis handle_eqs(1,2))

lemma quiet_ret: "quiet (ret x)"
  by (simp add: quiet_def)

lemma quiet_fail: "quiet (fail e)"
  by (simp add: quiet_def)

lemma quiet_andThen: "quiet m \<Longrightarrow> (\<And>x. quiet (k x)) \<Longrightarrow> quiet (andThen m k)"
  by (simp add: andThen_def quiet_handle quiet_fail)

lemma quiet_list:
  "quiet m \<Longrightarrow> (\<And>x xs. quiet (k x xs)) \<Longrightarrow> quiet (case v of [] \<Rightarrow> m | x # xs \<Rightarrow> k x xs)"
  by (cases v) simp_all

lemma quiet_option: "quiet m \<Longrightarrow> (\<And>x. quiet (k x)) \<Longrightarrow> quiet (case v of None \<Rightarrow> m | Some x \<Rightarrow> k x)"
  by (cases v) simp_all

lemmas quiet_rules = quiet_handle quiet_ret quiet_fail quiet_andThen quiet_list quiet_option

lemma getMessage_Ok:
  assumes "failover_laws env (elastiCache p) g view pend"
  obtains msg where "getMessage p ctx rg s w = (Ok msg, w)"
proof -
  have "quiet (getMessage p ctx rg s)"
    unfolding getMessage_def cluster_lines_def describeCacheCluster_def describeCacheParameters_def
    by (intro quiet_rules failover_lawsD(2,3) [OF assms])
  then show thesis
    using that no_error_getMessage [of p ctx rg s] by (elim quiet_cases [where w = w]) (auto simp: no_error_def)
qed

lemma describe_view:
  assumes "failover_laws env (elastiCache p) g view pend"
  shows "describeReplicationGroup p ctx g w = (Ok (view w), w)"
  using failover_lawsD(1) [OF assms] by (simp add: describeReplicationGroup_def andThen_eqs(1))

text \<open>What a poll decides, as a function of the description and the old primary.\<close>

datatype decision = Report string | CutOverTo string | EnableHA

definition decide :: "string \<Rightarrow> ReplicationGroup \<Rightarrow> decision" where
  "decide old rg =
     (if rg_Status rg = Some ''available'' \<and> rg_AutomaticFailover rg = Some ''disabled''
      then (if old \<noteq> [] \<and> primary_of rg = old then CutOverTo (replica_of rg) else EnableHA)
      else Report (StringValue (rg_Status rg)))"

definition request :: "string \<Rightarrow> decision \<Rightarrow> ModifyReplicationGroupInput option" where
  "request g d = (case d of
      Report _ \<Rightarrow> None
    | CutOverTo n \<Rightarrow> Some (cutover_input g n)
    | EnableHA \<Rightarrow> Some (ha_input True g))"

text \<open>
  One look of \<^verbatim>\<open>ProgressState\<close>: the state it returns and the world afterwards are those of the decision.
\<close>

lemma ProgressState_decides:
  assumes laws: "failover_laws env (elastiCache p) (GenerateReplicationGroupName i) view pend"
    and "two_nodes (view w)" and "rg_Status (view w) = Some st" and "rg_AutomaticFailover (view w) = Some af"
  shows "\<exists>msg w'. ProgressState p ctx i ''failover'' old w =
      (Ok (case decide old (view w) of Report s \<Rightarrow> s | _ \<Rightarrow> ''modifying'', msg, None), w') \<and>
    (case request (GenerateReplicationGroupName i) (decide old (view w)) of
       None \<Rightarrow> w' = w
     | Some inp \<Rightarrow> pend w' = Some inp \<and> view w' = (view w)\<lparr>rg_Status := Some ''modifying''\<rparr>)"
proof -
  let ?g = "GenerateReplicationGroupName i"
  note d = describe_view [OF laws, of ctx w] and n = GetPrimaryAndReplica_two_nodes [OF assms(2)]
  have report: "\<exists>msg. andThen (getMessage p ctx (view w) []) (\<lambda>message. ret (st, message, None)) w =
      (Ok (st, msg, None), w)" for st
    by (rule getMessage_Ok [OF laws, of ctx "view w" "[]" w]) (simp add: andThen_eqs(1))
  show ?thesis
  proof (cases "st = ''available'' \<and> af = ''disabled''")
    case False
    then have "decide old (view w) = Report st" using assms(3,4) by (auto simp: decide_def StringValue_def)
    moreover from False have "ProgressState p ctx i ''failover'' old w =
        andThen (getMessage p ctx (view w) []) (\<lambda>message. ret (st, message, None)) w"
      using d assms(3,4) by (cases "st = ''available''") (simp_all add: ProgressState_def Let_def handle_eqs(1) n)
    ultimately show ?thesis using report [of st] by (auto simp: request_def)
  next
    case True
    define inp where "inp = (if old \<noteq> [] \<and> primary_of (view w) = old
      then cutover_input ?g (replica_of (view w)) else ha_input True ?g)"
    have "mrg_ReplicationGroupId inp = Some ?g" by (simp add: inp_def cutover_input_def ha_input_def)
    then obtain w' where m: "ModifyReplicationGroup (elastiCache p) ctx inp w = (Ok (), w')"
        and w': "pend w' = Some inp" "view w' = (view w)\<lparr>rg_Status := Some ''modifying''\<rparr>"
      using failover_lawsD(4) [OF laws] by blast
    have "\<exists>msg. ProgressState p ctx i ''failover'' old w = (Ok (''modifying'', msg, None), w')"
    proof (rule getMessage_Ok [OF laws, of ctx "view w" "''modifying''" w])
      fix msg assume "getMessage p ctx (view w) ''modifying'' w = (Ok msg, w)"
      with d m True assms(3,4) show ?thesis
        by (simp add: ProgressState_def Let_def inp_def handle_eqs(1) andThen_eqs(1) n)
    qed
    moreover have "request ?g (decide old (view w)) = Some inp"
      and "(case decide old (view w) of Report s \<Rightarrow> s | _ \<Rightarrow> ''modifying'') = ''modifying''"
      using True assms(3,4) by (auto simp: request_def decide_def inp_def)
    ultimately show ?thesis using w' by auto
  qed
qed

section \<open>Stages\<close>

datatype stage = DisablingHA | HAOff | CuttingOver | HasCutOver | EnablingHA | Finished

fun next_stage :: "stage \<Rightarrow> stage" where
  "next_stage DisablingHA = HAOff"
| "next_stage HAOff = CuttingOver"
| "next_stage CuttingOver = HasCutOver"
| "next_stage HasCutOver = EnablingHA"
| "next_stage EnablingHA = Finished"
| "next_stage Finished = Finished"

text \<open>Whether AWS or a poll takes the step out of a stage.\<close>

fun awaits_aws :: "stage \<Rightarrow> bool" where
  "awaits_aws DisablingHA = True"
| "awaits_aws CuttingOver = True"
| "awaits_aws EnablingHA = True"
| "awaits_aws _ = False"

text \<open>The relation between a stage and a world, for the group \<open>g\<close> and the old primary.\<close>

definition asked :: "string \<Rightarrow> stage \<Rightarrow> ReplicationGroup \<Rightarrow> ModifyReplicationGroupInput option" where
  "asked g s rg = (case s of
      DisablingHA \<Rightarrow> Some (ha_input False g)
    | CuttingOver \<Rightarrow> Some (cutover_input g (replica_of rg))
    | EnablingHA \<Rightarrow> Some (ha_input True g)
    | _ \<Rightarrow> None)"

definition at_stage ::
    "string \<Rightarrow> string \<Rightarrow> ('w \<Rightarrow> ReplicationGroup) \<Rightarrow> ('w \<Rightarrow> ModifyReplicationGroupInput option) \<Rightarrow>
     stage \<Rightarrow> 'w \<Rightarrow> bool" where
  "at_stage g old view pend s w \<longleftrightarrow>
     two_nodes (view w) \<and> old \<noteq> [] \<and> pend w = asked g s (view w) \<and>
     rg_Status (view w) = Some (if awaits_aws s then ''modifying'' else ''available'') \<and>
     (primary_of (view w) = old \<longleftrightarrow> s \<in> {DisablingHA, HAOff, CuttingOver}) \<and>
     (case s of
        DisablingHA \<Rightarrow> rg_AutomaticFailover (view w) \<noteq> None
      | Finished \<Rightarrow> rg_AutomaticFailover (view w) = Some ''enabled''
      | _ \<Rightarrow> rg_AutomaticFailover (view w) = Some ''disabled'')"

lemma view_modifying [simp]:
  "two_nodes (rg\<lparr>rg_Status := s\<rparr>) = two_nodes rg" "primary_of (rg\<lparr>rg_Status := s\<rparr>) = primary_of rg"
  "replica_of (rg\<lparr>rg_Status := s\<rparr>) = replica_of rg"
  by (simp_all add: two_nodes_def primary_of_def replica_of_def members_def)

lemma at_stage_completes:
  assumes "at_stage g old view pend s w" and "completes view pend w w'"
  shows "awaits_aws s \<and> at_stage g old view pend (next_stage s) w'"
proof -
  from assms(2) obtain inp where inp: "pend w = Some inp" "pend w' = None" "applied inp (view w) (view w')"
    by (auto simp: completes_def)
  from assms(1) inp(1) have s: "asked g s (view w) = Some inp" by (simp add: at_stage_def)
  have "replica_of (view w) \<noteq> primary_of (view w)" using assms(1) by (auto simp: at_stage_def two_nodes_def)
  then show ?thesis
    using assms(1) inp s
    by (cases s) (auto simp: at_stage_def asked_def applied_def ha_input_def cutover_input_def
        emptyModifyReplicationGroupInput_def)
qed

lemma at_stage_same:
  assumes "view w' = view w" and "pend w' = pend w"
  shows "at_stage g old view pend s w' = at_stage g old view pend s w"
  by (simp only: at_stage_def assms)

lemma at_stage_evolves:
  assumes "at_stage g old view pend s w" and "evolves view pend w w'"
  shows "at_stage g old view pend s w' \<or> awaits_aws s \<and> at_stage g old view pend (next_stage s) w'"
proof -
  from assms(2) consider "view w' = view w" "pend w' = pend w" | "completes view pend w w'"
    by (auto simp: evolves_def)
  then show ?thesis
  proof cases
    case 1
    with assms(1) show ?thesis by (simp add: at_stage_same [of view w' w pend])
  next
    case 2
    with at_stage_completes [OF assms(1)] show ?thesis by simp
  qed
qed

text \<open>What a poll reports in a stage, and where it leads.\<close>

definition reported :: "stage \<Rightarrow> string" where
  "reported s = (if s = Finished then ''available'' else ''modifying'')"

lemma at_stage_progress:
  assumes laws: "failover_laws env (elastiCache p) (GenerateReplicationGroupName i) view pend"
    and s: "at_stage (GenerateReplicationGroupName i) old view pend s w"
  shows "\<exists>msg w'. ProgressState p ctx i ''failover'' old w = (Ok (reported s, msg, None), w') \<and>
    at_stage (GenerateReplicationGroupName i) old view pend (if awaits_aws s then s else next_stage s) w'"
proof -
  let ?g = "GenerateReplicationGroupName i"
  have "rg_AutomaticFailover (view w) \<noteq> None" using s by (cases s) (auto simp: at_stage_def)
  then obtain st af where st: "rg_Status (view w) = Some st" and af: "rg_AutomaticFailover (view w) = Some af"
    using s by (auto simp: at_stage_def)
  from s have two: "two_nodes (view w)" by (simp add: at_stage_def)
  from ProgressState_decides [OF laws two st af, of ctx old] obtain msg w' where
    P: "ProgressState p ctx i ''failover'' old w =
      (Ok (case decide old (view w) of Report s \<Rightarrow> s | _ \<Rightarrow> ''modifying'', msg, None), w')"
    and W: "case request ?g (decide old (view w)) of
       None \<Rightarrow> w' = w
     | Some inp \<Rightarrow> pend w' = Some inp \<and> view w' = (view w)\<lparr>rg_Status := Some ''modifying''\<rparr>" by blast
  have "decide old (view w) = (case s of HAOff \<Rightarrow> CutOverTo (replica_of (view w)) | HasCutOver \<Rightarrow> EnableHA
      | Finished \<Rightarrow> Report ''available'' | _ \<Rightarrow> Report ''modifying'')"
    using s by (cases s) (auto simp: at_stage_def decide_def StringValue_def)
  with P W s show ?thesis
    by (intro exI [of _ msg] exI [of _ w'], cases s) (auto simp: reported_def request_def at_stage_def asked_def)
qed

section \<open>Polls of the broker\<close>

definition failover_operation :: "string \<Rightarrow> string \<Rightarrow> Operation" where
  "failover_operation old timeOut =
     \<lparr>op_Action = ActionFailover, op_PrimaryNode = old, op_TimeOut = timeOut\<rparr>"

definition poll ::
    "'w go_env \<Rightarrow> Config \<Rightarrow> 'w RedisProvider \<Rightarrow> go_context \<Rightarrow> string \<Rightarrow> string \<Rightarrow> string \<Rightarrow> ('w, LastOperation) go" where
  "poll env config p ctx i old timeOut =
     Broker_LastOperation env (New config (redis_provider env p)) ctx i
       \<lparr>po_OperationData = Operation_String (failover_operation old timeOut)\<rparr>"

text \<open>Operation data that \<^verbatim>\<open>LastOperation\<close> can read back, with the deadline it stands for.\<close>

definition readable_data :: "string \<Rightarrow> string \<Rightarrow> time \<Rightarrow> bool" where
  "readable_data old timeOut deadline \<longleftrightarrow>
     valid_utf8 old \<and> valid_utf8 timeOut \<and> timeOut \<noteq> [] \<and> Parse_RFC3339 timeOut = Inr deadline"

lemma valid_failover_operation: "readable_data old timeOut d \<Longrightarrow> valid_operation (failover_operation old timeOut)"
  by (simp add: readable_data_def valid_operation_def failover_operation_def valid_utf8_ascii)

lemma poll_timed_out:
  assumes "readable_data old timeOut deadline" and "time_Now env w = (now, w1)" and "now > deadline"
  shows "poll env config p ctx i old timeOut w =
    (Err (ErrorString (''Operation failover timed out for '' @ i)), w1)"
proof -
  have "poll_operation (Operation_String (failover_operation old timeOut)) = Inr (failover_operation old timeOut)"
    by (rule poll_operation_String [OF valid_failover_operation [OF assms(1)]])
       (simp add: failover_operation_def ActionFailover_def)
  moreover have "check_timeout env i (failover_operation old timeOut) w =
      (Err (ErrorString (''Operation failover timed out for '' @ i)), w1)"
    using check_timeout_text [of "failover_operation old timeOut" deadline env w now w1 i] assms
    by (simp add: readable_data_def failover_operation_def ActionFailover_def)
  ultimately show ?thesis by (simp add: poll_def Broker_LastOperation_def andThen_eqs(2))
qed

lemma poll_at_stage:
  assumes laws: "failover_laws env (elastiCache p) (GenerateReplicationGroupName i) view pend"
    and data: "readable_data old timeOut deadline"
    and s: "at_stage (GenerateReplicationGroupName i) old view pend s w"
    and now: "time_Now env w = (now, w1)" "now \<le> deadline"
  shows "\<exists>msg w'. poll env config p ctx i old timeOut w =
      (Ok \<lparr>lo_State = (if s = Finished then Succeeded else InProgress), lo_Description = msg\<rparr>, w') \<and>
    at_stage (GenerateReplicationGroupName i) old view pend (if awaits_aws s then s else next_stage s) w'"
proof -
  let ?g = "GenerateReplicationGroupName i" and ?b = "New config (redis_provider env p)"
  have s1: "at_stage ?g old view pend s w1"
    using s failover_lawsD(5) [OF laws now(1)] at_stage_same [of view w1 w pend] by simp
  obtain msg w' where P: "ProgressState p (providerCtx ctx) i ''failover'' old w1 = (Ok (reported s, msg, None), w')"
    and s': "at_stage ?g old view pend (if awaits_aws s then s else next_stage s) w'"
    using at_stage_progress [OF laws s1] by blast
  have "check_timeout env i (failover_operation old timeOut) w = (Ok (), w1)"
    using check_timeout_text [of "failover_operation old timeOut" deadline env w now w1 i] data now
    by (simp add: readable_data_def failover_operation_def)
  moreover have "p_ProgressState (b_provider ?b) (providerCtx ctx) i (op_Action (failover_operation old timeOut))
      (op_PrimaryNode (failover_operation old timeOut)) w1 = (Ok (reported s, msg, None), w')"
    using P by (simp add: New_def redis_provider_def failover_operation_def ActionFailover_def)
  moreover have "reported s \<noteq> NonExisting" by (simp add: reported_def NonExisting_def)
  moreover have "op_Action (failover_operation old timeOut) \<noteq> []"
    by (simp add: failover_operation_def ActionFailover_def)
  ultimately have "poll env config p ctx i old timeOut w =
      (Ok \<lparr>lo_State = fst (ProviderStatesMapping (reported s)), lo_Description = msg\<rparr>, w')"
    unfolding poll_def by (intro LastOperation_state [OF valid_failover_operation [OF data]])
  moreover have "fst (ProviderStatesMapping (reported s)) = (if s = Finished then Succeeded else InProgress)"
    by (simp add: ProviderStatesMapping_cases reported_def last_operation_states)
  ultimately show ?thesis using s' by auto
qed

section \<open>Interleavings of polls and AWS\<close>

inductive failover_step ::
    "('w \<Rightarrow> 'w \<Rightarrow> bool) \<Rightarrow> ('w, LastOperation) go \<Rightarrow> 'w \<Rightarrow> 'w \<Rightarrow> bool"
  for env_step polls where
  Aws: "env_step w w' \<Longrightarrow> failover_step env_step polls w w'"
| Poll: "polls w = (r, w') \<Longrightarrow> failover_step env_step polls w w'"

inductive_cases failover_stepE: "failover_step env_step polls w w'"

lemma stage_step:
  assumes laws: "failover_laws env (elastiCache p) (GenerateReplicationGroupName i) view pend"
    and data: "readable_data old timeOut deadline"
    and s: "at_stage (GenerateReplicationGroupName i) old view pend s w"
    and step: "failover_step (evolves view pend) (poll env config p ctx i old timeOut) w w'"
  shows "\<exists>s' \<in> {s, next_stage s}. at_stage (GenerateReplicationGroupName i) old view pend s' w'"
  using step
proof (rule failover_stepE)
  assume "evolves view pend w w'"
  with at_stage_evolves [OF s] show ?thesis by auto
next
  fix r assume r: "poll env config p ctx i old timeOut w = (r, w')"
  obtain now w1 where now: "time_Now env w = (now, w1)" by (cases "time_Now env w")
  show ?thesis
  proof (cases "now > deadline")
    case True
    with poll_timed_out [OF data now] r have "w' = w1" by simp
    with failover_lawsD(5) [OF laws now] s show ?thesis by (simp add: at_stage_same [of view w1 w pend])
  next
    case False
    then have "now \<le> deadline" by simp
    from poll_at_stage [OF laws data s now this, of config ctx] r show ?thesis by (auto split: if_splits)
  qed
qed

lemma stage_reachable:
  assumes laws: "failover_laws env (elastiCache p) (GenerateReplicationGroupName i) view pend"
    and data: "readable_data old timeOut deadline"
    and "(failover_step (evolves view pend) (poll env config p ctx i old timeOut))\<^sup>*\<^sup>* w w'"
    and "at_stage (GenerateReplicationGroupName i) old view pend s w"
  shows "\<exists>s'. at_stage (GenerateReplicationGroupName i) old view pend s' w'"
  using assms(3,4)
proof (induction arbitrary: s rule: rtranclp_induct)
  case (step u v)
  then show ?case using stage_step [OF laws data] by blast
qed blast

lemma StartFailoverTest_stage:
  assumes laws: "failover_laws env (elastiCache p) (GenerateReplicationGroupName i) view pend"
    and "two_nodes (view w)" and "rg_AutomaticFailover (view w) \<noteq> None"
  shows "\<exists>w'. StartFailoverTest p ctx i w = (Ok (primary_of (view w)), w') \<and>
    at_stage (GenerateReplicationGroupName i) (primary_of (view w)) view pend DisablingHA w'"
proof -
  let ?g = "GenerateReplicationGroupName i"
  have "mrg_ReplicationGroupId (ha_input False ?g) = Some ?g" by (simp add: ha_input_def)
  then obtain w' where m: "ModifyReplicationGroup (elastiCache p) ctx (ha_input False ?g) w = (Ok (), w')"
      and w': "pend w' = Some (ha_input False ?g)" "view w' = (view w)\<lparr>rg_Status := Some ''modifying''\<rparr>"
    using failover_lawsD(4) [OF laws] by blast
  have "StartFailoverTest p ctx i w = (Ok (primary_of (view w)), w')"
    using describe_view [OF laws, of ctx w] m
    by (simp add: StartFailoverTest_def Let_def handle_eqs(1) andThen_eqs(1) GetPrimaryAndReplica_two_nodes [OF assms(2)])
  moreover have "at_stage ?g (primary_of (view w)) view pend DisablingHA w'"
    using w' assms(2,3) by (auto simp: at_stage_def asked_def two_nodes_def [of "view w"])
  ultimately show ?thesis by blast
qed

section \<open>Properties\<close>

text \<open>
  C1: the failover test refines the abstract machine of its stages. Whether AWS makes progress or a poll
  comes in, at whatever moment and also after the deadline, the test stays in its stage or enters the
  next one; no step is skipped, repeated or taken back.
\<close>

theorem failover_refines_stages:
  assumes "failover_laws env (elastiCache p) (GenerateReplicationGroupName i) view pend"
    and "readable_data old timeOut deadline"
    and "at_stage (GenerateReplicationGroupName i) old view pend s w"
    and "failover_step (evolves view pend) (poll env config p ctx i old timeOut) w w'"
  shows "at_stage (GenerateReplicationGroupName i) old view pend s w' \<or>
    at_stage (GenerateReplicationGroupName i) old view pend (next_stage s) w'"
  using stage_step [OF assms] by auto

text \<open>
  C2: after a failover test was started, in every world that polls and AWS can reach, a poll that reports
  success finds the group available, automatic failover enabled and a primary other than the one
  before the test.
\<close>

theorem failover_success_sound:
  assumes laws: "failover_laws env (elastiCache p) (GenerateReplicationGroupName i) view pend"
    and data: "readable_data (primary_of (view w0)) timeOut deadline"
    and group: "two_nodes (view w0)" "rg_AutomaticFailover (view w0) \<noteq> None"
    and start: "StartFailoverTest p ctx0 i w0 = (Ok old, w1)"
    and steps: "(failover_step (evolves view pend) (poll env config p ctx i old timeOut))\<^sup>*\<^sup>* w1 w"
    and ok: "poll env config p ctx i old timeOut w = (Ok lo, w')" "lo_State lo = Succeeded"
  shows "rg_Status (view w) = Some ''available'' \<and> rg_AutomaticFailover (view w) = Some ''enabled'' \<and>
    primary_of (view w) \<noteq> primary_of (view w0)"
proof -
  let ?g = "GenerateReplicationGroupName i"
  from StartFailoverTest_stage [OF laws group, of ctx0] start
  have old: "old = primary_of (view w0)" and s1: "at_stage ?g old view pend DisablingHA w1" by auto
  obtain s where s: "at_stage ?g old view pend s w"
    using stage_reachable [OF laws data [folded old] steps s1] by blast
  obtain now wt where now: "time_Now env w = (now, wt)" by (cases "time_Now env w")
  have "now \<le> deadline" using poll_timed_out [OF data [folded old] now] ok(1) by (cases "now > deadline") auto
  from poll_at_stage [OF laws data [folded old] s now this, of config ctx] ok
  have "s = Finished" by (auto simp: last_operation_states split: if_splits)
  with s old show ?thesis by (simp add: at_stage_def)
qed

text \<open>
  C9: the failover test ends. If AWS carries out each request before the next poll and the polls come before
  the deadline, the first two polls report progress and the third reports success.
\<close>

theorem failover_completes:
  assumes laws: "failover_laws env (elastiCache p) (GenerateReplicationGroupName i) view pend"
    and data: "readable_data (primary_of (view w0)) timeOut deadline"
    and group: "two_nodes (view w0)" "rg_AutomaticFailover (view w0) \<noteq> None"
    and start: "StartFailoverTest p ctx0 i w0 = (Ok old, w1)"
    and aws: "completes view pend w1 v1" "completes view pend (snd (poll env config p ctx i old timeOut v1)) v2"
      "completes view pend (snd (poll env config p ctx i old timeOut v2)) v3"
    and clock: "fst (time_Now env v1) \<le> deadline" "fst (time_Now env v2) \<le> deadline"
      "fst (time_Now env v3) \<le> deadline"
  shows "\<exists>m1 m2 m3 u1 u2 u3.
    poll env config p ctx i old timeOut v1 = (Ok \<lparr>lo_State = InProgress, lo_Description = m1\<rparr>, u1) \<and>
    poll env config p ctx i old timeOut v2 = (Ok \<lparr>lo_State = InProgress, lo_Description = m2\<rparr>, u2) \<and>
    poll env config p ctx i old timeOut v3 = (Ok \<lparr>lo_State = Succeeded, lo_Description = m3\<rparr>, u3)"
proof -
  let ?g = "GenerateReplicationGroupName i"
  from StartFailoverTest_stage [OF laws group, of ctx0] start
  have old: "old = primary_of (view w0)" and s1: "at_stage ?g old view pend DisablingHA w1" by auto
  have P: "\<exists>msg w'. poll env config p ctx i old timeOut w =
        (Ok \<lparr>lo_State = (if s = Finished then Succeeded else InProgress), lo_Description = msg\<rparr>, w') \<and>
      at_stage ?g old view pend (if awaits_aws s then s else next_stage s) w'"
    if "at_stage ?g old view pend s w" and "fst (time_Now env w) \<le> deadline" for s w
    using poll_at_stage [OF laws data [folded old] that(1) _ that(2)] by (metis prod.collapse)
  have "at_stage ?g old view pend HAOff v1" using at_stage_completes [OF s1 aws(1)] by simp
  from P [OF this clock(1)] obtain m1 u1 where
    p1: "poll env config p ctx i old timeOut v1 = (Ok \<lparr>lo_State = InProgress, lo_Description = m1\<rparr>, u1)"
    and c1: "at_stage ?g old view pend CuttingOver u1" by auto
  have "at_stage ?g old view pend HasCutOver v2" using at_stage_completes [OF c1] aws(2) p1 by simp
  from P [OF this clock(2)] obtain m2 u2 where
    p2: "poll env config p ctx i old timeOut v2 = (Ok \<lparr>lo_State = InProgress, lo_Description = m2\<rparr>, u2)"
    and c2: "at_stage ?g old view pend EnablingHA u2" by auto
  have "at_stage ?g old view pend Finished v3" using at_stage_completes [OF c2] aws(3) p2 by simp
  from P [OF this clock(3)] p1 p2 show ?thesis by auto
qed

end
