(* ===== verification/Failover_Example.thy ===== *)
theory Failover_Example
  imports Failover
begin

text \<open>
  A group with two nodes under an AWS that carries out a pending modification when it is told to. It
  satisfies the laws of the failover test, and a whole test runs on it: the hypotheses of
  the failover properties hold together.
\<close>

record group_world =
  gw_primary :: string
  gw_replica :: string
  gw_failover :: string
  gw_status :: string
  gw_pend :: "ModifyReplicationGroupInput option"

definition gw_node :: "string \<Rightarrow> string \<Rightarrow> NodeGroupMember" where
  "gw_node role n = \<lparr>ngm_CurrentRole = Some role, ngm_CacheClusterId = Some n\<rparr>"

definition gw_view :: "group_world \<Rightarrow> ReplicationGroup" where
  "gw_view w =
     \<lparr>rg_Status = Some (gw_status w), rg_ReplicationGroupId = Some ''g'', rg_MemberClusters = [],
      rg_SnapshotWindow = None, rg_AutomaticFailover = Some (gw_failover w),
      rg_NodeGroups = [\<lparr>ng_NodeGroupMembers = [gw_node ''primary'' (gw_primary w), gw_node ''replica'' (gw_replica w)],
        ng_PrimaryEndpoint = None\<rparr>],
      rg_ConfigurationEndpoint = None\<rparr>"

definition gw_complete :: "group_world \<Rightarrow> group_world" where
  "gw_complete w = (case gw_pend w of
      None \<Rightarrow> w
    | Some inp \<Rightarrow>
        w\<lparr>gw_pend := None, gw_status := ''available'',
          gw_failover := (case mrg_AutomaticFailoverEnabled inp of
             None \<Rightarrow> gw_failover w | Some True \<Rightarrow> ''enabled'' | Some False \<Rightarrow> ''disabled''),
          gw_primary := (case mrg_PrimaryClusterId inp of None \<Rightarrow> gw_primary w | Some n \<Rightarrow> n),
          gw_replica := (case mrg_PrimaryClusterId inp of
             None \<Rightarrow> gw_replica w | Some n \<Rightarrow> if n = gw_primary w then gw_replica w else gw_primary w)\<rparr>)"

definition gw_elastiCache :: "group_world ElastiCache" where
  "gw_elastiCache =
     \<lparr>CreateCacheParameterGroup = \<lambda>ctx i. ret (), CreateReplicationGroup = \<lambda>ctx i. ret (),
      DeleteCacheParameterGroupCall = \<lambda>ctx i. ret (), DeleteReplicationGroup = \<lambda>ctx i. ret (),
      DescribeReplicationGroups = \<lambda>ctx i w. (Ok [gw_view w], w),
      DescribeCacheClusters = \<lambda>ctx i. ret [],
      DescribeCacheParameters = \<lambda>ctx i. ret [],
      ModifyReplicationGroup = \<lambda>ctx inp w. (Ok (), w\<lparr>gw_pend := Some inp, gw_status := ''modifying''\<rparr>),
      ModifyCacheParameterGroup = \<lambda>ctx i. ret (),
      DescribeSnapshotsPages = \<lambda>ctx. ret [],
      ListTagsForResource = \<lambda>ctx arn. ret []\<rparr>"

definition gw_secrets :: "group_world SecretsManager" where
  "gw_secrets = \<lparr>CreateSecret = \<lambda>ctx i. ret (), GetSecretValue = \<lambda>ctx i. ret None, DeleteSecret = \<lambda>ctx i. ret ()\<rparr>"

definition gw_env :: "group_world go_env" where
  "gw_env =
     \<lparr>time_Now = \<lambda>w. (1600000000 * Second, w), local_zone = \<lambda>t. 0, rand_Int = \<lambda>n w. (Ok 0, w), map_order = id,
      sort_Sort = \<lambda>lt. insertionSort lt\<rparr>"

definition gw_provider :: "group_world RedisProvider" where
  "gw_provider = NewProvider gw_elastiCache gw_secrets ''1'' ''aws'' ''r'' ''k'' ''p''"

definition gw_start :: group_world where
  "gw_start = \<lparr>gw_primary = ''n1'', gw_replica = ''n2'', gw_failover = ''enabled'', gw_status = ''available'',
     gw_pend = None\<rparr>"

definition gw_timeout :: string where
  "gw_timeout = Format_RFC3339 0 (1600002700 * Second)"

definition gw_config :: Config where
  "gw_config =
     \<lparr>c_LogLevel = ''INFO'', c_Username = ''u'', c_Password = ''p'', c_Region = ''r'', c_BrokerName = ''b'',
      c_CacheSubnetGroupName = ''s'', c_VpcSecurityGroupIds = [''sg''], c_Catalog = [], c_PlanConfigs = [],
      c_KmsKeyID = ''k'', c_SecretsManagerPath = ''p'', c_Host = ''0.0.0.0'', c_TLS = None\<rparr>"

abbreviation gw_poll :: "(group_world, LastOperation) go" where
  "gw_poll \<equiv> poll gw_env gw_config gw_provider RequestContext ''i1'' ''n1'' gw_timeout"

abbreviation gw_stage :: "stage \<Rightarrow> group_world \<Rightarrow> bool" where
  "gw_stage \<equiv> at_stage (GenerateReplicationGroupName ''i1'') ''n1'' gw_view gw_pend"

lemma gw_nodes [simp]: "primary_of (gw_view w) = gw_primary w" "replica_of (gw_view w) = gw_replica w"
  by (simp_all add: primary_of_def replica_of_def members_def last_of_def gw_view_def gw_node_def StringValue_def)

lemma gw_two_nodes [simp]:
  "two_nodes (gw_view w) \<longleftrightarrow> gw_primary w \<noteq> [] \<and> gw_replica w \<noteq> [] \<and> gw_primary w \<noteq> gw_replica w"
  by (simp add: two_nodes_def) (simp add: members_def gw_view_def gw_node_def described_def)

lemma gw_view_simps [simp]:
  "rg_Status (gw_view w) = Some (gw_status w)" "rg_AutomaticFailover (gw_view w) = Some (gw_failover w)"
  by (simp_all add: gw_view_def)

lemma gw_laws: "failover_laws gw_env (elastiCache gw_provider) g gw_view gw_pend"
  by (simp add: failover_laws_def gw_provider_def NewProvider_def gw_elastiCache_def gw_env_def quiet_def)
     (simp add: gw_view_def)

lemma gw_data: "readable_data ''n1'' gw_timeout (1600002700 * Second)"
proof -
  have "printable_time 0 (1600002700 * Second)" by (simp add: printable_time_def)
  from rfc3339.decode_encode [OF this]
  have "Parse_RFC3339 gw_timeout = Inr (1600002700 * Second)" by (simp add: gw_timeout_def whole_seconds_def)
  moreover have "ascii ''n1''" by code_simp
  ultimately show ?thesis by (simp add: readable_data_def gw_timeout_def valid_utf8_ascii)
qed

lemma gw_carries_out:
  assumes "gw_pend w = Some inp" and "two_nodes (gw_view w)"
    and "mrg_PrimaryClusterId inp = None \<or> mrg_PrimaryClusterId inp = Some (gw_replica w)"
  shows "completes gw_view gw_pend w (gw_complete w)"
proof -
  have "applied inp (gw_view w) (gw_view (gw_complete w))"
    using assms by (cases "mrg_AutomaticFailoverEnabled inp"; cases "mrg_PrimaryClusterId inp")
      (auto simp: applied_def gw_complete_def split: bool.split)
  moreover have "gw_pend (gw_complete w) = None" using assms(1) by (simp add: gw_complete_def)
  ultimately show ?thesis using assms(1) by (auto simp: completes_def)
qed

lemma gw_completes:
  assumes "gw_stage s w" and "awaits_aws s"
  shows "completes gw_view gw_pend w (gw_complete w)"
proof -
  have pend: "gw_pend w = asked (GenerateReplicationGroupName ''i1'') s (gw_view w)" and two: "two_nodes (gw_view w)"
    using assms(1) by (simp_all only: at_stage_def)
  show ?thesis
  proof (cases s)
    case DisablingHA
    with pend show ?thesis
      by (intro gw_carries_out [OF _ two]) (auto simp: asked_def ha_input_def emptyModifyReplicationGroupInput_def)
  next
    case CuttingOver
    with pend show ?thesis
      by (intro gw_carries_out [OF _ two]) (auto simp: asked_def cutover_input_def emptyModifyReplicationGroupInput_def)
  next
    case EnablingHA
    with pend show ?thesis
      by (intro gw_carries_out [OF _ two]) (auto simp: asked_def ha_input_def emptyModifyReplicationGroupInput_def)
  qed (use assms(2) in simp_all)
qed

lemma gw_clock: "time_Now gw_env w = (1600000000 * Second, w)"
  by (simp add: gw_env_def)

lemma gw_before_deadline: "1600000000 * Second \<le> 1600002700 * Second"
  by simp

lemma gw_polls:
  assumes "gw_stage s w"
  shows "\<exists>msg w'. gw_poll w = (Ok \<lparr>lo_State = (if s = Finished then Succeeded else InProgress), lo_Description = msg\<rparr>, w') \<and>
    gw_stage (if awaits_aws s then s else next_stage s) w'"
  by (rule poll_at_stage [OF gw_laws gw_data assms gw_clock gw_before_deadline])

lemma gw_started:
  obtains w1 where "StartFailoverTest gw_provider RequestContext ''i1'' gw_start = (Ok ''n1'', w1)"
    and "gw_stage DisablingHA w1"
proof -
  have "two_nodes (gw_view gw_start)" "rg_AutomaticFailover (gw_view gw_start) \<noteq> None" "gw_primary gw_start = ''n1''"
    by (simp_all add: gw_start_def)
  with StartFailoverTest_stage [OF gw_laws, where i = "''i1''" and w = gw_start and ctx = RequestContext] show thesis using that by auto
qed

text \<open>One round: AWS carries out what is pending, then a poll comes in.\<close>

lemma gw_round:
  assumes "gw_stage s w" and "awaits_aws s" and "next_stage s \<noteq> Finished"
  obtains msg w' where "gw_poll (gw_complete w) = (Ok \<lparr>lo_State = InProgress, lo_Description = msg\<rparr>, w')"
    and "gw_stage (next_stage (next_stage s)) w'" and "completes gw_view gw_pend w (gw_complete w)"
proof -
  note c = gw_completes [OF assms(1,2)]
  have "gw_stage (next_stage s) (gw_complete w)" using at_stage_completes [OF assms(1) c] by simp
  from gw_polls [OF this] assms(2,3) c show thesis using that by (cases s) auto
qed

section \<open>Witnesses\<close>

theorem failover_refines_stages_witness:
  "\<exists>w w'. failover_step (evolves gw_view gw_pend) gw_poll w w' \<and> gw_stage DisablingHA w \<and>
     (gw_stage DisablingHA w' \<or> gw_stage HAOff w')"
proof (rule gw_started)
  fix w1 assume s: "gw_stage DisablingHA w1"
  have step: "failover_step (evolves gw_view gw_pend) gw_poll w1 (gw_complete w1)"
    using gw_completes [OF s] by (intro Aws) (simp add: evolves_def)
  from failover_refines_stages [OF gw_laws gw_data s step] s step show ?thesis by auto
qed

theorem failover_completes_witness:
  "\<exists>v3 m3 u3. gw_poll v3 = (Ok \<lparr>lo_State = Succeeded, lo_Description = m3\<rparr>, u3)"
proof (rule gw_started)
  fix w1 assume start: "StartFailoverTest gw_provider RequestContext ''i1'' gw_start = (Ok ''n1'', w1)"
    and s: "gw_stage DisablingHA w1"
  have old: "primary_of (gw_view gw_start) = ''n1''" and nodes: "two_nodes (gw_view gw_start)"
    and af: "rg_AutomaticFailover (gw_view gw_start) \<noteq> None"
    by (simp_all add: gw_start_def)
  obtain m1 u1 where p1: "gw_poll (gw_complete w1) = (Ok \<lparr>lo_State = InProgress, lo_Description = m1\<rparr>, u1)"
    and s1: "gw_stage CuttingOver u1" and c1: "completes gw_view gw_pend w1 (gw_complete w1)"
    by (rule gw_round [OF s]) simp_all
  obtain m2 u2 where p2: "gw_poll (gw_complete u1) = (Ok \<lparr>lo_State = InProgress, lo_Description = m2\<rparr>, u2)"
    and s2: "gw_stage EnablingHA u2" and c2: "completes gw_view gw_pend u1 (gw_complete u1)"
    by (rule gw_round [OF s1]) simp_all
  have c3: "completes gw_view gw_pend u2 (gw_complete u2)" by (rule gw_completes [OF s2]) simp
  have clock: "fst (time_Now gw_env v) \<le> 1600002700 * Second" for v using gw_before_deadline by (simp add: gw_clock)
  have data: "readable_data (primary_of (gw_view gw_start)) gw_timeout (1600002700 * Second)"
    unfolding old by (rule gw_data)
  have "\<exists>m1 m2 m3 v1 v2 v3.
      gw_poll (gw_complete w1) = (Ok \<lparr>lo_State = InProgress, lo_Description = m1\<rparr>, v1) \<and>
      gw_poll (gw_complete u1) = (Ok \<lparr>lo_State = InProgress, lo_Description = m2\<rparr>, v2) \<and>
      gw_poll (gw_complete u2) = (Ok \<lparr>lo_State = Succeeded, lo_Description = m3\<rparr>, v3)"
    by (rule failover_completes [OF gw_laws data nodes af start c1 _ _ clock clock clock])
       (simp_all only: p1 p2 c2 c3 snd_conv)
  then show ?thesis by blast
qed

theorem failover_success_sound_witness:
  "\<exists>w lo w'. gw_poll w = (Ok lo, w') \<and> lo_State lo = Succeeded \<and> rg_AutomaticFailover (gw_view w) = Some ''enabled'' \<and>
     gw_primary w \<noteq> ''n1''"
proof (rule gw_started)
  fix w1 assume start: "StartFailoverTest gw_provider RequestContext ''i1'' gw_start = (Ok ''n1'', w1)"
    and s: "gw_stage DisablingHA w1"
  have old: "primary_of (gw_view gw_start) = ''n1''" and nodes: "two_nodes (gw_view gw_start)"
    and af: "rg_AutomaticFailover (gw_view gw_start) \<noteq> None"
    by (simp_all add: gw_start_def)
  let ?step = "failover_step (evolves gw_view gw_pend) gw_poll"
  obtain m1 u1 where p1: "gw_poll (gw_complete w1) = (Ok \<lparr>lo_State = InProgress, lo_Description = m1\<rparr>, u1)"
    and s1: "gw_stage CuttingOver u1" and c1: "completes gw_view gw_pend w1 (gw_complete w1)"
    by (rule gw_round [OF s]) simp_all
  obtain m2 u2 where p2: "gw_poll (gw_complete u1) = (Ok \<lparr>lo_State = InProgress, lo_Description = m2\<rparr>, u2)"
    and s2: "gw_stage EnablingHA u2" and c2: "completes gw_view gw_pend u1 (gw_complete u1)"
    by (rule gw_round [OF s1]) simp_all
  have c3: "completes gw_view gw_pend u2 (gw_complete u2)" by (rule gw_completes [OF s2]) simp
  have aws: "?step w (gw_complete w)" if "completes gw_view gw_pend w (gw_complete w)" for w
    using that by (intro Aws) (simp add: evolves_def)
  have poll: "gw_poll v = (r, v') \<Longrightarrow> ?step v v'" for v r v' by (rule Poll)
  have steps: "?step\<^sup>*\<^sup>* w1 (gw_complete u2)"
    using aws [OF c1] poll [OF p1] aws [OF c2] poll [OF p2] aws [OF c3]
    by (meson rtranclp.rtrancl_into_rtrancl rtranclp.rtrancl_refl)
  have "gw_stage Finished (gw_complete u2)" using at_stage_completes [OF s2 c3] by simp
  then obtain m3 u3 where p3: "gw_poll (gw_complete u2) = (Ok \<lparr>lo_State = Succeeded, lo_Description = m3\<rparr>, u3)"
    using gw_polls by fastforce
  have data: "readable_data (primary_of (gw_view gw_start)) gw_timeout (1600002700 * Second)"
    unfolding old by (rule gw_data)
  have ok: "lo_State \<lparr>lo_State = Succeeded, lo_Description = m3\<rparr> = Succeeded" by (rule LastOperation.select_convs)
  from failover_success_sound [OF gw_laws data nodes af start steps p3 ok] old
  have "rg_AutomaticFailover (gw_view (gw_complete u2)) = Some ''enabled''" and "gw_primary (gw_complete u2) \<noteq> ''n1''"
    by (simp_all only: gw_nodes simp_thms not_False_eq_True)
  with p3 ok show ?thesis by blast
qed

end
