(* ===== verification/Composition.thy ===== *)
theory Composition
  imports Main_App Broker_Trace Redis_Properties Failover_Example
begin

text \<open>
  The broker over the Redis provider as one program: the lemmas behind the properties that span both, and
  what these assume of Secrets Manager.
\<close>

definition redis_broker :: "'w go_env \<Rightarrow> Config \<Rightarrow> 'w RedisProvider \<Rightarrow> 'w Broker" where
  "redis_broker env config p = New config (redis_provider env p)"

lemma redis_broker_simps [simp]:
  "b_config (redis_broker env config p) = config"
  "b_provider (redis_broker env config p) = redis_provider env p"
  by (simp_all add: redis_broker_def New_def)

lemma redis_provider_simps [simp]:
  "p_Provision (redis_provider env p) = Provision env p"
  "p_ProgressState (redis_provider env p) = ProgressState p"
  "p_GetInstanceParameters (redis_provider env p) = GetInstanceParameters p"
  "p_GetInstanceTags (redis_provider env p) = GetInstanceTags p"
  "p_GenerateCredentials (redis_provider env p) = GenerateCredentials p"
  "p_FindSnapshots (redis_provider env p) = FindSnapshots p"
  "p_DeleteCacheParameterGroup (redis_provider env p) = DeleteCacheParameterGroup p"
  by (simp_all add: redis_provider_def)

section \<open>Provisioning\<close>

definition provision_request :: "'w go_env \<Rightarrow> ProvisionDetails \<Rightarrow> go_error + UserProvisionParameters" where
  "provision_request env d =
     (if length (pd_RawParameters d) > 0 then parseProvisionParameters env (pd_RawParameters d)
      else Inr emptyProvisionParameters)"

lemma Broker_Provision_OkE:
  assumes "Broker_Provision env b ctx i d async w = (Ok spec, w')"
  obtains pc up snapshot w1 where "async" and "GetPlanConfig (b_config b) (pd_PlanID d) = Inr pc"
    and "provision_request env d = Inr up"
    and "restore_snapshot env b (providerCtx ctx) d (up_RestoreFromLatestSnapshotOf up) w = (Ok snapshot, w1)"
    and "p_Provision (b_provider b) (providerCtx ctx) i (provision_parameters env b i d pc up snapshot) w1 = (Ok (), w')"
    and "ps_IsAsync spec" and "ps_OperationData spec = Operation_String (emptyOperation\<lparr>op_Action := ActionProvisioning\<rparr>)"
proof -
  from assms have a: "async" by (auto simp: Broker_Provision_def split: if_splits)
  with assms obtain pc where pc: "GetPlanConfig (b_config b) (pd_PlanID d) = Inr pc"
    by (auto simp: Broker_Provision_def split: sum.splits)
  from a pc assms obtain up where up: "provision_request env d = Inr up"
    unfolding Broker_Provision_def provision_request_def [symmetric] by (cases "provision_request env d") auto
  from assms a pc up show thesis
    unfolding Broker_Provision_def provision_request_def [symmetric]
    using that [OF a pc up] by (auto elim!: andThen_OkE handle_OkE)
qed

text \<open>A successful \<^verbatim>\<open>Provision\<close> of the provider, call by call.\<close>

lemma Provision_OkE:
  assumes "Provision env p ctx i params w = (Ok (), w')"
  obtains token w1 w2 w3 where
    "createCacheParameterGroup env p ctx (GenerateReplicationGroupName i) params w = (Ok (), w1)"
    and "GenerateAuthToken env w1 = (Ok token, w2)"
    and "CreateAuthTokenSecret p ctx i token w2 = (Ok (), w3)"
    and "CreateReplicationGroup (elastiCache p) ctx
      (replication_group_input env (GenerateReplicationGroupName i) token params) w3 = (Ok (), w')"
  using assms unfolding Provision_def Let_def
  by (elim andThen_OkE handle_OkE) (auto elim!: andThen_OkE simp: log_error_def)

section \<open>Secrets\<close>

text \<open>
  What is assumed of Secrets Manager: a secret that was created has the value it was created with, and a read gives the value
  that is stored. \<open>store\<close> is what is stored in a world.
\<close>

definition secret_laws :: "'w SecretsManager \<Rightarrow> ('w \<Rightarrow> string \<Rightarrow> string option) \<Rightarrow> bool" where
  "secret_laws sm store \<longleftrightarrow>
     (\<forall>ctx i w w'. CreateSecret sm ctx i w = (Ok (), w') \<longrightarrow> store w' (cs_Name i) = Some (cs_SecretString i)) \<and>
     (\<forall>ctx n w w' v. GetSecretValue sm ctx n w = (Ok v, w') \<longrightarrow> v = store w n)"

text \<open>ElastiCache does not touch secrets: creating a group and describing one keep what is stored.\<close>

definition separate_services :: "'w ElastiCache \<Rightarrow> ('w \<Rightarrow> string \<Rightarrow> string option) \<Rightarrow> bool" where
  "separate_services ec store \<longleftrightarrow>
     (\<forall>ctx i. keeps store (CreateReplicationGroup ec ctx i)) \<and> (\<forall>ctx n. keeps store (DescribeReplicationGroups ec ctx n))"

lemma keeps_Ok: "keeps f m \<Longrightarrow> m w = (r, w') \<Longrightarrow> f w' = f w"
  by (metis keeps_def snd_conv)

lemma Provision_stores_token:
  assumes "secret_laws (secretsManager p) store" and "separate_services (elastiCache p) store"
    and "Provision env p ctx i params w = (Ok (), w')"
  shows "\<exists>token w1 w2 w3. GenerateAuthToken env w1 = (Ok token, w2) \<and>
    CreateReplicationGroup (elastiCache p) ctx
      (replication_group_input env (GenerateReplicationGroupName i) token params) w3 = (Ok (), w') \<and>
    store w' (getAuthTokenPath p i) = Some token"
  using assms(3)
proof (rule Provision_OkE)
  fix token w1 w2 w3
  assume g: "GenerateAuthToken env w1 = (Ok token, w2)" and s: "CreateAuthTokenSecret p ctx i token w2 = (Ok (), w3)"
    and c: "CreateReplicationGroup (elastiCache p) ctx
      (replication_group_input env (GenerateReplicationGroupName i) token params) w3 = (Ok (), w')"
  have "store w3 (getAuthTokenPath p i) = Some token"
    using assms(1) s unfolding secret_laws_def CreateAuthTokenSecret_def by (metis CreateSecretInput.select_convs(1,2))
  moreover have "store w' = store w3"
    using assms(2) c unfolding separate_services_def by (blast intro: keeps_Ok)
  ultimately show ?thesis using g c by auto
qed

lemma describe_keeps:
  assumes "separate_services ec store" and "elastiCache p = ec"
  shows "keeps store (describeReplicationGroup p ctx g)"
proof -
  have "keeps store (DescribeReplicationGroups (elastiCache p) ctx g)"
    using assms by (simp add: separate_services_def)
  then show ?thesis
    unfolding describeReplicationGroup_def
    by (rule keeps_andThen) (auto split: list.split intro: keeps_ret keeps_fail)
qed

lemma keeps_host_and_port: "keeps f (host_and_port g rg)"
  unfolding host_and_port_def
  by (cases "rg_ConfigurationEndpoint rg"; cases "rg_NodeGroups rg") (simp_all, (intro keeps_andThen keeps_deref keeps_ret keeps_fail)+)

lemma Bind_reads_token:
  assumes "secret_laws (secretsManager p) store" and "separate_services (elastiCache p) store"
    and "store w (getAuthTokenPath p i) = Some token" and "list_all is_alnum token"
    and "Bind (redis_broker env config p) ctx i bindingID async w = (Ok c, w')"
  shows "cr_Password c = token \<and> cr_Name c = GenerateReplicationGroupName i \<and> cr_TLSEnabled c \<and>
    cr_URI c = ''rediss://:'' @ token @ ''@'' @ url_escape encodeHost (cr_Host c @ '':'' @ show_int (cr_Port c))"
proof -
  have "GenerateCredentials p ctx i bindingID w = (Ok c, w')" using assms(5) by (simp add: Bind_def)
  then show ?thesis
  proof (rule GenerateCredentials_Ok)
    fix rg w1 secret w2
    assume d: "describeReplicationGroup p ctx (GenerateReplicationGroupName i) w = (Ok rg, w1)"
      and h: "host_and_port (GenerateReplicationGroupName i) rg w1 = (Ok (cr_Host c, cr_Port c), w2)"
      and s: "GetSecretValue (secretsManager p) ctx (getAuthTokenPath p i) w2 = (Ok secret, w')"
      and c: "c = \<lparr>cr_Host = cr_Host c, cr_Port = cr_Port c, cr_Name = GenerateReplicationGroupName i,
          cr_Password = StringValue secret,
          cr_URI = url_String ''rediss'' [] (StringValue secret) (cr_Host c @ '':'' @ show_int (cr_Port c)),
          cr_TLSEnabled = True\<rparr>"
    have "store w2 = store w"
      using keeps_Ok [OF describe_keeps [OF assms(2) refl] d] keeps_Ok [OF keeps_host_and_port h, of store] by simp
    then have "secret = Some token" using assms(1,3) s unfolding secret_laws_def by metis
    then have v: "StringValue secret = token" by (simp add: StringValue_def)
    have u: "url_String ''rediss'' [] token h = ''rediss://:'' @ token @ ''@'' @ url_escape encodeHost h" for h
      using url_escape_alnum [OF assms(4)] by (simp add: url_String_def url_escape_def)
    show ?thesis by (subst c, subst c, subst c, subst c) (simp add: v u)
  qed
qed

section \<open>Tags\<close>

lemma tagsValues_permuted:
  assumes "mset ts = mset (map tag_of m)" and "wf_map m"
  shows "map_of (tagsValues ts) = map_of m"
proof -
  have tm: "map (tag_pair \<circ> tag_of) m = m" by (induction m) (auto simp: tag_pair_def tag_of_def StringValue_def)
  have "mset (map tag_pair ts) = mset m"
    using assms(1) tm by (metis list.map_comp mset_map)
  then have "mset (rev (map tag_pair ts)) = mset m" by simp
  moreover from this have "distinct (map fst (rev (map tag_pair ts)))"
    using assms(2) by (metis mset_eq_imp_distinct_iff mset_map)
  ultimately have "map_of (rev (map tag_pair ts)) = map_of m"
    using map_of_inject_set [of "rev (map tag_pair ts)" m] assms(2) mset_eq_setD by blast
  then show ?thesis by (simp add: map_of_tagsValues)
qed

section \<open>Polls for a deprovisioning\<close>

text \<open>
  What is assumed of ElastiCache: a replication group that does not exist is reported as not found, and so is the deletion of a
  parameter group that does not exist; the deletion of one that exists removes it and nothing else, or is refused for another
  reason and changes nothing.
\<close>

definition deletion_laws ::
    "'w RedisProvider \<Rightarrow> ('w \<Rightarrow> string \<Rightarrow> bool) \<Rightarrow> ('w \<Rightarrow> string \<Rightarrow> bool) \<Rightarrow> bool" where
  "deletion_laws p has_group has_parameters \<longleftrightarrow>
     (\<forall>ctx g w. \<not> has_group w g \<longrightarrow>
        (\<exists>msg. DescribeReplicationGroups (elastiCache p) ctx g w = (Err (AwsError ''ReplicationGroupNotFoundFault'' msg), w))) \<and>
     (\<forall>ctx g w. \<not> has_parameters w g \<longrightarrow>
        (\<exists>msg. DeleteCacheParameterGroupCall (elastiCache p) ctx g w = (Err (AwsError ''CacheParameterGroupNotFound'' msg), w))) \<and>
     (\<forall>ctx g w. has_parameters w g \<longrightarrow> (\<exists>w'. has_group w' = has_group w \<and>
        (DeleteCacheParameterGroupCall (elastiCache p) ctx g w = (Ok (), w') \<and> has_parameters w' = (has_parameters w)(g := False) \<or>
         (\<exists>e. DeleteCacheParameterGroupCall (elastiCache p) ctx g w = (Err e, w') \<and>
            \<not> has_aws_code ''CacheParameterGroupNotFound'' e \<and> has_parameters w' = has_parameters w))))"

text \<open>Polls one after the other: their outcomes and the world after them.\<close>

fun polls :: "('w, 'a) go \<Rightarrow> nat \<Rightarrow> 'w \<Rightarrow> 'a outcome list \<times> 'w" where
  "polls m 0 w = ([], w)"
| "polls m (Suc n) w = (case m w of (r, w1) \<Rightarrow> case polls m n w1 of (rs, w2) \<Rightarrow> (r # rs, w2))"

definition deprovision_poll :: "'w go_env \<Rightarrow> Config \<Rightarrow> 'w RedisProvider \<Rightarrow> go_context \<Rightarrow> string \<Rightarrow> ('w, LastOperation) go" where
  "deprovision_poll env config p ctx i = Broker_LastOperation env (redis_broker env config p) ctx i
     \<lparr>po_OperationData = Operation_String (emptyOperation\<lparr>op_Action := ActionDeprovisioning\<rparr>)\<rparr>"

lemma deprovision_poll_gone:
  assumes "deletion_laws p has_group has_parameters" and "\<not> has_group w (GenerateReplicationGroupName i)"
  shows "deprovision_poll env config p ctx i w =
    handle (DeleteCacheParameterGroup p (providerCtx ctx) i)
      (\<lambda>e. fail (ErrorString (''error deleting parameter group '' @ i @ '': '' @ Error e))) (\<lambda>_. fail ErrInstanceDoesNotExist) w"
proof -
  let ?o = "emptyOperation\<lparr>op_Action := ActionDeprovisioning\<rparr>"
  have o: "valid_operation ?o" "op_Action ?o \<noteq> []" "check_timeout env i ?o w = (Ok (), w)"
    by (simp_all add: valid_action_operation) (simp add: emptyOperation_def)
  obtain msg where "DescribeReplicationGroups (elastiCache p) (providerCtx ctx) (GenerateReplicationGroupName i) w =
      (Err (AwsError ''ReplicationGroupNotFoundFault'' msg), w)"
    using assms unfolding deletion_laws_def by blast
  then have "\<exists>m. ProgressState p (providerCtx ctx) i ActionDeprovisioning [] w = (Ok (NonExisting, m, None), w)"
    by (simp add: ProgressState_def Let_def describeReplicationGroup_def handle_eqs(2) andThen_eqs(2)
        ErrCodeReplicationGroupNotFoundFault_def)
  then show ?thesis
    unfolding deprovision_poll_def LastOperation_of_operation [OF o]
    by (auto simp: emptyOperation_def andThen_eqs(1) report_state_def)
qed

lemma deprovision_poll_step:
  assumes laws: "deletion_laws p has_group has_parameters" and gone: "\<not> has_group w (GenerateReplicationGroupName i)"
  obtains w' where "has_group w' = has_group w"
    and "deprovision_poll env config p ctx i w = (Err ErrInstanceDoesNotExist, w')"
    and "has_parameters w' = (has_parameters w)(GenerateReplicationGroupName i := False)"
  | w' e where "has_group w' = has_group w" and "has_parameters w (GenerateReplicationGroupName i)"
    and "deprovision_poll env config p ctx i w = (Err (ErrorString (''error deleting parameter group '' @ i @ '': '' @ Error e)), w')"
    and "has_parameters w' = has_parameters w"
proof (cases "has_parameters w (GenerateReplicationGroupName i)")
  case False
  with laws obtain msg where "DeleteCacheParameterGroupCall (elastiCache p) (providerCtx ctx) (GenerateReplicationGroupName i) w =
      (Err (AwsError ''CacheParameterGroupNotFound'' msg), w)"
    unfolding deletion_laws_def by blast
  then have "deprovision_poll env config p ctx i w = (Err ErrInstanceDoesNotExist, w)"
    by (simp add: deprovision_poll_gone [OF laws gone] DeleteCacheParameterGroup_def handle_def
        ErrCodeCacheParameterGroupNotFoundFault_def)
  moreover have "has_parameters w = (has_parameters w)(GenerateReplicationGroupName i := False)" using False by (simp add: fun_eq_iff)
  ultimately show thesis using that(1) by blast
next
  case True
  let ?call = "DeleteCacheParameterGroupCall (elastiCache p) (providerCtx ctx) (GenerateReplicationGroupName i) w"
  from True laws obtain w' where "has_group w' = has_group w"
    and "?call = (Ok (), w') \<and> has_parameters w' = (has_parameters w)(GenerateReplicationGroupName i := False) \<or>
      (\<exists>e. ?call = (Err e, w') \<and> \<not> has_aws_code ''CacheParameterGroupNotFound'' e \<and> has_parameters w' = has_parameters w)"
    unfolding deletion_laws_def by blast
  with True show thesis
    using that by (auto simp: deprovision_poll_gone [OF laws gone] DeleteCacheParameterGroup_def handle_def
        ErrCodeCacheParameterGroupNotFoundFault_def)
qed

lemma deprovision_polls_end:
  assumes "deletion_laws p has_group has_parameters" and "\<not> has_group w (GenerateReplicationGroupName i)"
    and "polls (deprovision_poll env config p ctx i) n w = (rs, w')"
  shows "\<exists>k \<le> n. (\<forall>r \<in> set (take k rs). \<exists>e. r = Err (ErrorString (''error deleting parameter group '' @ i @ '': '' @ Error e))) \<and>
    drop k rs = replicate (n - k) (Err ErrInstanceDoesNotExist) \<and>
    has_parameters w' = (if k < n then (has_parameters w)(GenerateReplicationGroupName i := False) else has_parameters w) \<and>
    (\<not> has_parameters w (GenerateReplicationGroupName i) \<longrightarrow> k = 0)"
  using assms(2,3)
proof (induction n arbitrary: w rs)
  case (Suc n)
  let ?g = "GenerateReplicationGroupName i"
  from assms(1) Suc.prems(1) show ?case
  proof (rule deprovision_poll_step [where env = env and config = config and ctx = ctx])
    fix w1
    assume w1: "has_group w1 = has_group w" "deprovision_poll env config p ctx i w = (Err ErrInstanceDoesNotExist, w1)"
      "has_parameters w1 = (has_parameters w)(?g := False)"
    from Suc.prems(2) w1(2) obtain rs1 where rs: "rs = Err ErrInstanceDoesNotExist # rs1"
      and rs1: "polls (deprovision_poll env config p ctx i) n w1 = (rs1, w')" by (auto split: prod.splits)
    from Suc.IH [OF _ rs1] Suc.prems(1) w1(1,3)
    have "rs1 = replicate n (Err ErrInstanceDoesNotExist)" "has_parameters w' = (has_parameters w)(?g := False)"
      by (auto simp: fun_upd_idem split: if_splits)
    with rs show ?thesis by (intro exI [of _ 0]) simp
  next
    fix w1 e
    assume w1: "has_group w1 = has_group w" "has_parameters w ?g"
      "deprovision_poll env config p ctx i w = (Err (ErrorString (''error deleting parameter group '' @ i @ '': '' @ Error e)), w1)"
      "has_parameters w1 = has_parameters w"
    from Suc.prems(2) w1(3) obtain rs1 where rs: "rs = Err (ErrorString (''error deleting parameter group '' @ i @ '': '' @ Error e)) # rs1"
      and rs1: "polls (deprovision_poll env config p ctx i) n w1 = (rs1, w')" by (auto split: prod.splits)
    from Suc.IH [OF _ rs1] Suc.prems(1) w1(1) obtain k where
      "k \<le> n" "\<forall>r \<in> set (take k rs1). \<exists>e. r = Err (ErrorString (''error deleting parameter group '' @ i @ '': '' @ Error e))"
      "drop k rs1 = replicate (n - k) (Err ErrInstanceDoesNotExist)"
      "has_parameters w' = (if k < n then (has_parameters w1)(?g := False) else has_parameters w1)" by auto
    with rs w1(2,4) show ?thesis by (intro exI [of _ "Suc k"]) auto
  qed
qed simp

end
