(* ===== verification/Client_Server.thy ===== *)
theory Client_Server
  imports Broker_Api Composition
begin

text \<open>
  The client of the tests and the HTTP side of the broker put together: a network that delivers requests and answers
  unchanged, and lemmas on how the requests of the client are routed, authenticated and read.
\<close>

section \<open>The network\<close>

text \<open>
  The server recovers from a panic of a handler and closes the connection; \<open>broken\<close> is the error that the client
  then gets.
\<close>

definition direct_net ::
    "(Request \<Rightarrow> ('w, Response) go) \<Rightarrow> (Request \<Rightarrow> go_error) \<Rightarrow> (Response \<Rightarrow> string) \<Rightarrow>
     (string \<Rightarrow> go_error + Service list) \<Rightarrow> 'w http_net" where
  "direct_net serve broken fmt decode =
     \<lparr>http_Do = (\<lambda>tls req w. case serve req w of (Panic m, w') \<Rightarrow> (Err (broken req), w') | r \<Rightarrow> r),
      fmt_response = fmt, decode_catalog = decode\<rparr>"

text \<open>Identifiers that stand for themselves as a segment of a path, such as GUIDs.\<close>

definition plain_id :: "string \<Rightarrow> bool" where
  "plain_id i \<longleftrightarrow> i \<noteq> [] \<and> plain i \<and> CHR ''/'' \<notin> set i \<and> i \<notin> {''.'', ''..''}"

text \<open>A client whose address is a plain base URL and whose user name can be sent.\<close>

definition client_at ::
    "string \<Rightarrow> string \<Rightarrow> (string \<times> string option) option \<Rightarrow> string \<Rightarrow> BrokerAPIClient \<Rightarrow> bool" where
  "client_at scheme authority user host c \<longleftrightarrow>
     base_url scheme authority user host \<and> bc_URL c = scheme @ ''://'' @ authority \<and> CHR '':'' \<notin> set (bc_Username c)"

definition client_request ::
    "string \<Rightarrow> (string \<times> string option) option \<Rightarrow> string \<Rightarrow> BrokerAPIClient \<Rightarrow> string \<Rightarrow> string \<Rightarrow> string option \<Rightarrow>
     uriParam list \<Rightarrow> Request" where
  "client_request scheme user host c action path body params =
     finish_request c params
       \<lparr>rq_Method = action, rq_URL = base_URL scheme user (removeEmptyPort host) path, rq_Header = [], rq_Body = body\<rparr>"

lemma doRequest_direct:
  assumes "client_at scheme authority user host c" and "plain (CHR ''/'' # path)"
    and "action \<noteq> []" and "list_all is_token_char action"
  shows "doRequest (direct_net serve broken fmt decode) c action (CHR ''/'' # path) body params w =
    (let req = client_request scheme user host c action (CHR ''/'' # path) body params in
     case serve req w of (Panic m, w') \<Rightarrow> (Err (broken req), w') | r \<Rightarrow> r)"
proof -
  have "url_Parse (bc_URL c @ CHR ''/'' # path) = Inr (base_URL scheme user host (CHR ''/'' # path))"
    using url_Parse_base [OF _ assms(2)] assms(1) by (simp add: client_at_def)
  then have "NewRequest action (bc_URL c @ CHR ''/'' # path) body =
      Inr \<lparr>rq_Method = action, rq_URL = base_URL scheme user (removeEmptyPort host) (CHR ''/'' # path), rq_Header = [],
        rq_Body = body\<rparr>"
    using assms(3,4) by (simp add: NewRequest_def Let_def sum_bind_def base_URL_def)
  then show ?thesis
    by (simp add: doRequest_def direct_net_def client_request_def Let_def)
qed

lemma client_request_simps:
  "rq_Method (client_request scheme user host c action path body params) = action"
  "u_Path (rq_URL (client_request scheme user host c action path body params)) = path"
  "rq_Body (client_request scheme user host c action path body params) = body"
  by (simp_all add: client_request_def finish_request_def Let_def SetBasicAuth_def base_URL_def)

definition param_values :: "uriParam list \<Rightarrow> url_values" where
  "param_values params = foldl Values_Add [] (map (\<lambda>p. (up_key p, up_value p)) params)"

lemma client_FormValue:
  "FormValue (client_request scheme user host c action path body params) k = Values_Get (param_values params) k"
proof -
  have "foldl (\<lambda>q p. Values_Add q (up_key p, up_value p)) m params =
      foldl Values_Add m (map (\<lambda>p. (up_key p, up_value p)) params)" for m
    by (induction params arbitrary: m) simp_all
  moreover have "URL_Query (base_URL scheme user h path) = []" for h
    by (simp add: URL_Query_def base_URL_def emptyURL_def ParseQuery_def query_piece_def)
  ultimately show ?thesis
    by (simp add: FormValue_def URL_Query_def client_request_def finish_request_def Let_def SetBasicAuth_def
        param_values_def Values_Get_query wf_foldl_Values_Add)
qed

lemma client_header:
  "Header_Get (rq_Header (client_request scheme user host c action path body params)) ''X-Broker-API-Version'' = ''2.14''"
proof -
  have "CanonicalHeaderKey ''X-Broker-API-Version'' \<noteq> CanonicalHeaderKey ''Authorization''" by code_simp
  then show ?thesis
    by (simp add: client_request_def finish_request_def Let_def SetBasicAuth_def Header_Get_Set)
qed

lemma client_version:
  "checkBrokerAPIVersionHdr (client_request scheme user host c action path body params) = None"
  "minor_version (client_request scheme user host c action path body params) = 14"
proof -
  have "scan_version ''2.14'' = Some (2, 14)" by code_simp
  then show "checkBrokerAPIVersionHdr (client_request scheme user host c action path body params) = None"
    "minor_version (client_request scheme user host c action path body params) = 14"
    by (simp_all add: checkBrokerAPIVersionHdr_def minor_version_def client_header)
qed

lemma client_authorized:
  assumes "CHR '':'' \<notin> set (bc_Username c)"
  shows "authorized sha256 username password (client_request scheme user host c action path body params) \<longleftrightarrow>
    sha256 username = sha256 (bc_Username c) \<and> sha256 password = sha256 (bc_Password c)"
proof -
  have "BasicAuth (r\<lparr>rq_URL := u\<rparr>) = BasicAuth r" for r u by (simp add: BasicAuth_def)
  then show ?thesis
    using assms by (simp add: authorized_def client_request_def finish_request_def Let_def BasicAuth_Set)
qed

section \<open>Routes of the client\<close>

lemma split_path:
  "split_on (CHR ''/'') (CHR ''/'' # s) = [] # split_on (CHR ''/'') s"
  by simp

lemma plain_id_split: "plain_id i \<Longrightarrow> split_on (CHR ''/'') i = [i]"
  "plain_id i \<Longrightarrow> split_on (CHR ''/'') (i @ CHR ''/'' # s) = i # split_on (CHR ''/'') s"
  by (simp_all add: plain_id_def split_on_none split_on_append)

lemma split_words:
  "split_on (CHR ''/'') (''v2/service_instances/'' @ s) = ''v2'' # ''service_instances'' # split_on (CHR ''/'') s"
  "split_on (CHR ''/'') (''service_bindings/'' @ s) = ''service_bindings'' # split_on (CHR ''/'') s"
  "split_on (CHR ''/'') ''last_operation'' = [''last_operation'']"
  by simp_all

lemma instance_route:
  assumes "plain_id i"
  shows "clean_path (instance_path i)" "clean_path (instance_path i @ ''/last_operation'')"
    "route_table (split_on (CHR ''/'') (instance_path i)) =
      [(''GET'', ApiGetInstance i), (''PUT'', ApiProvision i), (''DELETE'', ApiDeprovision i), (''PATCH'', ApiUpdate i)]"
    "route_table (split_on (CHR ''/'') (instance_path i @ ''/last_operation'')) = [(''GET'', ApiLastOperation i)]"
proof -
  have p: "split_on (CHR ''/'') (instance_path i) = [[], ''v2'', ''service_instances'', i]"
    using plain_id_split(1) [OF assms] split_words(1) [of i] by (simp add: instance_path_def)
  have l: "split_on (CHR ''/'') (instance_path i @ ''/last_operation'') =
      [[], ''v2'', ''service_instances'', i, ''last_operation'']"
    using plain_id_split(2) [OF assms, of "''last_operation''"] split_words(1) [of "i @ ''/last_operation''"]
    by (simp add: instance_path_def)
  show "clean_path (instance_path i)" "clean_path (instance_path i @ ''/last_operation'')"
    using assms by (simp_all add: clean_path_def p l plain_id_def)
  show "route_table (split_on (CHR ''/'') (instance_path i)) =
      [(''GET'', ApiGetInstance i), (''PUT'', ApiProvision i), (''DELETE'', ApiDeprovision i), (''PATCH'', ApiUpdate i)]"
    "route_table (split_on (CHR ''/'') (instance_path i @ ''/last_operation'')) = [(''GET'', ApiLastOperation i)]"
    using assms by (simp_all add: route_table_def p l plain_id_def)
qed

lemma plain_instance_path:
  assumes "plain_id i"
  shows "plain (instance_path i)" "plain (instance_path i @ ''/last_operation'')"
proof -
  have "plain ''/v2/service_instances/''" "plain ''/last_operation''" by code_simp+
  with assms show "plain (instance_path i)" "plain (instance_path i @ ''/last_operation'')"
    unfolding instance_path_def plain_id_def by (simp_all only: list_all_append)
qed

text \<open>A request of a client that knows the credentials reaches the handler of its route.\<close>

lemma client_dispatched:
  assumes "CHR '':'' \<notin> set (bc_Username c)" and "clean_path path"
    and "map_of (route_table (split_on (CHR ''/'') path)) action = Some call"
  shows "api_serve sha256 catalog_json (bc_Username c) (bc_Password c) sb
      (client_request scheme user host c action path body params) =
    dispatch catalog_json sb call (client_request scheme user host c action path body params)"
  using assms by (auto simp: api_serve_def Let_def client_request_simps client_authorized client_version)

section \<open>Answers are read back\<close>

lemma json_print_strings: "json_print h (json_strings kvs) = json_object_with h kvs"
proof -
  have "(\<lambda>(k, v). json_string h k @ '':'' @ json_print h v) \<circ> (\<lambda>(k, v). (k, JString v)) = json_member h"
    by (rule ext) (auto simp: json_member_def)
  then show ?thesis unfolding json_strings_def json_object_with_def json_print.simps map_map by (simp only:)
qed

lemma respond_strings: "respond status (json_strings kvs) = ret \<lparr>rs_StatusCode = status, rs_Body = Inr (json_line False kvs)\<rparr>"
  by (simp add: respond_def json_print_strings json_line_def)

lemma ascii_keys:
  "ascii ''state''" "ascii ''description''" "ascii ''dashboard_url''" "ascii ''operation''" "ascii ''error''"
  by code_simp+

lemma find_field_known: "n \<in> set names \<Longrightarrow> find_field names n = Some n"
  by (simp add: find_field_def)

lemma unmarshal_last_operation_json:
  assumes "valid_utf8 (lo_State lo)" and "valid_utf8 (lo_Description lo)"
  shows "unmarshal_last_operation (json_line False ([(''state'', lo_State lo)] @ omitempty ''description'' (lo_Description lo))) =
    Inr \<lparr>lor_State = lo_State lo, lor_Description = lo_Description lo\<rparr>"
proof -
  let ?kvs = "[(''state'', lo_State lo)] @ omitempty ''description'' (lo_Description lo)"
  have "utf8_members ?kvs"
    using assms ascii_keys [THEN valid_utf8_ascii] by (simp add: utf8_members_def omitempty_def)
  from json_stream.decode_encode [OF this]
  have "parse_json (json_line False ?kvs) = Inr (json_strings ?kvs)" .
  then show ?thesis
    by (simp add: unmarshal_last_operation_def unmarshal_struct_def json_strings_def omitempty_def store_member_def
        find_field_known set_last_operation_field_def decode_string_def)
qed

lemma unmarshal_provisioning_json:
  assumes "valid_utf8 url" and "valid_utf8 op"
  shows "unmarshal_provisioning (json_line False (omitempty ''dashboard_url'' url @ omitempty ''operation'' op)) =
    Inr \<lparr>prr_DashboardURL = url, prr_Operation = op\<rparr>"
proof -
  let ?kvs = "omitempty ''dashboard_url'' url @ omitempty ''operation'' op"
  have "utf8_members ?kvs"
    using assms ascii_keys [THEN valid_utf8_ascii] by (simp add: utf8_members_def omitempty_def)
  from json_stream.decode_encode [OF this]
  have "parse_json (json_line False ?kvs) = Inr (json_strings ?kvs)" .
  then show ?thesis
    by (simp add: unmarshal_provisioning_def unmarshal_struct_def json_strings_def omitempty_def store_member_def
        find_field_known set_provisioning_field_def decode_string_def)
qed

section \<open>Exchanges\<close>

text \<open>A client and the server that knows its credentials.\<close>

abbreviation served ::
    "(string \<Rightarrow> string) \<Rightarrow> (Service list \<Rightarrow> json) \<Rightarrow> (Request \<Rightarrow> go_error) \<Rightarrow> (Response \<Rightarrow> string) \<Rightarrow>
     (string \<Rightarrow> go_error + Service list) \<Rightarrow> BrokerAPIClient \<Rightarrow> 'w ServiceBroker \<Rightarrow> 'w http_net" where
  "served sha256 catalog_json broken fmt decode c sb \<equiv>
     direct_net (api_serve sha256 catalog_json (bc_Username c) (bc_Password c) sb) broken fmt decode"

lemma exchange:
  assumes c: "client_at scheme authority user host c" and path: "plain path" "clean_path path" "path = CHR ''/'' # p"
    and route: "map_of (route_table (split_on (CHR ''/'') path)) action = Some call"
    and action: "action \<noteq> []" "list_all is_token_char action"
    and answer: "dispatch catalog_json sb call (client_request scheme user host c action path body params) w = (r, w')"
      "\<forall>m. r \<noteq> Panic m"
  shows "doRequest (served sha256 catalog_json broken fmt decode c sb) c action path body params w = (r, w')"
proof -
  have "CHR '':'' \<notin> set (bc_Username c)" using c by (simp add: client_at_def)
  with answer(1) have "api_serve sha256 catalog_json (bc_Username c) (bc_Password c) sb
      (client_request scheme user host c action path body params) w = (r, w')"
    by (simp add: client_dispatched [OF _ path(2) route])
  with answer(2) show ?thesis
    unfolding path(3) by (simp add: doRequest_direct [OF c path(1) [unfolded path(3)] action] Let_def split: outcome.split)
qed

lemma methods: "list_all is_token_char ''GET''" "list_all is_token_char ''PUT''" "list_all is_token_char ''DELETE''"
  "list_all is_token_char ''PATCH''"
  by code_simp+

lemma instance_path_Cons: "instance_path i = CHR ''/'' # ''v2/service_instances/'' @ i"
  by (simp add: instance_path_def)

definition poll_params :: "string \<Rightarrow> string \<Rightarrow> string \<Rightarrow> uriParam list" where
  "poll_params serviceID planID operation =
     [\<lparr>up_key = ''service_id'', up_value = serviceID\<rparr>, \<lparr>up_key = ''plan_id'', up_value = planID\<rparr>,
      \<lparr>up_key = ''operation'', up_value = operation\<rparr>]"

lemma poll_exchange:
  assumes c: "client_at scheme authority user host c" and i: "plain_id i"
    and answer: "handle (sb_LastOperation sb RequestContext i \<lparr>po_OperationData = operation\<rparr>) respond_error
        (\<lambda>lo. respond 200 (last_operation_json lo)) w = (r, w')" "\<forall>m. r \<noteq> Panic m"
  shows "DoLastOperationRequest (served sha256 catalog_json broken fmt decode c sb) c i serviceID planID operation w = (r, w')"
proof -
  have op: "Values_Get (param_values (poll_params serviceID planID operation)) ''operation'' = operation"
    by (simp add: Values_Get_def param_values_def Values_Add_def poll_params_def)
  show ?thesis
    unfolding DoLastOperationRequest_def poll_params_def [symmetric]
    by (rule exchange [OF c plain_instance_path(2) [OF i] instance_route(2) [OF i] _ _ _ methods(1) _ answer(2),
          where call = "ApiLastOperation i"])
       (use answer(1) instance_route(4) [OF i] in
         \<open>simp_all add: instance_path_Cons dispatch_def LastOperation_handler_def client_FormValue op\<close>)
qed

definition deprovision_params :: "BrokerAPIClient \<Rightarrow> string \<Rightarrow> string \<Rightarrow> uriParam list" where
  "deprovision_params c serviceID planID =
     [\<lparr>up_key = ''service_id'', up_value = serviceID\<rparr>, \<lparr>up_key = ''plan_id'', up_value = planID\<rparr>, async_param c]"

lemma deprovision_exchange:
  assumes c: "client_at scheme authority user host c" and i: "plain_id i" and ids: "serviceID \<noteq> []" "planID \<noteq> []"
    and answer: "handle (sb_Deprovision sb RequestContext i \<lparr>dd_PlanID = planID, dd_ServiceID = serviceID\<rparr> (bc_AcceptsIncomplete c))
        respond_error
        (\<lambda>spec. if dps_IsAsync spec then respond 202 (operation_json [] (dps_OperationData spec))
           else respond 200 (JObject [])) w = (r, w')" "\<forall>m. r \<noteq> Panic m"
  shows "DoDeprovisionRequest (served sha256 catalog_json broken fmt decode c sb) c i serviceID planID w = (r, w')"
proof -
  have v: "Values_Get (param_values (deprovision_params c serviceID planID)) ''service_id'' = serviceID"
    "Values_Get (param_values (deprovision_params c serviceID planID)) ''plan_id'' = planID"
    "Values_Get (param_values (deprovision_params c serviceID planID)) ''accepts_incomplete'' = ''true'' \<longleftrightarrow> bc_AcceptsIncomplete c"
    by (simp_all add: Values_Get_def param_values_def Values_Add_def deprovision_params_def async_param_def FormatBool_def)
  show ?thesis
    unfolding DoDeprovisionRequest_def deprovision_params_def [symmetric]
    by (rule exchange [OF c plain_instance_path(1) [OF i] instance_route(1) [OF i] _ _ _ methods(3) _ answer(2),
          where call = "ApiDeprovision i"])
       (use answer(1) instance_route(3) [OF i] ids in
         \<open>simp_all add: instance_path_Cons dispatch_def Deprovision_handler_def client_FormValue v\<close>)
qed

section \<open>Descriptions of instances\<close>

text \<open>Every string of a description is valid UTF-8.\<close>

definition utf8_parameters :: "InstanceParameters \<Rightarrow> bool" where
  "utf8_parameters ip \<longleftrightarrow>
     list_all valid_utf8 ([ip_PreferredMaintenanceWindow ip, ip_DailyBackupWindow ip, ip_MaxMemoryPolicy ip] @
       ip_ActiveNodes ip @ ip_PassiveNodes ip @ map cp_ParameterName (ip_CacheParameters ip) @
       map cp_ParameterValue (ip_CacheParameters ip))"

definition utf8_instance :: "GetInstanceDetailsSpec \<Rightarrow> bool" where
  "utf8_instance d \<longleftrightarrow>
     list_all valid_utf8 [gi_ServiceID d, gi_PlanID d, gi_DashboardURL d] \<and> utf8_parameters (gi_Parameters d)"

lemma instance_keys:
  "list_all valid_utf8 ([''service_id'', ''plan_id'', ''dashboard_url'', ''parameters'', ''parameter_name'', ''parameter_value''] @
     instance_parameter_fields)"
proof -
  have "list_all ascii ([''service_id'', ''plan_id'', ''dashboard_url'', ''parameters'', ''parameter_name'', ''parameter_value''] @
     instance_parameter_fields)" by code_simp
  then show ?thesis by (rule list.pred_mono_strong) (rule valid_utf8_ascii)
qed

lemma printable_slice [simp]: "printable (json_slice xs) \<longleftrightarrow> list_all printable xs"
  by (simp add: json_slice_def)

lemma printable_parameters: "utf8_parameters ip \<Longrightarrow> printable (json_instance_parameters ip)"
  using instance_keys
  by (auto simp: utf8_parameters_def json_instance_parameters_def json_cache_parameter_def json_strings_def
      instance_parameter_fields_def list_all_iff)

lemma printable_instance: "utf8_instance d \<Longrightarrow> printable (instance_json d)"
  using instance_keys printable_parameters [of "gi_Parameters d"]
  by (auto simp: utf8_instance_def instance_json_def omitempty_def)

lemma foldr_max_le: "(\<And>x. x \<in> set xs \<Longrightarrow> x \<le> n) \<Longrightarrow> foldr max xs (0 :: nat) \<le> n"
  by (induction xs) auto

lemma depth_slice: "(\<And>x. x \<in> set xs \<Longrightarrow> json_depth x \<le> n) \<Longrightarrow> json_depth (json_slice xs) \<le> Suc n"
  by (auto simp: json_slice_def intro!: foldr_max_le)

lemma depth_instance: "json_depth (instance_json d) \<le> 4"
proof -
  have "json_depth (json_cache_parameter c) \<le> 1" for c by (simp add: json_cache_parameter_def json_strings_def)
  then have "json_depth (json_slice (map json_cache_parameter (ip_CacheParameters ip))) \<le> 2" for ip
    unfolding Suc_1 [symmetric] by (intro depth_slice) auto
  moreover have "json_depth (json_slice (map JString xs)) \<le> 2" for xs
    unfolding Suc_1 [symmetric] by (intro depth_slice) auto
  ultimately have "json_depth (json_instance_parameters ip) \<le> 3" for ip by (simp add: json_instance_parameters_def)
  then show ?thesis by (simp add: instance_json_def omitempty_def)
qed

lemma decode_elements_map: "(\<And>x. x \<in> set xs \<Longrightarrow> f (g x) = Inr x) \<Longrightarrow> decode_elements f (map g xs) = Inr xs"
  by (induction xs) simp_all

lemma decode_slice_map: "(\<And>x. x \<in> set xs \<Longrightarrow> f (g x) = Inr x) \<Longrightarrow> decode_slice fld tname f (json_slice (map g xs)) = Inr xs"
  by (auto simp: decode_slice_def json_slice_def decode_elements_map)

lemma decode_cache_parameter_json: "decode_cache_parameter (json_cache_parameter c) = Inr c"
  by (simp add: decode_cache_parameter_def decode_struct_def json_cache_parameter_def json_strings_def store_member_def
      find_field_known set_cache_parameter_field_def decode_string_def)

lemma decode_instance_parameters_json:
  "decode_struct fld tname instance_parameter_fields set_instance_parameters_field r (json_instance_parameters ip) = Inr ip"
proof -
  have s: "decode_slice f t (\<lambda>x. decode_string f x []) (json_slice (map JString xs)) = Inr xs" for f t xs
    by (rule decode_slice_map) (simp add: decode_string_def)
  have c: "decode_slice f t decode_cache_parameter (json_slice (map json_cache_parameter xs)) = Inr xs" for f t xs
    by (rule decode_slice_map) (rule decode_cache_parameter_json)
  show ?thesis
    by (simp add: decode_struct_def json_instance_parameters_def store_member_def instance_parameter_fields_def
        find_field_known set_instance_parameters_field_def s c) (simp add: decode_string_def decode_bool_def)
qed

lemma unmarshal_instance_json:
  assumes "utf8_instance d"
  shows "unmarshal_instance_details (json_print False (instance_json d) @ [CHR 0x0A]) =
    Inr \<lparr>id_ServiceID = gi_ServiceID d, id_PlanID = gi_PlanID d, id_DashboardURL = gi_DashboardURL d,
      id_Parameters = gi_Parameters d\<rparr>"
proof -
  have "json_depth (instance_json d) \<le> maxNestingDepth" using depth_instance [of d] by (simp add: maxNestingDepth_def)
  from parse_json_print [OF printable_instance [OF assms] this, of False] show ?thesis
    by (simp add: unmarshal_instance_details_def unmarshal_struct_def instance_json_def omitempty_def store_member_def
        find_field_known set_instance_details_field_def decode_string_def decode_instance_parameters_json)
qed

lemma get_instance_exchange:
  assumes c: "client_at scheme authority user host c" and i: "plain_id i"
    and answer: "handle (sb_GetInstance sb RequestContext i) respond_error (\<lambda>d. respond 200 (instance_json d)) w = (r, w')"
      "\<forall>m. r \<noteq> Panic m"
  shows "DoGetInstanceRequest (served sha256 catalog_json broken fmt decode c sb) c i w = (r, w')"
  unfolding DoGetInstanceRequest_def
  by (rule exchange [OF c plain_instance_path(1) [OF i] instance_route(1) [OF i] _ _ _ methods(1) _ answer(2),
        where call = "ApiGetInstance i"])
     (use answer(1) instance_route(3) [OF i] in
       \<open>simp_all add: instance_path_Cons dispatch_def GetInstance_handler_def client_version\<close>)

section \<open>Polls\<close>

lemma LastOperation_state_values:
  assumes "Broker_LastOperation env b ctx i po w = (Ok lo, w')"
  shows "lo_State lo \<in> {InProgress, Succeeded, Failed}"
  using assms
  by (auto simp: Broker_LastOperation_def report_state_def ProviderStatesMapping_def ret_def fail_def
      elim!: andThen_OkE handle_OkE split: option.splits if_splits)

lemma state_utf8: "s \<in> {InProgress, Succeeded, Failed} \<Longrightarrow> valid_utf8 s"
proof -
  have "ascii InProgress" "ascii Succeeded" "ascii Failed" by code_simp+
  then show "s \<in> {InProgress, Succeeded, Failed} \<Longrightarrow> valid_utf8 s" by (auto intro: valid_utf8_ascii)
qed

text \<open>Errors that are not of the type \<^verbatim>\<open>*FailureResponse\<close>.\<close>

definition plain_error :: "go_error \<Rightarrow> bool" where
  "plain_error e = (case e of FailureResponse _ _ _ _ _ \<Rightarrow> False | _ \<Rightarrow> True)"

lemma respond_error_plain:
  "plain_error e \<Longrightarrow> respond_error e = ret \<lparr>rs_StatusCode = 500, rs_Body = Inr (json_line False [(''description'', Error e)])\<rparr>"
  by (cases e) (simp_all add: plain_error_def respond_error_def ErrorResponse_def omitempty_def respond_strings)

lemma respond_error_gone:
  "respond_error ErrInstanceDoesNotExist = ret \<lparr>rs_StatusCode = 410, rs_Body = Inr (json_line False [])\<rparr>"
  using respond_strings [of 410 "[]"]
  by (simp add: respond_error_def ErrInstanceDoesNotExist_def ValidatedStatusCode_def json_strings_def)

text \<open>What the client makes of what the broker's \<^verbatim>\<open>LastOperation\<close> returned.\<close>

definition poll_answer :: "LastOperation outcome \<Rightarrow> string outcome" where
  "poll_answer r = (case r of
      Ok lo \<Rightarrow> Ok (lo_State lo)
    | Err e \<Rightarrow> if plain_error e
        then Err (ErrorString (''Unknown code 500: '' @ json_line False [(''description'', Error e)])) else Ok ''gone''
    | Panic m \<Rightarrow> Panic m)"

definition readable_answer :: "LastOperation outcome \<Rightarrow> bool" where
  "readable_answer r = (case r of
      Ok lo \<Rightarrow> valid_utf8 (lo_Description lo)
    | Err e \<Rightarrow> plain_error e \<or> e = ErrInstanceDoesNotExist
    | Panic m \<Rightarrow> False)"

lemma GetLastOperationState_response:
  assumes "DoLastOperationRequest net c i serviceID planID operation w = (Ok \<lparr>rs_StatusCode = code, rs_Body = Inr body\<rparr>, w')"
  shows "GetLastOperationState net c i serviceID planID operation w =
    (if code = 410 then Ok ''gone''
     else if code = 200 then (case unmarshal_last_operation body of Inl e \<Rightarrow> Err e | Inr r \<Rightarrow> Ok (lor_State r))
     else Err (ErrorString (''Unknown code '' @ show_nat code @ '': '' @ body)), w')"
  using assms by (simp add: GetLastOperationState_def andThen_eqs(1) BodyBytes_def split: sum.split)

lemma LastOperation_served:
  "sb_LastOperation (service_broker env b) = Broker_LastOperation env b"
  by (simp add: service_broker_def)

lemma GetLastOperationState_served:
  assumes c: "client_at scheme authority user host c" and i: "plain_id i"
    and b: "Broker_LastOperation env b RequestContext i \<lparr>po_OperationData = operation\<rparr> w = (r, w')" "readable_answer r"
  shows "GetLastOperationState (served sha256 catalog_json broken fmt decode c (service_broker env b)) c
      i serviceID planID operation w = (poll_answer r, w')"
proof (cases r)
  case (Ok lo)
  let ?body = "json_line False ([(''state'', lo_State lo)] @ omitempty ''description'' (lo_Description lo))"
  from b(1) Ok have "Broker_LastOperation env b RequestContext i \<lparr>po_OperationData = operation\<rparr> w = (Ok lo, w')" by (simp only:)
  then have "valid_utf8 (lo_State lo)" by (rule state_utf8 [OF LastOperation_state_values])
  moreover have "valid_utf8 (lo_Description lo)" using b(2) Ok by (simp add: readable_answer_def)
  ultimately have u: "unmarshal_last_operation ?body = Inr \<lparr>lor_State = lo_State lo, lor_Description = lo_Description lo\<rparr>"
    by (rule unmarshal_last_operation_json)
  have "DoLastOperationRequest (served sha256 catalog_json broken fmt decode c (service_broker env b)) c
      i serviceID planID operation w = (Ok \<lparr>rs_StatusCode = 200, rs_Body = Inr ?body\<rparr>, w')"
    by (rule poll_exchange [OF c i])
       (use b(1) Ok in \<open>simp_all add: LastOperation_served handle_eqs(1) last_operation_json_def respond_strings\<close>)
  from GetLastOperationState_response [OF this] u show ?thesis by (simp add: Ok poll_answer_def)
next
  case (Err e)
  have *: "DoLastOperationRequest (served sha256 catalog_json broken fmt decode c (service_broker env b)) c
      i serviceID planID operation w = (Ok resp, w')" if "respond_error e w' = (Ok resp, w')" for resp
    by (rule poll_exchange [OF c i]) (use b(1) Err that in \<open>simp_all add: LastOperation_served handle_eqs(2)\<close>)
  show ?thesis
  proof (cases "plain_error e")
    case True
    then have "respond_error e w' = (Ok \<lparr>rs_StatusCode = 500, rs_Body = Inr (json_line False [(''description'', Error e)])\<rparr>, w')"
      by (simp add: respond_error_plain)
    moreover have "show_nat 500 = ''500''" by code_simp
    ultimately show ?thesis using GetLastOperationState_response [OF *] True by (simp add: Err poll_answer_def)
  next
    case False
    with b(2) Err have "e = ErrInstanceDoesNotExist" by (simp add: readable_answer_def)
    then have "respond_error e w' = (Ok \<lparr>rs_StatusCode = 410, rs_Body = Inr (json_line False [])\<rparr>, w')"
      by (simp add: respond_error_gone)
    from GetLastOperationState_response [OF * [OF this]] False show ?thesis by (simp add: Err poll_answer_def)
  qed
next
  case (Panic m)
  with b(2) show ?thesis by (simp add: readable_answer_def)
qed

section \<open>Reading the parameters of an instance\<close>

text \<open>
  What the client makes of what the broker's \<^verbatim>\<open>GetInstance\<close> returned. It does not look at the status of the answer: the
  body of an error has none of the members it reads, and the parameters are those of an empty struct.
\<close>

definition parameters_answer :: "GetInstanceDetailsSpec outcome \<Rightarrow> InstanceParameters outcome" where
  "parameters_answer r = (case r of
      Ok d \<Rightarrow> Ok (gi_Parameters d)
    | Err e \<Rightarrow> Ok emptyInstanceParameters
    | Panic m \<Rightarrow> Panic m)"

definition readable_description :: "GetInstanceDetailsSpec outcome \<Rightarrow> bool" where
  "readable_description r = (case r of
      Ok d \<Rightarrow> utf8_instance d
    | Err e \<Rightarrow> plain_error e \<and> valid_utf8 (Error e)
    | Panic m \<Rightarrow> False)"

lemma unmarshal_error_json:
  assumes "valid_utf8 s"
  shows "unmarshal_instance_details (json_line False [(''description'', s)]) =
    Inr \<lparr>id_ServiceID = [], id_PlanID = [], id_DashboardURL = [], id_Parameters = emptyInstanceParameters\<rparr>"
proof -
  have "utf8_members [(''description'', s)]"
    using assms ascii_keys [THEN valid_utf8_ascii] by (simp add: utf8_members_def)
  from json_stream.decode_encode [OF this]
  have "parse_json (json_line False [(''description'', s)]) = Inr (json_strings [(''description'', s)])" .
  moreover have "find_field [''service_id'', ''plan_id'', ''dashboard_url'', ''parameters''] ''description'' = None" by code_simp
  ultimately show ?thesis
    by (simp add: unmarshal_instance_details_def unmarshal_struct_def json_strings_def store_member_def)
qed

lemma GetServiceParams_response:
  assumes "DoGetInstanceRequest net c i w = (Ok \<lparr>rs_StatusCode = code, rs_Body = Inr body\<rparr>, w')"
    and "unmarshal_instance_details body = Inr d"
  shows "GetServiceParams net c i w = (Ok (id_Parameters d), w')"
  using assms by (simp add: GetServiceParams_def andThen_eqs(1))

lemma GetServiceParams_served:
  assumes c: "client_at scheme authority user host c" and i: "plain_id i"
    and b: "GetInstance b RequestContext i w = (r, w')" "readable_description r"
  shows "GetServiceParams (served sha256 catalog_json broken fmt decode c (service_broker env b)) c i w =
    (parameters_answer r, w')"
proof -
  have sb: "sb_GetInstance (service_broker env b) = GetInstance b" by (simp add: service_broker_def)
  let ?net = "served sha256 catalog_json broken fmt decode c (service_broker env b)"
  show ?thesis
  proof (cases r)
    case (Ok d)
    with b(2) have u: "utf8_instance d" by (simp add: readable_description_def)
    have "DoGetInstanceRequest ?net c i w =
        (Ok \<lparr>rs_StatusCode = 200, rs_Body = Inr (json_print False (instance_json d) @ [CHR 0x0A])\<rparr>, w')"
      by (rule get_instance_exchange [OF c i]) (use b(1) Ok in \<open>simp_all add: sb handle_eqs(1) respond_def\<close>)
    from GetServiceParams_response [OF this unmarshal_instance_json [OF u]] show ?thesis
      by (simp add: Ok parameters_answer_def)
  next
    case (Err e)
    with b(2) have e: "plain_error e" "valid_utf8 (Error e)" by (simp_all add: readable_description_def)
    have "DoGetInstanceRequest ?net c i w =
        (Ok \<lparr>rs_StatusCode = 500, rs_Body = Inr (json_line False [(''description'', Error e)])\<rparr>, w')"
      by (rule get_instance_exchange [OF c i])
         (use b(1) Err in \<open>simp_all add: sb handle_eqs respond_error_plain [OF e(1)]\<close>)
    from GetServiceParams_response [OF this unmarshal_error_json [OF e(2)]] show ?thesis
      by (simp add: Err parameters_answer_def)
  next
    case (Panic m)
    with b(2) show ?thesis by (simp add: readable_description_def)
  qed
qed

section \<open>Provisioning\<close>

definition quoted :: "string \<Rightarrow> string" where
  "quoted s = dquote # s @ [dquote]"

definition provision_members :: "BrokerAPIClient \<Rightarrow> string \<Rightarrow> string \<Rightarrow> string \<Rightarrow> json \<Rightarrow> (string \<times> string \<times> json) list" where
  "provision_members c serviceID planID text params =
     [(''service_id'', quoted serviceID, JString serviceID), (''plan_id'', quoted planID, JString planID),
      (''organization_guid'', quoted (bc_DefaultOrganizationID c), JString (bc_DefaultOrganizationID c)),
      (''space_guid'', quoted (bc_DefaultSpaceID c), JString (bc_DefaultSpaceID c)),
      (''parameters'', text, params)]"

definition body_close :: string where
  "body_close = [CHR 0x0A, CHR 0x09, CHR 0x09, CHR ''}'', CHR 0x0A, CHR 0x09]"

lemma provision_keys_plain:
  "json_plain ''service_id''" "json_plain ''plan_id''" "json_plain ''organization_guid''" "json_plain ''space_guid''"
  "json_plain ''parameters''"
  by code_simp+

lemma provision_body_text:
  "provision_body c serviceID planID text =
     [CHR 0x0A, CHR 0x09, CHR 0x09, CHR ''{''] @ members_text (provision_members c serviceID planID text params) body_close"
  unfolding provision_body_def provision_members_def members_text.simps provision_keys_plain [THEN json_string_plain]
  by (simp add: text_line_def string_member_def raw_member_def quoted_def body_close_def numeral_eq_Suc)

lemma provision_members_ok:
  assumes "json_plain serviceID" "json_plain planID" "json_plain (bc_DefaultOrganizationID c)" "json_plain (bc_DefaultSpaceID c)"
    and "value_text 1 text params"
  shows "members_ok 1 (provision_members c serviceID planID text params)"
  using assms provision_keys_plain [THEN ascii_plain, THEN valid_utf8_ascii]
  by (simp add: members_ok_def provision_members_def quoted_def value_text_plain)

definition client_details :: "BrokerAPIClient \<Rightarrow> string \<Rightarrow> string \<Rightarrow> string \<Rightarrow> ProvisionDetails" where
  "client_details c serviceID planID text =
     \<lparr>pd_ServiceID = serviceID, pd_PlanID = planID, pd_OrganizationGUID = bc_DefaultOrganizationID c,
      pd_SpaceGUID = bc_DefaultSpaceID c, pd_RawParameters = text\<rparr>"

lemma decode_client_details:
  assumes "json_plain serviceID" "json_plain planID" "json_plain (bc_DefaultOrganizationID c)" "json_plain (bc_DefaultSpaceID c)"
    and "value_text 1 text params" and "rq_Body req = Some (provision_body c serviceID planID text)"
  shows "decode_provision_details req = Inr (client_details c serviceID planID text)"
proof -
  have close: "skip_ws body_close = CHR ''}'' # [CHR 0x0A, CHR 0x09]" by (simp add: body_close_def skip_ws_def is_ws_def)
  have n: "1 + (1 :: nat) \<le> maxNestingDepth" by (simp add: maxNestingDepth_def)
  note decoded = decode_body_members [OF _ provision_members_ok [OF assms(1-5)] n close
      assms(6) [unfolded provision_body_text [of _ _ _ _ params]]]
  show ?thesis
    unfolding decode_provision_details_def
    by (subst decoded)
       (simp_all add: provision_members_def store_member_def find_field_known set_provision_details_def decode_string_def
         client_details_def)
qed

lemma provision_exchange:
  assumes c: "client_at scheme authority user host c" and i: "plain_id i" and ids: "serviceID \<noteq> []" "planID \<noteq> []"
    and plain: "json_plain serviceID" "json_plain planID" "json_plain (bc_DefaultOrganizationID c)" "json_plain (bc_DefaultSpaceID c)"
    and params: "value_text 1 text params"
    and catalog: "sb_Services sb RequestContext w = (Ok services, w1)" "serviceID \<in> svc_ID ` set services"
      "planID \<in> set (concat (map (\<lambda>s. map plan_ID (svc_Plans s)) services))"
    and answer: "sb_Provision sb RequestContext i (client_details c serviceID planID text) (bc_AcceptsIncomplete c) w1 = (Ok spec, w')"
      "ps_IsAsync spec" "\<not> ps_AlreadyExists spec"
  shows "DoProvisionRequest (served sha256 catalog_json broken fmt decode c sb) c i serviceID planID text w =
    (Ok \<lparr>rs_StatusCode = 202, rs_Body = Inr (json_line False (omitempty ''dashboard_url'' (ps_DashboardURL spec) @
       omitempty ''operation'' (ps_OperationData spec)))\<rparr>, w')"
proof -
  have v: "Values_Get (param_values [async_param c]) ''accepts_incomplete'' = ''true'' \<longleftrightarrow> bc_AcceptsIncomplete c"
    by (simp add: Values_Get_def param_values_def Values_Add_def async_param_def FormatBool_def)
  have d: "decode_provision_details (client_request scheme user host c ''PUT'' (instance_path i)
      (Some (provision_body c serviceID planID text)) [async_param c]) = Inr (client_details c serviceID planID text)"
    by (rule decode_client_details [OF plain params]) (simp add: client_request_simps)
  show ?thesis
    unfolding DoProvisionRequest_def
    by (rule exchange [OF c plain_instance_path(1) [OF i] instance_route(1) [OF i] instance_path_Cons _ _ methods(2),
          where call = "ApiProvision i"])
       (use answer catalog ids instance_route(3) [OF i] in
         \<open>simp_all add: dispatch_def Provision_handler_def d client_details_def
           client_FormValue v handle_eqs(1) andThen_eqs(1) operation_json_def respond_strings\<close>)
qed

end
