(* ===== verification/Http_Properties.thy ===== *)
theory Http_Properties
  imports Client_Server Broker_Properties
begin

text \<open>
  What whole exchanges over HTTP show: who is answered, what the mounted server adds to the broker API, and that a client sees
  what the broker's handlers did.
\<close>

section \<open>Answers that name an operation\<close>

lemma operation_text:
  "valid_utf8 (Operation_String (emptyOperation\<lparr>op_Action := ActionProvisioning\<rparr>))"
  "valid_utf8 (Operation_String (emptyOperation\<lparr>op_Action := ActionDeprovisioning\<rparr>))"
  by (rule valid_utf8_ascii, code_simp)+

lemma Broker_Provision_spec:
  assumes "Broker_Provision env b ctx i d async w = (Ok spec, w')"
  shows "spec = \<lparr>ps_IsAsync = True, ps_AlreadyExists = False, ps_DashboardURL = [],
    ps_OperationData = Operation_String (emptyOperation\<lparr>op_Action := ActionProvisioning\<rparr>)\<rparr>"
  using assms by (auto simp: Broker_Provision_def elim!: andThen_OkE handle_OkE split: if_splits sum.splits)

lemma Broker_Deprovision_spec:
  assumes "Broker_Deprovision b ctx i d async w = (Ok spec, w')"
  shows "spec = \<lparr>dps_IsAsync = True,
    dps_OperationData = Operation_String (emptyOperation\<lparr>op_Action := ActionDeprovisioning\<rparr>)\<rparr>"
  using assms by (auto simp: Broker_Deprovision_def elim!: handle_OkE split: if_splits)

lemma read_operation_json:
  assumes "valid_utf8 url" and "valid_utf8 op"
  shows "read_operation \<lparr>rs_StatusCode = 202,
      rs_Body = Inr (json_line False (omitempty ''dashboard_url'' url @ omitempty ''operation'' op))\<rparr> = ret (202, op, None)"
  by (rule ext) (simp add: read_operation_def BodyBytes_def unmarshal_provisioning_json [OF assms])

lemma poll_of_action:
  assumes "a = ActionProvisioning \<or> a = ActionDeprovisioning"
  shows "poll_operation (Operation_String (emptyOperation\<lparr>op_Action := a\<rparr>)) = Inr (emptyOperation\<lparr>op_Action := a\<rparr>)"
proof -
  have "ascii ActionProvisioning" "ascii ActionDeprovisioning" by code_simp+
  with assms have "valid_operation (emptyOperation\<lparr>op_Action := a\<rparr>)" by (auto intro: valid_action_operation)
  moreover have "a \<noteq> []" using assms by (auto simp: ActionProvisioning_def ActionDeprovisioning_def)
  ultimately show ?thesis by (intro poll_operation_String) simp_all
qed

section \<open>Authentication\<close>

text \<open>
  C16: a request reaches the broker only with credentials that have the digests of the configured ones. Without them it is
  answered with one of the statuses 301, 401, 404 and 405, and nothing has happened.
\<close>

theorem unauthorized_requests_stop:
  "(\<exists>u p. BasicAuth req = Some (u, p) \<and> sha256 u = sha256 username \<and> sha256 p = sha256 password) \<or>
   (\<exists>resp. api_serve sha256 catalog_json username password sb req w = (Ok resp, w) \<and>
      rs_StatusCode resp \<in> {301, 401, 404, 405})"
proof (cases "authorized sha256 username password req")
  case True
  then show ?thesis by (auto simp: authorized_def split: option.splits)
next
  case False
  then show ?thesis by (auto simp: api_serve_def Let_def text_response_def split: option.split)
qed

section \<open>The mounted server\<close>

lemma mux_routes:
  "mux_handler (newHTTPHandler env sha256 catalog_json b config) path =
     (if path = ''/healthcheck'' then Some healthcheck
      else if take 1 path = ''/''
        then Some (api_serve sha256 catalog_json (c_Username config) (c_Password config) (service_broker env b))
      else None)"
  by (simp add: mux_handler_def newHTTPHandler_def pattern_matches_def Let_def)

lemma healthcheck_clean: "clean_path ''/healthcheck''"
  by code_simp

lemma api_serve_unauthorized:
  assumes "\<not> authorized sha256 username password req"
  shows "\<exists>resp. api_serve sha256 catalog_json username password sb req w = (Ok resp, w) \<and>
    rs_StatusCode resp \<in> {301, 401, 404, 405}"
  using assms by (auto simp: api_serve_def Let_def text_response_def split: option.split)

lemma serve_mux_client:
  assumes "clean_path path" and "path = CHR ''/'' # p" and "path \<noteq> ''/healthcheck''"
  shows "serve_mux redirect (newHTTPHandler env sha256 catalog_json b config) (client_request scheme user host c action path body params) =
    api_serve sha256 catalog_json (c_Username config) (c_Password config) (service_broker env b)
      (client_request scheme user host c action path body params)"
  using assms by (auto simp: serve_mux_def Let_def mux_routes client_request_simps)

lemma exchange_mounted:
  assumes "client_at scheme authority user host c" and "bc_Username c = c_Username config" and "bc_Password c = c_Password config"
    and "plain path" and "clean_path path" and "path = CHR ''/'' # p" and "path \<noteq> ''/healthcheck''"
    and "action \<noteq> []" and "list_all is_token_char action"
  shows "doRequest (direct_net (serve_mux redirect (newHTTPHandler env sha256 catalog_json b config)) broken fmt decode) c action path body params w =
    doRequest (served sha256 catalog_json broken fmt decode c (service_broker env b)) c action path body params w"
  using assms(2,3) unfolding assms(6)
  by (simp add: doRequest_direct [OF assms(1) assms(4) [unfolded assms(6)] assms(8,9)] Let_def
      serve_mux_client [OF assms(5-7) [unfolded assms(6)]])

text \<open>
  C33: what the process serves. The health check is answered with status 200 whatever method, credentials and body the request
  has, and changes nothing. Every other request without the configured credentials changes nothing either: it is answered with
  the redirect of an unclean path or one of the statuses 301, 400, 401, 404 and 405. A client with the credentials that polls for an
  operation is answered as by the broker API alone.
\<close>

theorem mounted_server:
  assumes "client_at scheme authority user host c" and "plain_id i"
    and "bc_Username c = c_Username config" and "bc_Password c = c_Password config"
  shows "(u_Path (rq_URL req) = ''/healthcheck'' \<longrightarrow>
      serve_mux redirect (newHTTPHandler env sha256 catalog_json b config) req w = (Ok \<lparr>rs_StatusCode = 200, rs_Body = Inr []\<rparr>, w)) \<and>
    (u_Path (rq_URL req) \<noteq> ''/healthcheck'' \<longrightarrow>
      (\<exists>u p. BasicAuth req = Some (u, p) \<and> sha256 u = sha256 (c_Username config) \<and> sha256 p = sha256 (c_Password config)) \<or>
      (\<exists>resp. serve_mux redirect (newHTTPHandler env sha256 catalog_json b config) req w = (Ok resp, w) \<and>
         (resp = redirect req \<or> rs_StatusCode resp \<in> {301, 400, 401, 404, 405}))) \<and>
    GetLastOperationState (direct_net (serve_mux redirect (newHTTPHandler env sha256 catalog_json b config)) broken fmt decode) c
        i serviceID planID operation w =
      GetLastOperationState (served sha256 catalog_json broken fmt decode c (service_broker env b)) c i serviceID planID operation w"
proof (intro conjI impI)
  assume "u_Path (rq_URL req) = ''/healthcheck''"
  then show "serve_mux redirect (newHTTPHandler env sha256 catalog_json b config) req w = (Ok \<lparr>rs_StatusCode = 200, rs_Body = Inr []\<rparr>, w)"
    by (simp add: serve_mux_def mux_routes healthcheck_clean healthcheck_def text_response_def)
next
  assume other: "u_Path (rq_URL req) \<noteq> ''/healthcheck''"
  show "(\<exists>u p. BasicAuth req = Some (u, p) \<and> sha256 u = sha256 (c_Username config) \<and> sha256 p = sha256 (c_Password config)) \<or>
    (\<exists>resp. serve_mux redirect (newHTTPHandler env sha256 catalog_json b config) req w = (Ok resp, w) \<and>
       (resp = redirect req \<or> rs_StatusCode resp \<in> {301, 400, 401, 404, 405}))"
  proof (cases "authorized sha256 (c_Username config) (c_Password config) req")
    case True
    then show ?thesis by (auto simp: authorized_def split: option.splits)
  next
    case False
    from api_serve_unauthorized [OF this, of catalog_json "service_broker env b" w] other show ?thesis
      by (auto simp: serve_mux_def Let_def mux_routes text_response_def)
  qed
next
  have "doRequest (direct_net (serve_mux redirect (newHTTPHandler env sha256 catalog_json b config)) broken fmt decode) c ''GET''
      (instance_path i @ ''/last_operation'') None params w =
    doRequest (served sha256 catalog_json broken fmt decode c (service_broker env b)) c ''GET''
      (instance_path i @ ''/last_operation'') None params w" for params
    by (rule exchange_mounted [OF assms(1,3,4) plain_instance_path(2) [OF assms(2)] instance_route(2) [OF assms(2)] _ _ _ methods(1)])
       (simp_all add: instance_path_Cons)
  then show "GetLastOperationState (direct_net (serve_mux redirect (newHTTPHandler env sha256 catalog_json b config)) broken fmt decode) c
        i serviceID planID operation w =
      GetLastOperationState (served sha256 catalog_json broken fmt decode c (service_broker env b)) c i serviceID planID operation w"
    by (simp add: GetLastOperationState_def DoLastOperationRequest_def andThen_def handle_def)
qed

section \<open>Life of an instance\<close>

text \<open>
  C8: over a network that delivers what it is given, a poll of the test client shows exactly what the broker's
  \<^verbatim>\<open>LastOperation\<close> made of the operation data: its state, \<^verbatim>\<open>gone\<close> for an instance that does not exist, and an error
  for every other error. The operation data may hold any characters.
\<close>

theorem poll_over_http:
  assumes "client_at scheme authority user host c" and "plain_id i"
    and "Broker_LastOperation env b RequestContext i \<lparr>po_OperationData = operation\<rparr> w = (r, w')"
    and "readable_answer r"
  shows "GetLastOperationState (served sha256 catalog_json broken fmt decode c (service_broker env b)) c
      i serviceID planID operation w = (poll_answer r, w')"
  using assms by (rule GetLastOperationState_served)

definition sample_client :: BrokerAPIClient where
  "sample_client = (NewBrokerAPIClient ''http://127.0.0.1:3000'' ''user'' ''pass'' ''o1'' ''sp1'' [])\<lparr>bc_AcceptsIncomplete := True\<rparr>"

lemma sample_client_at: "client_at ''http'' ''127.0.0.1:3000'' None ''127.0.0.1:3000'' sample_client"
  by code_simp

abbreviation sample_served :: "unit http_net" where
  "sample_served \<equiv> served id (\<lambda>_. JNull) (\<lambda>_. ErrorString ''EOF'') (\<lambda>_. []) (\<lambda>_. Inr []) sample_client
     (service_broker unit_env sample_broker)"

theorem poll_over_http_witness:
  "GetLastOperationState sample_served sample_client ''i1'' ''s1'' ''p1''
     (Operation_String (emptyOperation\<lparr>op_Action := ActionProvisioning\<rparr>)) () = (Ok ''gone'', ())"
proof -
  let ?o = "emptyOperation\<lparr>op_Action := ActionProvisioning\<rparr>"
  have "plain_id ''i1''" by code_simp
  moreover have o: "valid_operation ?o" "op_Action ?o \<noteq> []" "check_timeout unit_env ''i1'' ?o () = (Ok (), ())"
    by (simp_all add: valid_action_operation) (simp_all add: emptyOperation_def)
  have "Broker_LastOperation unit_env sample_broker RequestContext ''i1'' \<lparr>po_OperationData = Operation_String ?o\<rparr> () =
      (Err ErrInstanceDoesNotExist, ())"
    using LastOperation_of_operation [OF o]
    by (simp add: sample_broker_def New_def agreeable_provider_def report_state_def andThen_eqs(1) ActionProvisioning_def
        ActionDeprovisioning_def)
  moreover have "readable_answer (Err ErrInstanceDoesNotExist)" by (simp add: readable_answer_def)
  moreover have "poll_answer (Err ErrInstanceDoesNotExist) = Ok ''gone''"
    by (simp add: poll_answer_def plain_error_def ErrInstanceDoesNotExist_def)
  ultimately show ?thesis using poll_over_http [OF sample_client_at] by metis
qed

text \<open>
  C7: what the test client asks for when it provisions an instance is what the broker's \<^verbatim>\<open>Provision\<close> is called with: the
  IDs, the organisation and space of the client and the text of the parameters, character by character. The operation that the
  client gets back is the broker's and is read by the next poll as a provisioning. The parameters are a compact JSON object of
  strings, and the IDs, which the client writes between quotes without escaping them, are ASCII without characters that JSON
  escapes.
\<close>

theorem provision_over_http:
  assumes "client_at scheme authority user host c" and "plain_id i" and "bc_AcceptsIncomplete c"
    and "serviceID \<in> svc_ID ` set (c_Catalog (b_config b))" and "planID \<in> set (catalog_plans (b_config b))"
    and "serviceID \<noteq> []" and "planID \<noteq> []"
    and "list_all json_plain [serviceID, planID, bc_DefaultOrganizationID c, bc_DefaultSpaceID c]"
    and "utf8_members params"
    and "Broker_Provision env b RequestContext i (client_details c serviceID planID (json_object params)) True w = (Ok spec, w')"
  shows "ProvisionInstance (served sha256 catalog_json broken fmt decode c (service_broker env b)) c
      i serviceID planID (json_object params) w = (Ok (202, ps_OperationData spec, None), w') \<and>
    poll_operation (ps_OperationData spec) = Inr (emptyOperation\<lparr>op_Action := ActionProvisioning\<rparr>)"
proof -
  note spec = Broker_Provision_spec [OF assms(10)]
  have sb: "sb_Services (service_broker env b) RequestContext w = (Ok (c_Catalog (b_config b)), w)"
    "sb_Provision (service_broker env b) = Broker_Provision env b"
    by (simp_all add: service_broker_def Services_def)
  have "DoProvisionRequest (served sha256 catalog_json broken fmt decode c (service_broker env b)) c i serviceID planID
      (json_object params) w =
    (Ok \<lparr>rs_StatusCode = 202, rs_Body = Inr (json_line False (omitempty ''dashboard_url'' (ps_DashboardURL spec) @
       omitempty ''operation'' (ps_OperationData spec)))\<rparr>, w')"
    using assms(3,5,8,10) sb(2) spec
    by (intro provision_exchange [OF assms(1,2,6,7) _ _ _ _ value_text_object [OF assms(9)] sb(1) assms(4)])
       (simp_all add: catalog_plans_def)
  moreover have "valid_utf8 (ps_DashboardURL spec)" "valid_utf8 (ps_OperationData spec)"
    using spec operation_text(1) by (simp_all add: valid_utf8_ascii)
  ultimately show ?thesis
    using spec poll_of_action [of ActionProvisioning]
    by (simp add: ProvisionInstance_def handle_eqs(1) read_operation_json)
qed

theorem provision_over_http_witness:
  "ProvisionInstance sample_served sample_client ''i1'' ''s1'' ''p1'' (json_object []) () =
     (Ok (202, Operation_String (emptyOperation\<lparr>op_Action := ActionProvisioning\<rparr>), None), ())"
proof -
  have a: "plain_id ''i1''" "bc_AcceptsIncomplete sample_client"
    "''s1'' \<in> svc_ID ` set (c_Catalog (b_config sample_broker))" "''p1'' \<in> set (catalog_plans (b_config sample_broker))"
    "list_all json_plain [''s1'', ''p1'', bc_DefaultOrganizationID sample_client, bc_DefaultSpaceID sample_client]"
    by code_simp+
  have p: "parseProvisionParameters unit_env (json_object []) = Inr emptyProvisionParameters" by code_simp
  have "json_object [] \<noteq> []" by (simp add: json_object_with_def)
  with p have B: "Broker_Provision unit_env sample_broker RequestContext ''i1''
      (client_details sample_client ''s1'' ''p1'' (json_object [])) True () =
    (Ok \<lparr>ps_IsAsync = True, ps_AlreadyExists = False, ps_DashboardURL = [],
      ps_OperationData = Operation_String (emptyOperation\<lparr>op_Action := ActionProvisioning\<rparr>)\<rparr>, ())"
    by (simp add: Broker_Provision_def client_details_def sample_broker_def New_def sample_config_def GetPlanConfig_def
        restore_snapshot_def emptyProvisionParameters_def agreeable_provider_def)
  from provision_over_http [OF sample_client_at a(1-4) _ _ a(5) _ B] show ?thesis
    by (simp add: utf8_members_def)
qed

text \<open>
  C17: the life of an instance ends in the view of the client. When \<^verbatim>\<open>DeprovisionInstance\<close> was accepted, a later poll with
  the operation it returned has the broker delete the parameter group as soon as the provider says that the instance is gone,
  and answers \<^verbatim>\<open>gone\<close>.
\<close>

theorem deprovision_over_http:
  assumes "client_at scheme authority user host c" and "plain_id i" and "serviceID \<noteq> []" and "planID \<noteq> []"
    and "Broker_Deprovision b RequestContext i \<lparr>dd_PlanID = planID, dd_ServiceID = serviceID\<rparr> (bc_AcceptsIncomplete c) w =
      (Ok spec, w1)"
    and "p_ProgressState (b_provider b) (providerCtx RequestContext) i ActionDeprovisioning [] w2 = (Ok (NonExisting, msg, None), w3)"
    and "p_DeleteCacheParameterGroup (b_provider b) (providerCtx RequestContext) i w3 = (Ok (), w4)"
  shows "\<exists>operation.
    DeprovisionInstance (served sha256 catalog_json broken fmt decode c (service_broker env b)) c i serviceID planID w =
      (Ok (202, operation, None), w1) \<and>
    GetLastOperationState (served sha256 catalog_json broken fmt decode c (service_broker env b)) c
      i serviceID planID operation w2 = (Ok ''gone'', w4)"
proof (intro exI conjI)
  let ?o = "emptyOperation\<lparr>op_Action := ActionDeprovisioning\<rparr>"
  note spec = Broker_Deprovision_spec [OF assms(5)]
  have sb: "sb_Deprovision (service_broker env b) = Broker_Deprovision b" by (simp add: service_broker_def)
  have "DoDeprovisionRequest (served sha256 catalog_json broken fmt decode c (service_broker env b)) c i serviceID planID w =
      (Ok \<lparr>rs_StatusCode = 202, rs_Body = Inr (json_line False (omitempty ''dashboard_url'' [] @
        omitempty ''operation'' (Operation_String ?o)))\<rparr>, w1)"
    by (rule deprovision_exchange [OF assms(1-4)])
       (use assms(5) spec in \<open>simp_all add: sb handle_eqs(1) operation_json_def respond_strings\<close>)
  then show "DeprovisionInstance (served sha256 catalog_json broken fmt decode c (service_broker env b)) c i serviceID planID w =
      (Ok (202, Operation_String ?o, None), w1)"
    using operation_text(2) by (simp add: DeprovisionInstance_def handle_eqs(1) read_operation_json valid_utf8_ascii)
  have o: "valid_operation ?o" "op_Action ?o \<noteq> []" "check_timeout env i ?o w2 = (Ok (), w2)"
    by (simp_all add: valid_action_operation) (simp_all add: emptyOperation_def)
  have "Broker_LastOperation env b RequestContext i \<lparr>po_OperationData = Operation_String ?o\<rparr> w2 = (Err ErrInstanceDoesNotExist, w4)"
    using LastOperation_of_operation [OF o] assms(6,7)
    by (simp add: emptyOperation_def andThen_eqs(1) report_state_def handle_eqs(1))
  from GetLastOperationState_served [OF assms(1,2) this, of sha256 catalog_json broken fmt decode serviceID planID]
  show "GetLastOperationState (served sha256 catalog_json broken fmt decode c (service_broker env b)) c
      i serviceID planID (Operation_String ?o) w2 = (Ok ''gone'', w4)"
    by (simp add: readable_answer_def poll_answer_def plain_error_def ErrInstanceDoesNotExist_def)
qed

theorem deprovision_over_http_witness:
  "\<exists>operation. DeprovisionInstance sample_served sample_client ''i1'' ''s1'' ''p1'' () = (Ok (202, operation, None), ()) \<and>
     GetLastOperationState sample_served sample_client ''i1'' ''s1'' ''p1'' operation () = (Ok ''gone'', ())"
proof -
  have "plain_id ''i1''" by code_simp
  moreover have "Broker_Deprovision sample_broker RequestContext ''i1'' \<lparr>dd_PlanID = ''p1'', dd_ServiceID = ''s1''\<rparr>
      (bc_AcceptsIncomplete sample_client) () =
    (Ok \<lparr>dps_IsAsync = True, dps_OperationData = Operation_String (emptyOperation\<lparr>op_Action := ActionDeprovisioning\<rparr>)\<rparr>, ())"
    by (simp add: Broker_Deprovision_def sample_client_def sample_broker_def New_def agreeable_provider_def)
  moreover have "p_ProgressState (b_provider sample_broker) (providerCtx RequestContext) ''i1'' ActionDeprovisioning [] () =
      (Ok (NonExisting, ''gone'', None), ())"
    "p_DeleteCacheParameterGroup (b_provider sample_broker) (providerCtx RequestContext) ''i1'' () = (Ok (), ())"
    by (simp_all add: sample_broker_def New_def agreeable_provider_def)
  ultimately show ?thesis
    using deprovision_over_http [OF sample_client_at, of "''i1''" "''s1''" "''p1''" sample_broker "()"] by simp
qed

theorem mounted_server_witness:
  "serve_mux (\<lambda>_. \<lparr>rs_StatusCode = 301, rs_Body = Inr []\<rparr>)
     (newHTTPHandler unit_env id (\<lambda>_. JNull) sample_broker (sample_config\<lparr>c_Password := ''pass''\<rparr>))
     (client_request ''http'' None ''127.0.0.1:3000'' (sample_client\<lparr>bc_Password := ''wrong''\<rparr>) ''GET'' ''/healthcheck'' None []) () =
   (Ok \<lparr>rs_StatusCode = 200, rs_Body = Inr []\<rparr>, ())"
proof -
  let ?req = "client_request ''http'' None ''127.0.0.1:3000'' (sample_client\<lparr>bc_Password := ''wrong''\<rparr>) ''GET'' ''/healthcheck'' None []"
  have path: "u_Path (rq_URL ?req) = ''/healthcheck''" by (simp add: client_request_simps)
  have c: "plain_id ''i1''" "bc_Username sample_client = c_Username (sample_config\<lparr>c_Password := ''pass''\<rparr>)"
    "bc_Password sample_client = c_Password (sample_config\<lparr>c_Password := ''pass''\<rparr>)" by code_simp+
  show ?thesis by (rule mounted_server [OF sample_client_at c, THEN conjunct1, rule_format, OF path])
qed

section \<open>Description of an instance\<close>

text \<open>
  C36: what the broker's \<^verbatim>\<open>GetInstance\<close> found out about an instance arrives at the test client unchanged, through the JSON
  document with its nested slices and structs: every window, policy, node and parameter, in order. An error of the broker does
  not arrive: \<^verbatim>\<open>GetServiceParams\<close> returns the parameters of an empty struct and no error.
\<close>

theorem get_parameters_over_http:
  assumes "client_at scheme authority user host c" and "plain_id i"
    and "GetInstance b RequestContext i w = (r, w')" and "readable_description r"
  shows "GetServiceParams (served sha256 catalog_json broken fmt decode c (service_broker env b)) c i w =
    (parameters_answer r, w')"
  using assms by (rule GetServiceParams_served)

definition sample_parameters :: InstanceParameters where
  "sample_parameters = emptyInstanceParameters\<lparr>ip_MaxMemoryPolicy := ''volatile-lru'',
     ip_CacheParameters := [\<lparr>cp_ParameterName = ''cluster-enabled'', cp_ParameterValue = ''no''\<rparr>],
     ip_ActiveNodes := [''n1''], ip_PassiveNodes := [''n2'', ''n3''], ip_AutoFailover := True\<rparr>"

definition sample_describing_broker :: "unit Broker" where
  "sample_describing_broker = New sample_config
     (agreeable_provider\<lparr>p_GetInstanceParameters := \<lambda>ctx i.
        if i = ''i1'' then ret (sample_parameters, None) else ret (emptyInstanceParameters, Some (ErrorString ''throttled''))\<rparr>)"

theorem get_parameters_over_http_witness:
  "GetServiceParams (served id (\<lambda>_. JNull) (\<lambda>_. ErrorString ''EOF'') (\<lambda>_. []) (\<lambda>_. Inr []) sample_client
     (service_broker unit_env sample_describing_broker)) sample_client ''i1'' () = (Ok sample_parameters, ()) \<and>
   GetServiceParams (served id (\<lambda>_. JNull) (\<lambda>_. ErrorString ''EOF'') (\<lambda>_. []) (\<lambda>_. Inr []) sample_client
     (service_broker unit_env sample_describing_broker)) sample_client ''i2'' () = (Ok emptyInstanceParameters, ())"
proof -
  let ?d = "\<lparr>gi_ServiceID = [], gi_PlanID = [], gi_DashboardURL = [], gi_Parameters = sample_parameters\<rparr>"
  have p: "plain_id ''i1''" "plain_id ''i2''" by code_simp+
  have g: "GetInstance sample_describing_broker RequestContext ''i1'' () = (Ok ?d, ())"
    "GetInstance sample_describing_broker RequestContext ''i2'' () = (Err (ErrorString ''throttled''), ())"
    by (simp_all add: GetInstance_def sample_describing_broker_def New_def agreeable_provider_def mindex_def)
  have "readable_description (Ok ?d)" "readable_description (Err (ErrorString ''throttled''))" by code_simp+
  then show ?thesis
    using get_parameters_over_http [OF sample_client_at p(1) g(1)] get_parameters_over_http [OF sample_client_at p(2) g(2)]
    by (simp add: parameters_answer_def)
qed

end
