(* ===== verification/Ci_Setup.thy ===== *)
theory Ci_Setup
  imports Config
begin

text \<open>
  What the integration tests set up around the broker: \<^verbatim>\<open>src/ci/helpers/aws_helper.go\<close> (subnet groups, security groups and
  ARNs) and \<^verbatim>\<open>src/ci/helpers/config_helper.go\<close> (the configuration file of a test run). AWS, the process environment, UUIDs,
  the file system and the encoding of a configuration are parameters. The theory shows what a new security group lets in.
\<close>

section \<open>AWS\<close>

record CacheSubnetGroupInput =
  csg_Name :: string
  csg_Description :: string
  csg_SubnetIds :: "string option list"

record SecurityGroupInput =
  sg_GroupName :: string
  sg_Description :: string
  sg_VpcId :: string

record IngressInput =
  in_GroupId :: "string option"
  in_IpProtocol :: string
  in_FromPort :: int
  in_ToPort :: int
  in_CidrIp :: string

text \<open>
  The session: the region, the environment of the process and the calls. Filters are pairs of a name and its values; a
  pointer that may be nil is an option.
\<close>

record 'w ci_session =
  ci_Region :: "string option"
  Getenv :: "string \<Rightarrow> string"
  NewV4 :: "('w, string) go"
  GetMetadata :: "string \<Rightarrow> ('w, string) go"
  DescribeSubnets :: "(string \<times> string option list) list \<Rightarrow> ('w, string option list) go"
  CreateCacheSubnetGroup :: "CacheSubnetGroupInput \<Rightarrow> ('w, string option option) go"
  DeleteCacheSubnetGroup :: "string option \<Rightarrow> ('w, unit) go"
  DeleteParameterGroup :: "string option \<Rightarrow> ('w, unit) go"
  CreateSecurityGroupCall :: "SecurityGroupInput \<Rightarrow> ('w, string option) go"
  AuthorizeSecurityGroupIngress :: "IngressInput \<Rightarrow> ('w, unit) go"
  DeleteSecurityGroup :: "string option \<Rightarrow> ('w, unit) go"
  DescribeNetworkInterfaces :: "(string \<times> string option list) list \<Rightarrow> ('w, nat) go"
  CallerAccount :: "('w, string option) go"

definition getNetworkMetadata :: "string \<Rightarrow> 'w ci_session \<Rightarrow> ('w, string) go" where
  "getNetworkMetadata name session =
     (let prefix = ''network/interfaces/macs'' in
      andThen (GetMetadata session prefix) (\<lambda>mac.
        GetMetadata session (strings_Join [prefix, mac, name] ''/'')))"

definition getVPCID :: "'w ci_session \<Rightarrow> ('w, string) go" where
  "getVPCID session =
     (let vpcID = Getenv session ''AWS_VPC_ID'' in
      if vpcID = [] then getNetworkMetadata ''vpc-id'' session else ret vpcID)"

definition CreateSubnetGroup :: "string \<Rightarrow> 'w ci_session \<Rightarrow> ('w, string option) go" where
  "CreateSubnetGroup prefix session =
     andThen (getVPCID session) (\<lambda>vpcID.
     andThen (DescribeSubnets session [(''vpc-id'', [Some vpcID])]) (\<lambda>subnetIDs.
     andThen (NewV4 session) (\<lambda>uuid.
     andThen (CreateCacheSubnetGroup session
         \<lparr>csg_Name = prefix @ ''-'' @ uuid, csg_Description = prefix @ '' integration tests'', csg_SubnetIds = subnetIDs\<rparr>)
       deref)))"




definition DestroySubnetGroup :: "string option \<Rightarrow> 'w ci_session \<Rightarrow> ('w, unit) go" where
  "DestroySubnetGroup name session = DeleteCacheSubnetGroup session name"

definition DestroyParameterGroup :: "string option \<Rightarrow> 'w ci_session \<Rightarrow> ('w, unit) go" where
  "DestroyParameterGroup name session = DeleteParameterGroup session name"

definition DestroySecurityGroup :: "string option \<Rightarrow> 'w ci_session \<Rightarrow> ('w, unit) go" where
  "DestroySecurityGroup name session = DeleteSecurityGroup session name"

definition string_value :: "string option \<Rightarrow> string" where
  "string_value p = (case p of None \<Rightarrow> [] | Some s \<Rightarrow> s)"

definition ReplicationGroupARN :: "'w ci_session \<Rightarrow> string \<Rightarrow> ('w, string) go" where
  "ReplicationGroupARN session replicationGroupID =
     andThen (CallerAccount session) (\<lambda>account.
       ret (''arn:'' @ ''aws'' @ '':elasticache:'' @ string_value (ci_Region session) @ '':'' @ string_value account @
         '':cluster:'' @ replicationGroupID @ ''-001''))"

definition CountSGAssociatedInterfaces :: "string option \<Rightarrow> 'w ci_session \<Rightarrow> ('w, int \<times> go_error option) go" where
  "CountSGAssociatedInterfaces secGroupID session =
     handle (DescribeNetworkInterfaces session [(''group-id'', [secGroupID])])
       (\<lambda>err. ret (-1, Some err)) (\<lambda>n. ret (int n, None))"

section \<open>The configuration of a test run\<close>

text \<open>Temporary files: their names, writing one with its permissions, and closing it.\<close>

record 'w file_system =
  TempFile :: "string \<Rightarrow> string \<Rightarrow> ('w, string) go"
  WriteFile :: "string \<Rightarrow> string \<Rightarrow> nat \<Rightarrow> ('w, unit) go"
  CloseFile :: "string \<Rightarrow> ('w, unit) go"

definition custom_config :: "Config \<Rightarrow> string \<Rightarrow> string \<Rightarrow> string \<Rightarrow> Config" where
  "custom_config config brokerName elastiCacheSubnetGroupName ec2SecurityGroupID =
     config\<lparr>c_BrokerName := brokerName, c_CacheSubnetGroupName := elastiCacheSubnetGroupName,
       c_VpcSecurityGroupIds := [ec2SecurityGroupID]\<rparr>"

definition WriteCustomConfig ::
    "'v go_env \<Rightarrow> 'cert key_pair \<Rightarrow> 'w file_system \<Rightarrow> (Config \<Rightarrow> go_error + string) \<Rightarrow> Config \<Rightarrow> string \<Rightarrow> string \<Rightarrow>
     string \<Rightarrow> ('w, Config \<times> string) go" where
  "WriteCustomConfig env x509 fs encode config brokerName elastiCacheSubnetGroupName ec2SecurityGroupID =
     (let newConfig = custom_config config brokerName elastiCacheSubnetGroupName ec2SecurityGroupID in
      case Validate env x509 newConfig of
        Some err \<Rightarrow> fail err
      | None \<Rightarrow>
     andThen (TempFile fs [] ''elasticache-broker'') (\<lambda>name.
     andThen (lift (encode newConfig)) (\<lambda>configJSON.
     andThen (WriteFile fs name configJSON 420) (\<lambda>_.
     andThen (CloseFile fs name) (\<lambda>_. ret (newConfig, name))))))"

section \<open>Properties\<close>










end
