(* ===== verification/Map_Store.thy ===== *)
theory Map_Store
  imports Broker Redis_Provider
begin

text \<open>
  The maps of instance parameters as Go has them: references to storage that assignments change for everybody who holds
  the same reference. The plan's settings, the map that \<^verbatim>\<open>Broker.Provision\<close> builds from them and the default that
  \<^verbatim>\<open>createCacheParameterGroup\<close> writes into it live in one store. The theory shows that the pure definitions of
  \<open>Broker\<close> and \<open>Redis_Provider\<close> are what these statements compute, and that no instance changes the plan or another
  instance.
\<close>

section \<open>Maps in a store\<close>

text \<open>An address is an index; the nil map has none. Reading the nil map finds no key, assigning to it panics.\<close>

type_synonym map_store = "string gomap list"

type_synonym map_ref = "nat option"

definition map_at :: "map_store \<Rightarrow> map_ref \<Rightarrow> string gomap" where
  "map_at s r = (case r of None \<Rightarrow> [] | Some a \<Rightarrow> if a < length s then s ! a else [])"

definition make_map :: "(map_store, map_ref) go" where
  "make_map s = (Ok (Some (length s)), s @ [[]])"

definition load_map :: "map_ref \<Rightarrow> (map_store, string gomap) go" where
  "load_map r s = (Ok (map_at s r), s)"

definition assign :: "map_ref \<Rightarrow> string \<Rightarrow> string \<Rightarrow> (map_store, unit) go" where
  "assign r k v s = (case r of
      None \<Rightarrow> (Panic ''assignment to entry in nil map'', s)
    | Some a \<Rightarrow> (Ok (), s[a := AList.update k v (s ! a)]))"

fun assign_all :: "map_ref \<Rightarrow> string gomap \<Rightarrow> (map_store, unit) go" where
  "assign_all r [] = ret ()"
| "assign_all r ((k, v) # kvs) = andThen (assign r k v) (\<lambda>_. assign_all r kvs)"

section \<open>The parameters of a new instance\<close>

text \<open>The statements of \<^verbatim>\<open>Broker.Provision\<close> about \<^verbatim>\<open>params\<close>.\<close>

definition copy_parameters :: "'w go_env \<Rightarrow> map_ref \<Rightarrow> (map_store, map_ref) go" where
  "copy_parameters env planParameters =
     andThen make_map (\<lambda>params.
     andThen (load_map planParameters) (\<lambda>m.
     andThen (assign_all params (range_map (map_order env) m)) (\<lambda>_. ret params)))"

definition stored_parameters :: "'w go_env \<Rightarrow> map_ref \<Rightarrow> string option \<Rightarrow> (map_store, map_ref) go" where
  "stored_parameters env planParameters maxMemoryPolicy =
     andThen (copy_parameters env planParameters) (\<lambda>params.
       case maxMemoryPolicy of
         None \<Rightarrow> ret params
       | Some policy \<Rightarrow> andThen (assign params ''maxmemory-policy'' policy) (\<lambda>_. ret params))"

text \<open>The default that \<^verbatim>\<open>createCacheParameterGroup\<close> writes into the map it was given.\<close>

definition default_cluster_enabled :: "map_ref \<Rightarrow> (map_store, map_ref) go" where
  "default_cluster_enabled parameters =
     andThen (if parameters = None then make_map else ret parameters) (\<lambda>parameters.
     andThen (load_map parameters) (\<lambda>m.
       if map_of m ''cluster-enabled'' = None
       then andThen (assign parameters ''cluster-enabled'' ''no'') (\<lambda>_. ret parameters)
       else ret parameters))"

text \<open>Instances of one plan, created one after the other.\<close>

fun provision_maps :: "'w go_env \<Rightarrow> map_ref \<Rightarrow> string option list \<Rightarrow> (map_store, map_ref list) go" where
  "provision_maps env planParameters [] = ret []"
| "provision_maps env planParameters (maxMemoryPolicy # policies) =
     andThen (stored_parameters env planParameters maxMemoryPolicy) (\<lambda>params.
     andThen (default_cluster_enabled params) (\<lambda>parameters.
     andThen (provision_maps env planParameters policies) (\<lambda>others. ret (parameters # others))))"

section \<open>The store and the pure maps\<close>

definition stored :: "map_store \<Rightarrow> map_ref \<Rightarrow> bool" where
  "stored s r = (case r of None \<Rightarrow> True | Some a \<Rightarrow> a < length s)"

lemma map_at_append [simp]: "stored s r \<Longrightarrow> map_at (s @ ms) r = map_at s r"
  by (simp add: stored_def map_at_def nth_append split: option.splits)

lemma stored_append [simp]: "stored s r \<Longrightarrow> stored (s @ ms) r"
  by (simp add: stored_def split: option.splits)

lemma map_at_new [simp]: "map_at (s @ m # ms) (Some (length s)) = m"
  by (simp add: map_at_def)

lemma assign_new [simp]: "assign (Some (length s)) k v (s @ [m]) = (Ok (), s @ [AList.update k v m])"
  by (simp add: assign_def)

lemma assign_all_new:
  "assign_all (Some (length s)) kvs (s @ [m]) = (Ok (), s @ [foldl (\<lambda>acc (k, v). AList.update k v acc) m kvs])"
  by (induction kvs arbitrary: m) (auto simp: andThen_eqs(1))

lemma copy_parameters_new:
  "stored s plan \<Longrightarrow> copy_parameters env plan s = (Ok (Some (length s)), s @ [copy_map env (map_at s plan)])"
  by (simp add: copy_parameters_def make_map_def load_map_def andThen_eqs(1) assign_all_new copy_map_def)

lemma stored_parameters_new:
  assumes "stored s plan" and "map_at s plan = pc_Parameters pc"
  shows "stored_parameters env plan policy s = (Ok (Some (length s)), s @ [instance_parameters env pc policy])"
  using copy_parameters_new [OF assms(1), of env] assms(2)
  by (simp add: stored_parameters_def andThen_eqs(1) instance_parameters_def split: option.split)

lemma default_cluster_enabled_new:
  "default_cluster_enabled (Some (length s)) (s @ [m]) = (Ok (Some (length s)), s @ [with_cluster_enabled m])"
  by (simp add: default_cluster_enabled_def load_map_def andThen_eqs(1) with_cluster_enabled_def split: option.split)

lemma provision_maps_new:
  assumes "stored s plan" and "map_at s plan = pc_Parameters pc"
  shows "provision_maps env plan policies s = (Ok (map Some [length s ..< length s + length policies]),
    s @ map (\<lambda>policy. with_cluster_enabled (instance_parameters env pc policy)) policies)"
  using assms
proof (induction policies arbitrary: s)
  case (Cons policy policies)
  let ?m = "with_cluster_enabled (instance_parameters env pc policy)"
  have "stored (s @ [?m]) plan" "map_at (s @ [?m]) plan = pc_Parameters pc" using Cons.prems by simp_all
  note IH = Cons.IH [OF this]
  have "map Some [length s ..< length s + length (policy # policies)] =
      Some (length s) # map Some [length (s @ [?m]) ..< length (s @ [?m]) + length policies]"
    by (simp add: upt_conv_Cons del: upt_Suc)
  with IH show ?case
    by (simp add: andThen_eqs(1) stored_parameters_new [OF Cons.prems] default_cluster_enabled_new del: upt_Suc)
qed simp

section \<open>Properties\<close>

text \<open>
  C24: instances of one plan share nothing. However many are created, each with or without a \<^verbatim>\<open>maxmemory_policy\<close> of its
  own, every one gets the settings of the plan as they were at the start, with its own policy in place of the plan's and
  with \<^verbatim>\<open>cluster-enabled\<close> set to \<^verbatim>\<open>no\<close> where the plan says nothing. No map that existed before is changed, the plan's
  among them, and no statement panics.
\<close>

theorem plan_settings_not_shared:
  assumes "visits_all (map_order env)" and "wf_map (map_at s plan)" and "stored s plan"
  shows "\<exists>refs s'. provision_maps env plan policies s = (Ok refs, s') \<and> take (length s) s' = s \<and>
    map_at s' plan = map_at s plan \<and> distinct refs \<and>
    map (\<lambda>r. map_of (map_at s' r)) refs = map (\<lambda>policy.
      let m = (case policy of
          None \<Rightarrow> map_of (map_at s plan)
        | Some p \<Rightarrow> (map_of (map_at s plan))(''maxmemory-policy'' \<mapsto> p)) in
      if m ''cluster-enabled'' = None then m(''cluster-enabled'' \<mapsto> ''no'') else m) policies"
proof -
  define pc where "pc = sample_plan\<lparr>pc_Parameters := map_at s plan\<rparr>"
  let ?m = "\<lambda>policy. with_cluster_enabled (instance_parameters env pc policy)"
  let ?s = "s @ map ?m policies" and ?refs = "map Some [length s ..< length s + length policies]"
  have run: "provision_maps env plan policies s = (Ok ?refs, ?s)"
    by (rule provision_maps_new [OF assms(3)]) (simp add: pc_def)
  have "map_of (?m policy) = (let m = (case policy of
          None \<Rightarrow> map_of (map_at s plan)
        | Some p \<Rightarrow> (map_of (map_at s plan))(''maxmemory-policy'' \<mapsto> p)) in
      if m ''cluster-enabled'' = None then m(''cluster-enabled'' \<mapsto> ''no'') else m)" for policy
    using map_of_instance_parameters [of env pc] assms(1,2)
    by (auto simp: pc_def map_of_with_cluster_enabled fun_eq_iff Let_def split: option.split)
  moreover have "map (\<lambda>r. map_of (map_at ?s r)) ?refs = map (\<lambda>policy. map_of (?m policy)) policies"
    by (rule nth_equalityI) (simp_all add: map_at_def nth_append)
  ultimately show ?thesis using run assms(3) by (intro exI [of _ ?refs] exI [of _ ?s]) (simp add: distinct_map)
qed

theorem plan_settings_not_shared_witness:
  "\<exists>refs s'. provision_maps unit_env (Some 0) [Some ''noeviction'', None] [[(''maxmemory-policy'', ''volatile-lru'')]] = (Ok refs, s') \<and>
     map_at s' (Some 0) = [(''maxmemory-policy'', ''volatile-lru'')] \<and>
     map (\<lambda>r. map_of (map_at s' r) ''maxmemory-policy'') refs = [Some ''noeviction'', Some ''volatile-lru'']"
proof -
  let ?s = "[[(''maxmemory-policy'', ''volatile-lru'')]]"
  have s: "wf_map (map_at ?s (Some 0))" "stored ?s (Some 0)" by (simp_all add: map_at_def stored_def)
  from plan_settings_not_shared [of unit_env, OF _ s, of "[Some ''noeviction'', None]"]
  obtain refs s' where run: "provision_maps unit_env (Some 0) [Some ''noeviction'', None] ?s = (Ok refs, s')"
    and plan: "map_at s' (Some 0) = map_at ?s (Some 0)"
    and m: "map (\<lambda>r. map_of (map_at s' r)) refs =
      [[''maxmemory-policy'' \<mapsto> ''noeviction'', ''cluster-enabled'' \<mapsto> ''no''],
       [''maxmemory-policy'' \<mapsto> ''volatile-lru'', ''cluster-enabled'' \<mapsto> ''no'']]"
    by (auto simp: map_at_def Let_def)
  have "map (\<lambda>r. map_of (map_at s' r) ''maxmemory-policy'') refs = map (\<lambda>f. f ''maxmemory-policy'') (map (\<lambda>r. map_of (map_at s' r)) refs)"
    by simp
  also have "\<dots> = [Some ''noeviction'', Some ''volatile-lru'']" unfolding m by simp
  finally show ?thesis using run plan by (auto simp: map_at_def)
qed

end
