(* ===== verification/Spec2Isabelle.thy ===== *)
theory Spec2Isabelle
  imports Composition Http_Properties Ci_Setup Map_Store
begin

text \<open>
  The ElastiCache broker of \<^verbatim>\<open>src/\<close>: a Go service that speaks the Open Service Broker API and manages Redis
  replication groups of AWS ElastiCache for the tenants of a Cloud Foundry. This development models the program's own
  packages as HOL functions and proves what makes them correct.

  \<^bold>\<open>The program's parts and how they interact.\<close>
  \<^item> \<^verbatim>\<open>src/main.go\<close> reads the configuration, builds one AWS session, one \<^verbatim>\<open>redis.RedisProvider\<close> and one \<^verbatim>\<open>broker.Broker\<close>,
    and serves \<^verbatim>\<open>brokerapi\<close> behind basic authentication, with a health check beside it, over TCP or TLS.
  \<^item> \<^verbatim>\<open>src/broker/\<close> is the API half: \<^verbatim>\<open>config.go\<close> and \<^verbatim>\<open>tls_config.go\<close> (configuration and its validation),
    \<^verbatim>\<open>parameters.go\<close> (the tenant's JSON parameters), \<^verbatim>\<open>broker.go\<close> (the handlers Provision, Update, Deprovision, Bind,
    Unbind, LastOperation, GetInstance and the \<^verbatim>\<open>Operation\<close> they hand to the platform and get back at every poll).
  \<^item> \<^verbatim>\<open>src/providers/\<close> holds the interfaces \<^verbatim>\<open>Provider\<close>, \<^verbatim>\<open>ElastiCache\<close> and \<^verbatim>\<open>SecretsManager\<close>; \<^verbatim>\<open>src/providers/redis/\<close>
    implements \<^verbatim>\<open>Provider\<close> on the two others. The broker keeps no state of its own: everything lives in AWS and in the
    operation data, so the handlers are state transformers on an arbitrary world \<^typ>\<open>'w\<close> that AWS acts on.
  \<^item> \<^verbatim>\<open>src/cache-cluster-name-generator/\<close> prints the group name of an instance; \<^verbatim>\<open>src/ci/helpers/\<close> is the client that the
    continuous-integration tests drive the broker with.

  \<^bold>\<open>The theories.\<close>
  \<^item> \<open>Go_Prelude\<close>: Go errors (\<open>go_error\<close>, with the text of \<^verbatim>\<open>Error()\<close>), results (\<open>outcome\<close>: a value, an error or a
    panic), the monad \<open>go\<close> of state-passing calls, the predicates \<open>keeps\<close>, \<open>no_panic\<close> and \<open>no_error\<close> with their rules,
    Go maps in the order in which a \<^verbatim>\<open>range\<close> may visit them, and the locale \<open>codec\<close>.
  \<^item> \<open>Go_Strings\<close>, \<open>Go_Json\<close>, \<open>Go_Time\<close>, \<open>Go_Http\<close>: the parts of \<^verbatim>\<open>strings\<close>, \<^verbatim>\<open>strconv\<close>, \<^verbatim>\<open>unicode/utf8\<close>,
    \<^verbatim>\<open>encoding/json\<close>, \<^verbatim>\<open>time\<close>, \<^verbatim>\<open>net/url\<close>, \<^verbatim>\<open>encoding/base64\<close> and \<^verbatim>\<open>net/http\<close> that the sources use, executable, with the round
    trips of JSON texts, RFC 3339 times, escaped URL components and query strings as interpretations of \<open>codec\<close>.
  \<^item> \<open>Providers\<close>: \<^verbatim>\<open>providers/provider.go\<close>, \<^verbatim>\<open>elasticache.go\<close>, \<^verbatim>\<open>secretsmanager.go\<close> as records of functions; the locales
    \<open>provider_contract\<close> (what the broker relies on) and \<open>sorter\<close> (what it relies on of \<^verbatim>\<open>sort.Sort\<close>).
  \<^item> \<open>Naming\<close>: group names (FNV-1a and base 32 on 64-bit words) and authentication tokens
    (\<^verbatim>\<open>crypto_rand_utils.go\<close>). \<open>Redis_Provider\<close>: every function of \<^verbatim>\<open>redis.go\<close>.
    \<open>Redis_Properties\<close>: what single operations return. \<open>Aws_Trace\<close>: the same operations on AWS services that
    record each call with its answer, and which calls each operation makes, in which order and after which answers. \<open>Simulated_Aws\<close>: an executable AWS for
    the witnesses.
  \<^item> \<open>Config\<close>, \<open>Parameters\<close>, \<open>Broker\<close>: the three parts of \<^verbatim>\<open>src/broker/\<close>. \<open>Broker_Properties\<close>: the handlers over any
    provider that keeps the contract; \<open>Broker_Trace\<close>: the AWS calls of whole requests. \<open>Map_Store\<close>: the parameter maps of
    \<^verbatim>\<open>Provision\<close> once more, as references into a store, since the provider writes into the map the broker gives it.
  \<^item> \<open>Failover\<close>: the failover test, which Update starts and the polls of LastOperation drive to its end, as an abstract
    machine of six stages, an inductive step relation (AWS moves, the platform polls), and its refinement by
    \<open>ProgressState\<close> and \<open>Broker_LastOperation\<close>. \<open>Failover_Example\<close>: a world in which the laws hold.
  \<^item> \<open>Main_App\<close>: \<^verbatim>\<open>main.go\<close> and the name generator. \<open>Composition\<close> and this theory: the broker on the Redis provider.
  \<^item> \<open>Broker_Api\<close>: the HTTP side of the broker, the vendored \<^verbatim>\<open>brokerapi\<close> (router, authentication, version check, handlers) over
    the interface \<^verbatim>\<open>ServiceBroker\<close>. \<open>Broker_Client\<close>: the client of \<^verbatim>\<open>ci/helpers/brokerapi_helper.go\<close>. \<open>Client_Server\<close> and
    \<open>Http_Properties\<close>: the two connected. \<open>Ci_Setup\<close>: \<^verbatim>\<open>ci/helpers/aws_helper.go\<close> and \<^verbatim>\<open>config_helper.go\<close>.

  \<^bold>\<open>How code corresponds to definitions.\<close> A definition has the name of its Go function (the handlers of \<^verbatim>\<open>Broker\<close> whose
  names the provider has too are prefixed \<open>Broker_\<close>). Structs are records, pointers to optional fields are options,
  and dereferencing \<^verbatim>\<open>nil\<close> is \<open>Panic\<close>. \<^verbatim>\<open>int\<close> values are integers where the source cannot overflow, and 64-bit words in
  the hash. AWS, the clock, the random reader, \<^verbatim>\<open>sort.Sort\<close>, X.509 key pairs and the iteration order of maps are
  parameters (\<open>ElastiCache\<close>, \<open>SecretsManager\<close>, \<open>go_env\<close>); the theorems that rely on them name what they rely on.

  \<^bold>\<open>What the lemmas show.\<close>
  \<^item> Names and tokens: a group name is a legal ElastiCache identifier of bounded length for every instance id,
    equal names mean equal hashes, and tokens have the promised length and alphabet when the random reader answers.
  \<^item> Calls to AWS: the order of calls, that each is made only after the one before it was accepted, the cleanup on failure,
    and that a request touches nothing but the resources of its own instance.
  \<^item> Maps: the pure maps of the model are what the assignments of the code compute, and instances of a plan share nothing.
  \<^item> Operations of the provider on every branch, errors and panics included.
  \<^item> The failover test: refinement of the stages, soundness of the reported success, completion.
  \<^item> Configuration and parameters, the handlers, the program's wiring: what is accepted and what is rejected, round trips, deadlines, routes.
  \<^item> Composition: restored snapshots belong to the tenant, bound credentials carry the stored token,
    parameters and states read back after a provision, and a deprovisioned instance can be polled again and again.
  \<^item> HTTP: the health check is open and requests without the configured credentials change nothing, and the client sees what the
    handlers did when it provisions, polls, deprovisions and fetches an instance, over a network that delivers what it is given.
  \<^item> Set-up of tests: a security group lets in the port of Redis alone, from the local subnet alone. Nothing is shown of the
    configuration file of a test run, since the JSON of a configuration is a parameter.

  \<^bold>\<open>Bounds and fuel.\<close> Only the JSON parser \<open>parse_value\<close> takes fuel: twice the length of its text plus two, and
  \<open>parse_value_total\<close> shows that this never runs out. Every other loop of the sources is a \<^verbatim>\<open>range\<close> over a slice or a map or
  counts to a bound, and recurses on it. A failover test is a run of polls of unknown length: \<open>failover_step\<close> leaves the
  number open, and \<open>failover_completes\<close> shows that three polls are enough when AWS carries out each request in between.

  \<^bold>\<open>Not modelled.\<close> Log lines (\<^verbatim>\<open>lager\<close>), that of an unknown state in \<^verbatim>\<open>LastOperation\<close> among them, but for the log level and the
  cleanup that surrounds them; the redirect that \<^verbatim>\<open>http.ServeMux\<close> answers to an unclean path (a parameter); the vendored code other than
  \<^verbatim>\<open>brokerapi\<close>; the JSON of a configuration file and of a catalog (parameters of \<open>LoadConfig\<close>, \<open>WriteCustomConfig\<close>, \<open>GetCatalog\<close> and
  \<open>api_serve\<close>); certificates and the SHA-256 of credentials (parameters); volume mounts of bindings, which this broker never
  returns; \<^verbatim>\<open>src/providers/mocks\<close> (generated), tests, \<^verbatim>\<open>src/tools.go\<close> (imports only). Deadlines of contexts are carried to the
  AWS call as a value, and AWS decides what an expired one does.
\<close>

section \<open>Properties that span the broker and the provider\<close>

text \<open>
  C3: tenants are isolated. An instance that is provisioned from the latest snapshot of another one is restored from
  a snapshot that is tagged with the named source instance and with the organisation, space and plan of the
  request, and no snapshot of the source instance is newer.
\<close>

theorem restore_is_isolated:
  assumes "sorts_snapshots env"
    and "Broker_Provision env (redis_broker env config p) ctx i d async w = (Ok spec, w')"
    and "provision_request env d = Inr up" and "up_RestoreFromLatestSnapshotOf up = Some source"
  shows "\<exists>pc ss s w1. FindSnapshots p (providerCtx ctx) source w = (Ok ss, w1) \<and> s \<in> set ss \<and>
    map_of (si_Tags s) ''instance-id'' = Some source \<and>
    map_of (si_Tags s) ''space-id'' = Some (pd_SpaceGUID d) \<and>
    map_of (si_Tags s) ''organization-id'' = Some (pd_OrganizationGUID d) \<and>
    map_of (si_Tags s) ''plan-id'' = Some (pd_PlanID d) \<and>
    (\<forall>s' \<in> set ss. si_CreateTime s' \<le> si_CreateTime s) \<and>
    Provision env p (providerCtx ctx) i
      (provision_parameters env (redis_broker env config p) i d pc up (Some (si_Name s))) w1 = (Ok (), w')"
  using assms(2)
proof (rule Broker_Provision_OkE)
  fix pc up' snapshot w1
  assume up': "provision_request env d = Inr up'"
    and r: "restore_snapshot env (redis_broker env config p) (providerCtx ctx) d
      (up_RestoreFromLatestSnapshotOf up') w = (Ok snapshot, w1)"
    and P: "p_Provision (b_provider (redis_broker env config p)) (providerCtx ctx) i
      (provision_parameters env (redis_broker env config p) i d pc up' snapshot) w1 = (Ok (), w')"
  from up' assms(3) have "up' = up" by simp
  with r assms(4) have "restore_snapshot env (redis_broker env config p) (providerCtx ctx) d (Some source) w = (Ok snapshot, w1)"
    by simp
  from redis.restored_snapshot [OF redis_broker_simps(2) assms(1) this] P \<open>up' = up\<close> show ?thesis
    unfolding redis_broker_simps redis_provider_simps by blast
qed

text \<open>An AWS with one world in which every request succeeds; two snapshots of the instance \<^verbatim>\<open>src\<close> and one group.\<close>

definition snapshot_tags :: "Tag list" where
  "snapshot_tags = map tag_of [(''instance-id'', ''src''), (''space-id'', ''space''), (''organization-id'', ''org''), (''plan-id'', ''p1'')]"

definition still_aws :: "Tag list \<Rightarrow> unit ElastiCache" where
  "still_aws ts =
     two_snapshots\<lparr>DescribeReplicationGroups := \<lambda>ctx i. ret [new_group ''g''], ListTagsForResource := \<lambda>ctx arn. ret ts\<rparr>"

definition still_provider :: "Tag list \<Rightarrow> unit RedisProvider" where
  "still_provider ts = NewProvider (still_aws ts) two_secrets ''1'' ''aws'' ''r'' ''k'' ''p''"

definition sorting_env :: "unit go_env" where
  "sorting_env = unit_env\<lparr>sort_Sort := insertionSort\<rparr>"

lemma sorting_env_sorts: "sorts_snapshots sorting_env"
  using by_create_time.sorter_axioms by (simp add: sorts_snapshots_def sorting_env_def)

lemma sorting_env_order [simp]: "map_order sorting_env = id"
  by (simp add: sorting_env_def)

lemma still_Provision: "Provision sorting_env (still_provider ts) ctx i params () = (Ok (), ())"
proof -
  have "rand_readable sorting_env" by (simp add: rand_readable_def sorting_env_def unit_env_def)
  then obtain token where "GenerateAuthToken sorting_env () = (Ok token, ())"
    using GenerateAuthToken_total [of sorting_env "()"] by auto
  then show ?thesis
    by (simp add: Provision_def Let_def createCacheParameterGroup_def modifyCacheParameterGroup_def CreateAuthTokenSecret_def
        still_provider_def NewProvider_def still_aws_def two_snapshots_def two_secrets_def andThen_eqs(1))
qed

definition restore_details :: ProvisionDetails where
  "restore_details = sample_details\<lparr>pd_RawParameters := json_object
     [(ParamRestoreLatestSnapshotOf, ''src''), (ParamMaxMemoryPolicy, ''noeviction''), (ParamPreferredMaintenanceWindow, [])]\<rparr>"

definition restore_user :: UserProvisionParameters where
  "restore_user = \<lparr>up_RestoreFromLatestSnapshotOf = Some ''src'', up_MaxMemoryPolicy = Some ''noeviction'',
     up_PreferredMaintenanceWindow = []\<rparr>"

lemma restore_request: "provision_request sorting_env restore_details = Inr restore_user"
proof -
  have "ascii ''src''" "ascii ''noeviction''" by code_simp+
  then have "parseProvisionParameters sorting_env (json_object
      [(ParamRestoreLatestSnapshotOf, ''src''), (ParamMaxMemoryPolicy, ''noeviction''), (ParamPreferredMaintenanceWindow, [])]) =
      Inr restore_user"
    unfolding restore_user_def by (intro parse_provision_strings valid_utf8_ascii) simp_all
  then show ?thesis by (simp add: provision_request_def restore_details_def) (simp add: json_object_with_def)
qed

lemma still_FindSnapshots:
  "FindSnapshots (still_provider ts) ctx i () =
     (Ok (filter (\<lambda>s. map_of (si_Tags s) ''instance-id'' = Some i)
       [\<lparr>si_Name = ''a'', si_CreateTime = 1, si_Tags = tagsValues ts\<rparr>,
        \<lparr>si_Name = ''b'', si_CreateTime = 2, si_Tags = tagsValues ts\<rparr>]), ())"
proof -
  have "DescribeSnapshotsPages (elastiCache (still_provider ts)) ctx () = (Ok [[snapshot_of ''a'' 1], [snapshot_of ''b'' 2]], ())"
    by (simp add: still_provider_def NewProvider_def still_aws_def two_snapshots_def)
  moreover have "snapshot_infos (still_provider ts) ctx i [snapshot_of ''a'' 1, snapshot_of ''b'' 2] () =
      (Ok (filter (\<lambda>s. map_of (si_Tags s) ''instance-id'' = Some i)
        (map (snapshot_info (\<lambda>_. ts) (still_provider ts)) [snapshot_of ''a'' 1, snapshot_of ''b'' 2])), ())"
    by (rule snapshot_infos_static)
       (simp_all add: still_provider_def NewProvider_def still_aws_def two_snapshots_def complete_snapshot_def snapshot_of_def)
  ultimately show ?thesis by (simp add: FindSnapshots_def andThen_eqs(1) snapshot_info_def snapshot_of_def)
qed

lemma restore_provisioned:
  "\<exists>spec. Broker_Provision sorting_env (redis_broker sorting_env sample_config (still_provider snapshot_tags))
     RequestContext ''i1'' restore_details True () = (Ok spec, ())"
proof -
  let ?b = "redis_broker sorting_env sample_config (still_provider snapshot_tags)"
  have tags: "map_of (tagsValues snapshot_tags) = map_of
      [(''instance-id'', ''src''), (''space-id'', ''space''), (''organization-id'', ''org''), (''plan-id'', ''p1'')]"
    unfolding snapshot_tags_def by (rule tagsValues_tag_of) simp
  have "\<exists>n. restore_snapshot sorting_env ?b (providerCtx RequestContext) restore_details (Some ''src'') () = (Ok (Some n), ())"
    by (simp add: restore_snapshot_def still_FindSnapshots andThen_eqs(1) tags sorting_env_def insertionSort_def
        ByCreateTime_Less_def restore_details_def sample_details_def)
  then obtain n where "restore_snapshot sorting_env ?b (providerCtx RequestContext) restore_details (Some ''src'') () =
      (Ok (Some n), ())" by blast
  moreover have "GetPlanConfig sample_config (pd_PlanID restore_details) = Inr sample_plan"
    by (simp add: GetPlanConfig_def sample_config_def restore_details_def sample_details_def)
  ultimately show ?thesis
    unfolding Broker_Provision_def provision_request_def [symmetric] restore_request
    by (simp add: restore_user_def andThen_eqs(1) handle_eqs(1) still_Provision)
qed

theorem restore_is_isolated_witness:
  "\<exists>ss s. FindSnapshots (still_provider snapshot_tags) (providerCtx RequestContext) ''src'' () = (Ok ss, ()) \<and> s \<in> set ss \<and>
     map_of (si_Tags s) ''space-id'' = Some ''space'' \<and> (\<forall>s' \<in> set ss. si_CreateTime s' \<le> si_CreateTime s)"
proof -
  obtain spec where p: "Broker_Provision sorting_env (redis_broker sorting_env sample_config (still_provider snapshot_tags))
     RequestContext ''i1'' restore_details True () = (Ok spec, ())" using restore_provisioned by blast
  have "up_RestoreFromLatestSnapshotOf restore_user = Some ''src''" by (simp add: restore_user_def)
  from restore_is_isolated [OF sorting_env_sorts p restore_request this]
  show ?thesis by (auto simp: restore_details_def sample_details_def)
qed

text \<open>
  C6: after a successful provisioning a binding gives the token that was set on the replication group: 32 alphanumeric
  characters, in the clear in the TLS address of the group. Assumed are a Secrets Manager that returns what was stored
  and that the secret was not changed in between.
\<close>

theorem bind_after_provision:
  assumes laws: "secret_laws (secretsManager p) store" "separate_services (elastiCache p) store"
    and provisioned: "Broker_Provision env (redis_broker env config p) ctx i d async w = (Ok spec, w1)"
    and kept: "store w2 (getAuthTokenPath p i) = store w1 (getAuthTokenPath p i)"
    and bound: "Bind (redis_broker env config p) ctx' i bindingID async' w2 = (Ok c, w3)"
  shows "\<exists>params v. CreateReplicationGroup (elastiCache p) (providerCtx ctx)
      (replication_group_input env (GenerateReplicationGroupName i) (cr_Password c) params) v = (Ok (), w1) \<and>
    length (cr_Password c) = 32 \<and> list_all is_alnum (cr_Password c) \<and>
    cr_Name c = GenerateReplicationGroupName i \<and> cr_TLSEnabled c \<and>
    cr_URI c = ''rediss://:'' @ cr_Password c @ ''@'' @ url_escape encodeHost (cr_Host c @ '':'' @ show_int (cr_Port c))"
  using provisioned
proof (rule Broker_Provision_OkE)
  fix pc up snapshot u
  assume P: "p_Provision (b_provider (redis_broker env config p)) (providerCtx ctx) i
      (provision_parameters env (redis_broker env config p) i d pc up snapshot) u = (Ok (), w1)"
  let ?params = "provision_parameters env (redis_broker env config p) i d pc up snapshot"
  from P have "Provision env p (providerCtx ctx) i ?params u = (Ok (), w1)" by simp
  from Provision_stores_token [OF laws this] obtain token v1 v2 v3 where
    g: "GenerateAuthToken env v1 = (Ok token, v2)"
    and c: "CreateReplicationGroup (elastiCache p) (providerCtx ctx)
      (replication_group_input env (GenerateReplicationGroupName i) token ?params) v3 = (Ok (), w1)"
    and s: "store w1 (getAuthTokenPath p i) = Some token" by blast
  from GenerateAuthToken_Ok [OF g] have t: "length token = 32" "list_all is_alnum token" by simp_all
  from s kept have "store w2 (getAuthTokenPath p i) = Some token" by simp
  from Bind_reads_token [OF laws this t(2) bound] c t show ?thesis by auto
qed

text \<open>A world that holds secrets only, by name; ElastiCache accepts every request and describes one group.\<close>

type_synonym secrets_world = "(string \<times> string) list"

definition keeping_aws :: "secrets_world ElastiCache" where
  "keeping_aws =
     \<lparr>CreateCacheParameterGroup = \<lambda>ctx i. ret (), CreateReplicationGroup = \<lambda>ctx i. ret (),
      DeleteCacheParameterGroupCall = \<lambda>ctx i. ret (), DeleteReplicationGroup = \<lambda>ctx i. ret (),
      DescribeReplicationGroups = \<lambda>ctx i. ret [new_group ''g''], DescribeCacheClusters = \<lambda>ctx i. ret [],
      DescribeCacheParameters = \<lambda>ctx i. ret [], ModifyReplicationGroup = \<lambda>ctx i. ret (),
      ModifyCacheParameterGroup = \<lambda>ctx i. ret (), DescribeSnapshotsPages = \<lambda>ctx. ret [],
      ListTagsForResource = \<lambda>ctx arn. ret []\<rparr>"

definition keeping_secrets :: "secrets_world SecretsManager" where
  "keeping_secrets =
     \<lparr>CreateSecret = \<lambda>ctx i w. (Ok (), (cs_Name i, cs_SecretString i) # w),
      GetSecretValue = \<lambda>ctx n w. (Ok (map_of w n), w),
      DeleteSecret = \<lambda>ctx i w. (Ok (), filter (\<lambda>(n, _). n \<noteq> ds_SecretId i) w)\<rparr>"

definition keeping_provider :: "secrets_world RedisProvider" where
  "keeping_provider = NewProvider keeping_aws keeping_secrets ''1'' ''aws'' ''r'' ''k'' ''p''"

definition keeping_env :: "secrets_world go_env" where
  "keeping_env =
     \<lparr>time_Now = \<lambda>w. (0, w), local_zone = \<lambda>t. 0, rand_Int = \<lambda>n w. (Ok 0, w), map_order = id, sort_Sort = insertionSort\<rparr>"

definition keeping_broker :: "secrets_world Broker" where
  "keeping_broker = redis_broker keeping_env sample_config keeping_provider"

lemma keeping_laws:
  "secret_laws (secretsManager keeping_provider) map_of" "separate_services (elastiCache keeping_provider) map_of"
  by (simp_all add: secret_laws_def separate_services_def keeps_ret keeping_provider_def NewProvider_def keeping_aws_def
      keeping_secrets_def)

lemma keeping_token: "\<exists>token. GenerateAuthToken keeping_env w = (Ok token, w)"
proof -
  have "rand_readable keeping_env" by (simp add: rand_readable_def keeping_env_def)
  then obtain token w' where g: "GenerateAuthToken keeping_env w = (Ok token, w')"
    using GenerateAuthToken_total [of keeping_env w] by auto
  have "keeps id (GenerateAuthToken keeping_env)"
    by (rule keeps_GenerateAuthToken) (simp add: keeping_env_def keeps_def)
  from keeps_Ok [OF this g] g show ?thesis by simp
qed

lemma keeping_provisioned:
  "\<exists>spec w. Broker_Provision keeping_env keeping_broker RequestContext ''i1'' sample_details True [] = (Ok spec, w)"
proof -
  obtain token where t: "GenerateAuthToken keeping_env [] = (Ok token, [])" using keeping_token by blast
  have P: "Provision keeping_env keeping_provider ctx i params [] = (Ok (), [(getAuthTokenPath keeping_provider i, token)])"
    for ctx i params
    by (simp add: Provision_def Let_def createCacheParameterGroup_def modifyCacheParameterGroup_def CreateAuthTokenSecret_def
        keeping_provider_def NewProvider_def keeping_aws_def keeping_secrets_def andThen_eqs(1) handle_eqs(1) t
        getAuthTokenPath_def)
  have "GetPlanConfig sample_config (pd_PlanID sample_details) = Inr sample_plan" "pd_RawParameters sample_details = []"
    by (simp_all add: GetPlanConfig_def sample_config_def sample_details_def)
  then show ?thesis
    by (simp add: Broker_Provision_def keeping_broker_def restore_snapshot_def emptyProvisionParameters_def handle_eqs(1) P)
qed

lemma keeping_bound:
  "\<exists>c. Bind keeping_broker RequestContext ''i1'' ''b1'' False w = (Ok c, w)"
  by (simp add: Bind_def keeping_broker_def GenerateCredentials_def Let_def describeReplicationGroup_def host_and_port_def
      keeping_provider_def NewProvider_def keeping_aws_def keeping_secrets_def new_group_def andThen_eqs(1))

theorem bind_after_provision_witness:
  "\<exists>spec w c. Broker_Provision keeping_env keeping_broker RequestContext ''i1'' sample_details True [] = (Ok spec, w) \<and>
     Bind keeping_broker RequestContext ''i1'' ''b1'' False w = (Ok c, w) \<and> length (cr_Password c) = 32"
proof -
  obtain spec w c where p: "Broker_Provision keeping_env keeping_broker RequestContext ''i1'' sample_details True [] = (Ok spec, w)"
    and b: "Bind keeping_broker RequestContext ''i1'' ''b1'' False w = (Ok c, w)"
    using keeping_provisioned keeping_bound by blast
  from bind_after_provision [OF keeping_laws p [unfolded keeping_broker_def] refl b [unfolded keeping_broker_def]] p b
  show ?thesis by blast
qed

text \<open>
  C22: fetching an instance gives the service and the plan it was provisioned with: the tags of the replication group,
  in whatever order AWS returns them, are read back as they were set.
\<close>

theorem GetInstance_after_provision:
  assumes "visits_all (map_order env)"
    and "GetInstanceParameters p ctx i w = (Ok (ip, None), w1)"
    and "ListTagsForResource (elastiCache p) ctx (replicationGroupARN p (GenerateReplicationGroupName i)) w1 = (Ok ts, w2)"
    and "mset ts = mset (crg_Tags (replication_group_input env (GenerateReplicationGroupName i) token
      (provision_parameters env (redis_broker env config p) i d pc up snapshot)))"
  shows "GetInstance (redis_broker env config p) ctx i w =
    (Ok \<lparr>gi_ServiceID = pd_ServiceID d, gi_PlanID = pd_PlanID d, gi_DashboardURL = [], gi_Parameters = ip\<rparr>, w2)"
proof -
  let ?tags = "instance_tags (redis_broker env config p) i d"
  have "mset ts = mset (map tag_of (range_map (map_order env) ?tags))"
    using assms(4) by (simp add: replication_group_input_def provision_parameters_def)
  then have "map_of (tagsValues ts) = map_of (range_map (map_order env) ?tags)"
    by (rule tagsValues_permuted) (simp add: wf_range_map assms(1))
  then have "map_of (tagsValues ts) = map_of ?tags" by (simp add: map_of_range_map assms(1))
  then have "mindex (tagsValues ts) ''service-id'' = pd_ServiceID d" "mindex (tagsValues ts) ''plan-id'' = pd_PlanID d"
    by (simp_all add: mindex_def instance_tags_def)
  moreover have "GetInstanceTags p ctx i w1 = (Ok (tagsValues ts), w2)"
    using assms(3) by (simp add: GetInstanceTags_def andThen_eqs(1))
  ultimately show ?thesis using assms(2) by (simp add: GetInstance_def andThen_eqs(1))
qed

theorem GetInstance_after_provision_witness:
  "\<exists>ip. GetInstance (redis_broker sorting_env sample_config (still_provider (rev (map tag_of
       (instance_tags (redis_broker sorting_env sample_config (still_provider [])) ''i1'' sample_details))))) RequestContext ''i1'' () =
     (Ok \<lparr>gi_ServiceID = ''s1'', gi_PlanID = ''p1'', gi_DashboardURL = [], gi_Parameters = ip\<rparr>, ())"
proof -
  let ?tags = "rev (map tag_of (instance_tags (redis_broker sorting_env sample_config (still_provider [])) ''i1'' sample_details))"
  let ?p = "still_provider ?tags"
  obtain ip where ip: "GetInstanceParameters ?p RequestContext ''i1'' () = (Ok (ip, None), ())"
    by (simp add: GetInstanceParameters_def Let_def describeReplicationGroup_def maintenance_window_def describeCacheCluster_def
        describeCacheParameters_def still_provider_def NewProvider_def still_aws_def two_snapshots_def new_group_def node_def)
  have l: "ListTagsForResource (elastiCache ?p) RequestContext
      (replicationGroupARN ?p (GenerateReplicationGroupName ''i1'')) () = (Ok ?tags, ())"
    by (simp add: still_provider_def NewProvider_def still_aws_def)
  have m: "mset ?tags = mset (crg_Tags (replication_group_input sorting_env (GenerateReplicationGroupName ''i1'') ''token''
      (provision_parameters sorting_env (redis_broker sorting_env sample_config ?p) ''i1'' sample_details sample_plan
        emptyProvisionParameters None)))"
    by (simp add: replication_group_input_def provision_parameters_def instance_tags_def range_map_def)
  from GetInstance_after_provision [OF _ ip l m] show ?thesis by (auto simp: sample_details_def)
qed

text \<open>
  C23: a poll for a provisioning reports what AWS says of the replication group: success exactly when it is available, failure
  exactly when its creation failed, progress otherwise, and status 410 when AWS does not know it.
\<close>

theorem LastOperation_of_provision:
  assumes "DescribeReplicationGroups (elastiCache p) (providerCtx ctx) (GenerateReplicationGroupName i) w = (r, w1)"
    and "r = Ok [rg] \<and> rg_Status rg = Some st \<and> st \<noteq> ''non-existing'' \<and> getMessage p (providerCtx ctx) rg [] w1 = (Ok msg, w2) \<or>
      r = Err (AwsError ''ReplicationGroupNotFoundFault'' text) \<and> w2 = w1"
  shows "Broker_LastOperation env (redis_broker env config p) ctx i
      \<lparr>po_OperationData = Operation_String (emptyOperation\<lparr>op_Action := ActionProvisioning\<rparr>)\<rparr> w =
    (case r of
       Ok _ \<Rightarrow> Ok \<lparr>lo_State = (if st = ''available'' then ''succeeded'' else if st = ''create-failed'' then ''failed'' else ''in progress''),
                  lo_Description = msg\<rparr>
     | _ \<Rightarrow> Err ErrInstanceDoesNotExist, w2)"
proof -
  let ?o = "emptyOperation\<lparr>op_Action := ActionProvisioning\<rparr>" and ?b = "redis_broker env config p"
  have o: "valid_operation ?o" "op_Action ?o \<noteq> []" "check_timeout env i ?o w = (Ok (), w)"
    by (simp_all add: valid_action_operation) (simp add: emptyOperation_def)
  have act: "op_Action ?o \<noteq> ''failover''" "op_Action ?o \<noteq> ActionDeprovisioning" by (simp_all add: action_defs)
  note L = LastOperation_of_operation [OF o, of ?b ctx, unfolded redis_broker_simps redis_provider_simps]
  from assms(2) show ?thesis
  proof
    assume a: "r = Ok [rg] \<and> rg_Status rg = Some st \<and> st \<noteq> ''non-existing'' \<and> getMessage p (providerCtx ctx) rg [] w1 = (Ok msg, w2)"
    with assms(1) act have "ProgressState p (providerCtx ctx) i (op_Action ?o) (op_PrimaryNode ?o) w = (Ok (st, msg, None), w2)"
      by (simp add: ProgressState_def Let_def describeReplicationGroup_def handle_eqs(1) andThen_eqs(1))
    with a L act show ?thesis
      by (simp add: andThen_eqs(1) report_state_def NonExisting_def ProviderStatesMapping_cases)
  next
    assume a: "r = Err (AwsError ''ReplicationGroupNotFoundFault'' text) \<and> w2 = w1"
    with assms(1) have "\<exists>m. ProgressState p (providerCtx ctx) i (op_Action ?o) (op_PrimaryNode ?o) w = (Ok (NonExisting, m, None), w1)"
      by (simp add: ProgressState_def Let_def describeReplicationGroup_def handle_eqs(2) andThen_eqs(2)
          ErrCodeReplicationGroupNotFoundFault_def)
    with a L act show ?thesis by (auto simp: andThen_eqs(1) report_state_def)
  qed
qed

theorem LastOperation_of_provision_witness:
  "\<exists>msg. Broker_LastOperation sorting_env (redis_broker sorting_env sample_config (still_provider [])) RequestContext ''i1''
      \<lparr>po_OperationData = Operation_String (emptyOperation\<lparr>op_Action := ActionProvisioning\<rparr>)\<rparr> () =
    (Ok \<lparr>lo_State = ''succeeded'', lo_Description = msg\<rparr>, ())"
proof -
  let ?p = "still_provider []" and ?g = "new_group ''g''"
  have d: "DescribeReplicationGroups (elastiCache ?p) (providerCtx RequestContext) (GenerateReplicationGroupName ''i1'') () =
      (Ok [?g], ())"
    by (simp add: still_provider_def NewProvider_def still_aws_def)
  obtain msg where m: "getMessage ?p (providerCtx RequestContext) ?g [] () = (Ok msg, ())"
    by (simp add: getMessage_def cluster_lines_def describeCacheCluster_def still_provider_def NewProvider_def still_aws_def
        two_snapshots_def new_group_def)
  have "rg_Status ?g = Some ''available''" by (simp add: new_group_def)
  with m LastOperation_of_provision [OF d, of ?g "''available''" msg "()" _ sorting_env sample_config] show ?thesis by auto
qed

text \<open>
  C27: a deprovisioned instance can be polled for any number of times. Once AWS no longer knows the replication group, the polls
  fail with the error of the deletion while the parameter group cannot be deleted; from the first poll that deletes it, and at
  once when it is already gone, all of them answer with status 410. Parameter groups of other instances stay.
\<close>

theorem deprovision_polls_repeat:
  assumes "deletion_laws p has_group has_parameters" and "\<not> has_group w (GenerateReplicationGroupName i)"
    and "polls (Broker_LastOperation env (redis_broker env config p) ctx i
      \<lparr>po_OperationData = Operation_String (emptyOperation\<lparr>op_Action := ActionDeprovisioning\<rparr>)\<rparr>) n w = (rs, w')"
  shows "\<exists>k \<le> n. (\<forall>r \<in> set (take k rs). \<exists>e. r = Err (ErrorString (''error deleting parameter group '' @ i @ '': '' @ Error e))) \<and>
    drop k rs = replicate (n - k) (Err ErrInstanceDoesNotExist) \<and>
    has_parameters w' = (if k < n then (has_parameters w)(GenerateReplicationGroupName i := False) else has_parameters w) \<and>
    (\<not> has_parameters w (GenerateReplicationGroupName i) \<longrightarrow> k = 0)"
  using assms unfolding deprovision_poll_def [symmetric] by (rule deprovision_polls_end)

definition sim_has_group :: "aws \<Rightarrow> string \<Rightarrow> bool" where
  "sim_has_group w g \<longleftrightarrow> map_of (aw_groups w) g \<noteq> None"

definition sim_has_parameters :: "aws \<Rightarrow> string \<Rightarrow> bool" where
  "sim_has_parameters w g \<longleftrightarrow> map_of (aw_parameter_groups w) g \<noteq> None"

lemma sim_deletion_laws: "deletion_laws sim_provider sim_has_group sim_has_parameters"
proof -
  have ec: "elastiCache sim_provider = sim_elastiCache" by (simp add: sim_provider_def NewProvider_def)
  have removed: "map_of (filter (\<lambda>(m, _). m \<noteq> g) xs) h = (if h = g then None else map_of xs h)"
    for g h and xs :: "(string \<times> (string \<times> string) list) list"
    by (induction xs) auto
  show ?thesis unfolding deletion_laws_def ec
  proof (intro conjI allI impI)
    fix ctx g w
    show "\<not> sim_has_group w g \<Longrightarrow>
        \<exists>msg. DescribeReplicationGroups sim_elastiCache ctx g w = (Err (AwsError ''ReplicationGroupNotFoundFault'' msg), w)"
      by (simp add: sim_has_group_def sim_elastiCache_def not_found_def)
    show "\<not> sim_has_parameters w g \<Longrightarrow>
        \<exists>msg. DeleteCacheParameterGroupCall sim_elastiCache ctx g w = (Err (AwsError ''CacheParameterGroupNotFound'' msg), w)"
      by (simp add: sim_has_parameters_def sim_elastiCache_def not_found_def)
    let ?w = "w\<lparr>aw_parameter_groups := filter (\<lambda>(m, _). m \<noteq> g) (aw_parameter_groups w)\<rparr>"
    assume "sim_has_parameters w g"
    then have "DeleteCacheParameterGroupCall sim_elastiCache ctx g w = (Ok (), ?w)"
      by (simp add: sim_has_parameters_def sim_elastiCache_def)
    moreover have "sim_has_group ?w = sim_has_group w" "sim_has_parameters ?w = (sim_has_parameters w)(g := False)"
      by (simp_all add: fun_eq_iff sim_has_group_def sim_has_parameters_def removed)
    ultimately show "\<exists>w'. sim_has_group w' = sim_has_group w \<and>
        (DeleteCacheParameterGroupCall sim_elastiCache ctx g w = (Ok (), w') \<and>
           sim_has_parameters w' = (sim_has_parameters w)(g := False) \<or>
         (\<exists>e. DeleteCacheParameterGroupCall sim_elastiCache ctx g w = (Err e, w') \<and>
            \<not> has_aws_code ''CacheParameterGroupNotFound'' e \<and> sim_has_parameters w' = sim_has_parameters w))" by blast
  qed
qed

theorem deprovision_polls_repeat_witness:
  "\<exists>w'. polls (Broker_LastOperation sim_env (redis_broker sim_env sample_config sim_provider) RequestContext ''i1''
      \<lparr>po_OperationData = Operation_String (emptyOperation\<lparr>op_Action := ActionDeprovisioning\<rparr>)\<rparr>) 2 sim_start =
    ([Err ErrInstanceDoesNotExist, Err ErrInstanceDoesNotExist], w')"
proof -
  let ?p = "polls (Broker_LastOperation sim_env (redis_broker sim_env sample_config sim_provider) RequestContext ''i1''
      \<lparr>po_OperationData = Operation_String (emptyOperation\<lparr>op_Action := ActionDeprovisioning\<rparr>)\<rparr>) 2 sim_start"
  obtain rs w' where r: "?p = (rs, w')" by (cases ?p)
  have "\<not> sim_has_group sim_start (GenerateReplicationGroupName ''i1'')"
    "\<not> sim_has_parameters sim_start (GenerateReplicationGroupName ''i1'')"
    by (simp_all add: sim_has_group_def sim_has_parameters_def sim_start_def)
  with deprovision_polls_repeat [OF sim_deletion_laws _ r] have "rs = replicate 2 (Err ErrInstanceDoesNotExist)" by auto
  with r show ?thesis by (simp add: numeral_2_eq_2)
qed

end
